(* ===== verification/Prelude.thy ===== *)
theory Prelude
  imports Main "HOL-Library.Word"
begin

unbundle bit_operations_syntax

text \<open>
  Shared vocabulary of the development: the integer types of the Go sources, Go error values,
  the outcome monad in which every system-call handler is written, Go maps (which may be nil), and
  a weakest-precondition calculus for the monad.

  A handler is a function from a state to an \<^emph>\<open>outcome\<close>: it returns a value and a new state, it
  panics (with the message and the state left behind), or it never returns. The three cases are
  kept apart so that a statement that a handler returns says so.
\<close>

section \<open>Integers\<close>

text \<open>
  Go's sized integers are words. Signed and unsigned types of one width are the same word type;
  what differs is the conversion: \<open>ucast\<close> zero-extends (from \<open>uint32\<close>), \<open>scast\<close> sign-extends
  (from \<open>int32\<close>). \<open>int\<close> and \<open>uint\<close> are 64 bits wide, as on the 64-bit hosts the repository builds
  for; the C type names of \<^verbatim>\<open>src/kernel/stddef.go\<close> are defined from them.
\<close>

type_synonym byte = "8 word"
type_synonym uint16 = "16 word"
type_synonym int32 = "32 word"
type_synonym uint32 = "32 word"
type_synonym int64 = "64 word"
type_synonym uint64 = "64 word"
type_synonym gint = "64 word"
type_synonym emuptr = uint64
type_synonym long_t = gint
type_synonym ulong_t = uint64
type_synonym size_t = ulong_t
type_synonym ssize_t = long_t
type_synonym time_t = long_t
type_synonym suseconds_t = long_t
type_synonym clockid_t = int32
type_synonym off_t = long_t
type_synonym dev_t = ulong_t
type_synonym ino_t = ulong_t
type_synonym mode_t = uint32
type_synonym nlink_t = uint32
type_synonym uid_t = uint32
type_synonym gid_t = uint32
type_synonym pid_t = int32

definition emunullptr :: emuptr where
  "emunullptr = 0"

section \<open>Go errors\<close>

text \<open>
  An error value is a sentinel (\<open>io.EOF\<close>, \<open>fs.ErrExist\<close>, ...) or wraps others, as
  \<open>fmt.Errorf\<close> with \<open>%w\<close> and \<open>*fs.PathError\<close> do. \<open>errors.Is\<close> walks the tree.
\<close>

datatype go_error = Sentinel string | Wrapped string "go_error list"

definition io_EOF :: go_error where
  "io_EOF = Sentinel ''EOF''"

definition io_ErrShortWrite :: go_error where
  "io_ErrShortWrite = Sentinel ''short write''"

definition io_errInvalidWrite :: go_error where
  "io_errInvalidWrite = Sentinel ''invalid write result''"

definition io_ErrUnexpectedEOF :: go_error where
  "io_ErrUnexpectedEOF = Sentinel ''unexpected EOF''"

definition fs_ErrExist :: go_error where
  "fs_ErrExist = Sentinel ''file already exists''"

definition errors_ErrUnsupported :: go_error where
  "errors_ErrUnsupported = Sentinel ''unsupported operation''"

fun errors_Is :: "go_error \<Rightarrow> go_error \<Rightarrow> bool" where
  "errors_Is (Sentinel n) t = (Sentinel n = t)"
| "errors_Is (Wrapped m es) t = (Wrapped m es = t \<or> list_ex (\<lambda>e. errors_Is e t) es)"

section \<open>The outcome monad\<close>

datatype ('a, 's) outcome = Return 'a 's | Panic string 's | Block

type_synonym ('s, 'a) prog = "'s \<Rightarrow> ('a, 's) outcome"

definition ret :: "'a \<Rightarrow> ('s, 'a) prog" where
  "ret a s = Return a s"

definition bnd :: "('s, 'a) prog \<Rightarrow> ('a \<Rightarrow> ('s, 'b) prog) \<Rightarrow> ('s, 'b) prog" where
  "bnd m k s = (case m s of Return a s' \<Rightarrow> k a s' | Panic p s' \<Rightarrow> Panic p s' | Block \<Rightarrow> Block)"

definition panic :: "string \<Rightarrow> ('s, 'a) prog" where
  "panic p s = Panic p s"

definition gets :: "('s \<Rightarrow> 'a) \<Rightarrow> ('s, 'a) prog" where
  "gets f s = Return (f s) s"

definition modify :: "('s \<Rightarrow> 's) \<Rightarrow> ('s, unit) prog" where
  "modify f s = Return () (f s)"

section \<open>Go maps\<close>

text \<open>
  A Go map variable is nil or refers to a map. Reading a nil map finds nothing, deleting from it
  does nothing, writing to it panics.
\<close>

type_synonym ('k, 'v) gomap = "('k \<Rightarrow> 'v option) option"

definition gomap_make :: "('k, 'v) gomap" where
  "gomap_make = Some (\<lambda>_. None)"

definition gomap_get :: "('k, 'v) gomap \<Rightarrow> 'k \<Rightarrow> 'v option" where
  "gomap_get m k = (case m of None \<Rightarrow> None | Some f \<Rightarrow> f k)"

definition gomap_put :: "('k, 'v) gomap \<Rightarrow> 'k \<Rightarrow> 'v \<Rightarrow> ('k, 'v) gomap option" where
  "gomap_put m k v = (case m of None \<Rightarrow> None | Some f \<Rightarrow> Some (Some (f(k := Some v))))"

definition gomap_delete :: "('k, 'v) gomap \<Rightarrow> 'k \<Rightarrow> ('k, 'v) gomap" where
  "gomap_delete m k = (case m of None \<Rightarrow> None | Some f \<Rightarrow> Some (f(k := None)))"

text \<open>\<open>m[k]\<close> in an expression: the zero value when the key is absent.\<close>

definition gomap_index :: "'v \<Rightarrow> ('k, 'v) gomap \<Rightarrow> 'k \<Rightarrow> 'v" where
  "gomap_index z m k = (case gomap_get m k of None \<Rightarrow> z | Some v \<Rightarrow> v)"

definition nil_map_panic :: string where
  "nil_map_panic = ''assignment to entry in nil map''"

section \<open>Weakest preconditions\<close>

text \<open>
  \<open>wlp m Q R s\<close>: if \<open>m\<close> returns from \<open>s\<close> then \<open>Q\<close> holds of the result and the new state, and if
  it panics then \<open>R\<close> holds of the message and the state left behind.
\<close>

definition wlp :: "('s, 'a) prog \<Rightarrow> ('a \<Rightarrow> 's \<Rightarrow> bool) \<Rightarrow> (string \<Rightarrow> 's \<Rightarrow> bool) \<Rightarrow> 's \<Rightarrow> bool" where
  "wlp m Q R s = (case m s of Return a s' \<Rightarrow> Q a s' | Panic p s' \<Rightarrow> R p s' | Block \<Rightarrow> True)"

named_theorems prog_simps \<open>evaluation of the monad's combinators\<close>
named_theorems wlp_simps \<open>weakest preconditions of the monad's combinators\<close>

lemma ret_eval [simp]: "ret a s = Return a s"
  by (simp add: ret_def)

lemma panic_eval [simp]: "panic p s = Panic p s"
  by (simp add: panic_def)

lemma gets_eval [simp]: "gets f s = Return (f s) s"
  by (simp add: gets_def)

lemma modify_eval [simp]: "modify f s = Return () (f s)"
  by (simp add: modify_def)

lemma bnd_Return [prog_simps]: "m s = Return a s' \<Longrightarrow> bnd m k s = k a s'"
  by (simp add: bnd_def)

lemma bnd_Panic: "m s = Panic p s' \<Longrightarrow> bnd m k s = Panic p s'"
  by (simp add: bnd_def)

lemma bnd_Block: "m s = Block \<Longrightarrow> bnd m k s = Block"
  by (simp add: bnd_def)

lemma bnd_ret [simp]: "bnd (ret a) k = k a"
  by (rule ext) (simp add: bnd_def)

lemma bnd_ret_right [simp]: "bnd m ret = m"
  by (rule ext) (simp add: bnd_def split: outcome.split)

lemma bnd_panic [simp]: "bnd (panic p) k = panic p"
  by (rule ext) (simp add: bnd_def panic_def)

lemma bnd_gets [simp]: "bnd (gets f) k s = k (f s) s"
  by (simp add: bnd_def)

lemma bnd_modify [simp]: "bnd (modify f) k s = k () (f s)"
  by (simp add: bnd_def)

lemma bnd_assoc: "bnd (bnd m k) h = bnd m (\<lambda>a. bnd (k a) h)"
  by (rule ext) (simp add: bnd_def split: outcome.split)

lemma wlp_ret [wlp_simps]: "wlp (ret a) Q R s = Q a s"
  by (simp add: wlp_def)

lemma wlp_panic [wlp_simps]: "wlp (panic p) Q R s = R p s"
  by (simp add: wlp_def)

lemma wlp_gets [wlp_simps]: "wlp (gets f) Q R s = Q (f s) s"
  by (simp add: wlp_def)

lemma wlp_modify [wlp_simps]: "wlp (modify f) Q R s = Q () (f s)"
  by (simp add: wlp_def)

lemma wlp_bnd [wlp_simps]: "wlp (bnd m k) Q R s = wlp m (\<lambda>a. wlp (k a) Q R) R s"
  by (simp add: wlp_def bnd_def split: outcome.split)

lemma wlp_if [wlp_simps]:
  "wlp (if b then m else m') Q R s = (if b then wlp m Q R s else wlp m' Q R s)"
  by simp

lemma wlp_mono:
  assumes "wlp m Q R s"
    and "\<And>a s'. Q a s' \<Longrightarrow> Q' a s'"
    and "\<And>p s'. R p s' \<Longrightarrow> R' p s'"
  shows "wlp m Q' R' s"
  using assms by (auto simp: wlp_def split: outcome.splits)

lemma wlp_conj:
  "wlp m (\<lambda>a s'. Q a s' \<and> Q' a s') (\<lambda>p s'. R p s' \<and> R' p s') s
     \<longleftrightarrow> wlp m Q R s \<and> wlp m Q' R' s"
  by (auto simp: wlp_def split: outcome.splits)

lemma wlp_ReturnD: "wlp m Q R s \<Longrightarrow> m s = Return a s' \<Longrightarrow> Q a s'"
  by (simp add: wlp_def)

lemma wlp_PanicD: "wlp m Q R s \<Longrightarrow> m s = Panic p s' \<Longrightarrow> R p s'"
  by (simp add: wlp_def)

section \<open>Facts on Go maps\<close>

lemma gomap_get_make [simp]: "gomap_get gomap_make k = None"
  by (simp add: gomap_get_def gomap_make_def)

lemma gomap_get_Some [simp]: "gomap_get (Some f) k = f k"
  by (simp add: gomap_get_def)

lemma gomap_get_None [simp]: "gomap_get None k = None"
  by (simp add: gomap_get_def)

lemma gomap_put_Some [simp]: "gomap_put (Some f) k v = Some (Some (f(k := Some v)))"
  by (simp add: gomap_put_def)

lemma gomap_put_None [simp]: "gomap_put None k v = None"
  by (simp add: gomap_put_def)

lemma gomap_get_put:
  "gomap_put m k v = Some m' \<Longrightarrow> gomap_get m' j = (if j = k then Some v else gomap_get m j)"
  by (cases m) auto

lemma gomap_get_delete [simp]:
  "gomap_get (gomap_delete m k) j = (if j = k then None else gomap_get m j)"
  by (cases m) (auto simp: gomap_delete_def)

lemma gomap_delete_Some [simp]: "gomap_delete (Some f) k = Some (f(k := None))"
  by (simp add: gomap_delete_def)

lemma gomap_index_Some [simp]:
  "gomap_index z (Some f) k = (case f k of None \<Rightarrow> z | Some v \<Rightarrow> v)"
  by (simp add: gomap_index_def)

lemma gomap_put_eq_None_iff: "gomap_put m k v = None \<longleftrightarrow> m = None"
  by (cases m) auto

section \<open>Facts on words\<close>

lemma scast_neg_one [simp]: "(scast (- 1 :: int32) :: int64) = - 1"
  by simp

section \<open>Facts on lists\<close>

lemma distinct_mapD: "distinct (map f xs) \<Longrightarrow> distinct xs"
  by (simp add: distinct_map)

section \<open>Signed words\<close>

lemma sint_bounds32: fixes x :: "32 word" shows "- (2 ^ 31) \<le> sint x" "sint x < 2 ^ 31"
  using signed_take_bit_int_greater_eq_minus_exp [of 31 "uint x"]
    signed_take_bit_int_less_exp [of 31 "uint x"]
  by (simp_all add: sint_uint)

lemma sint_bounds64: fixes x :: "64 word" shows "- (2 ^ 63) \<le> sint x" "sint x < 2 ^ 63"
  using signed_take_bit_int_greater_eq_minus_exp [of 63 "uint x"]
    signed_take_bit_int_less_exp [of 63 "uint x"]
  by (simp_all add: sint_uint)

lemma sint_of_int32: "- (2 ^ 31) \<le> k \<Longrightarrow> k < 2 ^ 31 \<Longrightarrow> sint (word_of_int k :: 32 word) = k"
  by (simp add: sint_sbintrunc' signed_take_bit_int_eq_self)

lemma sint_of_int64: "- (2 ^ 63) \<le> k \<Longrightarrow> k < 2 ^ 63 \<Longrightarrow> sint (word_of_int k :: 64 word) = k"
  by (simp add: sint_sbintrunc' signed_take_bit_int_eq_self)

lemma uint_of_int64:
  assumes "- (2 ^ 63) \<le> k" "k < 2 ^ 63"
  shows "uint (word_of_int k :: 64 word) = (if 0 \<le> k then k else k + 2 ^ 64)"
proof -
  have "uint (word_of_int k :: 64 word) = k mod 2 ^ 64" by (simp add: uint_word_of_int)
  also have "\<dots> = (if 0 \<le> k then k else k + 2 ^ 64)"
  proof (cases "0 \<le> k")
    case True
    with assms(2) show ?thesis by (simp add: mod_pos_pos_trivial)
  next
    case False
    have "k mod 2 ^ 64 = (k + 2 ^ 64) mod 2 ^ 64" by (rule mod_add_self2 [symmetric])
    also have "\<dots> = k + 2 ^ 64" using assms(1) False by (intro mod_pos_pos_trivial) simp_all
    finally show ?thesis using False by simp
  qed
  finally show ?thesis .
qed

end
