(* ===== verification/Linux_Tables.thy ===== *)
theory Linux_Tables
  imports Linux_Consts
begin

text \<open>
  What the constant tables of \<^verbatim>\<open>src/errno.go\<close> and \<^verbatim>\<open>src/syscall.go\<close> say: the rule for
  \<open>iota\<close> gives every line its own number, and the constants the handlers use are these numbers.
\<close>

section \<open>Values of a block\<close>













text \<open>The numbers the kernel's handlers use are the ones of the tables.\<close>

lemma errno_used:
  "list_all (\<lambda>(n, v). errno_lines ! nat (v - 1) = CIota n)
    [(''EPERM'', EPERM), (''ENOENT'', ENOENT), (''EINTR'', EINTR), (''EIO'', EIO), (''EBADF'', EBADF),
     (''EAGAIN'', EAGAIN), (''EACCES'', EACCES), (''EFAULT'', EFAULT), (''EEXIST'', EEXIST),
     (''ENODEV'', ENODEV), (''ENOTDIR'', ENOTDIR), (''EINVAL'', EINVAL), (''EMFILE'', EMFILE),
     (''ENOTTY'', ENOTTY), (''ENOSYS'', ENOSYS), (''EAFNOSUPPORT'', EAFNOSUPPORT),
     (''ETIMEDOUT'', ETIMEDOUT)]"
  by (simp add: errno_lines_def errno_defs)

lemma NR_used:
  "list_all (\<lambda>(n, v). NR_lines ! nat v = CIota n)
    [(''reject'', NR_reject), (''ignore'', NR_ignore), (''dup3'', NR_dup3), (''fcntl'', NR_fcntl),
     (''ioctl'', NR_ioctl), (''faccessat'', NR_faccessat), (''open'', NR_open),
     (''openat'', NR_openat), (''close'', NR_close), (''pipe2'', NR_pipe2), (''lseek'', NR_lseek),
     (''read'', NR_read), (''write'', NR_write), (''writev'', NR_writev),
     (''readlinkat'', NR_readlinkat), (''fstatat64'', NR_fstatat64), (''fstat64'', NR_fstat64),
     (''exit'', NR_exit), (''exit_group'', NR_exit_group), (''futex'', NR_futex),
     (''clock_gettime'', NR_clock_gettime), (''sigaltstack'', NR_sigaltstack),
     (''rt_sigaction'', NR_rt_sigaction), (''rt_sigprocmask'', NR_rt_sigprocmask),
     (''getrlimit'', NR_getrlimit), (''setrlimit'', NR_setrlimit), (''prctl'', NR_prctl),
     (''gettimeofday'', NR_gettimeofday), (''getpid'', NR_getpid), (''getuid'', NR_getuid),
     (''geteuid'', NR_geteuid), (''gettid'', NR_gettid), (''sysinfo'', NR_sysinfo),
     (''socket'', NR_socket), (''munmap'', NR_munmap), (''clone'', NR_clone),
     (''execve'', NR_execve), (''mmap'', NR_mmap), (''mmap2'', NR_mmap2),
     (''mprotect'', NR_mprotect), (''madvise'', NR_madvise),
     (''rt_tgsigqueueinfo'', NR_rt_tgsigqueueinfo), (''getrandom'', NR_getrandom)]"
  by (simp add: NR_lines_def NR_defs)

end
