(* ===== verification/Guest_Types.thy ===== *)
theory Guest_Types
  imports Linux_Consts
begin

text \<open>
  The Go structs that the kernel writes to and reads from guest memory, field for field. How a
  struct is laid out in guest memory is the business of the encoder of the debugger library; the
  model passes the struct value to it (\<open>memval\<close>). Blank fields of the Go structs, which are always
  zero, are kept as \<open>pad\<close> fields.
\<close>

section \<open>Files\<close>

record iovec =
  iov_base :: uint64
  iov_len :: size_t

record timespec =
  tv_sec :: time_t
  tv_nsec :: long_t

record stat3264 =
  st_dev_3264 :: uint64
  st_pad1_3264 :: uint32
  st_ino1_3264 :: ino_t
  st_mode_3264 :: mode_t
  st_nlink_3264 :: nlink_t
  st_uid_3264 :: uid_t
  st_gid_3264 :: gid_t
  st_rdev_3264 :: uint64
  st_pad2_3264 :: uint32
  st_size_3264 :: int64
  st_blksize_3264 :: ulong_t
  st_blocks_3264 :: uint64
  st_atim_3264 :: timespec
  st_mtim_3264 :: timespec
  st_ctim_3264 :: timespec
  st_ino_3264 :: uint64

record stat64 =
  st_dev :: dev_t
  st_ino :: ino_t
  st_mode :: mode_t
  st_nlink :: nlink_t
  st_uid :: uid_t
  st_gid :: gid_t
  st_rdev :: dev_t
  st_pad1 :: ulong_t
  st_size :: off_t
  st_blksize :: int32
  st_pad2 :: int32
  st_blocks :: long_t
  st_atim :: timespec
  st_mtim :: timespec
  st_ctim :: timespec
  st_pad3 :: uint32
  st_pad4 :: uint32

text \<open>The zero values of the structs (\<open>var stat stat64\<close>).\<close>

definition timespec_zero :: timespec where
  "timespec_zero = \<lparr>tv_sec = 0, tv_nsec = 0\<rparr>"

definition stat3264_zero :: stat3264 where
  "stat3264_zero =
    \<lparr>st_dev_3264 = 0, st_pad1_3264 = 0, st_ino1_3264 = 0, st_mode_3264 = 0, st_nlink_3264 = 0,
     st_uid_3264 = 0, st_gid_3264 = 0, st_rdev_3264 = 0, st_pad2_3264 = 0, st_size_3264 = 0,
     st_blksize_3264 = 0, st_blocks_3264 = 0, st_atim_3264 = timespec_zero,
     st_mtim_3264 = timespec_zero, st_ctim_3264 = timespec_zero, st_ino_3264 = 0\<rparr>"

definition stat64_zero :: stat64 where
  "stat64_zero =
    \<lparr>st_dev = 0, st_ino = 0, st_mode = 0, st_nlink = 0, st_uid = 0, st_gid = 0, st_rdev = 0,
     st_pad1 = 0, st_size = 0, st_blksize = 0, st_pad2 = 0, st_blocks = 0,
     st_atim = timespec_zero, st_mtim = timespec_zero, st_ctim = timespec_zero,
     st_pad3 = 0, st_pad4 = 0\<rparr>"

section \<open>Time, limits, system information\<close>

record timeval =
  tv_sec_us :: time_t
  tv_usec :: suseconds_t

record timezone =
  tz_minuteswest :: int32
  tz_dsttime :: int32

record rlimit =
  rlim_cur :: ulong_t
  rlim_max :: ulong_t

record sysinfo =
  uptime :: long_t
  loads :: "ulong_t \<times> ulong_t \<times> ulong_t"
  totalram :: ulong_t
  freeram :: ulong_t
  sharedram :: ulong_t
  bufferram :: ulong_t
  totalswap :: ulong_t
  freeswap :: ulong_t
  procs :: uint16
  sysinfo_f :: "byte list"

section \<open>Signals\<close>

type_synonym sigset_t = ulong_t

record sigaction =
  sa_handler :: uint64
  sa_flags :: int32
  sa_mask :: sigset_t
  sa_restorer :: uint64

record siginfo_t =
  si_signo :: int32
  si_errno :: int32
  si_code :: int32
  si_pad :: "int32 list"

section \<open>Values written to guest memory\<close>

datatype memval =
    MV_int32x2 int32 int32
  | MV_stat3264 stat3264
  | MV_stat64 stat64
  | MV_timespec timespec
  | MV_timeval timeval
  | MV_timezone timezone
  | MV_rlimit rlimit
  | MV_sysinfo sysinfo
  | MV_sigaction sigaction
  | MV_sigset sigset_t
  | MV_bytes "byte list"

end
