(* ===== verification/Machine.thy ===== *)
theory Machine
  imports Guest_Types
begin

text \<open>
  The state of the program and the interfaces of the code it is built on.

  The kernel's own state is the Go struct \<open>Kernel\<close> with the \<open>Syscall\<close> struct it embeds
  (\<^verbatim>\<open>src/kernel/kernel.go\<close>, \<^verbatim>\<open>src/kernel/syscall.go\<close>); the component structs without fields
  (\<open>resource\<close>, \<open>prctl\<close>, \<open>network\<close>, \<open>mman\<close>) have no record. Everything else the handlers touch
  (guest memory, registers, the descriptor table, file systems, tasks, the host) belongs to the
  library \<^verbatim>\<open>github.com/wnxd/microdbg\<close> or to the host and is the \<open>world\<close>, of an arbitrary type.
  Its operations are the fields of the interface records below, arguments of every definition that
  calls them; the definitions assume nothing about them.
\<close>

section \<open>The kernel's state\<close>

record fcntl =
  flags :: "(int, int32) gomap"

text \<open>
  Channels are numbered in the order of their creation; \<open>nchan\<close> is the next number and \<open>closed\<close>
  holds the channels that \<open>close\<close> was called on.
\<close>

record futexAwait =
  ch :: nat
  ref :: int

record futex =
  awaits :: "(emuptr, futexAwait) gomap"
  bitAwaits :: "(uint32, futexAwait) gomap"
  nchan :: nat
  closed :: "nat set"

record signal =
  sigset :: sigset_t
  sigtable :: "(int32, sigaction) gomap"

text \<open>
  \<open>reapers\<close> are the goroutines that \<open>clone\<close> started and that have not run yet: each waits for its task
  to end and then removes it from \<open>tasks\<close>.
\<close>

record 'o sched =
  tasks :: "int32 \<Rightarrow> 'o option"
  reapers :: "(int32 \<times> 'o) list"

record 'o Syscall =
  sys_fcntl :: fcntl
  sys_futex :: futex
  sys_signal :: signal
  sys_sched :: "'o sched"

record 'o Kernel =
  sys :: "'o Syscall"
  err :: Errno
  intrHook :: "'o option"

record ('w, 'o) machine =
  kernel :: "'o Kernel"
  world :: 'w

type_synonym ('w, 'o, 'a) kprog = "(('w, 'o) machine, 'a) prog"

abbreviation m_flags :: "('w, 'o) machine \<Rightarrow> (int, int32) gomap" where
  "m_flags s \<equiv> flags (sys_fcntl (sys (kernel s)))"

abbreviation m_flags_update ::
    "((int, int32) gomap \<Rightarrow> (int, int32) gomap) \<Rightarrow> ('w, 'o) machine \<Rightarrow> ('w, 'o) machine" where
  "m_flags_update f s \<equiv> kernel_update (sys_update (sys_fcntl_update (flags_update f))) s"

abbreviation m_futex :: "('w, 'o) machine \<Rightarrow> futex" where
  "m_futex s \<equiv> sys_futex (sys (kernel s))"

abbreviation m_futex_update :: "(futex \<Rightarrow> futex) \<Rightarrow> ('w, 'o) machine \<Rightarrow> ('w, 'o) machine" where
  "m_futex_update f s \<equiv> kernel_update (sys_update (sys_futex_update f)) s"

abbreviation m_signal :: "('w, 'o) machine \<Rightarrow> signal" where
  "m_signal s \<equiv> sys_signal (sys (kernel s))"

abbreviation m_signal_update :: "(signal \<Rightarrow> signal) \<Rightarrow> ('w, 'o) machine \<Rightarrow> ('w, 'o) machine" where
  "m_signal_update f s \<equiv> kernel_update (sys_update (sys_signal_update f)) s"

abbreviation m_tasks :: "('w, 'o) machine \<Rightarrow> int32 \<Rightarrow> 'o option" where
  "m_tasks s \<equiv> tasks (sys_sched (sys (kernel s)))"

abbreviation m_tasks_update ::
    "((int32 \<Rightarrow> 'o option) \<Rightarrow> (int32 \<Rightarrow> 'o option)) \<Rightarrow> ('w, 'o) machine \<Rightarrow> ('w, 'o) machine" where
  "m_tasks_update f s \<equiv> kernel_update (sys_update (sys_sched_update (tasks_update f))) s"

abbreviation m_err :: "('w, 'o) machine \<Rightarrow> Errno" where
  "m_err s \<equiv> err (kernel s)"

section \<open>Interfaces of the debugger library and the host\<close>

type_synonym ('w, 'a) io = "'w \<Rightarrow> 'a \<times> 'w"
type_synonym ('w, 'a) ioe = "'w \<Rightarrow> (go_error + 'a) \<times> 'w"

text \<open>\<open>emulator.Arch\<close>; \<open>ARCH_OTHER\<close> is any value the code does not name.\<close>

datatype arch = ARCH_ARM | ARCH_ARM64 | ARCH_X86 | ARCH_X86_64 | ARCH_OTHER

text \<open>
  Values of Go interface types (files, file systems, sockets, tasks) are of one type \<open>'o\<close>; a type
  assertion \<open>x.(I)\<close> asks whether the value's type implements the interface \<open>I\<close>.
\<close>

datatype iface =
    I_FS | I_ReadlinkFS | I_fs_FS | I_fs_StatFS | I_Seeker | I_Reader | I_Writer | I_ReaderFrom
  | I_ReadFile | I_ControlFile

text \<open>The constants of \<open>filesystem.FileFlag\<close>, whose values the library chooses.\<close>

datatype fileflag =
    FF_RDONLY | FF_WRONLY | FF_RDWR | FF_APPEND | FF_CREATE | FF_EXCL | FF_SYNC | FF_TRUNC

text \<open>What the code asks of an \<open>fs.FileInfo\<close>: \<open>Mode()\<close>, \<open>Size()\<close>, \<open>ModTime().UnixNano()\<close>.\<close>

record FileInfo =
  fi_mode :: uint32
  fi_size :: int64
  fi_nano :: int64

text \<open>
  Descriptors are Go \<open>int\<close>s. The code never computes with them, so they are integers here; the
  conversions from and to the 32-bit numbers of the guest are written out where the code has them.
\<close>

record ('w, 'o) Files =
  implements :: "iface \<Rightarrow> 'o \<Rightarrow> bool"
  FileFlag :: "fileflag \<Rightarrow> gint"
  GetFile :: "int \<Rightarrow> ('w, 'o) ioe"
  DupFile :: "int \<Rightarrow> ('w, int) ioe"
  Dup2File :: "int \<Rightarrow> int \<Rightarrow> ('w, unit) ioe"
  CreateFileDescriptor :: "'o \<Rightarrow> ('w, int) io"
  CloseFileDescriptor :: "int \<Rightarrow> ('w, 'o) ioe"
  GetFS :: 'o
  dbg_OpenFile :: "string \<Rightarrow> gint \<Rightarrow> uint32 \<Rightarrow> ('w, 'o) ioe"
  fs_OpenFile :: "'o \<Rightarrow> string \<Rightarrow> gint \<Rightarrow> uint32 \<Rightarrow> ('w, 'o) ioe"
  fs_Open :: "'o \<Rightarrow> string \<Rightarrow> ('w, 'o) ioe"
  fs_StatFS_Stat :: "'o \<Rightarrow> string \<Rightarrow> ('w, FileInfo) ioe"
  fs_Readlink :: "'o \<Rightarrow> string \<Rightarrow> ('w, string) ioe"
  file_Stat :: "'o \<Rightarrow> ('w, FileInfo) ioe"
  file_Close :: "'o \<Rightarrow> ('w, unit) ioe"
  file_Read :: "'o \<Rightarrow> nat \<Rightarrow> ('w, byte list \<times> go_error option) io"
  file_Write :: "'o \<Rightarrow> byte list \<Rightarrow> ('w, int \<times> go_error option) io"
  file_ReadFrom :: "'o \<Rightarrow> emuptr \<Rightarrow> int \<Rightarrow> ('w, int \<times> go_error option) io"
  file_Seek :: "'o \<Rightarrow> int64 \<Rightarrow> gint \<Rightarrow> ('w, int64) ioe"
  file_Control :: "'o \<Rightarrow> gint \<Rightarrow> emuptr \<Rightarrow> ('w, unit) ioe"
  os_Pipe :: "('w, 'o \<times> 'o) ioe"

text \<open>
  Guest memory. \<open>ReadAt\<close> and \<open>WriteAt\<close> are those of the pointer that \<open>ToPointer\<close> makes;
  the \<open>Extract\<close> operations are \<open>MemExtract\<close> at the types the code uses it at.
\<close>

record 'w Memory =
  MemReadString :: "emuptr \<Rightarrow> ('w, string) ioe"
  MemReadPtr :: "emuptr \<Rightarrow> nat \<Rightarrow> ('w, byte list) ioe"
  MemWritePtr :: "emuptr \<Rightarrow> byte list \<Rightarrow> ('w, unit) ioe"
  MemReadAt :: "emuptr \<Rightarrow> nat \<Rightarrow> int \<Rightarrow> ('w, byte list \<times> go_error option) io"
  MemWriteAt :: "emuptr \<Rightarrow> byte list \<Rightarrow> int \<Rightarrow> ('w, int \<times> go_error option) io"
  MemWrite :: "emuptr \<Rightarrow> memval \<Rightarrow> ('w, uint64) ioe"
  Extract_timespec :: "emuptr \<Rightarrow> ('w, timespec) ioe"
  Extract_sigaction :: "emuptr \<Rightarrow> ('w, sigaction) ioe"
  Extract_sigset :: "emuptr \<Rightarrow> ('w, sigset_t) ioe"
  Extract_siginfo :: "emuptr \<Rightarrow> ('w, siginfo_t) ioe"
  Extract_iovecs :: "emuptr \<Rightarrow> nat \<Rightarrow> ('w, iovec list) io"
  MapAlloc :: "uint64 \<Rightarrow> uint64 \<Rightarrow> ('w, emuptr) ioe"
  MapFree :: "emuptr \<Rightarrow> uint64 \<Rightarrow> ('w, unit) ioe"
  MemMap :: "emuptr \<Rightarrow> uint64 \<Rightarrow> uint64 \<Rightarrow> ('w, emuptr) ioe"
  MemUnmap :: "emuptr \<Rightarrow> uint64 \<Rightarrow> ('w, unit) ioe"
  MemProtect :: "emuptr \<Rightarrow> uint64 \<Rightarrow> uint64 \<Rightarrow> ('w, unit) ioe"

text \<open>
  Tasks, registers and the debugger's own settings. \<open>SP\<close> is what \<open>taskCtx.SP()\<close> returns; the other
  registers are those the code names. \<open>Extract_call\<close> is \<open>MemExtract\<close> of \<open>struct{ fn, arg uintptr }\<close>,
  whose error \<open>clone\<close> ignores. \<open>task_Done\<close> waits for the end of a task, \<open>None\<close> when it never ends.
\<close>

datatype reg =
    REG_SP | ARM_REG_C13_C0_3 | ARM64_REG_TPIDR_EL0 | X86_REG_GS | X86_REG_FS
  | ARM_REG_R0 | ARM_REG_R1 | ARM_REG_R2 | ARM_REG_R3 | ARM_REG_R4 | ARM_REG_R5 | ARM_REG_R7
  | ARM64_REG_X0 | ARM64_REG_X1 | ARM64_REG_X2 | ARM64_REG_X3 | ARM64_REG_X4 | ARM64_REG_X5
  | ARM64_REG_X8

datatype intr_cb = CB_armIntr | CB_arm64Intr

record ('w, 'o) Tasks =
  Arch :: arch
  ARM_INTR_EXCP_SWI :: uint64
  RegRead :: "reg \<Rightarrow> ('w, uint64) ioe"
  RegReadBatch :: "reg list \<Rightarrow> ('w, uint64 list) ioe"
  RegWrite :: "reg \<Rightarrow> uint64 \<Rightarrow> ('w, unit) ioe"
  StackSize :: "('w, uint64) io"
  TaskID :: "('w, gint) io"
  TaskFork :: "('w, 'o) ioe"
  CallTaskOf :: "'o \<Rightarrow> uint64 \<Rightarrow> ('w, unit) ioe"
  Extract_call :: "emuptr \<Rightarrow> ('w, uint64 \<times> uint64) io"
  task_RetWrite_nil :: "'o \<Rightarrow> ('w, unit) ioe"
  task_RegWrite :: "'o \<Rightarrow> reg \<Rightarrow> uint64 \<Rightarrow> ('w, unit) ioe"
  task_ArgWrite :: "'o \<Rightarrow> uint64 \<Rightarrow> ('w, unit) ioe"
  task_Run :: "'o \<Rightarrow> ('w, unit) ioe"
  task_ID :: "'o \<Rightarrow> ('w, gint) io"
  task_Done :: "'o \<Rightarrow> 'w \<Rightarrow> (unit \<times> 'w) option"
  task_Close :: "'o \<Rightarrow> ('w, unit) ioe"
  AddHook_intr :: "intr_cb \<Rightarrow> ('w, 'o) ioe"
  hook_Close :: "'o \<Rightarrow> ('w, unit) ioe"

text \<open>
  The host: \<open>socket.Network\<close> values, the C library's clock, the operating system's clock, process
  number and memory figures, and the system's source of random bytes.
\<close>

datatype network = Net_Unix | Net_UnixGram | Net_TCP | Net_UDP

record gotime =
  time_Unix :: int64
  time_Nanosecond :: gint
  time_ZoneOffset :: gint

record vmstat =
  vm_Total :: uint64
  vm_Free :: uint64
  vm_Shared :: uint64
  vm_Buffers :: uint64

record swapstat =
  sm_Total :: uint64
  sm_Free :: uint64

record ('w, 'o) Host =
  NewSocket :: "network \<Rightarrow> ('w, 'o) ioe"
  C_clock_gettime :: "int32 \<Rightarrow> ('w, int32 \<times> int64 \<times> int64) io"
  time_Now :: "('w, gotime) io"
  os_Getpid :: "('w, gint) io"
  host_Uptime :: "('w, uint64) ioe"
  mem_VirtualMemory :: "('w, vmstat) ioe"
  mem_SwapMemory :: "('w, swapstat) ioe"
  process_Pids :: "('w, int32 list) ioe"
  rand_Reader :: "nat \<Rightarrow> ('w, byte list \<times> go_error option) io"

section \<open>Calls\<close>

text \<open>A call to the library or the host acts on the world alone.\<close>

definition extern :: "('w, 'a) io \<Rightarrow> ('w, 'o, 'a) kprog" where
  "extern f s = (case f (world s) of (a, w) \<Rightarrow> Return a (s\<lparr>world := w\<rparr>))"

text \<open>
  The error number: \<open>ctx.SetErrno\<close> (\<^verbatim>\<open>src/context.go\<close>) forwards to the debugger, whose
  \<open>SetErrno\<close> is the one of the kernel embedded in it (\<^verbatim>\<open>src/kernel/kernel.go\<close>).
\<close>

definition Kernel_Errno :: "'o Kernel \<Rightarrow> Errno" where
  "Kernel_Errno k = err k"

definition Kernel_SetErrno :: "Errno \<Rightarrow> 'o Kernel \<Rightarrow> 'o Kernel" where
  "Kernel_SetErrno e k = k\<lparr>err := e\<rparr>"

definition context_Errno :: "('w, 'o, Errno) kprog" where
  "context_Errno = gets (\<lambda>s. Kernel_Errno (kernel s))"

definition context_SetErrno :: "Errno \<Rightarrow> ('w, 'o, unit) kprog" where
  "context_SetErrno e = modify (\<lambda>s. s\<lparr>kernel := Kernel_SetErrno e (kernel s)\<rparr>)"

text \<open>\<open>ctx.SetErrno(e); return r\<close>, and the same after \<open>if err != nil\<close>.\<close>

definition fail :: "Errno \<Rightarrow> 'a \<Rightarrow> ('w, 'o, 'a) kprog" where
  "fail e r = bnd (context_SetErrno e) (\<lambda>_. ret r)"

definition on_err :: "('w, 'a) ioe \<Rightarrow> Errno \<Rightarrow> 'b \<Rightarrow> ('a \<Rightarrow> ('w, 'o, 'b) kprog) \<Rightarrow> ('w, 'o, 'b) kprog" where
  "on_err f e r k = bnd (extern f) (\<lambda>x. case x of Inl _ \<Rightarrow> fail e r | Inr a \<Rightarrow> k a)"

text \<open>A call whose error result the code ignores.\<close>

definition extern_ignore :: "('w, 'a) io \<Rightarrow> ('w, 'o, unit) kprog" where
  "extern_ignore f = bnd (extern f) (\<lambda>_. ret ())"

text \<open>A call that may run forever.\<close>

definition extern_opt :: "('w \<Rightarrow> ('a \<times> 'w) option) \<Rightarrow> ('w, 'o, 'a) kprog" where
  "extern_opt f s =
     (case f (world s) of None \<Rightarrow> Block | Some (a, w) \<Rightarrow> Return a (s\<lparr>world := w\<rparr>))"

end
