(* ===== verification/Contracts.thy ===== *)
theory Contracts
  imports Machine
begin

text \<open>
  Two contracts that every system-call handler of the kernel is held to, with the rules that prove
  them compositionally.

  The \<^emph>\<open>error contract\<close>: a handler either leaves the error number alone, or sets it to one of the
  codes its source names and returns its failure value. The \<^emph>\<open>effect contract\<close>: a handler changes
  no more of the kernel's state than a given relation allows. The relation's laws are the locale
  \<open>effect\<close>; the rules are proved once there.
\<close>

section \<open>Contracts\<close>

definition errno_spec :: "Errno set \<Rightarrow> 'a \<Rightarrow> ('w, 'o, 'a) kprog \<Rightarrow> bool" where
  "errno_spec E r m \<longleftrightarrow>
     (\<forall>s. wlp m (\<lambda>a s'. m_err s' = m_err s \<or> m_err s' \<in> E \<and> a = r) (\<lambda>_ s'. m_err s' = m_err s) s)"

definition errno_keeps :: "('w, 'o, 'a) kprog \<Rightarrow> bool" where
  "errno_keeps m \<longleftrightarrow> (\<forall>s. wlp m (\<lambda>_ s'. m_err s' = m_err s) (\<lambda>_ s'. m_err s' = m_err s) s)"

definition steps ::
    "(('w, 'o) machine \<Rightarrow> ('w, 'o) machine \<Rightarrow> bool) \<Rightarrow> ('w, 'o, 'a) kprog \<Rightarrow> bool" where
  "steps R m \<longleftrightarrow> (\<forall>s. wlp m (\<lambda>_. R s) (\<lambda>_. R s) s)"

text \<open>A handler that always comes back: it neither panics nor blocks.\<close>

definition returns :: "('w, 'o, 'a) kprog \<Rightarrow> bool" where
  "returns m \<longleftrightarrow> (\<forall>s. \<exists>a s'. m s = Return a s')"

section \<open>Evaluating calls\<close>

lemma extern_eval: "f (world s) = (a, w) \<Longrightarrow> extern f s = Return a (s\<lparr>world := w\<rparr>)"
  by (simp add: extern_def)

lemma bnd_extern: "bnd (extern f) k s = (case f (world s) of (a, w) \<Rightarrow> k a (s\<lparr>world := w\<rparr>))"
  by (simp add: bnd_def extern_def split: prod.split)

lemma bnd_extern_ignore:
  "bnd (extern_ignore f) k s = k () (s\<lparr>world := snd (f (world s))\<rparr>)"
  by (simp add: bnd_def extern_ignore_def extern_def split: prod.split)

lemma fail_eval [simp]: "fail e r s = Return r (s\<lparr>kernel := (kernel s)\<lparr>err := e\<rparr>\<rparr>)"
  by (simp add: fail_def context_SetErrno_def Kernel_SetErrno_def)

lemma bnd_context_SetErrno:
  "bnd (context_SetErrno e) k s = k () (s\<lparr>kernel := (kernel s)\<lparr>err := e\<rparr>\<rparr>)"
  by (simp add: context_SetErrno_def Kernel_SetErrno_def)

lemma on_err_eval:
  "on_err f e r k s =
     (case f (world s) of (x, w) \<Rightarrow>
        (case x of Inl _ \<Rightarrow> fail e r (s\<lparr>world := w\<rparr>) | Inr a \<Rightarrow> k a (s\<lparr>world := w\<rparr>)))"
  by (simp add: on_err_def bnd_extern split: prod.split sum.split)

lemmas call_evals = bnd_extern bnd_extern_ignore bnd_context_SetErrno on_err_eval

lemma wlp_extern [wlp_simps]:
  "wlp (extern f) Q R s = (case f (world s) of (a, w) \<Rightarrow> Q a (s\<lparr>world := w\<rparr>))"
  by (simp add: wlp_def extern_def split: prod.split)

lemma wlp_extern_ignore [wlp_simps]:
  "wlp (extern_ignore f) Q R s = Q () (s\<lparr>world := snd (f (world s))\<rparr>)"
  by (simp add: extern_ignore_def wlp_simps split: prod.split)

lemma wlp_fail [wlp_simps]: "wlp (fail e r) Q R s = Q r (s\<lparr>kernel := (kernel s)\<lparr>err := e\<rparr>\<rparr>)"
  by (simp add: wlp_def)

lemma wlp_on_err [wlp_simps]:
  "wlp (on_err f e r k) Q R s =
     (case f (world s) of (x, w) \<Rightarrow>
        (case x of Inl _ \<Rightarrow> wlp (fail e r) Q R (s\<lparr>world := w\<rparr>)
         | Inr a \<Rightarrow> wlp (k a) Q R (s\<lparr>world := w\<rparr>)))"
  by (simp add: on_err_def wlp_simps split: prod.split sum.split)

lemma wlp_extern_opt [wlp_simps]:
  "wlp (extern_opt f) Q R s = (case f (world s) of None \<Rightarrow> True | Some (a, w) \<Rightarrow> Q a (s\<lparr>world := w\<rparr>))"
  by (simp add: wlp_def extern_opt_def split: option.split)

lemma bnd_extern_opt:
  "bnd (extern_opt f) k s =
     (case f (world s) of None \<Rightarrow> Block | Some (a, w) \<Rightarrow> k a (s\<lparr>world := w\<rparr>))"
  by (simp add: bnd_def extern_opt_def split: option.split)

section \<open>The error contract\<close>

named_theorems errno_rules \<open>rules for the error contract\<close>

lemma errno_specI:
  "(\<And>s. wlp m (\<lambda>a s'. m_err s' = m_err s \<or> m_err s' \<in> E \<and> a = r) (\<lambda>_ s'. m_err s' = m_err s) s)
     \<Longrightarrow> errno_spec E r m"
  by (simp add: errno_spec_def)

lemma errno_keeps_spec: "errno_keeps m \<Longrightarrow> errno_spec E r m"
  by (auto simp: errno_keeps_def errno_spec_def wlp_def split: outcome.splits)

lemma errno_keeps_extern [errno_rules]: "errno_keeps (extern f)"
  by (auto simp: errno_keeps_def wlp_simps split: prod.split)

lemma errno_keeps_extern_ignore [errno_rules]: "errno_keeps (extern_ignore f)"
  by (simp add: errno_keeps_def wlp_simps)

lemma errno_keeps_extern_opt [errno_rules]: "errno_keeps (extern_opt f)"
  by (auto simp: errno_keeps_def wlp_simps split: option.split)

lemma errno_keeps_gets [errno_rules]: "errno_keeps (gets f)"
  by (simp add: errno_keeps_def wlp_simps)

lemma errno_keeps_modify [errno_rules]: "(\<And>s. m_err (f s) = m_err s) \<Longrightarrow> errno_keeps (modify f)"
  by (simp add: errno_keeps_def wlp_simps)

lemma errno_keeps_ret [errno_rules]: "errno_keeps (ret a)"
  by (simp add: errno_keeps_def wlp_simps)

lemma errno_keeps_panic [errno_rules]: "errno_keeps (panic p)"
  by (simp add: errno_keeps_def wlp_simps)

lemma errno_keeps_bnd [errno_rules]:
  "errno_keeps m \<Longrightarrow> (\<And>a. errno_keeps (k a)) \<Longrightarrow> errno_keeps (bnd m k)"
  by (fastforce simp: errno_keeps_def wlp_def bnd_def split: outcome.splits)

lemma errno_spec_ret [errno_rules]: "errno_spec E r (ret a)"
  by (rule errno_keeps_spec) (rule errno_keeps_ret)

lemma errno_spec_panic [errno_rules]: "errno_spec E r (panic p)"
  by (rule errno_keeps_spec) (rule errno_keeps_panic)

lemma errno_spec_fail [errno_rules]: "e \<in> E \<Longrightarrow> errno_spec E r (fail e r)"
  by (simp add: errno_spec_def wlp_simps)

lemma errno_spec_bnd [errno_rules]:
  "errno_keeps m \<Longrightarrow> (\<And>a. errno_spec E r (k a)) \<Longrightarrow> errno_spec E r (bnd m k)"
  by (fastforce simp: errno_keeps_def errno_spec_def wlp_def bnd_def split: outcome.splits)

lemma errno_spec_on_err [errno_rules]:
  "e \<in> E \<Longrightarrow> (\<And>a. errno_spec E r (k a)) \<Longrightarrow> errno_spec E r (on_err f e r k)"
  unfolding on_err_def
  by (intro errno_spec_bnd errno_keeps_extern) (auto split: sum.split intro: errno_spec_fail)

lemma errno_spec_mono: "errno_spec E r m \<Longrightarrow> E \<subseteq> E' \<Longrightarrow> errno_spec E' r m"
  unfolding errno_spec_def by (blast intro: wlp_mono)

text \<open>A handler of the contract whose result goes through a conversion.\<close>

lemma errno_spec_convert:
  "errno_spec E r m \<Longrightarrow> errno_spec E (f r) (bnd m (\<lambda>a. ret (f a)))"
  by (fastforce simp: errno_spec_def wlp_def bnd_def split: outcome.splits)

section \<open>The effect contract\<close>

locale effect =
  fixes R :: "('w, 'o) machine \<Rightarrow> ('w, 'o) machine \<Rightarrow> bool"
  assumes R_refl: "R s s"
    and R_trans: "R s t \<Longrightarrow> R t u \<Longrightarrow> R s u"
    and R_world: "R s (s\<lparr>world := w\<rparr>)"
    and R_errno: "R s (s\<lparr>kernel := (kernel s)\<lparr>err := e\<rparr>\<rparr>)"
begin

lemma steps_ret: "steps R (ret a)"
  by (simp add: steps_def wlp_simps R_refl)

lemma steps_panic: "steps R (panic p)"
  by (simp add: steps_def wlp_simps R_refl)

lemma steps_gets: "steps R (gets f)"
  by (simp add: steps_def wlp_simps R_refl)

lemma steps_modify: "(\<And>s. R s (f s)) \<Longrightarrow> steps R (modify f)"
  by (simp add: steps_def wlp_simps)

lemma steps_extern: "steps R (extern f)"
  by (auto simp: steps_def wlp_simps R_world split: prod.split)

lemma steps_extern_ignore: "steps R (extern_ignore f)"
  by (simp add: steps_def wlp_simps R_world)

lemma steps_extern_opt: "steps R (extern_opt f)"
  by (auto simp: steps_def wlp_simps R_world split: option.split)

lemma steps_fail: "steps R (fail e r)"
  by (simp add: steps_def wlp_simps R_errno)

lemma steps_bnd:
  assumes "steps R m" and "\<And>a. steps R (k a)"
  shows "steps R (bnd m k)"
  unfolding steps_def
proof
  fix s
  show "wlp (bnd m k) (\<lambda>_. R s) (\<lambda>_. R s) s"
    using assms by (fastforce simp: steps_def wlp_def bnd_def split: outcome.splits intro: R_trans)
qed

lemma steps_on_err: "(\<And>a. steps R (k a)) \<Longrightarrow> steps R (on_err f e r k)"
  unfolding on_err_def
  by (intro steps_bnd steps_extern) (auto split: sum.split intro: steps_fail)

lemmas steps_rules =
  steps_ret steps_panic steps_gets steps_extern steps_extern_ignore steps_extern_opt steps_fail steps_bnd
  steps_on_err

end

text \<open>
  The relations in use: what may change beside the world and the error number. \<open>only_world\<close> is the
  strictest; the others add one component each.
\<close>

definition only_world :: "('w, 'o) machine \<Rightarrow> ('w, 'o) machine \<Rightarrow> bool" where
  "only_world s s' \<longleftrightarrow> sys (kernel s') = sys (kernel s)"

definition only_fcntl :: "('w, 'o) machine \<Rightarrow> ('w, 'o) machine \<Rightarrow> bool" where
  "only_fcntl s s' \<longleftrightarrow>
     sys_futex (sys (kernel s')) = sys_futex (sys (kernel s)) \<and>
     sys_signal (sys (kernel s')) = sys_signal (sys (kernel s)) \<and>
     sys_sched (sys (kernel s')) = sys_sched (sys (kernel s))"

definition only_signal :: "('w, 'o) machine \<Rightarrow> ('w, 'o) machine \<Rightarrow> bool" where
  "only_signal s s' \<longleftrightarrow>
     sys_fcntl (sys (kernel s')) = sys_fcntl (sys (kernel s)) \<and>
     sys_futex (sys (kernel s')) = sys_futex (sys (kernel s)) \<and>
     sys_sched (sys (kernel s')) = sys_sched (sys (kernel s))"

definition only_sched :: "('w, 'o) machine \<Rightarrow> ('w, 'o) machine \<Rightarrow> bool" where
  "only_sched s s' \<longleftrightarrow>
     sys_fcntl (sys (kernel s')) = sys_fcntl (sys (kernel s)) \<and>
     sys_futex (sys (kernel s')) = sys_futex (sys (kernel s)) \<and>
     sys_signal (sys (kernel s')) = sys_signal (sys (kernel s))"

definition only_futex :: "('w, 'o) machine \<Rightarrow> ('w, 'o) machine \<Rightarrow> bool" where
  "only_futex s s' \<longleftrightarrow>
     sys_fcntl (sys (kernel s')) = sys_fcntl (sys (kernel s)) \<and>
     sys_signal (sys (kernel s')) = sys_signal (sys (kernel s)) \<and>
     sys_sched (sys (kernel s')) = sys_sched (sys (kernel s))"

interpretation ew: effect only_world
  by unfold_locales (auto simp: only_world_def)

interpretation ef: effect only_fcntl
  by unfold_locales (auto simp: only_fcntl_def)

interpretation es: effect only_signal
  by unfold_locales (auto simp: only_signal_def)

interpretation ed: effect only_sched
  by unfold_locales (auto simp: only_sched_def)

interpretation eu: effect only_futex
  by unfold_locales (auto simp: only_futex_def)

lemma steps_weaken: "steps R m \<Longrightarrow> (\<And>s t. R s t \<Longrightarrow> R' s t) \<Longrightarrow> steps R' m"
  unfolding steps_def by (blast intro: wlp_mono)

lemma only_world_fcntl: "only_world s s' \<Longrightarrow> only_fcntl s s'"
  by (simp add: only_world_def only_fcntl_def)

section \<open>Returning\<close>

lemma returns_bnd: "returns m \<Longrightarrow> (\<And>a. returns (k a)) \<Longrightarrow> returns (bnd m k)"
  unfolding returns_def by (metis bnd_Return)

lemma returns_extern: "returns (extern f)"
  by (auto simp: returns_def extern_def split: prod.split)

lemma returns_extern_opt: "(\<And>w. \<exists>q. f w = Some q) \<Longrightarrow> returns (extern_opt f)"
  unfolding returns_def extern_opt_def by (metis (no_types, lifting) option.simps(5) case_prod_unfold)

lemma returns_plain:
  "returns (ret a)" "returns (gets g)" "returns (modify h)" "returns (fail e r)"
  "returns (extern_ignore f)"
  by (auto simp: returns_def extern_ignore_def bnd_extern split: prod.split)

lemma returns_on_err: "(\<And>a. returns (k a)) \<Longrightarrow> returns (on_err f e r k)"
  unfolding on_err_def by (intro returns_bnd returns_extern) (auto simp: returns_plain split: sum.split)

lemmas returns_rules = returns_plain returns_bnd returns_extern returns_extern_opt returns_on_err

end
