(* ===== verification/Go_IO.thy ===== *)
theory Go_IO
  imports Prelude
begin

text \<open>
  What the handlers use of Go's package \<open>io\<close>: \<open>Copy\<close>, \<open>CopyN\<close> and \<open>ReadFull\<close> over readers and
  writers that act on a state, with \<open>LimitedReader\<close>, \<open>SectionReader\<close> and \<open>OffsetWriter\<close>. A read
  gives the bytes read and an optional error; a write gives a count and an optional error. The
  copying loop is a \<open>partial_function\<close>: a reader that forever returns no bytes and no error makes
  it run forever, and the result is then \<open>None\<close>.

  The second part proves what the loops do for well-behaved readers and writers: the loops end, the
  bytes of the source arrive in the sink in order and once, and \<open>CopyN\<close> reports a source that is
  too short.
\<close>

section \<open>Definitions\<close>

type_synonym 's reader = "nat \<Rightarrow> 's \<Rightarrow> (byte list \<times> go_error option) \<times> 's"
type_synonym 's writer = "byte list \<Rightarrow> 's \<Rightarrow> (int \<times> go_error option) \<times> 's"
type_synonym 's reader_at = "nat \<Rightarrow> int \<Rightarrow> 's \<Rightarrow> (byte list \<times> go_error option) \<times> 's"
type_synonym 's writer_at = "byte list \<Rightarrow> int \<Rightarrow> 's \<Rightarrow> (int \<times> go_error option) \<times> 's"
type_synonym copied = "int \<times> go_error option"

text \<open>The loop's check of what a write reported for \<open>nr\<close> bytes.\<close>

definition checked_write :: "nat \<Rightarrow> int \<times> go_error option \<Rightarrow> int \<times> go_error option" where
  "checked_write nr r =
     (case r of (nw, ew) \<Rightarrow>
        if nw < 0 \<or> int nr < nw
        then (0, Some (case ew of None \<Rightarrow> io_errInvalidWrite | Some e \<Rightarrow> e))
        else (nw, ew))"

text \<open>The loop of \<open>io.copyBuffer\<close>.\<close>

partial_function (option) copy_loop ::
    "'s reader \<Rightarrow> 's writer \<Rightarrow> nat \<Rightarrow> int \<Rightarrow> 's \<Rightarrow> (copied \<times> 's) option" where
  "copy_loop rd wr bsz written s =
     (case rd bsz s of ((bs, er), s1) \<Rightarrow>
        if bs = []
        then (case er of
                Some e \<Rightarrow> Some ((written, if e = io_EOF then None else Some e), s1)
              | None \<Rightarrow> copy_loop rd wr bsz written s1)
        else (case wr bs s1 of (r, s2) \<Rightarrow>
          (case checked_write (length bs) r of (nw, ew) \<Rightarrow>
             (case ew of
                Some e \<Rightarrow> Some ((written + nw, Some e), s2)
              | None \<Rightarrow>
                  if nw \<noteq> int (length bs) then Some ((written + nw, Some io_ErrShortWrite), s2)
                  else (case er of
                          Some e \<Rightarrow> Some ((written + nw, if e = io_EOF then None else Some e), s2)
                        | None \<Rightarrow> copy_loop rd wr bsz (written + nw) s2)))))"

text \<open>\<open>LimitedReader.Read\<close>, \<open>OffsetWriter.Write\<close>, \<open>SectionReader.Read\<close>.\<close>

definition limited_read :: "'w reader \<Rightarrow> (int \<times> 'w) reader" where
  "limited_read rd p =
     (\<lambda>(N, w). if N \<le> 0 then (([], Some io_EOF), (N, w))
               else (case rd (nat (min (int p) N)) w of
                       ((bs, e), w') \<Rightarrow> ((bs, e), (N - int (length bs), w'))))"

definition offset_write :: "'w writer_at \<Rightarrow> (int \<times> 'w) writer" where
  "offset_write wa bs =
     (\<lambda>(off, w). case wa bs off w of ((n, e), w') \<Rightarrow> ((n, e), (off + n, w')))"

definition section_read :: "'w reader_at \<Rightarrow> int \<Rightarrow> (int \<times> 'w) reader" where
  "section_read ra limit p =
     (\<lambda>(off, w). if limit \<le> off then (([], Some io_EOF), (off, w))
                 else (case ra (nat (min (int p) (limit - off))) off w of
                         ((bs, e), w') \<Rightarrow> ((bs, e), (off + int (length bs), w'))))"

text \<open>The buffer of \<open>copyBuffer\<close>: 32 KiB, less for a \<open>LimitedReader\<close> of fewer bytes.\<close>

definition copy_bufsize :: nat where
  "copy_bufsize = 32 * 1024"

definition limited_bufsize :: "int \<Rightarrow> nat" where
  "limited_bufsize N =
     (if N < int copy_bufsize then (if N < 1 then 1 else nat N) else copy_bufsize)"

text \<open>
  \<open>io.CopyN(io.NewOffsetWriter(wa, 0), rd, n)\<close>: the state of the loop is the reader's remaining
  count, the writer's offset and the world.
\<close>

definition copyN_read :: "'w reader \<Rightarrow> (int \<times> int \<times> 'w) reader" where
  "copyN_read rd p =
     (\<lambda>(N, off, w). case limited_read rd p (N, w) of (r, (N', w')) \<Rightarrow> (r, (N', off, w')))"

definition copyN_write :: "'w writer_at \<Rightarrow> (int \<times> int \<times> 'w) writer" where
  "copyN_write wa bs =
     (\<lambda>(N, off, w). case offset_write wa bs (off, w) of (r, (off', w')) \<Rightarrow> (r, (N, off', w')))"

definition io_CopyN :: "'w writer_at \<Rightarrow> 'w reader \<Rightarrow> int \<Rightarrow> 'w \<Rightarrow> (copied \<times> 'w) option" where
  "io_CopyN wa rd n w =
     (case copy_loop (copyN_read rd) (copyN_write wa) (limited_bufsize n) 0 (n, 0, w) of
        None \<Rightarrow> None
      | Some ((written, e), (_, _, w')) \<Rightarrow>
          Some (if written = n then (n, None)
                else if written < n \<and> e = None then (written, Some io_EOF)
                else (written, e), w'))"

text \<open>\<open>io.Copy(wr, io.NewSectionReader(ra, 0, n))\<close> for a writer that is no \<open>io.ReaderFrom\<close>.\<close>

definition section_write :: "'w writer \<Rightarrow> (int \<times> 'w) writer" where
  "section_write wr bs = (\<lambda>(off, w). case wr bs w of (r, w') \<Rightarrow> (r, (off, w')))"

definition io_Copy_section :: "'w writer \<Rightarrow> 'w reader_at \<Rightarrow> int \<Rightarrow> 'w \<Rightarrow> (copied \<times> 'w) option" where
  "io_Copy_section wr ra n w =
     map_option (\<lambda>(r, (_, w')). (r, w'))
       (copy_loop (section_read ra n) (section_write wr) copy_bufsize 0 (0, w))"

text \<open>\<open>io.ReadFull(rd, buf)\<close> for a buffer of \<open>least\<close> bytes: the bytes read into it and the error.\<close>

partial_function (option) readfull_loop ::
    "'s reader \<Rightarrow> nat \<Rightarrow> byte list \<Rightarrow> 's \<Rightarrow> ((byte list \<times> go_error option) \<times> 's) option" where
  "readfull_loop rd least acc s =
     (if length acc < least
      then (case rd (least - length acc) s of ((bs, er), s1) \<Rightarrow>
              (case er of
                 None \<Rightarrow> readfull_loop rd least (acc @ bs) s1
               | Some e \<Rightarrow> Some ((acc @ bs, Some e), s1)))
      else Some ((acc, None), s))"

definition io_ReadFull :: "'s reader \<Rightarrow> nat \<Rightarrow> 's \<Rightarrow> ((byte list \<times> go_error option) \<times> 's) option" where
  "io_ReadFull rd least s =
     (case readfull_loop rd least [] s of
        None \<Rightarrow> None
      | Some ((bs, e), s') \<Rightarrow>
          Some ((bs, if least \<le> length bs then None
                     else if bs \<noteq> [] \<and> e = Some io_EOF then Some io_ErrUnexpectedEOF else e), s'))"

section \<open>Well-behaved sources and sinks\<close>

text \<open>
  \<open>byte_source rd src\<close>: \<open>src w\<close> are the bytes \<open>rd\<close> has still to deliver in \<open>w\<close>. A read of a
  positive size delivers at least one of them, in order, and never more than asked for; it
  reports the end of the data with the last bytes or after them.
\<close>

definition byte_source :: "'w reader \<Rightarrow> ('w \<Rightarrow> byte list) \<Rightarrow> bool" where
  "byte_source rd src \<longleftrightarrow>
     (\<forall>p w bs e w'. 0 < p \<longrightarrow> rd p w = ((bs, e), w') \<longrightarrow>
        src w = bs @ src w' \<and> length bs \<le> p \<and> (bs = [] \<longrightarrow> e = Some io_EOF) \<and>
        (e = None \<or> e = Some io_EOF \<and> src w' = []))"

definition write_bytes :: "(int \<Rightarrow> byte) \<Rightarrow> int \<Rightarrow> byte list \<Rightarrow> int \<Rightarrow> byte" where
  "write_bytes m off bs a =
     (if off \<le> a \<and> a < off + int (length bs) then bs ! nat (a - off) else m a)"

text \<open>
  \<open>mem_sink L wa mv\<close>: \<open>wa\<close> writes to a buffer of \<open>L\<close> bytes with the contents \<open>mv w\<close>; a write within
  it stores all its bytes.
\<close>

definition mem_sink :: "int \<Rightarrow> 'w writer_at \<Rightarrow> ('w \<Rightarrow> int \<Rightarrow> byte) \<Rightarrow> bool" where
  "mem_sink L wa mv \<longleftrightarrow>
     (\<forall>bs off w. 0 \<le> off \<longrightarrow> off + int (length bs) \<le> L \<longrightarrow>
        (\<exists>w'. wa bs off w = ((int (length bs), None), w') \<and> mv w' = write_bytes (mv w) off bs))"

text \<open>The source and the memory do not interfere.\<close>

definition copy_frame ::
    "'w reader \<Rightarrow> ('w \<Rightarrow> byte list) \<Rightarrow> 'w writer_at \<Rightarrow> ('w \<Rightarrow> int \<Rightarrow> byte) \<Rightarrow> bool" where
  "copy_frame rd src wa mv \<longleftrightarrow>
     (\<forall>p w. mv (snd (rd p w)) = mv w) \<and> (\<forall>bs off w. src (snd (wa bs off w)) = src w)"

text \<open>
  \<open>mem_source L ra mv\<close>: \<open>ra\<close> reads a buffer of \<open>L\<close> bytes with the contents \<open>mv w\<close>; a read within it
  gives exactly the bytes there.
\<close>

definition mem_source :: "int \<Rightarrow> 'w reader_at \<Rightarrow> ('w \<Rightarrow> int \<Rightarrow> byte) \<Rightarrow> bool" where
  "mem_source L ra mv \<longleftrightarrow>
     (\<forall>p off w. 0 \<le> off \<longrightarrow> off + int p \<le> L \<longrightarrow>
        (\<exists>w'. ra p off w = ((map (\<lambda>i. mv w (off + int i)) [0..<p], None), w') \<and> mv w' = mv w))"

text \<open>\<open>byte_sink wr out\<close>: a write appends all its bytes to the data \<open>out w\<close>.\<close>

definition byte_sink :: "'w writer \<Rightarrow> ('w \<Rightarrow> byte list) \<Rightarrow> bool" where
  "byte_sink wr out \<longleftrightarrow>
     (\<forall>bs w. \<exists>w'. wr bs w = ((int (length bs), None), w') \<and> out w' = out w @ bs)"

definition write_frame ::
    "'w reader_at \<Rightarrow> ('w \<Rightarrow> int \<Rightarrow> byte) \<Rightarrow> 'w writer \<Rightarrow> ('w \<Rightarrow> byte list) \<Rightarrow> bool" where
  "write_frame ra mv wr out \<longleftrightarrow>
     (\<forall>p off w. out (snd (ra p off w)) = out w) \<and> (\<forall>bs w. mv (snd (wr bs w)) = mv w)"

section \<open>Writing bytes\<close>

lemma write_bytes_Nil [simp]: "write_bytes m off [] = m"
  by (rule ext) (auto simp: write_bytes_def)

lemma write_bytes_append:
  "write_bytes (write_bytes m off xs) (off + int (length xs)) ys = write_bytes m off (xs @ ys)"
proof
  fix a
  have "nat (a - off) - length xs = nat (a - (off + int (length xs)))" by simp
  then show "write_bytes (write_bytes m off xs) (off + int (length xs)) ys a =
      write_bytes m off (xs @ ys) a"
    by (auto simp: write_bytes_def nth_append)
qed

lemma limited_bufsize_pos [simp]: "0 < limited_bufsize n"
  by (simp add: limited_bufsize_def copy_bufsize_def)

lemma checked_write_full [simp]: "checked_write n (int n, None) = (int n, None)"
  by (simp add: checked_write_def)

section \<open>Copying from a limited reader\<close>

text \<open>
  One turn of the loop with a positive remaining count: it ends with the last bytes of the source
  written, or writes some bytes and goes on.
\<close>

lemma copyN_step:
  assumes src: "byte_source rd src" and sink: "mem_sink L wa mv" and fr: "copy_frame rd src wa mv"
    and bsz: "0 < bsz" and N: "0 < N" and off: "0 \<le> off" "off + N \<le> L"
  obtains bs w2 where "int (length bs) \<le> N" "src w = bs @ src w2" "mv w2 = write_bytes (mv w) off bs"
    "copy_loop (copyN_read rd) (copyN_write wa) bsz written (N, off, w) =
       Some ((written + int (length bs), None), (N - int (length bs), off + int (length bs), w2))"
    "src w2 = []"
  | bs w2 where "int (length bs) \<le> N" "src w = bs @ src w2" "mv w2 = write_bytes (mv w) off bs"
    "bs \<noteq> []"
    "copy_loop (copyN_read rd) (copyN_write wa) bsz written (N, off, w) =
       copy_loop (copyN_read rd) (copyN_write wa) bsz (written + int (length bs))
         (N - int (length bs), off + int (length bs), w2)"
proof -
  let ?p = "nat (min (int bsz) N)"
  obtain bs e w1 where rd: "rd ?p w = ((bs, e), w1)" by (metis surj_pair)
  have p: "0 < ?p" "int ?p \<le> N" using N bsz by auto
  from src rd p(1) have w: "src w = bs @ src w1" "length bs \<le> ?p" "bs = [] \<longrightarrow> e = Some io_EOF"
    "e = None \<or> e = Some io_EOF \<and> src w1 = []"
    unfolding byte_source_def by blast+
  have len: "int (length bs) \<le> N" using w(2) p(2) by linarith
  have mv1: "mv w1 = mv w" using fr rd unfolding copy_frame_def by (metis snd_conv)
  obtain w2 where wr: "wa bs off w1 = ((int (length bs), None), w2)"
    and mv2: "mv w2 = write_bytes (mv w) off bs"
    using sink mv1 off len unfolding mem_sink_def by (metis add_left_mono order_trans)
  have src2: "src w2 = src w1" using fr wr unfolding copy_frame_def by (metis snd_conv)
  have read: "copyN_read rd bsz (N, off, w) = ((bs, e), (N - int (length bs), off, w1))"
    using N rd by (simp add: copyN_read_def limited_read_def)
  have wrt: "copyN_write wa bs (N - int (length bs), off, w1) =
      ((int (length bs), None), (N - int (length bs), off + int (length bs), w2))"
    using wr by (simp add: copyN_write_def offset_write_def)
  note loop = copy_loop.simps [of "copyN_read rd" "copyN_write wa" bsz written "(N, off, w)"]
  show thesis
  proof (cases "bs = [] \<or> e \<noteq> None")
    case True
    with w have e: "e = Some io_EOF" "src w1 = []" by auto
    show thesis
    proof (cases "bs = []")
      case True
      with e that(1) [of "[]" w1] w mv1 N loop read show thesis by simp
    next
      case False
      with e that(1) [of bs w2] w mv2 src2 len loop read wrt show thesis by simp
    qed
  next
    case False
    with that(2) [of bs w2] w mv2 src2 len loop read wrt show thesis by simp
  qed
qed

text \<open>
  The loop copies \<open>min N (length (src w))\<close> bytes and ends without an error, wherever it starts.
\<close>

lemma copyN_loop:
  assumes env: "byte_source rd src" "mem_sink L wa mv" "copy_frame rd src wa mv" "0 < bsz"
  shows "0 \<le> N \<Longrightarrow> 0 \<le> off \<Longrightarrow> off + N \<le> L \<Longrightarrow> k = min (nat N) (length (src w)) \<Longrightarrow>
    \<exists>w'. copy_loop (copyN_read rd) (copyN_write wa) bsz written (N, off, w) =
           Some ((written + int k, None), (N - int k, off + int k, w')) \<and>
         src w' = drop k (src w) \<and> mv w' = write_bytes (mv w) off (take k (src w))"
proof (induction "nat N" arbitrary: N off w written k rule: less_induct)
  case less
  show ?case
  proof (cases "N = 0")
    case True
    then show ?thesis
      using less.prems by (subst copy_loop.simps) (simp add: copyN_read_def limited_read_def)
  next
    case False
    with less.prems have "0 < N" by simp
    from copyN_step [OF env this less.prems(2,3), of w written] show ?thesis
    proof cases
      case (1 bs w2)
      with less.prems show ?thesis by (auto simp: min_def)
    next
      case (2 bs w2)
      let ?N = "N - int (length bs)"
      have "k = length bs + min (nat ?N) (length (src w2))" "0 \<le> ?N" "nat ?N < nat N"
        "0 \<le> off + int (length bs)" "off + int (length bs) + ?N \<le> L"
        using 2(1,2,4) less.prems \<open>0 < N\<close> by (auto simp: min_def)
      moreover from less.hyps [OF this(3,2,4,5) refl, where w = w2
          and written = "written + int (length bs)"]
      obtain w' where "copy_loop (copyN_read rd) (copyN_write wa) bsz (written + int (length bs))
             (?N, off + int (length bs), w2) =
           Some ((written + int k, None), (N - int k, off + int k, w'))"
          "src w' = drop (k - length bs) (src w2)"
          "mv w' = write_bytes (mv w2) (off + int (length bs)) (take (k - length bs) (src w2))"
        using calculation(1) by (auto simp: algebra_simps)
      ultimately show ?thesis
        using 2 by (intro exI [of _ w']) (simp add: write_bytes_append)
    qed
  qed
qed

text \<open>
  \<open>CopyN\<close> of a source that holds enough bytes copies exactly \<open>n\<close> of them; of a shorter one it
  copies all there is and reports \<open>EOF\<close>.
\<close>

lemma io_CopyN_enough:
  assumes env: "byte_source rd src" "mem_sink (int n) wa mv" "copy_frame rd src wa mv"
    and n: "n \<le> length (src w)"
  shows "\<exists>w'. io_CopyN wa rd (int n) w = Some ((int n, None), w') \<and>
           src w' = drop n (src w) \<and> mv w' = write_bytes (mv w) 0 (take n (src w))"
  using copyN_loop [OF env limited_bufsize_pos, of "int n" 0 n w "int n" 0] n
  by (auto simp: io_CopyN_def)

lemma io_CopyN_short:
  assumes env: "byte_source rd src" "mem_sink (int n) wa mv" "copy_frame rd src wa mv"
    and n: "length (src w) < n"
  shows "\<exists>w'. io_CopyN wa rd (int n) w = Some ((int (length (src w)), Some io_EOF), w') \<and>
           src w' = [] \<and> mv w' = write_bytes (mv w) 0 (src w)"
  using copyN_loop [OF env limited_bufsize_pos, of "int n" 0 "length (src w)" w "int n" 0] n
  by (auto simp: io_CopyN_def)

lemma io_CopyN_nonpos:
  assumes "n \<le> 0"
  shows "io_CopyN wa rd n w = Some ((0, None), w)"
  using assms unfolding io_CopyN_def
  by (subst copy_loop.simps) (auto simp: copyN_read_def limited_read_def)

section \<open>Copying a section of memory\<close>

definition mem_bytes :: "(int \<Rightarrow> byte) \<Rightarrow> int \<Rightarrow> nat \<Rightarrow> byte list" where
  "mem_bytes m off n = map (\<lambda>i. m (off + int i)) [0..<n]"

lemma length_mem_bytes [simp]: "length (mem_bytes m off n) = n"
  by (simp add: mem_bytes_def)

lemma mem_bytes_0 [simp]: "mem_bytes m off 0 = []"
  by (simp add: mem_bytes_def)

lemma mem_bytes_add: "mem_bytes m off (p + q) = mem_bytes m off p @ mem_bytes m (off + int p) q"
  by (rule nth_equalityI) (auto simp: mem_bytes_def nth_append)

lemma section_loop:
  assumes src: "mem_source n ra mv" and sink: "byte_sink wr out" and fr: "write_frame ra mv wr out"
    and bsz: "0 < bsz"
  shows "0 \<le> off \<Longrightarrow> off \<le> n \<Longrightarrow>
    \<exists>w'. copy_loop (section_read ra n) (section_write wr) bsz written (off, w) =
           Some ((written + (n - off), None), (n, w')) \<and>
         out w' = out w @ mem_bytes (mv w) off (nat (n - off)) \<and> mv w' = mv w"
proof (induction "nat (n - off)" arbitrary: off w written rule: less_induct)
  case less
  note loop = copy_loop.simps [of "section_read ra n" "section_write wr" bsz written "(off, w)"]
  show ?case
  proof (cases "off = n")
    case True
    then show ?thesis using loop by (simp add: section_read_def)
  next
    case False
    define p where "p = nat (min (int bsz) (n - off))"
    have p: "0 < p" "off + int p \<le> n" using False less.prems bsz by (auto simp: p_def)
    obtain w1 where rd: "ra p off w = ((mem_bytes (mv w) off p, None), w1)" and mv1: "mv w1 = mv w"
      using src less.prems(1) p(2) unfolding mem_source_def mem_bytes_def by blast
    obtain w2 where wr: "wr (mem_bytes (mv w) off p) w1 = ((int p, None), w2)"
      and out2: "out w2 = out w1 @ mem_bytes (mv w) off p"
      using sink unfolding byte_sink_def by (metis length_mem_bytes)
    have w2: "out w1 = out w" "mv w2 = mv w"
      using fr rd wr mv1 unfolding write_frame_def by (metis snd_conv)+
    have read: "section_read ra n bsz (off, w) = ((mem_bytes (mv w) off p, None), (off + int p, w1))"
      using False less.prems rd by (simp add: section_read_def p_def)
    have step: "copy_loop (section_read ra n) (section_write wr) bsz written (off, w) =
        copy_loop (section_read ra n) (section_write wr) bsz (written + int p) (off + int p, w2)"
      using p read wr by (simp add: loop section_write_def mem_bytes_def)
    have "nat (n - (off + int p)) < nat (n - off)" "0 \<le> off + int p" "off + int p \<le> n"
      using p less.prems by auto
    from less.hyps [OF this, of "written + int p" w2] obtain w' where IH:
      "copy_loop (section_read ra n) (section_write wr) bsz (written + int p) (off + int p, w2) =
         Some ((written + (n - off), None), (n, w'))"
      "out w' = out w2 @ mem_bytes (mv w) (off + int p) (nat (n - (off + int p)))" "mv w' = mv w"
      using w2 by (auto simp: algebra_simps)
    have "nat (n - off) = p + nat (n - (off + int p))" using p by simp
    then show ?thesis using step IH out2 w2 by (simp add: mem_bytes_add)
  qed
qed

lemma io_Copy_section_all:
  assumes "mem_source n ra mv" "byte_sink wr out" "write_frame ra mv wr out" "0 \<le> n"
  shows "\<exists>w'. io_Copy_section wr ra n w = Some ((n, None), w') \<and>
           out w' = out w @ mem_bytes (mv w) 0 (nat n) \<and> mv w' = mv w"
  using section_loop [OF assms(1-3), of copy_bufsize 0 0 w] assms(4)
  by (auto simp: io_Copy_section_def copy_bufsize_def)

lemma io_Copy_section_nonpos: "n \<le> 0 \<Longrightarrow> io_Copy_section wr ra n w = Some ((0, None), w)"
  unfolding io_Copy_section_def by (subst copy_loop.simps) (simp add: section_read_def)

section \<open>Reading in full\<close>

lemma readfull_loop_enough:
  assumes src: "byte_source rd src"
  shows "length acc \<le> m \<Longrightarrow> m - length acc \<le> length (src w) \<Longrightarrow>
    \<exists>e w'. readfull_loop rd m acc w = Some ((acc @ take (m - length acc) (src w), e), w') \<and>
      src w' = drop (m - length acc) (src w)"
proof (induction "m - length acc" arbitrary: acc w rule: less_induct)
  case less
  let ?n = "length acc"
  show ?case
  proof (cases "?n < m")
    case False
    with less.prems show ?thesis by (subst readfull_loop.simps) simp
  next
    case True
    obtain bs e w1 where rd: "rd (m - ?n) w = ((bs, e), w1)" by (metis surj_pair)
    from src rd True have w: "src w = bs @ src w1" "length bs \<le> m - ?n"
      "bs = [] \<longrightarrow> e = Some io_EOF" "e = None \<or> e = Some io_EOF \<and> src w1 = []"
      unfolding byte_source_def by (metis zero_less_diff)+
    show ?thesis
    proof (cases e)
      case (Some x)
      with w less.prems True rd have "length bs = m - ?n" by auto
      with Some w True rd show ?thesis by (subst readfull_loop.simps) auto
    next
      case None
      with w have "0 < length bs" by auto
      then have "m - length (acc @ bs) < m - ?n" "length (acc @ bs) \<le> m"
        "m - length (acc @ bs) \<le> length (src w1)"
        using w(1,2) less.prems True by (simp_all del: length_greater_0_conv)
      from less.hyps [OF this] None True rd w show ?thesis
        by (subst readfull_loop.simps) (auto simp: drop_append)
    qed
  qed
qed

lemma io_ReadFull_enough:
  assumes "byte_source rd src" "m \<le> length (src w)"
  shows "\<exists>w'. io_ReadFull rd m w = Some ((take m (src w), None), w') \<and> src w' = drop m (src w)"
  using readfull_loop_enough [OF assms(1), of "[]" m w] assms(2) by (auto simp: io_ReadFull_def)

section \<open>The loops end\<close>

text \<open>
  All that the loops need to end is a reader that never returns without bytes and without an error;
  reads and writes may fail in any way.
\<close>

definition progress :: "'w reader \<Rightarrow> bool" where
  "progress rd \<longleftrightarrow> (\<forall>p w. 0 < p \<longrightarrow> fst (rd p w) \<noteq> ([], None))"

lemma copy_loop_turn:
  assumes "\<And>bs s1 r s2 nw. rd bsz s = ((bs, None), s1) \<Longrightarrow> bs \<noteq> [] \<Longrightarrow> wr bs s1 = (r, s2) \<Longrightarrow>
      \<exists>q. copy_loop rd wr bsz (written + int (length bs)) s2 = Some q"
    and "fst (rd bsz s) \<noteq> ([], None)"
  shows "\<exists>q. copy_loop rd wr bsz written s = Some q"
proof -
  obtain bs e s1 where rd: "rd bsz s = ((bs, e), s1)" by (metis surj_pair)
  obtain r s2 where wr: "wr bs s1 = (r, s2)" by fastforce
  obtain nw ew where cw: "checked_write (length bs) r = (nw, ew)" by fastforce
  show ?thesis
  proof (cases "bs = [] \<or> e \<noteq> None \<or> ew \<noteq> None \<or> nw \<noteq> int (length bs)")
    case True
    with rd wr cw assms(2) show ?thesis
      by (subst copy_loop.simps) (auto split: option.split)
  next
    case False
    with rd wr cw assms(1) [of bs s1 r s2] show ?thesis
      by (subst copy_loop.simps) simp
  qed
qed

lemma copyN_ends:
  assumes rd: "progress rd" and bsz: "0 < bsz"
  shows "\<exists>q. copy_loop (copyN_read rd) (copyN_write wa) bsz written (N, off, w) = Some q"
proof (induction "nat N" arbitrary: N off w written rule: less_induct)
  case less
  show ?case
  proof (cases "N \<le> 0")
    case True
    then show ?thesis by (subst copy_loop.simps) (simp add: copyN_read_def limited_read_def)
  next
    case False
    have p: "0 < nat (min (int bsz) N)" using False bsz by simp
    show ?thesis
    proof (rule copy_loop_turn)
      have "fst (rd (nat (min (int bsz) N)) w) \<noteq> ([], None)" using rd p by (simp add: progress_def)
      then show "fst (copyN_read rd bsz (N, off, w)) \<noteq> ([], None)"
        using False by (auto simp: copyN_read_def limited_read_def split: prod.split)
    next
      fix bs s1 r s2 nw
      assume read: "copyN_read rd bsz (N, off, w) = ((bs, None), s1)" and bs: "bs \<noteq> []"
        and wrt: "copyN_write wa bs s1 = (r, s2)"
      obtain w1 where s1: "s1 = (N - int (length bs), off, w1)"
        using read False by (auto simp: copyN_read_def limited_read_def split: prod.splits)
      obtain off2 w2 where s2: "s2 = (N - int (length bs), off2, w2)"
        using wrt s1 by (auto simp: copyN_write_def split: prod.splits)
      have "nat (N - int (length bs)) < nat N" using False bs by (cases bs) auto
      from less.hyps [OF this] s2
      show "\<exists>q. copy_loop (copyN_read rd) (copyN_write wa) bsz (written + int (length bs)) s2 = Some q"
        by simp
    qed
  qed
qed

lemma io_CopyN_ends: "progress rd \<Longrightarrow> \<exists>q. io_CopyN wa rd n w = Some q"
  using copyN_ends [of rd "limited_bufsize n" wa 0 n 0 w]
  by (auto simp: io_CopyN_def split: option.split)

text \<open>\<open>io.ReaderAt\<close>: a read of fewer bytes than asked for comes with an error.\<close>

definition progress_at :: "'w reader_at \<Rightarrow> bool" where
  "progress_at ra \<longleftrightarrow> (\<forall>p off w. 0 < p \<longrightarrow> fst (ra p off w) \<noteq> ([], None))"

lemma section_ends:
  assumes ra: "progress_at ra" and bsz: "0 < bsz"
  shows "\<exists>q. copy_loop (section_read ra n) (section_write wr) bsz written (off, w) = Some q"
proof (induction "nat (n - off)" arbitrary: off w written rule: less_induct)
  case less
  show ?case
  proof (cases "n \<le> off")
    case True
    then show ?thesis by (subst copy_loop.simps) (simp add: section_read_def)
  next
    case False
    have p: "0 < nat (min (int bsz) (n - off))" using False bsz by simp
    show ?thesis
    proof (rule copy_loop_turn)
      have "fst (ra (nat (min (int bsz) (n - off))) off w) \<noteq> ([], None)"
        using ra p by (simp add: progress_at_def)
      then show "fst (section_read ra n bsz (off, w)) \<noteq> ([], None)"
        using False by (auto simp: section_read_def split: prod.split)
    next
      fix bs s1 r s2 nw
      assume read: "section_read ra n bsz (off, w) = ((bs, None), s1)" and bs: "bs \<noteq> []"
        and wrt: "section_write wr bs s1 = (r, s2)"
      obtain w1 where s1: "s1 = (off + int (length bs), w1)"
        using read False by (auto simp: section_read_def split: prod.splits)
      obtain w2 where s2: "s2 = (off + int (length bs), w2)"
        using wrt s1 by (auto simp: section_write_def split: prod.splits)
      have "nat (n - (off + int (length bs))) < nat (n - off)" using False bs by (cases bs) auto
      from less.hyps [OF this] s2
      show "\<exists>q. copy_loop (section_read ra n) (section_write wr) bsz (written + int (length bs)) s2 = Some q"
        by simp
    qed
  qed
qed

lemma io_Copy_section_ends: "progress_at ra \<Longrightarrow> \<exists>q. io_Copy_section wr ra n w = Some q"
  using section_ends [of ra copy_bufsize n wr 0 0 w]
  by (auto simp: io_Copy_section_def copy_bufsize_def)

section \<open>What the loop leaves alone\<close>

text \<open>What neither the reads nor the writes change, the loop does not change.\<close>

lemma copy_loop_keeps:
  assumes rd: "\<And>s. h (snd (rd bsz s)) = h s" and wr: "\<And>bs s. h (snd (wr bs s)) = h s"
    and ret: "copy_loop rd wr bsz written s = Some (q, s')"
  shows "h s' = h s"
proof -
  have "rd = rd \<and> wr = wr \<and> bsz = bsz \<longrightarrow> h (snd (q, s')) = h s"
  proof (rule copy_loop.raw_induct [where P = "\<lambda>rd' wr' b n s r. rd' = rd \<and> wr' = wr \<and> b = bsz \<longrightarrow>
        h (snd r) = h s", OF _ ret], intro impI, elim conjE)
    fix loop rd' wr' b n s r
    assume IH: "\<And>rd' wr' b n s r. loop rd' wr' b n s = Some r \<Longrightarrow>
        rd' = rd \<and> wr' = wr \<and> b = bsz \<longrightarrow> h (snd r) = h s"
      and eq: "(case rd' b s of ((bs, er), s1) \<Rightarrow>
        if bs = [] then (case er of
            Some e \<Rightarrow> Some ((n, if e = io_EOF then None else Some e), s1)
          | None \<Rightarrow> loop rd' wr' b n s1)
        else (case wr' bs s1 of (r, s2) \<Rightarrow> (case checked_write (length bs) r of (nw, ew) \<Rightarrow>
          (case ew of Some e \<Rightarrow> Some ((n + nw, Some e), s2)
           | None \<Rightarrow> if nw \<noteq> int (length bs) then Some ((n + nw, Some io_ErrShortWrite), s2)
               else (case er of
                   Some e \<Rightarrow> Some ((n + nw, if e = io_EOF then None else Some e), s2)
                 | None \<Rightarrow> loop rd' wr' b (n + nw) s2))))) = Some r"
      and args: "rd' = rd" "wr' = wr" "b = bsz"
    obtain bs er s1 where r1: "rd bsz s = ((bs, er), s1)" by (metis surj_pair)
    obtain q2 s2 where r2: "wr bs s1 = (q2, s2)" by fastforce
    have "h s1 = h s" "h s2 = h s1" using rd [of s] wr [of bs s1] r1 r2 by simp_all
    moreover have "snd r = s1 \<or> snd r = s2 \<or> (\<exists>m t. loop rd wr bsz m t = Some r \<and> (t = s1 \<or> t = s2))"
      using eq args r1 r2 by (auto split: if_splits option.splits prod.splits)
    ultimately show "h (snd r) = h s" using IH by metis
  qed
  then show ?thesis by simp
qed

lemma readfull_ends:
  assumes "progress rd"
  shows "\<exists>q. readfull_loop rd m acc w = Some q"
proof (induction "m - length acc" arbitrary: acc w rule: less_induct)
  case less
  obtain bs e w1 where rd: "rd (m - length acc) w = ((bs, e), w1)" by (metis surj_pair)
  show ?case
  proof (cases "length acc < m \<and> e = None")
    case False
    with rd show ?thesis by (subst readfull_loop.simps) (auto split: option.split)
  next
    case True
    have "fst (rd (m - length acc) w) \<noteq> ([], None)"
      using assms True unfolding progress_def by (metis zero_less_diff)
    with rd True have "bs \<noteq> []" by auto
    with True have "m - length (acc @ bs) < m - length acc" by (cases bs) auto
    from less [OF this] rd True show ?thesis by (subst readfull_loop.simps) simp
  qed
qed

lemma io_ReadFull_ends: "progress rd \<Longrightarrow> \<exists>q. io_ReadFull rd m w = Some q"
  using readfull_ends [of rd m "[]" w] by (auto simp: io_ReadFull_def)

end
