(* ===== verification/Fcntl.thy ===== *)
theory Fcntl
  imports Contracts Go_IO
begin

text \<open>
  The file system calls of \<^verbatim>\<open>src/kernel/fcntl.go\<close> (all of the file but the \<open>stat\<close> family, which
  is in \<open>Stat\<close>). The component's state is the map \<open>flags\<close> from descriptors to the flags they were
  opened with; the descriptor table itself is the debugger library's. Methods of the Go type
  \<open>fcntl\<close> carry the prefix \<open>fcntl_\<close>. The read-write lock around the map is not a state of the
  model: every access below is one critical section of the source.
\<close>

section \<open>Constants\<close>

definition AT_FDCWD :: int32 where
  "AT_FDCWD = - 100"

definition F_DUPFD :: uint32 where
  "F_DUPFD = 0"

definition F_GETFD :: uint32 where
  "F_GETFD = 1"

definition F_SETFD :: uint32 where
  "F_SETFD = 2"

definition F_GETFL :: uint32 where
  "F_GETFL = 3"

definition F_SETFL :: uint32 where
  "F_SETFL = 4"

definition F_GETLK :: uint32 where
  "F_GETLK = 5"

definition F_SETLK :: uint32 where
  "F_SETLK = 6"

definition F_SETLKW :: uint32 where
  "F_SETLKW = 7"

definition F_GETLK64 :: uint32 where
  "F_GETLK64 = 12"

definition F_SETLK64 :: uint32 where
  "F_SETLK64 = 13"

definition F_SETLKW64 :: uint32 where
  "F_SETLKW64 = 14"

definition O_CLOEXEC :: int32 where
  "O_CLOEXEC = 0x80000"

definition O_WRONLY :: int32 where
  "O_WRONLY = 1"

definition O_RDWR :: int32 where
  "O_RDWR = 2"

definition O_APPEND :: int32 where
  "O_APPEND = 0x400"

definition O_CREAT :: int32 where
  "O_CREAT = 0x40"

definition O_EXCL :: int32 where
  "O_EXCL = 0x80"

definition O_SYNC :: int32 where
  "O_SYNC = 0x101000"

definition O_TRUNC :: int32 where
  "O_TRUNC = 0x200"

lemmas fcntl_cmd_defs =
  F_DUPFD_def F_GETFD_def F_SETFD_def F_GETFL_def F_SETFL_def F_GETLK_def F_SETLK_def
  F_SETLKW_def F_GETLK64_def F_SETLK64_def F_SETLKW64_def

lemmas open_flag_defs =
  O_WRONLY_def O_RDWR_def O_APPEND_def O_CREAT_def O_EXCL_def O_SYNC_def O_TRUNC_def

section \<open>The flag map\<close>

definition fcntl_ctor :: "('w, 'o, unit) kprog" where
  "fcntl_ctor = modify (m_flags_update (\<lambda>_. gomap_make))"

definition fcntl_dtor :: "('w, 'o, unit) kprog" where
  "fcntl_dtor = modify (m_flags_update (\<lambda>_. None))"

text \<open>\<open>f.flags[fd]\<close>, \<open>f.flags[fd] = v\<close>, \<open>delete(f.flags, fd)\<close>.\<close>

definition flags_get :: "int \<Rightarrow> ('w, 'o, int32) kprog" where
  "flags_get fd = gets (\<lambda>s. gomap_index 0 (m_flags s) fd)"

definition flags_put :: "int \<Rightarrow> int32 \<Rightarrow> ('w, 'o, unit) kprog" where
  "flags_put fd v s =
     (case gomap_put (m_flags s) fd v of
        None \<Rightarrow> Panic nil_map_panic s
      | Some m \<Rightarrow> Return () (m_flags_update (\<lambda>_. m) s))"

definition flags_delete :: "int \<Rightarrow> ('w, 'o, unit) kprog" where
  "flags_delete fd = modify (m_flags_update (\<lambda>m. gomap_delete m fd))"

section \<open>Duplicating and controlling descriptors\<close>

definition fcntl_dup3 :: "('w, 'o) Files \<Rightarrow> uint32 \<Rightarrow> uint32 \<Rightarrow> int32 \<Rightarrow> ('w, 'o, int32) kprog" where
  "fcntl_dup3 F oldfd newfd flgs =
     on_err (Dup2File F (uint oldfd) (uint newfd)) EBADF (- 1) (\<lambda>_.
     bnd (flags_put (uint newfd) flgs) (\<lambda>_.
     ret newfd))"

text \<open>The switch of \<open>fcntl\<close>, reached with an open descriptor.\<close>

definition fcntl_switch :: "('w, 'o) Files \<Rightarrow> uint32 \<Rightarrow> uint32 \<Rightarrow> ulong_t \<Rightarrow> ('w, 'o, int32) kprog" where
  "fcntl_switch F fd cmd arg =
     (if cmd = F_DUPFD then
        on_err (DupFile F (uint fd)) EBADF (- 1) (\<lambda>newfd.
        bnd (flags_get (uint fd)) (\<lambda>v.
        bnd (flags_put newfd v) (\<lambda>_.
        ret (word_of_int newfd))))
      else if cmd = F_GETFD then
        bnd (flags_get (uint fd)) (\<lambda>v.
        ret (if v AND O_CLOEXEC \<noteq> 0 then 1 else 0))
      else if cmd = F_SETFD then
        bnd (flags_get (uint fd)) (\<lambda>v.
        bnd (flags_put (uint fd) (v OR O_CLOEXEC)) (\<lambda>_.
        ret 0))
      else if cmd = F_GETFL then
        flags_get (uint fd)
      else if cmd = F_SETFL then
        bnd (flags_put (uint fd) (ucast arg)) (\<lambda>_.
        ret 0)
      else if cmd = F_GETLK \<or> cmd = F_GETLK64 then ret 0
      else if cmd = F_SETLK \<or> cmd = F_SETLKW \<or> cmd = F_SETLK64 \<or> cmd = F_SETLKW64 then ret 0
      else panic ''fcntl: unsupported operation'')"

definition fcntl_fcntl :: "('w, 'o) Files \<Rightarrow> uint32 \<Rightarrow> uint32 \<Rightarrow> ulong_t \<Rightarrow> ('w, 'o, int32) kprog" where
  "fcntl_fcntl F fd cmd arg =
     on_err (GetFile F (uint fd)) EBADF (- 1) (\<lambda>_.
     fcntl_switch F fd cmd arg)"

section \<open>Opening, closing, pipes\<close>

text \<open>Guest open flags to the flags of the debugger's file systems.\<close>

definition toFileFlag :: "('w, 'o) Files \<Rightarrow> int32 \<Rightarrow> gint" where
  "toFileFlag F flgs =
     (let ff = FileFlag F FF_RDONLY;
          ff = (if flgs AND O_WRONLY \<noteq> 0 then FileFlag F FF_WRONLY else ff);
          ff = (if flgs AND O_RDWR \<noteq> 0 then FileFlag F FF_RDWR else ff);
          ff = (if flgs AND O_APPEND \<noteq> 0 then ff OR FileFlag F FF_APPEND else ff);
          ff = (if flgs AND O_CREAT \<noteq> 0 then ff OR FileFlag F FF_CREATE else ff);
          ff = (if flgs AND O_EXCL \<noteq> 0 then ff OR FileFlag F FF_EXCL else ff);
          ff = (if flgs AND O_SYNC \<noteq> 0 then ff OR FileFlag F FF_SYNC else ff);
          ff = (if flgs AND O_TRUNC \<noteq> 0 then ff OR FileFlag F FF_TRUNC else ff)
      in ff)"

text \<open>
  The block that the \<open>...at\<close> calls share: the directory is the file of \<open>dfd\<close>, which has to
  implement the interface \<open>I\<close>, or the debugger's file system.
\<close>

definition at_dir ::
    "('w, 'o) Files \<Rightarrow> iface \<Rightarrow> int32 \<Rightarrow> 'b \<Rightarrow> ('o \<Rightarrow> ('w, 'o, 'b) kprog) \<Rightarrow> ('w, 'o, 'b) kprog" where
  "at_dir F I dfd r k =
     (if dfd \<noteq> AT_FDCWD then
        on_err (GetFile F (sint dfd)) EBADF r (\<lambda>file.
        if implements F I file then k file else fail ENOTDIR r)
      else k (GetFS F))"

definition fcntl_faccessat ::
    "('w, 'o) Files \<Rightarrow> 'w Memory \<Rightarrow> int32 \<Rightarrow> emuptr \<Rightarrow> int32 \<Rightarrow> ('w, 'o, int32) kprog" where
  "fcntl_faccessat F M dfd filename mode =
     on_err (MemReadString M filename) ENOENT (- 1) (\<lambda>path.
     at_dir F I_FS dfd (- 1) (\<lambda>dir.
     on_err (fs_OpenFile F dir path (FileFlag F FF_RDONLY) mode) ENOENT (- 1) (\<lambda>file.
     bnd (extern_ignore (file_Close F file)) (\<lambda>_.
     ret 0))))"

text \<open>The end of \<open>open\<close> and \<open>openat\<close>: the result of the open, the descriptor, its flags.\<close>

definition open_result ::
    "('w, 'o) Files \<Rightarrow> int32 \<Rightarrow> go_error + 'o \<Rightarrow> ('w, 'o, int32) kprog" where
  "open_result F flgs r =
     (case r of
        Inl e \<Rightarrow> if errors_Is e fs_ErrExist then fail EEXIST (- 1) else fail ENOENT (- 1)
      | Inr file \<Rightarrow>
          bnd (extern (CreateFileDescriptor F file)) (\<lambda>fd.
          bnd (flags_put fd flgs) (\<lambda>_.
          ret (word_of_int fd))))"

definition fcntl_open ::
    "('w, 'o) Files \<Rightarrow> 'w Memory \<Rightarrow> emuptr \<Rightarrow> int32 \<Rightarrow> int32 \<Rightarrow> ('w, 'o, int32) kprog" where
  "fcntl_open F M filename flgs mode =
     on_err (MemReadString M filename) ENOENT (- 1) (\<lambda>path.
     bnd (extern (dbg_OpenFile F path (toFileFlag F flgs) mode)) (\<lambda>r.
     open_result F flgs r))"

definition fcntl_openat ::
    "('w, 'o) Files \<Rightarrow> 'w Memory \<Rightarrow> int32 \<Rightarrow> emuptr \<Rightarrow> int32 \<Rightarrow> int32 \<Rightarrow> ('w, 'o, int32) kprog" where
  "fcntl_openat F M dfd filename flgs mode =
     on_err (MemReadString M filename) ENOENT (- 1) (\<lambda>path.
     at_dir F I_FS dfd (- 1) (\<lambda>dir.
     bnd (extern (fs_OpenFile F dir path (toFileFlag F flgs) mode)) (\<lambda>r.
     open_result F flgs r)))"

definition fcntl_close :: "('w, 'o) Files \<Rightarrow> uint32 \<Rightarrow> ('w, 'o, int32) kprog" where
  "fcntl_close F fd =
     on_err (CloseFileDescriptor F (uint fd)) EBADF (- 1) (\<lambda>file.
     bnd (extern_ignore (file_Close F file)) (\<lambda>_.
     bnd (flags_delete (uint fd)) (\<lambda>_.
     ret 0)))"

definition fcntl_pipe2 ::
    "('w, 'o) Files \<Rightarrow> 'w Memory \<Rightarrow> emuptr \<Rightarrow> int32 \<Rightarrow> ('w, 'o, int32) kprog" where
  "fcntl_pipe2 F M fildes flgs =
     on_err (os_Pipe F) EMFILE (- 1) (\<lambda>(r, w).
     bnd (extern (CreateFileDescriptor F r)) (\<lambda>rfd.
     bnd (extern (CreateFileDescriptor F w)) (\<lambda>wfd.
     bnd (flags_put rfd flgs) (\<lambda>_.
     bnd (flags_put wfd flgs) (\<lambda>_.
     bnd (extern_ignore (MemWrite M fildes (MV_int32x2 (word_of_int rfd) (word_of_int wfd)))) (\<lambda>_.
     ret 0))))))"

section \<open>Seeking, reading, writing\<close>

definition fcntl_lseek ::
    "('w, 'o) Files \<Rightarrow> uint32 \<Rightarrow> off_t \<Rightarrow> int32 \<Rightarrow> ('w, 'o, off_t) kprog" where
  "fcntl_lseek F fd offset whence =
     on_err (GetFile F (uint fd)) EBADF (- 1) (\<lambda>file.
     if implements F I_Seeker file then
       on_err (file_Seek F file offset (scast whence)) EINVAL (- 1) (\<lambda>off.
       ret off)
     else fail EINVAL (- 1))"

text \<open>\<open>io.CopyN(io.NewOffsetWriter(ctx.ToPointer(buf), 0), rd, n)\<close>.\<close>

definition copyN_to_mem ::
    "'w Memory \<Rightarrow> emuptr \<Rightarrow> 'w reader \<Rightarrow> int \<Rightarrow> 'w \<Rightarrow> (copied \<times> 'w) option" where
  "copyN_to_mem M buf rd n = io_CopyN (MemWriteAt M buf) rd n"

definition fcntl_read ::
    "('w, 'o) Files \<Rightarrow> 'w Memory \<Rightarrow> uint32 \<Rightarrow> emuptr \<Rightarrow> size_t \<Rightarrow> ('w, 'o, ssize_t) kprog" where
  "fcntl_read F M fd buf count =
     on_err (GetFile F (uint fd)) EBADF (- 1) (\<lambda>file.
     if \<not> implements F I_Reader file then fail EINTR (- 1)
     else
       bnd (extern_opt (copyN_to_mem M buf (file_Read F file) (sint count))) (\<lambda>(n, e).
       if e \<noteq> None then fail EIO (- 1) else ret (word_of_int n)))"

text \<open>
  \<open>io.Copy(w, io.NewSectionReader(ctx.ToPointer(buf), 0, n))\<close>: a writer that implements
  \<open>io.ReaderFrom\<close> does the copying itself.
\<close>

definition copy_from_mem ::
    "('w, 'o) Files \<Rightarrow> 'w Memory \<Rightarrow> 'o \<Rightarrow> emuptr \<Rightarrow> int \<Rightarrow> 'w \<Rightarrow> (copied \<times> 'w) option" where
  "copy_from_mem F M file buf n w =
     (if implements F I_ReaderFrom file then Some (file_ReadFrom F file buf n w)
      else io_Copy_section (file_Write F file) (MemReadAt M buf) n w)"

definition fcntl_write ::
    "('w, 'o) Files \<Rightarrow> 'w Memory \<Rightarrow> uint32 \<Rightarrow> emuptr \<Rightarrow> size_t \<Rightarrow> ('w, 'o, ssize_t) kprog" where
  "fcntl_write F M fd buf count =
     on_err (GetFile F (uint fd)) EBADF (- 1) (\<lambda>file.
     if \<not> implements F I_Writer file then fail EINTR (- 1)
     else
       bnd (extern_opt (copy_from_mem F M file buf (sint count))) (\<lambda>(n, e).
       if e \<noteq> None then fail EIO (- 1) else ret (word_of_int n)))"

fun writev_loop ::
    "('w, 'o) Files \<Rightarrow> 'w Memory \<Rightarrow> 'o \<Rightarrow> ssize_t \<Rightarrow> iovec list \<Rightarrow> ('w, 'o, ssize_t) kprog" where
  "writev_loop F M file n [] = ret n"
| "writev_loop F M file n (v # vs) =
     bnd (extern_opt (copy_from_mem F M file (iov_base v) (sint (iov_len v)))) (\<lambda>(m, e).
     if e \<noteq> None then fail EIO (- 1) else writev_loop F M file (n + word_of_int m) vs)"

definition fcntl_writev ::
    "('w, 'o) Files \<Rightarrow> 'w Memory \<Rightarrow> uint32 \<Rightarrow> emuptr \<Rightarrow> int32 \<Rightarrow> ('w, 'o, ssize_t) kprog" where
  "fcntl_writev F M fd iov iovcnt =
     on_err (GetFile F (uint fd)) EBADF (- 1) (\<lambda>file.
     if \<not> implements F I_Writer file then fail EINTR (- 1)
     else if sint iovcnt < 0 then panic ''makeslice: len out of range''
     else
       bnd (extern (Extract_iovecs M iov (nat (sint iovcnt)))) (\<lambda>arr.
       writev_loop F M file 0 arr))"

definition string_bytes :: "string \<Rightarrow> byte list" where
  "string_bytes = map of_char"

definition readlink_tail ::
    "('w, 'o) Files \<Rightarrow> 'w Memory \<Rightarrow> string \<Rightarrow> emuptr \<Rightarrow> size_t \<Rightarrow> 'o \<Rightarrow> ('w, 'o, ssize_t) kprog" where
  "readlink_tail F M path buf bufsiz dir =
     on_err (fs_Readlink F dir path) EINVAL (- 1) (\<lambda>link.
     let n = min (length link) (unat bufsiz) in
     bnd (extern_ignore (MemWritePtr M buf (take n (string_bytes link)))) (\<lambda>_.
     ret (word_of_nat n)))"

definition fcntl_readlinkat ::
    "('w, 'o) Files \<Rightarrow> 'w Memory \<Rightarrow> int32 \<Rightarrow> emuptr \<Rightarrow> emuptr \<Rightarrow> size_t \<Rightarrow> ('w, 'o, ssize_t) kprog" where
  "fcntl_readlinkat F M dfd filename buf bufsiz =
     on_err (MemReadString M filename) ENOENT (- 1) (\<lambda>path.
     if dfd \<noteq> AT_FDCWD then
       at_dir F I_ReadlinkFS dfd (- 1) (readlink_tail F M path buf bufsiz)
     else if implements F I_ReadlinkFS (GetFS F) then
       readlink_tail F M path buf bufsiz (GetFS F)
     else panic ''interface conversion: filesystem.ReadlinkFS'')"

section \<open>Contracts\<close>

lemma flags_put_eval:
  "m_flags s = Some m \<Longrightarrow> flags_put fd v s = Return () (m_flags_update (\<lambda>_. Some (m(fd := Some v))) s)"
  by (simp add: flags_put_def)

lemma bnd_flags_put:
  "m_flags s = Some m \<Longrightarrow>
     bnd (flags_put fd v) k s = k () (m_flags_update (\<lambda>_. Some (m(fd := Some v))) s)"
  by (simp add: bnd_def flags_put_eval)

lemma wlp_flags_put [wlp_simps]:
  "wlp (flags_put fd v) Q R s =
     (case gomap_put (m_flags s) fd v of
        None \<Rightarrow> R nil_map_panic s | Some m \<Rightarrow> Q () (m_flags_update (\<lambda>_. m) s))"
  by (simp add: wlp_def flags_put_def split: option.split)

lemma wlp_flags_get [wlp_simps]: "wlp (flags_get fd) Q R s = Q (gomap_index 0 (m_flags s) fd) s"
  by (simp add: flags_get_def wlp_simps)

lemma wlp_flags_delete [wlp_simps]:
  "wlp (flags_delete fd) Q R s = Q () (m_flags_update (\<lambda>m. gomap_delete m fd) s)"
  by (simp add: flags_delete_def wlp_simps)

lemma errno_keeps_flags [errno_rules]:
  "errno_keeps (flags_get fd)" "errno_keeps (flags_put fd v)" "errno_keeps (flags_delete fd)"
  by (auto simp: errno_keeps_def wlp_simps split: option.split)

lemma errno_spec_flags_get [errno_rules]: "errno_spec E r (flags_get fd)"
  by (rule errno_keeps_spec) (rule errno_keeps_flags)

lemma errno_spec_at_dir [errno_rules]:
  "{EBADF, ENOTDIR} \<subseteq> E \<Longrightarrow> (\<And>d. errno_spec E r (k d)) \<Longrightarrow> errno_spec E r (at_dir F I dfd r k)"
  by (auto simp: at_dir_def intro!: errno_rules)

lemma errno_spec_open_result [errno_rules]:
  "{EEXIST, ENOENT} \<subseteq> E \<Longrightarrow> errno_spec E (- 1) (open_result F flgs r)"
  by (auto simp: open_result_def split: sum.split intro!: errno_rules)

lemma errno_spec_writev_loop [errno_rules]:
  "EIO \<in> E \<Longrightarrow> errno_spec E (- 1) (writev_loop F M file n vs)"
  by (induction vs arbitrary: n) (auto split: prod.split intro!: errno_rules)

lemma errno_spec_readlink_tail [errno_rules]:
  "EINVAL \<in> E \<Longrightarrow> errno_spec E (- 1) (readlink_tail F M path buf bufsiz dir)"
  by (auto simp: readlink_tail_def Let_def intro!: errno_rules)

lemma fcntl_errno:
  "errno_spec {EBADF} (- 1) (fcntl_dup3 F oldfd newfd flgs)"
  "errno_spec {EBADF} (- 1) (fcntl_fcntl F fd cmd arg)"
  "errno_spec {ENOENT, EBADF, ENOTDIR} (- 1) (fcntl_faccessat F M dfd filename mode)"
  "errno_spec {ENOENT, EEXIST} (- 1) (fcntl_open F M filename flgs mode)"
  "errno_spec {ENOENT, EBADF, ENOTDIR, EEXIST} (- 1) (fcntl_openat F M dfd filename flgs mode)"
  "errno_spec {EBADF} (- 1) (fcntl_close F fd)"
  "errno_spec {EMFILE} (- 1) (fcntl_pipe2 F M fildes flgs)"
  "errno_spec {EBADF, EINVAL} (- 1) (fcntl_lseek F fd offset whence)"
  "errno_spec {EBADF, EINTR, EIO} (- 1) (fcntl_read F M fd buf count)"
  "errno_spec {EBADF, EINTR, EIO} (- 1) (fcntl_write F M fd buf count)"
  "errno_spec {EBADF, EINTR, EIO} (- 1) (fcntl_writev F M fd iov iovcnt)"
  "errno_spec {ENOENT, EBADF, ENOTDIR, EINVAL} (- 1) (fcntl_readlinkat F M dfd filename buf bufsiz)"
  by (auto simp: fcntl_dup3_def fcntl_fcntl_def fcntl_switch_def fcntl_faccessat_def fcntl_open_def fcntl_openat_def
      fcntl_close_def fcntl_pipe2_def fcntl_lseek_def fcntl_read_def fcntl_write_def
      fcntl_writev_def fcntl_readlinkat_def split: prod.split intro!: errno_rules)

lemma steps_flags:
  "steps only_fcntl (flags_get fd)" "steps only_fcntl (flags_put fd v)"
  "steps only_fcntl (flags_delete fd)"
  by (auto simp: steps_def wlp_simps only_fcntl_def split: option.split)

lemma steps_at_dir:
  "(\<And>d. steps only_fcntl (k d)) \<Longrightarrow> steps only_fcntl (at_dir F I dfd r k)"
  by (auto simp: at_dir_def intro!: ef.steps_rules)

lemma steps_open_result: "steps only_fcntl (open_result F flgs r)"
  by (auto simp: open_result_def split: sum.split intro!: ef.steps_rules steps_flags)

lemma steps_writev_loop: "steps only_world (writev_loop F M file n vs)"
  by (induction vs arbitrary: n) (auto split: prod.split intro!: ew.steps_rules)

lemma steps_at_dir_world:
  "(\<And>d. steps only_world (k d)) \<Longrightarrow> steps only_world (at_dir F I dfd r k)"
  by (auto simp: at_dir_def intro!: ew.steps_rules)

lemma steps_readlink_tail: "steps only_world (readlink_tail F M path buf bufsiz dir)"
  by (auto simp: readlink_tail_def Let_def intro!: ew.steps_rules)

lemma fcntl_steps:
  "steps only_fcntl (fcntl_dup3 F oldfd newfd flgs)"
  "steps only_fcntl (fcntl_fcntl F fd cmd arg)"
  "steps only_fcntl (fcntl_open F M filename flgs mode)"
  "steps only_fcntl (fcntl_openat F M dfd filename flgs mode)"
  "steps only_fcntl (fcntl_close F fd)"
  "steps only_fcntl (fcntl_pipe2 F M fildes flgs)"
  by (auto simp: fcntl_dup3_def fcntl_fcntl_def fcntl_switch_def fcntl_open_def fcntl_openat_def
      fcntl_close_def fcntl_pipe2_def split: prod.split
      intro!: ef.steps_rules steps_flags steps_at_dir steps_open_result)

lemma fcntl_steps_world:
  "steps only_world (fcntl_faccessat F M dfd filename mode)"
  "steps only_world (fcntl_lseek F fd offset whence)"
  "steps only_world (fcntl_read F M fd buf count)"
  "steps only_world (fcntl_write F M fd buf count)"
  "steps only_world (fcntl_writev F M fd iov iovcnt)"
  "steps only_world (fcntl_readlinkat F M dfd filename buf bufsiz)"
  by (auto simp: fcntl_faccessat_def fcntl_lseek_def fcntl_read_def fcntl_write_def
      fcntl_writev_def fcntl_readlinkat_def split: prod.split
      intro!: ew.steps_rules steps_at_dir_world steps_writev_loop
        steps_readlink_tail)

end
