(* ===== verification/Ref_Host.thy ===== *)
theory Ref_Host
  imports Contracts Go_IO
begin

text \<open>
  A reference environment: concrete files, memory, tasks and host over one record of state. The
  theorems of the development are about every environment that meets their named hypotheses; this
  one shows that the hypotheses can be met, and the examples that accompany the theorems are
  computed in it. The descriptor table is a list, a new descriptor goes to its end; file number \<open>i\<close>
  gives the bytes of \<open>h_input i\<close> and collects what is written to it in \<open>h_output i\<close>; the memory is
  flat, and the structs that the kernel stores in it are kept in the list \<open>h_structs\<close>, the latest
  first.
\<close>

section \<open>State\<close>

datatype hobj = HFile nat | HDir | HTask int32 | HHook

record hostw =
  h_fds :: "hobj option list"
  h_input :: "nat \<Rightarrow> byte list"
  h_output :: "nat \<Rightarrow> byte list"
  h_files :: nat
  h_mem :: "emuptr \<Rightarrow> byte"
  h_structs :: "(emuptr \<times> memval) list"
  h_regs :: "(reg \<times> uint64) list"
  h_tasks :: int32

definition host_start :: hostw where
  "host_start = \<lparr>h_fds = [], h_input = (\<lambda>_. []), h_output = (\<lambda>_. []), h_files = 0,
     h_mem = (\<lambda>_. 0), h_structs = [], h_regs = [], h_tasks = 1\<rparr>"

definition host_failure :: go_error where
  "host_failure = Sentinel ''failure''"

section \<open>Files\<close>

definition host_tbl :: "hostw \<Rightarrow> int \<Rightarrow> hobj option" where
  "host_tbl w fd =
     (if 0 \<le> fd \<and> fd < int (length (h_fds w)) then h_fds w ! nat fd else None)"

definition host_GetFile :: "int \<Rightarrow> (hostw, hobj) ioe" where
  "host_GetFile fd w = (case host_tbl w fd of None \<Rightarrow> Inl host_failure | Some f \<Rightarrow> Inr f, w)"

definition host_Create :: "hobj \<Rightarrow> (hostw, int) io" where
  "host_Create f w = (int (length (h_fds w)), w\<lparr>h_fds := h_fds w @ [Some f]\<rparr>)"

definition host_Dup :: "int \<Rightarrow> (hostw, int) ioe" where
  "host_Dup fd w = (case host_tbl w fd of
     None \<Rightarrow> (Inl host_failure, w)
   | Some f \<Rightarrow> (case host_Create f w of (n, w') \<Rightarrow> (Inr n, w')))"

definition host_Dup2 :: "int \<Rightarrow> int \<Rightarrow> (hostw, unit) ioe" where
  "host_Dup2 old new w = (case host_tbl w old of
     None \<Rightarrow> (Inl host_failure, w)
   | Some f \<Rightarrow>
       if new < 0 then (Inl host_failure, w)
       else (Inr (), w\<lparr>h_fds :=
         (h_fds w @ replicate (Suc (nat new) - length (h_fds w)) None)[nat new := Some f]\<rparr>))"

definition host_CloseFd :: "int \<Rightarrow> (hostw, hobj) ioe" where
  "host_CloseFd fd w = (case host_tbl w fd of
     None \<Rightarrow> (Inl host_failure, w)
   | Some f \<Rightarrow> (Inr f, w\<lparr>h_fds := (h_fds w)[nat fd := None]\<rparr>))"

fun host_Read :: "hobj \<Rightarrow> nat \<Rightarrow> (hostw, byte list \<times> go_error option) io" where
  "host_Read (HFile i) n w =
     (let bs = take n (h_input w i) in
      ((bs, if bs = [] then Some io_EOF else None),
       w\<lparr>h_input := (h_input w)(i := drop n (h_input w i))\<rparr>))"
| "host_Read _ n w = (([], Some host_failure), w)"

fun host_Write :: "hobj \<Rightarrow> byte list \<Rightarrow> (hostw, int \<times> go_error option) io" where
  "host_Write (HFile i) bs w =
     ((int (length bs), None), w\<lparr>h_output := (h_output w)(i := h_output w i @ bs)\<rparr>)"
| "host_Write _ bs w = ((0, Some host_failure), w)"

definition host_open :: "(hostw, hobj) ioe" where
  "host_open w = (Inr (HFile (h_files w)), w\<lparr>h_files := Suc (h_files w)\<rparr>)"

fun host_implements :: "iface \<Rightarrow> hobj \<Rightarrow> bool" where
  "host_implements I (HFile i) = (I = I_Reader \<or> I = I_Writer \<or> I = I_ReadFile)"
| "host_implements I HDir = (I = I_FS \<or> I = I_ReadlinkFS \<or> I = I_fs_FS \<or> I = I_fs_StatFS)"
| "host_implements I _ = False"

fun host_FileFlag :: "fileflag \<Rightarrow> gint" where
  "host_FileFlag FF_RDONLY = 0"
| "host_FileFlag FF_WRONLY = 1"
| "host_FileFlag FF_RDWR = 2"
| "host_FileFlag FF_APPEND = 0x400"
| "host_FileFlag FF_CREATE = 0x40"
| "host_FileFlag FF_EXCL = 0x80"
| "host_FileFlag FF_SYNC = 0x101000"
| "host_FileFlag FF_TRUNC = 0x200"

definition host_info :: FileInfo where
  "host_info = \<lparr>fi_mode = 420, fi_size = 5, fi_nano = 1500000000\<rparr>"

definition host_Files :: "(hostw, hobj) Files" where
  "host_Files = \<lparr>implements = host_implements, FileFlag = host_FileFlag, GetFile = host_GetFile,
     DupFile = host_Dup, Dup2File = host_Dup2, CreateFileDescriptor = host_Create,
     CloseFileDescriptor = host_CloseFd, GetFS = HDir, dbg_OpenFile = (\<lambda>p f m. host_open),
     fs_OpenFile = (\<lambda>d p f m. host_open), fs_Open = (\<lambda>d p. host_open),
     fs_StatFS_Stat = (\<lambda>d p w. (Inr host_info, w)), fs_Readlink = (\<lambda>d p w. (Inr ''target'', w)),
     file_Stat = (\<lambda>f w. (Inr host_info, w)), file_Close = (\<lambda>f w. (Inr (), w)),
     file_Read = host_Read, file_Write = host_Write,
     file_ReadFrom = (\<lambda>f b n w. ((0, Some host_failure), w)),
     file_Seek = (\<lambda>f off wh w. (Inr off, w)), file_Control = (\<lambda>f c a w. (Inr (), w)),
     os_Pipe = (\<lambda>w. (Inr (HFile (h_files w), HFile (Suc (h_files w))),
       w\<lparr>h_files := h_files w + 2\<rparr>))\<rparr>"

section \<open>Memory\<close>

definition host_bytes :: "hostw \<Rightarrow> emuptr \<Rightarrow> nat \<Rightarrow> byte list" where
  "host_bytes w p n = map (\<lambda>i. h_mem w (p + word_of_nat i)) [0..<n]"

definition host_store :: "emuptr \<Rightarrow> byte list \<Rightarrow> hostw \<Rightarrow> hostw" where
  "host_store p bs w =
     w\<lparr>h_mem := (\<lambda>q. if unat (q - p) < length bs then bs ! unat (q - p) else h_mem w q)\<rparr>"

definition host_struct :: "emuptr \<Rightarrow> (memval \<Rightarrow> 'a option) \<Rightarrow> (hostw, 'a) ioe" where
  "host_struct p f w =
     (case Option.bind (map_of (h_structs w) p) f of None \<Rightarrow> Inl host_failure | Some a \<Rightarrow> Inr a, w)"

definition host_Memory :: "hostw Memory" where
  "host_Memory = \<lparr>
     MemReadString = (\<lambda>p w. (Inr (map (\<lambda>b. char_of (unat b)) (takeWhile (\<lambda>b. b \<noteq> 0) (host_bytes w p 64))), w)),
     MemReadPtr = (\<lambda>p n w. (Inr (host_bytes w p n), w)),
     MemWritePtr = (\<lambda>p bs w. (Inr (), host_store p bs w)),
     MemReadAt = (\<lambda>b n off w. ((host_bytes w (b + word_of_int off) n, None), w)),
     MemWriteAt = (\<lambda>b bs off w. ((int (length bs), None), host_store (b + word_of_int off) bs w)),
     MemWrite = (\<lambda>p v w. (Inr 0, w\<lparr>h_structs := (p, v) # h_structs w\<rparr>)),
     Extract_timespec = (\<lambda>p. host_struct p (\<lambda>v. case v of MV_timespec t \<Rightarrow> Some t | _ \<Rightarrow> None)),
     Extract_sigaction = (\<lambda>p. host_struct p (\<lambda>v. case v of MV_sigaction t \<Rightarrow> Some t | _ \<Rightarrow> None)),
     Extract_sigset = (\<lambda>p. host_struct p (\<lambda>v. case v of MV_sigset t \<Rightarrow> Some t | _ \<Rightarrow> None)),
     Extract_siginfo = (\<lambda>p w. (Inl host_failure, w)),
     Extract_iovecs = (\<lambda>p n w. (replicate n \<lparr>iov_base = p, iov_len = 2\<rparr>, w)),
     MapAlloc = (\<lambda>n prot w. (Inr 0x1000, w)),
     MapFree = (\<lambda>p n w. (Inr (), w)),
     MemMap = (\<lambda>p n prot w. (Inr p, w)),
     MemUnmap = (\<lambda>p n w. (Inr (), w)),
     MemProtect = (\<lambda>p n prot w. (Inr (), w))\<rparr>"

section \<open>Tasks and host\<close>

definition host_reg :: "reg \<Rightarrow> hostw \<Rightarrow> uint64" where
  "host_reg r w = (case map_of (h_regs w) r of None \<Rightarrow> 0 | Some v \<Rightarrow> v)"

fun host_task_ID :: "hobj \<Rightarrow> gint" where
  "host_task_ID (HTask n) = scast n"
| "host_task_ID _ = 0"

definition host_Tasks :: "(hostw, hobj) Tasks" where
  "host_Tasks = \<lparr>Arch = ARCH_ARM64,
     ARM_INTR_EXCP_SWI = 2,
     RegRead = (\<lambda>r w. (Inr (host_reg r w), w)),
     RegReadBatch = (\<lambda>rs w. (Inr (map (\<lambda>r. host_reg r w) rs), w)),
     RegWrite = (\<lambda>r v w. (Inr (), w\<lparr>h_regs := (r, v) # h_regs w\<rparr>)),
     StackSize = (\<lambda>w. (0x800000, w)),
     TaskID = (\<lambda>w. (1, w)),
     TaskFork = (\<lambda>w. (Inr (HTask (h_tasks w + 1)), w\<lparr>h_tasks := h_tasks w + 1\<rparr>)),
     CallTaskOf = (\<lambda>t fn w. (Inr (), w)),
     Extract_call = (\<lambda>p w. ((0x4000, 7), w)),
     task_RetWrite_nil = (\<lambda>t w. (Inr (), w)),
     task_RegWrite = (\<lambda>t r v w. (Inr (), w)),
     task_ArgWrite = (\<lambda>t v w. (Inr (), w)),
     task_Run = (\<lambda>t w. (Inr (), w)),
     task_ID = (\<lambda>t w. (host_task_ID t, w)),
     task_Done = (\<lambda>t w. Some ((), w)),
     task_Close = (\<lambda>t w. (Inr (), w)),
     AddHook_intr = (\<lambda>cb w. (Inr HHook, w)),
     hook_Close = (\<lambda>h w. (Inr (), w))\<rparr>"

definition host_Host :: "(hostw, hobj) Host" where
  "host_Host = \<lparr>NewSocket = (\<lambda>n. host_open),
     C_clock_gettime = (\<lambda>c w. ((0, 100, 500), w)),
     time_Now = (\<lambda>w. (\<lparr>time_Unix = 100, time_Nanosecond = 5000, time_ZoneOffset = 3600\<rparr>, w)),
     os_Getpid = (\<lambda>w. (42, w)),
     host_Uptime = (\<lambda>w. (Inr 1000, w)),
     mem_VirtualMemory = (\<lambda>w. (Inr \<lparr>vm_Total = 4096, vm_Free = 1024, vm_Shared = 0, vm_Buffers = 0\<rparr>, w)),
     mem_SwapMemory = (\<lambda>w. (Inr \<lparr>sm_Total = 0, sm_Free = 0\<rparr>, w)),
     process_Pids = (\<lambda>w. (Inr [1, 42], w)),
     rand_Reader = host_Read (HFile 99)\<rparr>"

section \<open>The state of the machine\<close>

definition host_machine :: "hostw \<Rightarrow> (hostw, hobj) machine" where
  "host_machine w = \<lparr>kernel = \<lparr>sys = \<lparr>sys_fcntl = \<lparr>flags = Some Map.empty\<rparr>,
       sys_futex = \<lparr>awaits = Some Map.empty, bitAwaits = Some Map.empty, nchan = 0, closed = {}\<rparr>,
       sys_signal = \<lparr>sigset = 0, sigtable = Some Map.empty\<rparr>,
       sys_sched = \<lparr>tasks = Map.empty, reapers = []\<rparr>\<rparr>, err = 0, intrHook = None\<rparr>, world = w\<rparr>"

lemma host_machine_simps [simp]:
  "world (host_machine w) = w" "m_err (host_machine w) = 0" "m_flags (host_machine w) = Some Map.empty"
  "m_signal (host_machine w) = \<lparr>sigset = 0, sigtable = Some Map.empty\<rparr>"
  "m_tasks (host_machine w) = Map.empty"
  by (simp_all add: host_machine_def)

section \<open>The environment meets the contracts of input and output\<close>

lemma host_byte_source: "byte_source (host_Read (HFile i)) (\<lambda>w. h_input w i)"
  by (auto simp: byte_source_def Let_def)

lemma host_byte_sink: "byte_sink (host_Write (HFile i)) (\<lambda>w. h_output w i)"
  by (simp add: byte_sink_def)

lemma host_progress: "progress (host_Read f)"
  by (cases f) (auto simp: progress_def Let_def)

text \<open>A buffer of \<open>L\<close> bytes at \<open>b\<close>.\<close>

definition host_buf :: "emuptr \<Rightarrow> int \<Rightarrow> hostw \<Rightarrow> int \<Rightarrow> byte" where
  "host_buf b L w a = (if 0 \<le> a \<and> a < L then h_mem w (b + word_of_int a) else 0)"

lemma unat_word_diff:
  fixes b :: "64 word"
  assumes "0 \<le> a" "a < 2 ^ 64" "0 \<le> off" "off < 2 ^ 64"
  shows "int (unat (b + word_of_int a - (b + word_of_int off))) =
    (if off \<le> a then a - off else a - off + 2 ^ 64)"
proof -
  have "b + word_of_int a - (b + word_of_int off) = (word_of_int (a - off) :: 64 word)"
    by simp
  moreover have "int (unat (word_of_int k :: 64 word)) = k mod 2 ^ 64" for k
    by (simp add: uint_word_of_int)
  ultimately have "int (unat (b + word_of_int a - (b + word_of_int off))) = (a - off) mod 2 ^ 64"
    by (simp only:)
  also have "\<dots> = (if off \<le> a then a - off else a - off + 2 ^ 64)"
  proof (cases "off \<le> a")
    case True
    have "(a - off) mod 2 ^ 64 = a - off" using assms True by (intro mod_pos_pos_trivial) linarith+
    with True show ?thesis by simp
  next
    case False
    have "(a - off) mod 2 ^ 64 = (a - off + 2 ^ 64) mod 2 ^ 64" by (rule mod_add_self2 [symmetric])
    also have "\<dots> = a - off + 2 ^ 64" using assms False by (intro mod_pos_pos_trivial) linarith+
    finally show ?thesis using False by simp
  qed
  finally show ?thesis .
qed

lemma host_store_nth:
  fixes b :: emuptr
  assumes "0 \<le> a" "a < L" "0 \<le> off" "off + int (length bs) \<le> L" "L \<le> 2 ^ 64" "bs \<noteq> []"
  shows "h_mem (host_store (b + word_of_int off) bs w) (b + word_of_int a) =
    (if off \<le> a \<and> a < off + int (length bs) then bs ! nat (a - off) else h_mem w (b + word_of_int a))"
proof -
  define d where "d = unat (b + word_of_int a - (b + word_of_int off))"
  have "0 < int (length bs)" using assms(6) by simp
  then have d: "int d = (if off \<le> a then a - off else a - off + 2 ^ 64)"
    unfolding d_def using assms(1-5) by (intro unat_word_diff) linarith+
  have "d < length bs \<longleftrightarrow> off \<le> a \<and> a < off + int (length bs)"
  proof (cases "off \<le> a")
    case True
    with d have "int d = a - off" by simp
    with True show ?thesis by linarith
  next
    case False
    with d have "int d = a - off + 2 ^ 64" by simp
    with False assms(1-5) show ?thesis by linarith
  qed
  moreover have "nat (a - off) = d" if "off \<le> a" using d that by simp
  moreover have "h_mem (host_store (b + word_of_int off) bs w) (b + word_of_int a) =
      (if d < length bs then bs ! d else h_mem w (b + word_of_int a))"
    by (simp only: host_store_def d_def) simp
  ultimately show ?thesis by (simp only: if_split_asm) metis
qed

lemma host_store_buf:
  assumes "0 \<le> off" "off + int (length bs) \<le> L" "L \<le> 2 ^ 64"
  shows "host_buf b L (host_store (b + word_of_int off) bs w) = write_bytes (host_buf b L w) off bs"
proof
  fix a
  consider "bs = []" | "a < 0 \<or> L \<le> a" | "bs \<noteq> []" "0 \<le> a" "a < L" by linarith
  then show "host_buf b L (host_store (b + word_of_int off) bs w) a = write_bytes (host_buf b L w) off bs a"
  proof cases
    case 1
    then show ?thesis by (simp add: host_store_def)
  next
    case 2
    then have "\<not> (off \<le> a \<and> a < off + int (length bs))" "\<not> (0 \<le> a \<and> a < L)"
      using assms by linarith+
    then show ?thesis by (simp only: host_buf_def write_bytes_def if_False)
  next
    case 3
    with host_store_nth [OF 3(2,3) assms 3(1)] show ?thesis
      by (simp only: host_buf_def write_bytes_def) simp
  qed
qed

lemma host_mem_sink: "L \<le> 2 ^ 64 \<Longrightarrow> mem_sink L (MemWriteAt host_Memory b) (host_buf b L)"
  by (auto simp: mem_sink_def host_Memory_def host_store_buf)

lemma host_mem_source: "mem_source L (MemReadAt host_Memory b) (host_buf b L)"
  by (auto simp: mem_source_def host_Memory_def host_buf_def host_bytes_def wi_hom_add [symmetric] add.assoc)

lemma host_copy_frame:
  "copy_frame (host_Read (HFile i)) (\<lambda>w. h_input w i) (MemWriteAt host_Memory b) (host_buf b L)"
  by (auto simp: copy_frame_def host_Memory_def host_store_def host_buf_def Let_def)

lemma host_write_frame:
  "write_frame (MemReadAt host_Memory b) (host_buf b L) (host_Write (HFile i)) (\<lambda>w. h_output w i)"
  by (auto simp: write_frame_def host_Memory_def host_buf_def)

lemma host_progress_at: "progress_at (MemReadAt host_Memory b)"
  by (auto simp: progress_at_def host_Memory_def host_bytes_def)

text \<open>One open file with three bytes to read, and three bytes in memory.\<close>

definition host_one_file :: hostw where
  "host_one_file = host_start\<lparr>h_fds := [Some (HFile 0)], h_input := (\<lambda>_. [1, 2, 3]),
     h_mem := (\<lambda>p. if p = 64 then 7 else if p = 65 then 8 else 0)\<rparr>"

lemma host_one_file_simps [simp]:
  "h_input host_one_file i = [1, 2, 3]" "h_output host_one_file i = []"
  "h_mem host_one_file = (\<lambda>p. if p = 64 then 7 else if p = 65 then 8 else 0)"
  "host_GetFile 0 host_one_file = (Inr (HFile 0), host_one_file)"
  by (simp_all add: host_one_file_def host_start_def host_GetFile_def host_tbl_def)

lemma host_Files_simps [simp]:
  "implements host_Files = host_implements"
  "FileFlag host_Files = host_FileFlag"
  "GetFile host_Files = host_GetFile"
  "DupFile host_Files = host_Dup"
  "Dup2File host_Files = host_Dup2"
  "CreateFileDescriptor host_Files = host_Create"
  "CloseFileDescriptor host_Files = host_CloseFd"
  "GetFS host_Files = HDir"
  "dbg_OpenFile host_Files = (\<lambda>p f m. host_open)"
  "fs_OpenFile host_Files = (\<lambda>d p f m. host_open)"
  "fs_Open host_Files = (\<lambda>d p. host_open)"
  "fs_StatFS_Stat host_Files = (\<lambda>d p w. (Inr host_info, w))"
  "fs_Readlink host_Files = (\<lambda>d p w. (Inr ''target'', w))"
  "file_Stat host_Files = (\<lambda>f w. (Inr host_info, w))"
  "file_Close host_Files = (\<lambda>f w. (Inr (), w))"
  "file_Read host_Files = host_Read"
  "file_Write host_Files = host_Write"
  "file_ReadFrom host_Files = (\<lambda>f b n w. ((0, Some host_failure), w))"
  "file_Seek host_Files = (\<lambda>f off wh w. (Inr off, w))"
  "file_Control host_Files = (\<lambda>f c a w. (Inr (), w))"
  "os_Pipe host_Files = (\<lambda>w. (Inr (HFile (h_files w), HFile (Suc (h_files w))), w\<lparr>h_files := h_files w + 2\<rparr>))"
  by (simp_all add: host_Files_def)

lemma host_Memory_simps [simp]:
  "MemReadString host_Memory = (\<lambda>p w. (Inr (map (\<lambda>b. char_of (unat b)) (takeWhile (\<lambda>b. b \<noteq> 0) (host_bytes w p 64))), w))"
  "MemReadPtr host_Memory = (\<lambda>p n w. (Inr (host_bytes w p n), w))"
  "MemWritePtr host_Memory = (\<lambda>p bs w. (Inr (), host_store p bs w))"
  "MemReadAt host_Memory = (\<lambda>b n off w. ((host_bytes w (b + word_of_int off) n, None), w))"
  "MemWriteAt host_Memory = (\<lambda>b bs off w. ((int (length bs), None), host_store (b + word_of_int off) bs w))"
  "MemWrite host_Memory = (\<lambda>p v w. (Inr 0, w\<lparr>h_structs := (p, v) # h_structs w\<rparr>))"
  "Extract_timespec host_Memory = (\<lambda>p. host_struct p (\<lambda>v. case v of MV_timespec t \<Rightarrow> Some t | _ \<Rightarrow> None))"
  "Extract_sigaction host_Memory = (\<lambda>p. host_struct p (\<lambda>v. case v of MV_sigaction t \<Rightarrow> Some t | _ \<Rightarrow> None))"
  "Extract_sigset host_Memory = (\<lambda>p. host_struct p (\<lambda>v. case v of MV_sigset t \<Rightarrow> Some t | _ \<Rightarrow> None))"
  "Extract_siginfo host_Memory = (\<lambda>p w. (Inl host_failure, w))"
  "Extract_iovecs host_Memory = (\<lambda>p n w. (replicate n \<lparr>iov_base = p, iov_len = 2\<rparr>, w))"
  "MapAlloc host_Memory = (\<lambda>n prot w. (Inr 0x1000, w))"
  "MapFree host_Memory = (\<lambda>p n w. (Inr (), w))"
  "MemMap host_Memory = (\<lambda>p n prot w. (Inr p, w))"
  "MemUnmap host_Memory = (\<lambda>p n w. (Inr (), w))"
  "MemProtect host_Memory = (\<lambda>p n prot w. (Inr (), w))"
  by (simp_all add: host_Memory_def)

lemma host_Tasks_simps [simp]:
  "Arch host_Tasks = ARCH_ARM64"
  "ARM_INTR_EXCP_SWI host_Tasks = 2"
  "RegRead host_Tasks = (\<lambda>r w. (Inr (host_reg r w), w))"
  "RegReadBatch host_Tasks = (\<lambda>rs w. (Inr (map (\<lambda>r. host_reg r w) rs), w))"
  "RegWrite host_Tasks = (\<lambda>r v w. (Inr (), w\<lparr>h_regs := (r, v) # h_regs w\<rparr>))"
  "StackSize host_Tasks = (\<lambda>w. (0x800000, w))"
  "TaskID host_Tasks = (\<lambda>w. (1, w))"
  "TaskFork host_Tasks = (\<lambda>w. (Inr (HTask (h_tasks w + 1)), w\<lparr>h_tasks := h_tasks w + 1\<rparr>))"
  "CallTaskOf host_Tasks = (\<lambda>t fn w. (Inr (), w))"
  "Extract_call host_Tasks = (\<lambda>p w. ((0x4000, 7), w))"
  "task_RetWrite_nil host_Tasks = (\<lambda>t w. (Inr (), w))"
  "task_RegWrite host_Tasks = (\<lambda>t r v w. (Inr (), w))"
  "task_ArgWrite host_Tasks = (\<lambda>t v w. (Inr (), w))"
  "task_Run host_Tasks = (\<lambda>t w. (Inr (), w))"
  "task_ID host_Tasks = (\<lambda>t w. (host_task_ID t, w))"
  "task_Done host_Tasks = (\<lambda>t w. Some ((), w))"
  "task_Close host_Tasks = (\<lambda>t w. (Inr (), w))"
  "AddHook_intr host_Tasks = (\<lambda>cb w. (Inr HHook, w))"
  "hook_Close host_Tasks = (\<lambda>h w. (Inr (), w))"
  by (simp_all add: host_Tasks_def)

lemma host_Host_simps [simp]:
  "NewSocket host_Host = (\<lambda>n. host_open)"
  "C_clock_gettime host_Host = (\<lambda>c w. ((0, 100, 500), w))"
  "time_Now host_Host = (\<lambda>w. (\<lparr>time_Unix = 100, time_Nanosecond = 5000, time_ZoneOffset = 3600\<rparr>, w))"
  "os_Getpid host_Host = (\<lambda>w. (42, w))"
  "host_Uptime host_Host = (\<lambda>w. (Inr 1000, w))"
  "mem_VirtualMemory host_Host = (\<lambda>w. (Inr \<lparr>vm_Total = 4096, vm_Free = 1024, vm_Shared = 0, vm_Buffers = 0\<rparr>, w))"
  "mem_SwapMemory host_Host = (\<lambda>w. (Inr \<lparr>sm_Total = 0, sm_Free = 0\<rparr>, w))"
  "process_Pids host_Host = (\<lambda>w. (Inr [1, 42], w))"
  "rand_Reader host_Host = host_Read (HFile 99)"
  by (simp_all add: host_Host_def)

end
