(* ===== verification/Fd_Table.thy ===== *)
theory Fd_Table
  imports Fcntl Ref_Host
begin

text \<open>
  The descriptor table that the file calls promise, as an abstract specification, and the proof that
  the handlers of \<open>Fcntl\<close> implement it.

  In the program the table is split: the debugger library maps descriptors to files, the kernel's
  \<open>flags\<close> map holds the open flags. The specification has one table from descriptors to a file with
  its flags and a relation \<open>fd_spec\<close> that says what each call may do to it. What the proof needs of
  the library is named: \<open>fd_laws\<close> (its descriptor operations are those of a table) and \<open>fd_frame\<close>
  (its other operations leave the table alone).
\<close>

section \<open>The library's descriptor table\<close>

definition fd_laws :: "('w, 'o) Files \<Rightarrow> ('w \<Rightarrow> int \<Rightarrow> 'o option) \<Rightarrow> bool" where
  "fd_laws F tbl \<longleftrightarrow>
     (\<forall>fd w x w'. GetFile F fd w = (x, w') \<longrightarrow> tbl w' = tbl w \<and>
        (case x of Inl _ \<Rightarrow> tbl w fd = None | Inr f \<Rightarrow> tbl w fd = Some f)) \<and>
     (\<forall>f w fd w'. CreateFileDescriptor F f w = (fd, w') \<longrightarrow>
        tbl w fd = None \<and> tbl w' = (tbl w)(fd := Some f)) \<and>
     (\<forall>fd w x w'. DupFile F fd w = (x, w') \<longrightarrow>
        (case x of Inl _ \<Rightarrow> tbl w' = tbl w
         | Inr n \<Rightarrow> tbl w fd \<noteq> None \<and> tbl w n = None \<and> tbl w' = (tbl w)(n := tbl w fd))) \<and>
     (\<forall>old new w x w'. Dup2File F old new w = (x, w') \<longrightarrow>
        (case x of Inl _ \<Rightarrow> tbl w' = tbl w
         | Inr _ \<Rightarrow> tbl w old \<noteq> None \<and> tbl w' = (tbl w)(new := tbl w old))) \<and>
     (\<forall>fd w x w'. CloseFileDescriptor F fd w = (x, w') \<longrightarrow>
        (case x of Inl _ \<Rightarrow> tbl w fd = None \<and> tbl w' = tbl w
         | Inr f \<Rightarrow> tbl w fd = Some f \<and> tbl w' = (tbl w)(fd := None)))"

definition fd_frame :: "('w, 'o) Files \<Rightarrow> 'w Memory \<Rightarrow> ('w \<Rightarrow> int \<Rightarrow> 'o option) \<Rightarrow> bool" where
  "fd_frame F M tbl \<longleftrightarrow>
     (\<forall>p w. tbl (snd (MemReadString M p w)) = tbl w) \<and>
     (\<forall>p v w. tbl (snd (MemWrite M p v w)) = tbl w) \<and>
     (\<forall>p f m w. tbl (snd (dbg_OpenFile F p f m w)) = tbl w) \<and>
     (\<forall>d p f m w. tbl (snd (fs_OpenFile F d p f m w)) = tbl w) \<and>
     (\<forall>f w. tbl (snd (file_Close F f w)) = tbl w) \<and>
     (\<forall>w. tbl (snd (os_Pipe F w)) = tbl w)"

section \<open>The calls and their specification\<close>

datatype fd_call =
    Dup3 uint32 uint32 int32
  | Fcntl uint32 uint32 ulong_t
  | Open emuptr int32 int32
  | Openat int32 emuptr int32 int32
  | Close uint32
  | Pipe2 emuptr int32

fun do_fd_call :: "('w, 'o) Files \<Rightarrow> 'w Memory \<Rightarrow> fd_call \<Rightarrow> ('w, 'o, int32) kprog" where
  "do_fd_call F M (Dup3 old new fl) = fcntl_dup3 F old new fl"
| "do_fd_call F M (Fcntl fd cmd arg) = fcntl_fcntl F fd cmd arg"
| "do_fd_call F M (Open p fl m) = fcntl_open F M p fl m"
| "do_fd_call F M (Openat d p fl m) = fcntl_openat F M d p fl m"
| "do_fd_call F M (Close fd) = fcntl_close F fd"
| "do_fd_call F M (Pipe2 p fl) = fcntl_pipe2 F M p fl"

text \<open>The commands that \<open>fcntl\<close> knows; for another one on an open descriptor it panics.\<close>

definition fcntl_known :: "uint32 \<Rightarrow> bool" where
  "fcntl_known cmd \<longleftrightarrow> cmd \<in> {F_DUPFD, F_GETFD, F_SETFD, F_GETFL, F_SETFL, F_GETLK, F_GETLK64,
     F_SETLK, F_SETLKW, F_SETLK64, F_SETLKW64}"

fun fd_call_known :: "fd_call \<Rightarrow> bool" where
  "fd_call_known (Fcntl fd cmd arg) = fcntl_known cmd"
| "fd_call_known c = True"

type_synonym 'o fd_table = "int \<Rightarrow> ('o \<times> int32) option"

inductive fd_spec :: "fd_call \<Rightarrow> 'o fd_table \<Rightarrow> int32 \<Rightarrow> 'o fd_table \<Rightarrow> bool" where
  dup3_fail: "fd_spec (Dup3 old new fl) T (- 1) T"
| dup3: "T (uint old) = Some (f, v) \<Longrightarrow>
    fd_spec (Dup3 old new fl) T new (T(uint new := Some (f, fl)))"
| fcntl_badf: "T (uint fd) = None \<Longrightarrow> fd_spec (Fcntl fd cmd arg) T (- 1) T"
| dupfd_fail: "fd_spec (Fcntl fd F_DUPFD arg) T (- 1) T"
| dupfd: "T (uint fd) = Some x \<Longrightarrow> T n = None \<Longrightarrow>
    fd_spec (Fcntl fd F_DUPFD arg) T (word_of_int n) (T(n := Some x))"
| getfd: "T (uint fd) = Some (f, v) \<Longrightarrow>
    fd_spec (Fcntl fd F_GETFD arg) T (if v AND O_CLOEXEC \<noteq> 0 then 1 else 0) T"
| setfd: "T (uint fd) = Some (f, v) \<Longrightarrow>
    fd_spec (Fcntl fd F_SETFD arg) T 0 (T(uint fd := Some (f, v OR O_CLOEXEC)))"
| getfl: "T (uint fd) = Some (f, v) \<Longrightarrow> fd_spec (Fcntl fd F_GETFL arg) T v T"
| setfl: "T (uint fd) = Some (f, v) \<Longrightarrow>
    fd_spec (Fcntl fd F_SETFL arg) T 0 (T(uint fd := Some (f, ucast arg)))"
| locks: "T (uint fd) = Some x \<Longrightarrow>
    cmd \<in> {F_GETLK, F_GETLK64, F_SETLK, F_SETLKW, F_SETLK64, F_SETLKW64} \<Longrightarrow>
    fd_spec (Fcntl fd cmd arg) T 0 T"
| open_fail: "fd_spec (Open p fl m) T (- 1) T"
| open_ok: "T fd = None \<Longrightarrow> fd_spec (Open p fl m) T (word_of_int fd) (T(fd := Some (f, fl)))"
| openat_fail: "fd_spec (Openat d p fl m) T (- 1) T"
| openat_ok: "T fd = None \<Longrightarrow> fd_spec (Openat d p fl m) T (word_of_int fd) (T(fd := Some (f, fl)))"
| close_badf: "T (uint fd) = None \<Longrightarrow> fd_spec (Close fd) T (- 1) T"
| close_ok: "T (uint fd) \<noteq> None \<Longrightarrow> fd_spec (Close fd) T 0 (T(uint fd := None))"
| pipe2_fail: "fd_spec (Pipe2 p fl) T (- 1) T"
| pipe2_ok: "T r = None \<Longrightarrow> T w = None \<Longrightarrow> r \<noteq> w \<Longrightarrow>
    fd_spec (Pipe2 p fl) T 0 (T(r := Some (fr, fl), w := Some (fw, fl)))"

inductive_cases fd_spec_CloseE: "fd_spec (Close fd) T r T'"
inductive_cases fd_spec_OpenE: "fd_spec (Open p fl m) T r T'"

text \<open>
  The abstract table of a state, and the invariant that ties the two halves together: the flag map
  exists and has entries for open descriptors only.
\<close>

definition fd_abs :: "('w \<Rightarrow> int \<Rightarrow> 'o option) \<Rightarrow> ('w, 'o) machine \<Rightarrow> 'o fd_table" where
  "fd_abs tbl s fd = map_option (\<lambda>f. (f, gomap_index 0 (m_flags s) fd)) (tbl (world s) fd)"

definition fd_inv :: "('w \<Rightarrow> int \<Rightarrow> 'o option) \<Rightarrow> ('w, 'o) machine \<Rightarrow> bool" where
  "fd_inv tbl s \<longleftrightarrow> (\<exists>m. m_flags s = Some m \<and> dom m \<subseteq> dom (tbl (world s)))"

section \<open>The handlers implement the specification\<close>

lemma snd_eqD: "f = (x, w1) \<Longrightarrow> tbl (snd f) = t \<Longrightarrow> tbl w1 = t"
  by simp

lemma fd_frameD:
  assumes "fd_frame F M tbl"
  shows "MemReadString M p w = (x1, w1) \<Longrightarrow> tbl w1 = tbl w"
    and "MemWrite M p v w = (x2, w1) \<Longrightarrow> tbl w1 = tbl w"
    and "dbg_OpenFile F q f m w = (x3, w1) \<Longrightarrow> tbl w1 = tbl w"
    and "fs_OpenFile F d q f m w = (x4, w1) \<Longrightarrow> tbl w1 = tbl w"
    and "file_Close F g w = (x5, w1) \<Longrightarrow> tbl w1 = tbl w"
    and "os_Pipe F w = (x6, w1) \<Longrightarrow> tbl w1 = tbl w"
  using assms by (erule_tac [!] snd_eqD) (simp_all add: fd_frame_def)

lemma fd_laws_GetFile:
  "fd_laws F tbl \<Longrightarrow> GetFile F fd w = (x, w1) \<Longrightarrow>
     tbl w1 = tbl w \<and> (case x of Inl _ \<Rightarrow> tbl w fd = None | Inr f \<Rightarrow> tbl w fd = Some f)"
  unfolding fd_laws_def
  by (drule conjunct1, drule spec, drule spec, drule spec, drule spec, drule (1) mp)

lemma fd_laws_Create:
  "fd_laws F tbl \<Longrightarrow> CreateFileDescriptor F f w = (fd, w1) \<Longrightarrow>
     tbl w fd = None \<and> tbl w1 = (tbl w)(fd := Some f)"
  unfolding fd_laws_def by blast

lemma fd_laws_Dup:
  "fd_laws F tbl \<Longrightarrow> DupFile F fd w = (x, w1) \<Longrightarrow>
     (case x of Inl _ \<Rightarrow> tbl w1 = tbl w
      | Inr n \<Rightarrow> tbl w fd \<noteq> None \<and> tbl w n = None \<and> tbl w1 = (tbl w)(n := tbl w fd))"
  unfolding fd_laws_def by blast

lemma fd_laws_Dup2:
  "fd_laws F tbl \<Longrightarrow> Dup2File F old new w = (x, w1) \<Longrightarrow>
     (case x of Inl _ \<Rightarrow> tbl w1 = tbl w
      | Inr _ \<Rightarrow> tbl w old \<noteq> None \<and> tbl w1 = (tbl w)(new := tbl w old))"
  unfolding fd_laws_def by blast

lemma fd_laws_Close:
  "fd_laws F tbl \<Longrightarrow> CloseFileDescriptor F fd w = (x, w1) \<Longrightarrow>
     (case x of Inl _ \<Rightarrow> tbl w fd = None \<and> tbl w1 = tbl w
      | Inr f \<Rightarrow> tbl w fd = Some f \<and> tbl w1 = (tbl w)(fd := None))"
  unfolding fd_laws_def by blast

lemma fd_abs_cong:
  "tbl (world s') = tbl (world s) \<Longrightarrow> m_flags s' = m_flags s \<Longrightarrow> fd_abs tbl s' = fd_abs tbl s"
  by (rule ext) (simp add: fd_abs_def)

lemma fd_inv_cong:
  "tbl (world s') = tbl (world s) \<Longrightarrow> m_flags s' = m_flags s \<Longrightarrow> fd_inv tbl s' = fd_inv tbl s"
  by (simp add: fd_inv_def)

text \<open>Giving an open descriptor a file and flags, in both halves.\<close>

lemma fd_abs_install:
  assumes "tbl (world s') = (tbl (world s))(fd := Some f)" "m_flags s = Some m"
    and "m_flags s' = Some (m(fd := Some v))"
  shows "fd_abs tbl s' = (fd_abs tbl s)(fd := Some (f, v))"
  using assms by (auto simp: fd_abs_def)

lemma fd_inv_install:
  assumes "fd_inv tbl s" "tbl (world s') = (tbl (world s))(fd := Some f)" "m_flags s = Some m"
    and "m_flags s' = Some (m(fd := Some v))"
  shows "fd_inv tbl s'"
  using assms by (auto simp: fd_inv_def)

text \<open>
  What a call has to establish from a state \<open>s\<close>: it comes back, the invariant holds again, and the
  abstract tables before and after are related by the specification of the call.
\<close>

definition fd_implements ::
    "('w \<Rightarrow> int \<Rightarrow> 'o option) \<Rightarrow> fd_call \<Rightarrow> ('w, 'o, int32) kprog \<Rightarrow> ('w, 'o) machine \<Rightarrow> bool" where
  "fd_implements tbl c m s \<longleftrightarrow>
     (\<exists>r s'. m s = Return r s' \<and> fd_inv tbl s' \<and> fd_spec c (fd_abs tbl s) r (fd_abs tbl s'))"

lemma fd_implements_same:
  assumes "case m s of
      Return r s' \<Rightarrow> tbl (world s') = tbl (world s) \<and> m_flags s' = m_flags s \<and>
        fd_spec c (fd_abs tbl s) r (fd_abs tbl s)
    | _ \<Rightarrow> False"
    and "fd_inv tbl s"
  shows "fd_implements tbl c m s"
proof -
  from assms(1) obtain r s' where *: "m s = Return r s'" "tbl (world s') = tbl (world s)"
    "m_flags s' = m_flags s" "fd_spec c (fd_abs tbl s) r (fd_abs tbl s)"
    by (auto split: outcome.splits)
  from fd_abs_cong [OF *(2,3)] fd_inv_cong [OF *(2,3)] *(1,4) assms(2)
  show ?thesis unfolding fd_implements_def by auto
qed

lemma fd_implements_install:
  assumes "case m s of
      Return r s' \<Rightarrow> tbl (world s') = (tbl (world s))(fd := Some f) \<and>
        m_flags s' = Some (mp(fd := Some v)) \<and>
        fd_spec c (fd_abs tbl s) r ((fd_abs tbl s)(fd := Some (f, v)))
    | _ \<Rightarrow> False"
    and "m_flags s = Some mp" and "fd_inv tbl s"
  shows "fd_implements tbl c m s"
proof -
  from assms(1) obtain r s' where *: "m s = Return r s'" "tbl (world s') = (tbl (world s))(fd := Some f)"
    "m_flags s' = Some (mp(fd := Some v))" "fd_spec c (fd_abs tbl s) r ((fd_abs tbl s)(fd := Some (f, v)))"
    by (auto split: outcome.splits)
  from fd_abs_install [OF *(2) assms(2) *(3)] fd_inv_install [OF assms(3) *(2) assms(2) *(3)] *(1,4)
  show ?thesis unfolding fd_implements_def by auto
qed

lemma fd_invE:
  assumes "fd_inv tbl s"
  obtains m where "m_flags s = Some m" "dom m \<subseteq> dom (tbl (world s))"
  using assms by (auto simp: fd_inv_def)

lemma dup3_implements:
  assumes laws: "fd_laws F tbl" and inv: "fd_inv tbl s"
  shows "fd_implements tbl (Dup3 old new fl) (fcntl_dup3 F old new fl) s"
proof -
  obtain m where m: "m_flags s = Some m" using inv by (rule fd_invE)
  obtain x w1 where D: "Dup2File F (uint old) (uint new) (world s) = (x, w1)" by fastforce
  note law = fd_laws_Dup2 [OF laws D]
  show ?thesis
  proof (cases x)
    case (Inl e)
    with law D inv show ?thesis
      by (intro fd_implements_same) (simp_all add: fcntl_dup3_def call_evals fd_spec.dup3_fail)
  next
    case (Inr u)
    with law obtain f where f: "tbl (world s) (uint old) = Some f" by auto
    then have "fd_abs tbl s (uint old) = Some (f, gomap_index 0 (m_flags s) (uint old))"
      by (simp add: fd_abs_def)
    with Inr law D m f inv show ?thesis
      by (intro fd_implements_install [where fd = "uint new" and f = f and mp = m and v = fl])
        (simp_all add: fcntl_dup3_def call_evals prog_simps flags_put_eval fd_spec.dup3)
  qed
qed

lemma close_implements:
  assumes laws: "fd_laws F tbl" and frame: "fd_frame F M tbl" and inv: "fd_inv tbl s"
  shows "fd_implements tbl (Close fd) (fcntl_close F fd) s"
proof -
  obtain m where m: "m_flags s = Some m" "dom m \<subseteq> dom (tbl (world s))" using inv by (rule fd_invE)
  obtain x w1 where D: "CloseFileDescriptor F (uint fd) (world s) = (x, w1)" by fastforce
  note law = fd_laws_Close [OF laws D]
  show ?thesis
  proof (cases x)
    case (Inl e)
    with law have "fd_abs tbl s (uint fd) = None" by (simp add: fd_abs_def)
    with Inl law D inv show ?thesis
      by (intro fd_implements_same) (simp_all add: fcntl_close_def call_evals fd_spec.close_badf)
  next
    case (Inr f)
    let ?w2 = "snd (file_Close F f w1)"
    have w2: "tbl ?w2 = (tbl (world s))(uint fd := None)"
      using Inr law frame by (simp add: fd_frame_def)
    let ?s = "m_flags_update (\<lambda>_. Some (m(uint fd := None))) (s\<lparr>world := ?w2\<rparr>)"
    have "fcntl_close F fd s = Return 0 ?s"
      using Inr D m by (simp add: fcntl_close_def call_evals flags_delete_def)
    moreover have "fd_inv tbl ?s" using w2 m by (auto simp: fd_inv_def)
    moreover have "fd_abs tbl ?s = (fd_abs tbl s)(uint fd := None)"
      using w2 m by (auto simp: fd_abs_def)
    moreover have "fd_abs tbl s (uint fd) \<noteq> None" using Inr law by (simp add: fd_abs_def)
    ultimately show ?thesis unfolding fd_implements_def by (metis fd_spec.close_ok)
  qed
qed

text \<open>
  The switch of \<open>fcntl\<close> on an open descriptor, command by command. \<open>v\<close> is the descriptor's entry
  in the flag map.
\<close>

lemma switch_dupfd:
  assumes laws: "fd_laws F tbl" and inv: "fd_inv tbl s" and fd: "tbl (world s) (uint fd) = Some f"
  shows "fd_implements tbl (Fcntl fd F_DUPFD arg) (fcntl_switch F fd F_DUPFD arg) s"
proof -
  obtain m where m: "m_flags s = Some m" using inv by (rule fd_invE)
  obtain y w2 where D: "DupFile F (uint fd) (world s) = (y, w2)" by fastforce
  note dlaw = fd_laws_Dup [OF laws D]
  show ?thesis
  proof (cases y)
    case (Inl e)
    with D dlaw inv show ?thesis
      by (intro fd_implements_same) (simp_all add: fcntl_switch_def call_evals fd_spec.dupfd_fail)
  next
    case (Inr n)
    let ?v = "gomap_index 0 (Some m) (uint fd)"
    have "fd_abs tbl s n = None" "fd_abs tbl s (uint fd) = Some (f, ?v)"
      using Inr dlaw fd m by (simp_all add: fd_abs_def del: gomap_index_Some)
    with D dlaw Inr fd inv m show ?thesis
      by (intro fd_implements_install [where fd = n and f = f and mp = m and v = ?v])
        (simp_all add: fcntl_switch_def call_evals prog_simps flags_get_def flags_put_eval
          fd_spec.dupfd del: gomap_index_Some)
  qed
qed

lemma switch_flags:
  assumes inv: "fd_inv tbl s" and fd: "tbl (world s) (uint fd) = Some f"
  shows "fd_implements tbl (Fcntl fd F_GETFD arg) (fcntl_switch F fd F_GETFD arg) s"
    and "fd_implements tbl (Fcntl fd F_SETFD arg) (fcntl_switch F fd F_SETFD arg) s"
    and "fd_implements tbl (Fcntl fd F_GETFL arg) (fcntl_switch F fd F_GETFL arg) s"
    and "fd_implements tbl (Fcntl fd F_SETFL arg) (fcntl_switch F fd F_SETFL arg) s"
proof -
  obtain m where m: "m_flags s = Some m" using inv by (rule fd_invE)
  define v where "v = gomap_index 0 (Some m) (uint fd)"
  have T: "fd_abs tbl s (uint fd) = Some (f, v)" using fd m by (simp add: fd_abs_def v_def)
  have get: "flags_get (uint fd) s = Return v s" by (simp add: flags_get_def v_def m)
  have tbl: "(tbl (world s))(uint fd := Some f) = tbl (world s)" using fd by (rule fun_upd_idem)
  have sw: "fcntl_switch F fd F_GETFD arg s = Return (if v AND O_CLOEXEC \<noteq> 0 then 1 else 0) s"
    "fcntl_switch F fd F_SETFD arg s =
       Return 0 (m_flags_update (\<lambda>_. Some (m(uint fd := Some (v OR O_CLOEXEC)))) s)"
    "fcntl_switch F fd F_GETFL arg s = Return v s"
    "fcntl_switch F fd F_SETFL arg s =
       Return 0 (m_flags_update (\<lambda>_. Some (m(uint fd := Some (ucast arg)))) s)"
    by (simp_all add: fcntl_switch_def fcntl_cmd_defs get prog_simps flags_put_eval [OF m])
  show "fd_implements tbl (Fcntl fd F_GETFD arg) (fcntl_switch F fd F_GETFD arg) s"
    using sw(1) inv T by (intro fd_implements_same) (simp_all only: outcome.case fd_spec.getfd simp_thms)
  show "fd_implements tbl (Fcntl fd F_GETFL arg) (fcntl_switch F fd F_GETFL arg) s"
    using sw(3) inv T by (intro fd_implements_same) (simp_all add: fd_spec.getfl)
  show "fd_implements tbl (Fcntl fd F_SETFD arg) (fcntl_switch F fd F_SETFD arg) s"
    using sw(2) inv T tbl m
    by (intro fd_implements_install [where fd = "uint fd" and f = f and mp = m and v = "v OR O_CLOEXEC"])
      (simp_all add: fd_spec.setfd)
  show "fd_implements tbl (Fcntl fd F_SETFL arg) (fcntl_switch F fd F_SETFL arg) s"
    using sw(4) inv T tbl m
    by (intro fd_implements_install [where fd = "uint fd" and f = f and mp = m and v = "ucast arg"])
      (simp_all add: fd_spec.setfl)
qed

lemma switch_locks:
  assumes "cmd \<in> {F_GETLK, F_GETLK64, F_SETLK, F_SETLKW, F_SETLK64, F_SETLKW64}"
    and inv: "fd_inv tbl s" and fd: "tbl (world s) (uint fd) = Some f"
  shows "fd_implements tbl (Fcntl fd cmd arg) (fcntl_switch F fd cmd arg) s"
proof -
  have "fcntl_switch F fd cmd arg s = Return 0 s"
    using assms(1) by (auto simp: fcntl_switch_def fcntl_cmd_defs)
  then show ?thesis
    using assms(1) inv fd by (intro fd_implements_same) (simp_all add: fd_spec.locks fd_abs_def)
qed

text \<open>A call that starts by looking a descriptor up may be judged from the state after that.\<close>

lemma fd_implements_start:
  assumes "m s = m' s1" "tbl (world s1) = tbl (world s)" "m_flags s1 = m_flags s"
    and "fd_implements tbl c m' s1"
  shows "fd_implements tbl c m s"
  using assms(1,4) fd_abs_cong [OF assms(2,3)] by (simp add: fd_implements_def)

lemma fcntl_implements:
  assumes laws: "fd_laws F tbl" and inv: "fd_inv tbl s" and known: "fcntl_known cmd"
  shows "fd_implements tbl (Fcntl fd cmd arg) (fcntl_fcntl F fd cmd arg) s"
proof -
  obtain x w1 where G: "GetFile F (uint fd) (world s) = (x, w1)" by fastforce
  note law = fd_laws_GetFile [OF laws G]
  show ?thesis
  proof (cases x)
    case (Inl e)
    with law have "fd_abs tbl s (uint fd) = None" by (simp add: fd_abs_def)
    with Inl law G inv show ?thesis
      by (intro fd_implements_same) (simp_all add: fcntl_fcntl_def call_evals fd_spec.fcntl_badf)
  next
    case (Inr f)
    let ?s = "s\<lparr>world := w1\<rparr>"
    have s1: "fd_inv tbl ?s" "tbl (world ?s) (uint fd) = Some f"
      using Inr law inv by (simp_all add: fd_inv_def)
    have "fd_implements tbl (Fcntl fd cmd arg) (fcntl_switch F fd cmd arg) ?s"
      using known unfolding fcntl_known_def
      by (auto intro: switch_dupfd [OF laws s1] switch_flags [OF s1] switch_locks [OF _ s1])
    with Inr G law show ?thesis
      by (intro fd_implements_start [of _ s _ ?s]) (simp_all add: fcntl_fcntl_def call_evals)
  qed
qed

lemma fd_implements_fail:
  fixes tbl :: "'w \<Rightarrow> int \<Rightarrow> 'o option"
  assumes "fd_inv tbl s" and "\<And>T :: 'o fd_table. fd_spec c T r T"
  shows "fd_implements tbl c (fail e r) s"
  using assms by (intro fd_implements_same) simp_all

text \<open>A library call that leaves the table alone, before the rest of a handler.\<close>

lemma fd_implements_on_err:
  fixes tbl :: "'w \<Rightarrow> int \<Rightarrow> 'o option"
  assumes "\<And>x w'. f (world s) = (x, w') \<Longrightarrow> tbl w' = tbl (world s)"
    and "fd_inv tbl s" and "\<And>T :: 'o fd_table. fd_spec c T r T"
    and "\<And>a w'. f (world s) = (Inr a, w') \<Longrightarrow> fd_inv tbl (s\<lparr>world := w'\<rparr>) \<Longrightarrow>
           fd_implements tbl c (k a) (s\<lparr>world := w'\<rparr>)"
  shows "fd_implements tbl c (on_err f e r k) s"
proof -
  obtain x w' where f: "f (world s) = (x, w')" by fastforce
  have w': "tbl w' = tbl (world s)" using assms(1) f by simp
  then have inv: "fd_inv tbl (s\<lparr>world := w'\<rparr>)" using assms(2) by (simp add: fd_inv_def)
  show ?thesis
  proof (cases x)
    case (Inl y)
    with f w' show ?thesis
      by (intro fd_implements_start [OF _ _ _ fd_implements_fail [OF inv assms(3)]])
        (simp_all add: call_evals del: fail_eval)
  next
    case (Inr a)
    with f w' show ?thesis
      by (intro fd_implements_start [OF _ _ _ assms(4) [OF _ inv]]) (simp_all add: call_evals)
  qed
qed

lemma at_dir_implements:
  fixes tbl :: "'w \<Rightarrow> int \<Rightarrow> 'o option"
  assumes laws: "fd_laws F tbl" and inv: "fd_inv tbl s" and bad: "\<And>T :: 'o fd_table. fd_spec c T r T"
    and k: "\<And>d s1. fd_inv tbl s1 \<Longrightarrow> fd_implements tbl c (k d) s1"
  shows "fd_implements tbl c (at_dir F I dfd r k) s"
  using inv bad k fd_laws_GetFile [OF laws]
  by (auto simp: at_dir_def intro!: fd_implements_on_err fd_implements_fail)

lemma open_result_implements:
  fixes tbl :: "'w \<Rightarrow> int \<Rightarrow> 'o option"
  assumes laws: "fd_laws F tbl" and inv: "fd_inv tbl s" and bad: "\<And>T :: 'o fd_table. fd_spec c T (- 1) T"
    and ok: "\<And>(T :: 'o fd_table) fd f. T fd = None \<Longrightarrow> fd_spec c T (word_of_int fd) (T(fd := Some (f, fl)))"
  shows "fd_implements tbl c (open_result F fl r) s"
proof (cases r)
  case (Inl e)
  with inv bad show ?thesis by (simp add: open_result_def fd_implements_fail)
next
  case (Inr f)
  obtain m where m: "m_flags s = Some m" using inv by (rule fd_invE)
  obtain fd w1 where C: "CreateFileDescriptor F f (world s) = (fd, w1)" by fastforce
  note law = fd_laws_Create [OF laws C]
  then have "fd_abs tbl s fd = None" by (simp add: fd_abs_def)
  with Inr C law m inv ok show ?thesis
    by (intro fd_implements_install [where fd = fd and f = f and mp = m and v = fl])
      (simp_all add: open_result_def call_evals prog_simps flags_put_eval)
qed

lemma open_implements:
  assumes laws: "fd_laws F tbl" and frame: "fd_frame F M tbl" and inv: "fd_inv tbl s"
  shows "fd_implements tbl (Open p fl m) (fcntl_open F M p fl m) s"
  unfolding fcntl_open_def
proof (rule fd_implements_on_err [OF fd_frameD(1) [OF frame] inv fd_spec.open_fail])
  fix path w1
  assume inv1: "fd_inv tbl (s\<lparr>world := w1\<rparr>)"
  obtain r w2 where O: "dbg_OpenFile F path (toFileFlag F fl) m w1 = (r, w2)" by fastforce
  have w2: "tbl w2 = tbl w1" using fd_frameD(3) [OF frame O] .
  then have "fd_inv tbl (s\<lparr>world := w2\<rparr>)" using inv1 by (simp add: fd_inv_def)
  from open_result_implements [OF laws this fd_spec.open_fail fd_spec.open_ok]
  show "fd_implements tbl (Open p fl m)
      (bnd (extern (dbg_OpenFile F path (toFileFlag F fl) m)) (open_result F fl)) (s\<lparr>world := w1\<rparr>)"
    by (rule fd_implements_start [rotated 3]) (simp_all add: call_evals O w2)
qed

lemma openat_implements:
  assumes laws: "fd_laws F tbl" and frame: "fd_frame F M tbl" and inv: "fd_inv tbl s"
  shows "fd_implements tbl (Openat d p fl m) (fcntl_openat F M d p fl m) s"
  unfolding fcntl_openat_def
proof (rule fd_implements_on_err [OF fd_frameD(1) [OF frame] inv fd_spec.openat_fail], assumption,
    rule at_dir_implements [OF laws _ fd_spec.openat_fail], assumption)
  fix path dir s1
  assume inv1: "fd_inv tbl s1"
  obtain r w2 where O: "fs_OpenFile F dir path (toFileFlag F fl) m (world s1) = (r, w2)" by fastforce
  have w2: "tbl w2 = tbl (world s1)" using fd_frameD(4) [OF frame O] .
  then have "fd_inv tbl (s1\<lparr>world := w2\<rparr>)" using inv1 by (simp add: fd_inv_def)
  from open_result_implements [OF laws this fd_spec.openat_fail fd_spec.openat_ok]
  show "fd_implements tbl (Openat d p fl m)
      (bnd (extern (fs_OpenFile F dir path (toFileFlag F fl) m)) (open_result F fl)) s1"
    by (rule fd_implements_start [rotated 3]) (simp_all add: call_evals O w2)
qed

lemma pipe2_implements:
  assumes laws: "fd_laws F tbl" and frame: "fd_frame F M tbl" and inv: "fd_inv tbl s"
  shows "fd_implements tbl (Pipe2 p fl) (fcntl_pipe2 F M p fl) s"
  unfolding fcntl_pipe2_def
proof (rule fd_implements_on_err [OF fd_frameD(6) [OF frame] inv fd_spec.pipe2_fail],
    assumption, clarify)
  fix fr fw w1
  let ?s = "s\<lparr>world := w1\<rparr>"
  assume inv1: "fd_inv tbl ?s"
  then obtain m where m: "m_flags s = Some m" "dom m \<subseteq> dom (tbl w1)" by (auto simp: fd_inv_def)
  obtain r w2 where C1: "CreateFileDescriptor F fr w1 = (r, w2)" by fastforce
  obtain q w3 where C2: "CreateFileDescriptor F fw w2 = (q, w3)" by fastforce
  define w4 where "w4 = snd (MemWrite M p (MV_int32x2 (word_of_int r) (word_of_int q)) w3)"
  have w4: "tbl w4 = (tbl w1)(r := Some fr, q := Some fw)" and fresh: "tbl w1 r = None" "tbl w1 q = None" "r \<noteq> q"
    using fd_laws_Create [OF laws C1] fd_laws_Create [OF laws C2] frame
    by (auto simp: w4_def fd_frame_def split: if_splits)
  let ?m = "m(r := Some fl, q := Some fl)"
  let ?s' = "m_flags_update (\<lambda>_. Some ?m) (s\<lparr>world := w4\<rparr>)"
  have "fd_inv tbl ?s'" using m w4 by (auto simp: fd_inv_def)
  moreover have "fd_abs tbl ?s' = (fd_abs tbl ?s)(r := Some (fr, fl), q := Some (fw, fl))"
    using m w4 fresh by (auto simp: fd_abs_def)
  moreover have "fd_abs tbl ?s r = None" "fd_abs tbl ?s q = None" using fresh by (simp_all add: fd_abs_def)
  ultimately show "fd_implements tbl (Pipe2 p fl)
      (bnd (extern (CreateFileDescriptor F fr)) (\<lambda>rfd.
       bnd (extern (CreateFileDescriptor F fw)) (\<lambda>wfd.
       bnd (flags_put rfd fl) (\<lambda>_.
       bnd (flags_put wfd fl) (\<lambda>_.
       bnd (extern_ignore (MemWrite M p (MV_int32x2 (word_of_int rfd) (word_of_int wfd)))) (\<lambda>_.
       ret 0)))))) ?s"
    unfolding fd_implements_def using fresh m C1 C2
    by (intro exI [of _ 0] exI [of _ ?s'])
      (simp add: call_evals prog_simps flags_put_eval w4_def [symmetric] fd_spec.pipe2_ok)
qed

lemma fd_call_implements:
  "fd_laws F tbl \<Longrightarrow> fd_frame F M tbl \<Longrightarrow> fd_inv tbl s \<Longrightarrow> fd_call_known c \<Longrightarrow>
     fd_implements tbl c (do_fd_call F M c) s"
  using dup3_implements fcntl_implements open_implements openat_implements close_implements
    pipe2_implements
  by (cases c) simp_all

text \<open>
  Every call on descriptors implements the abstract table: from a state in which the flag map
  covers open descriptors only, \<open>dup3\<close>, \<open>fcntl\<close> (with a command it knows), \<open>open\<close>, \<open>openat\<close>, \<open>close\<close>
  and \<open>pipe2\<close> come back, keep that invariant, and change the table of files with their flags in
  the way the specification of the call allows.
\<close>

theorem fd_calls_refine:
  assumes "fd_laws F tbl" and "fd_frame F M tbl" and "fd_inv tbl s" and "fd_call_known c"
  shows "\<exists>r s'. do_fd_call F M c s = Return r s' \<and> fd_inv tbl s' \<and>
           fd_spec c (fd_abs tbl s) r (fd_abs tbl s')"
  using fd_call_implements [OF assms] by (simp add: fd_implements_def)

section \<open>The reference environment has such a table\<close>

lemma host_Create_tbl:
  "host_Create f w = (n, w') \<Longrightarrow> host_tbl w n = None \<and> host_tbl w' = (host_tbl w)(n := Some f)"
  by (auto simp: host_Create_def host_tbl_def nth_append fun_eq_iff)

lemma host_Dup2_tbl:
  assumes "0 \<le> new" "host_tbl w old = Some f"
  shows "host_tbl (snd (host_Dup2 old new w)) = (host_tbl w)(new := Some f)"
proof -
  have "host_tbl (w\<lparr>h_fds := (h_fds w @ replicate (Suc n - length (h_fds w)) None)[n := Some f]\<rparr>) fd =
      ((host_tbl w)(int n := Some f)) fd" for n fd
    by (cases fd) (auto simp: host_tbl_def nth_list_update nth_append)
  from this [of "nat new"] assms show ?thesis by (auto simp: host_Dup2_def)
qed

lemma host_fd_laws: "fd_laws host_Files host_tbl"
  unfolding fd_laws_def
proof (intro conjI allI impI; simp only: host_Files_simps)
  fix fd w x w'
  assume "host_GetFile fd w = (x, w')"
  then show "host_tbl w' = host_tbl w"
    "case x of Inl _ \<Rightarrow> host_tbl w fd = None | Inr f \<Rightarrow> host_tbl w fd = Some f"
    by (auto simp: host_GetFile_def split: option.split)
next
  fix f w fd w'
  assume "host_Create f w = (fd, w')"
  then show "host_tbl w fd = None" "host_tbl w' = (host_tbl w)(fd := Some f)"
    using host_Create_tbl by blast+
next
  fix fd w x w'
  assume "host_Dup fd w = (x, w')"
  then show "case x of Inl _ \<Rightarrow> host_tbl w' = host_tbl w
    | Inr n \<Rightarrow> host_tbl w fd \<noteq> None \<and> host_tbl w n = None \<and> host_tbl w' = (host_tbl w)(n := host_tbl w fd)"
    using host_Create_tbl by (auto simp: host_Dup_def split: option.splits prod.splits sum.split)
next
  fix old new w x w'
  assume "host_Dup2 old new w = (x, w')"
  then show "case x of Inl _ \<Rightarrow> host_tbl w' = host_tbl w
    | Inr _ \<Rightarrow> host_tbl w old \<noteq> None \<and> host_tbl w' = (host_tbl w)(new := host_tbl w old)"
    using host_Dup2_tbl [of new w old]
    by (auto simp: host_Dup2_def split: option.splits sum.split if_splits)
next
  fix fd w x w'
  assume "host_CloseFd fd w = (x, w')"
  then show "case x of Inl _ \<Rightarrow> host_tbl w fd = None \<and> host_tbl w' = host_tbl w
    | Inr f \<Rightarrow> host_tbl w fd = Some f \<and> host_tbl w' = (host_tbl w)(fd := None)"
    by (auto simp: host_CloseFd_def host_tbl_def fun_eq_iff nth_list_update
        split: option.splits sum.split if_splits)
qed

lemma host_fd_frame: "fd_frame host_Files host_Memory host_tbl"
  by (simp add: fd_frame_def host_open_def host_tbl_def fun_eq_iff)

lemma host_fd_inv: "fd_inv host_tbl (host_machine w)"
  by (simp add: fd_inv_def)

section \<open>Sequences of calls\<close>


inductive fd_specs :: "fd_call list \<Rightarrow> 'o fd_table \<Rightarrow> int32 list \<Rightarrow> 'o fd_table \<Rightarrow> bool" where
  fd_specs_Nil: "fd_specs [] T [] T"
| fd_specs_Cons: "fd_spec c T r T' \<Longrightarrow> fd_specs cs T' rs T'' \<Longrightarrow> fd_specs (c # cs) T (r # rs) T''"

inductive_cases fd_specs_ConsE: "fd_specs (c # cs) T rs T''"



section \<open>Round trips\<close>

lemma uint_of_descriptor: "0 \<le> fd \<Longrightarrow> fd < 2 ^ 31 \<Longrightarrow> uint (word_of_int fd :: 32 word) = fd"
  by (simp add: uint_word_of_int)

inductive_cases fd_spec_GetflE: "fd_spec (Fcntl fd F_GETFL arg) T r T'"

lemma fd_spec_getfl:
  "fd_spec (Fcntl fd F_GETFL arg) T r T' \<Longrightarrow> T (uint fd) = Some (f, v) \<Longrightarrow> r = v \<and> T' = T"
  by (erule fd_spec_GetflE)
    (auto simp: F_DUPFD_def F_GETFD_def F_SETFD_def F_GETFL_def F_SETFL_def F_GETLK_def
      F_GETLK64_def F_SETLK_def F_SETLKW_def F_SETLK64_def F_SETLKW64_def)

text \<open>
  C15. The flags a file was opened with are what \<open>fcntl\<close> with \<open>F_GETFL\<close> answers for the descriptor
  that \<open>open\<close> returned, as long as descriptors are small enough to be numbers of the guest.
\<close>

theorem open_getfl_roundtrip:
  assumes "fd_laws F tbl" and "fd_frame F M tbl" and "fd_inv tbl s"
    and "fcntl_open F M p fl m s = Return r s1" and "r \<noteq> - 1"
    and "\<And>fd. tbl (world s1) fd \<noteq> None \<Longrightarrow> 0 \<le> fd \<and> fd < 2 ^ 31"
  shows "\<exists>s2. fcntl_fcntl F r F_GETFL arg s1 = Return fl s2"
proof -
  from fd_call_implements [OF assms(1-3), of "Open p fl m"] assms(4) have
    inv: "fd_inv tbl s1" and spec: "fd_spec (Open p fl m) (fd_abs tbl s) r (fd_abs tbl s1)"
    by (auto simp: fd_implements_def)
  from spec assms(5) obtain fd f where
    r: "r = word_of_int fd" and T: "fd_abs tbl s1 = (fd_abs tbl s)(fd := Some (f, fl))"
    by (auto elim: fd_spec_OpenE)
  from T have "fd_abs tbl s1 fd = Some (f, fl)" by simp
  moreover from this have "tbl (world s1) fd \<noteq> None" by (auto simp: fd_abs_def)
  ultimately have at: "fd_abs tbl s1 (uint r) = Some (f, fl)"
    using assms(6) r uint_of_descriptor by metis
  from fd_call_implements [OF assms(1,2) inv, of "Fcntl r F_GETFL arg"] obtain v s2 where
    "fcntl_fcntl F r F_GETFL arg s1 = Return v s2"
    "fd_spec (Fcntl r F_GETFL arg) (fd_abs tbl s1) v (fd_abs tbl s2)"
    by (auto simp: fd_implements_def fcntl_known_def)
  with fd_spec_getfl at show ?thesis by metis
qed

lemma host_open_result:
  "\<exists>s1. fcntl_open host_Files host_Memory p fl m (host_machine host_start) = Return 0 s1 \<and>
     h_fds (world s1) = [Some (HFile 0)]"
  by (simp add: fcntl_open_def open_result_def call_evals host_open_def host_Create_def host_start_def
      bnd_flags_put)

theorem open_getfl_roundtrip_witness:
  "\<exists>s1 s2. fcntl_open host_Files host_Memory 64 0x42 0 (host_machine host_start) = Return 0 s1 \<and>
     fcntl_fcntl host_Files 0 F_GETFL 0 s1 = Return 0x42 s2"
proof -
  from host_open_result obtain s1 where
    s1: "fcntl_open host_Files host_Memory 64 0x42 0 (host_machine host_start) = Return 0 s1"
    "h_fds (world s1) = [Some (HFile 0)]" by blast
  then have "0 \<le> fd \<and> fd < 2 ^ 31" if "host_tbl (world s1) fd \<noteq> None" for fd
    using that by (auto simp: host_tbl_def split: if_splits)
  with open_getfl_roundtrip [OF host_fd_laws host_fd_frame host_fd_inv s1(1), of 0] s1(1)
  show ?thesis by fastforce
qed

text \<open>
  C35. \<open>fcntl\<close> with \<open>F_SETFD\<close> does not look at its argument: it turns close-on-exec on even when the
  guest asks to turn it off, so that \<open>F_GETFD\<close> answers 1 after it.
\<close>

theorem setfd_ignores_arg:
  assumes "fd_laws F tbl" and "fd_inv tbl s" and "tbl (world s) (uint fd) = Some file"
  shows "\<exists>s1 s2. fcntl_fcntl F fd F_SETFD arg s = Return 0 s1 \<and>
           fcntl_fcntl F fd F_GETFD 0 s1 = Return 1 s2"
proof -
  obtain x w1 where G1: "GetFile F (uint fd) (world s) = (x, w1)" by fastforce
  with fd_laws_GetFile [OF assms(1) G1] assms(3) have x: "x = Inr file" "tbl w1 (uint fd) = Some file"
    by (auto split: sum.splits)
  obtain y w2 where G2: "GetFile F (uint fd) w1 = (y, w2)" by fastforce
  with fd_laws_GetFile [OF assms(1) G2] x(2) have y: "y = Inr file" by (auto split: sum.splits)
  from assms(2) obtain m where m: "m_flags s = Some m" by (auto simp: fd_inv_def)
  have cloexec: "(v OR O_CLOEXEC) AND O_CLOEXEC \<noteq> 0" for v
    by (simp add: O_CLOEXEC_def bit.conj_disj_distrib2 word_bw_comms)
  show ?thesis
    using G1 G2 x y m cloexec
    by (simp add: fcntl_fcntl_def fcntl_switch_def call_evals F_DUPFD_def F_GETFD_def F_SETFD_def
        flags_get_def bnd_flags_put)
qed

theorem setfd_ignores_arg_witness:
  "\<exists>s1 s2. fcntl_fcntl host_Files 0 F_SETFD 0 (host_machine host_one_file) = Return 0 s1 \<and>
     fcntl_fcntl host_Files 0 F_GETFD 0 s1 = Return 1 s2"
  using setfd_ignores_arg [OF host_fd_laws host_fd_inv, of host_one_file 0 "HFile 0" 0]
  by (simp add: host_tbl_def host_one_file_def)

end
