(* ===== verification/Futex.thy ===== *)
theory Futex
  imports Contracts Ref_Host "HOL-Library.Multiset"
begin

text \<open>
  The futex component of \<^verbatim>\<open>src/kernel/futex.go\<close>: its two tables of reference-counted channels and
  the handler. \<open>futexAwait\<close> and \<open>futexBitAwait\<close> differ in the element type of their channel only and
  share one record.

  A wait gives the processor to the other tasks. What the Go runtime does then (which case of a
  \<open>select\<close> fires, in what state the others have left the machine, whether a receiver takes a value,
  in what order a map is ranged over) is the record \<open>GoRT\<close>, an argument of the handler. The theory
  \<open>Futex_Steps\<close> makes these choices the steps of a transition system.
\<close>

section \<open>The tables\<close>

definition futex_ctor :: "futex \<Rightarrow> futex" where
  "futex_ctor f = f\<lparr>awaits := gomap_make, bitAwaits := gomap_make\<rparr>"

definition gomap_chans :: "('k, futexAwait) gomap \<Rightarrow> nat set" where
  "gomap_chans m = (case m of None \<Rightarrow> {} | Some t \<Rightarrow> ch ` ran t)"

definition futex_dtor :: "futex \<Rightarrow> futex" where
  "futex_dtor f = f\<lparr>closed := closed f \<union> gomap_chans (awaits f) \<union> gomap_chans (bitAwaits f),
     awaits := None, bitAwaits := None\<rparr>"

text \<open>
  The body that \<open>addAwait\<close> and both halves of \<open>addBitAwait\<close> have: the entry's count goes up, or a
  channel is made and entered with count 1. The result is the channel, the table and the next
  channel number; \<open>None\<close> is the panic of a write to a nil map.
\<close>

definition ref_add ::
    "'k \<Rightarrow> ('k, futexAwait) gomap \<Rightarrow> nat \<Rightarrow> (nat \<times> ('k, futexAwait) gomap \<times> nat) option" where
  "ref_add k m n =
     (case gomap_get m k of
        Some await \<Rightarrow>
          map_option (\<lambda>m'. (ch await, m', n)) (gomap_put m k (await\<lparr>ref := ref await + 1\<rparr>))
      | None \<Rightarrow>
          map_option (\<lambda>m'. (n, m', Suc n)) (gomap_put m k \<lparr>ch = n, ref = 1\<rparr>))"

definition ref_del :: "'k \<Rightarrow> ('k, futexAwait) gomap \<Rightarrow> ('k, futexAwait) gomap" where
  "ref_del k m =
     (case gomap_get m k of
        None \<Rightarrow> m
      | Some await \<Rightarrow>
          if ref await - 1 \<le> 0 then gomap_delete m k
          else (case gomap_put m k (await\<lparr>ref := ref await - 1\<rparr>) of None \<Rightarrow> m | Some m' \<Rightarrow> m'))"

definition getAwait :: "emuptr \<Rightarrow> futex \<Rightarrow> nat option" where
  "getAwait addr f = map_option ch (gomap_get (awaits f) addr)"

definition addAwait :: "emuptr \<Rightarrow> futex \<Rightarrow> (nat \<times> futex) option" where
  "addAwait addr f =
     map_option (\<lambda>(c, m, n). (c, f\<lparr>awaits := m, nchan := n\<rparr>)) (ref_add addr (awaits f) (nchan f))"

definition delAwait :: "emuptr \<Rightarrow> futex \<Rightarrow> futex" where
  "delAwait addr f = f\<lparr>awaits := ref_del addr (awaits f)\<rparr>"

definition addBit :: "uint32 \<Rightarrow> futex \<Rightarrow> (nat \<times> futex) option" where
  "addBit b f =
     map_option (\<lambda>(c, m, n). (c, f\<lparr>bitAwaits := m, nchan := n\<rparr>)) (ref_add b (bitAwaits f) (nchan f))"

definition delBit :: "uint32 \<Rightarrow> futex \<Rightarrow> futex" where
  "delBit b f = f\<lparr>bitAwaits := ref_del b (bitAwaits f)\<rparr>"

definition addBitAwait :: "emuptr \<Rightarrow> uint32 \<Rightarrow> futex \<Rightarrow> ((nat \<times> nat) \<times> futex) option" where
  "addBitAwait addr b f =
     (case addAwait addr f of
        None \<Rightarrow> None
      | Some (c1, f1) \<Rightarrow> map_option (\<lambda>(c2, f2). ((c1, c2), f2)) (addBit b f1))"

definition delBitAwait :: "emuptr \<Rightarrow> uint32 \<Rightarrow> futex \<Rightarrow> futex" where
  "delBitAwait addr b f = delBit b (delAwait addr f)"

section \<open>The interface of a table of waiters\<close>

text \<open>
  A table of waiters counts them per key. Its clients enter and leave a key; \<open>look\<close> gives the entry
  of a key. The laws are what \<open>addAwait\<close> and \<open>delAwait\<close> promise.
\<close>

definition counts :: "('s \<Rightarrow> 'k \<Rightarrow> futexAwait option) \<Rightarrow> 's \<Rightarrow> 'k multiset \<Rightarrow> bool" where
  "counts look s W \<longleftrightarrow>
     (\<forall>k. case look s k of
            None \<Rightarrow> count W k = 0
          | Some a \<Rightarrow> 0 < count W k \<and> ref a = int (count W k))"

lemma counts_upd:
  assumes "counts look s W" and "look s' = (look s)(k := x)" and "\<And>j. j \<noteq> k \<Longrightarrow> count W' j = count W j"
    and "case x of None \<Rightarrow> count W' k = 0 | Some a \<Rightarrow> 0 < count W' k \<and> ref a = int (count W' k)"
  shows "counts look s' W'"
  unfolding counts_def
proof
  fix j
  show "case look s' j of None \<Rightarrow> count W' j = 0 | Some a \<Rightarrow> 0 < count W' j \<and> ref a = int (count W' j)"
  proof (cases "j = k")
    case True
    then show ?thesis using assms(2,4) by (cases x) simp_all
  next
    case False
    with assms(1) have "case look s j of None \<Rightarrow> count W j = 0 | Some a \<Rightarrow> 0 < count W j \<and> ref a = int (count W j)"
      by (simp add: counts_def)
    with False assms(2,3) show ?thesis by (cases "look s j") simp_all
  qed
qed

locale wait_table =
  fixes look :: "'s \<Rightarrow> 'k \<Rightarrow> futexAwait option"
    and enter :: "'k \<Rightarrow> 's \<Rightarrow> (nat \<times> 's) option"
    and leave :: "'k \<Rightarrow> 's \<Rightarrow> 's"
    and live :: "'s \<Rightarrow> bool"
    and next_chan :: "'s \<Rightarrow> nat"
  assumes enter_some: "live s \<Longrightarrow> look s k = Some a \<Longrightarrow>
      \<exists>s'. enter k s = Some (ch a, s') \<and> live s' \<and> next_chan s' = next_chan s \<and>
        look s' = (look s)(k := Some (a\<lparr>ref := ref a + 1\<rparr>))"
    and enter_none: "live s \<Longrightarrow> look s k = None \<Longrightarrow>
      \<exists>s'. enter k s = Some (next_chan s, s') \<and> live s' \<and> next_chan s' = Suc (next_chan s) \<and>
        look s' = (look s)(k := Some \<lparr>ch = next_chan s, ref = 1\<rparr>)"
    and leave_live: "live s \<Longrightarrow> live (leave k s)"
    and leave_next: "next_chan (leave k s) = next_chan s"
    and leave_look: "live s \<Longrightarrow> look (leave k s) =
      (look s)(k := (case look s k of None \<Rightarrow> None
         | Some a \<Rightarrow> if ref a - 1 \<le> 0 then None else Some (a\<lparr>ref := ref a - 1\<rparr>)))"
begin

lemma enter_counts:
  assumes "live s" "counts look s W"
  shows "\<exists>c s'. enter k s = Some (c, s') \<and> live s' \<and> counts look s' (W + {#k#}) \<and>
    (\<exists>a. look s' k = Some a \<and> ch a = c) \<and> (\<forall>j. j \<noteq> k \<longrightarrow> look s' j = look s j)"
proof (cases "look s k")
  case None
  from enter_none [OF assms(1) None] obtain s' where
    "enter k s = Some (next_chan s, s')" "live s'"
    "look s' = (look s)(k := Some \<lparr>ch = next_chan s, ref = 1\<rparr>)" by blast
  moreover have "count W k = 0" using assms(2) None by (auto simp: counts_def dest: spec [of _ k])
  ultimately show ?thesis using counts_upd [OF assms(2)] by auto
next
  case (Some a)
  from enter_some [OF assms(1) Some] obtain s' where
    "enter k s = Some (ch a, s')" "live s'" "look s' = (look s)(k := Some (a\<lparr>ref := ref a + 1\<rparr>))"
    by blast
  moreover have "ref a = int (count W k)" using assms(2) Some by (auto simp: counts_def dest: spec [of _ k])
  ultimately show ?thesis using counts_upd [OF assms(2)] by auto
qed

lemma leave_counts:
  assumes "live s" "counts look s W" "k \<in># W"
  shows "live (leave k s) \<and> counts look (leave k s) (W - {#k#}) \<and>
    (\<forall>j. j \<noteq> k \<longrightarrow> look (leave k s) j = look s j)"
proof -
  have "0 < count W k" using assms(3) by simp
  then obtain a where a: "look s k = Some a" "ref a = int (count W k)"
    using assms(2) by (force simp: counts_def split: option.splits dest: spec [of _ k])
  with leave_look [OF assms(1), of k] have
    l: "look (leave k s) = (look s)(k := (if ref a - 1 \<le> 0 then None else Some (a\<lparr>ref := ref a - 1\<rparr>)))"
    by simp
  have "counts look (leave k s) (W - {#k#})"
    by (rule counts_upd [OF assms(2) l]) (use a \<open>0 < count W k\<close> in auto)
  with l leave_live [OF assms(1)] show ?thesis by simp
qed

lemma no_waiters_no_entries: "counts look s {#} \<Longrightarrow> look s k = None"
  by (auto simp: counts_def split: option.splits dest: spec [of _ k])

end

abbreviation await_look :: "futex \<Rightarrow> emuptr \<Rightarrow> futexAwait option" where
  "await_look f \<equiv> gomap_get (awaits f)"

abbreviation bit_look :: "futex \<Rightarrow> uint32 \<Rightarrow> futexAwait option" where
  "bit_look f \<equiv> gomap_get (bitAwaits f)"

lemmas gomap_defs = gomap_get_def gomap_put_def gomap_delete_def

interpretation aw: wait_table await_look addAwait delAwait "\<lambda>f. awaits f \<noteq> None" nchan
  by unfold_locales
    (auto simp: addAwait_def delAwait_def ref_add_def ref_del_def gomap_defs split: option.splits)

interpretation bw: wait_table bit_look addBit delBit "\<lambda>f. bitAwaits f \<noteq> None" nchan
  by unfold_locales
    (auto simp: addBit_def delBit_def ref_add_def ref_del_def gomap_defs split: option.splits)

section \<open>The runtime\<close>

datatype await_event = Timeout | Recv "uint32 option"

datatype bit_event = BTimeout | BRecv "uint32 option" | BSignal

text \<open>
  \<open>select_await\<close> and \<open>select_bit\<close> wait on a timer, if there is one, and on one or two channels;
  \<open>Recv None\<close> is a receive from a closed channel, and the result \<open>None\<close> a wait that never ends.
  \<open>try_send\<close> and \<open>try_signal\<close> are a \<open>select\<close> with a send and a \<open>default\<close> case: was the value taken?
\<close>

record ('w, 'o) GoRT =
  time_After :: "int64 \<Rightarrow> ('w, nat) io"
  select_await :: "nat option \<Rightarrow> nat \<Rightarrow> ('w, 'o) machine \<Rightarrow> (await_event \<times> ('w, 'o) machine) option"
  select_bit :: "nat option \<Rightarrow> nat \<Rightarrow> nat \<Rightarrow> ('w, 'o) machine \<Rightarrow> (bit_event \<times> ('w, 'o) machine) option"
  try_send :: "nat \<Rightarrow> uint32 \<Rightarrow> ('w, 'o) machine \<Rightarrow> bool \<times> ('w, 'o) machine"
  try_signal :: "nat \<Rightarrow> ('w, 'o) machine \<Rightarrow> bool \<times> ('w, 'o) machine"
  range_order :: "(uint32 \<Rightarrow> futexAwait option) \<Rightarrow> uint32 list"

section \<open>The handler\<close>

definition FUTEX_WAIT :: int32 where
  "FUTEX_WAIT = 0"

definition FUTEX_WAKE :: int32 where
  "FUTEX_WAKE = 1"

definition FUTEX_CMP_REQUEUE :: int32 where
  "FUTEX_CMP_REQUEUE = 4"

definition FUTEX_WAIT_BITSET :: int32 where
  "FUTEX_WAIT_BITSET = 9"

definition FUTEX_WAKE_BITSET :: int32 where
  "FUTEX_WAKE_BITSET = 10"

definition FUTEX_CMD_MASK :: int32 where
  "FUTEX_CMD_MASK = NOT (128 OR 256)"

text \<open>A \<open>uint32\<close> read from memory by a little-endian host.\<close>

definition uint32_of_bytes :: "byte list \<Rightarrow> uint32" where
  "uint32_of_bytes bs = foldr (\<lambda>b n. ucast b + 256 * n) bs 0"

definition futex_op :: "(futex \<Rightarrow> ('a \<times> futex) option) \<Rightarrow> ('w, 'o, 'a) kprog" where
  "futex_op f s =
     (case f (m_futex s) of
        None \<Rightarrow> Panic nil_map_panic s
      | Some (a, f') \<Rightarrow> Return a (m_futex_update (\<lambda>_. f') s))"

definition blocking :: "(('w, 'o) machine \<Rightarrow> ('a \<times> ('w, 'o) machine) option) \<Rightarrow> ('w, 'o, 'a) kprog" where
  "blocking f s = (case f s of None \<Rightarrow> Block | Some (a, s') \<Rightarrow> Return a s')"

datatype wait_end = W_timeout | W_closed | W_fault | W_woken

partial_function (option) wait_loop ::
    "('w, 'o) GoRT \<Rightarrow> nat option \<Rightarrow> nat \<Rightarrow> uint32 \<Rightarrow> ('w, 'o) machine \<Rightarrow>
     (wait_end \<times> ('w, 'o) machine) option" where
  "wait_loop G timer c v s =
     (case select_await G timer c s of
        None \<Rightarrow> None
      | Some (ev, s') \<Rightarrow>
          (case ev of
             Timeout \<Rightarrow> Some (W_timeout, s')
           | Recv None \<Rightarrow> Some (W_closed, s')
           | Recv (Some raw) \<Rightarrow> if raw \<noteq> v then Some (W_woken, s') else wait_loop G timer c v s'))"

partial_function (option) bit_loop ::
    "('w, 'o) GoRT \<Rightarrow> 'w Memory \<Rightarrow> emuptr \<Rightarrow> nat option \<Rightarrow> nat \<Rightarrow> nat \<Rightarrow> uint32 \<Rightarrow> ('w, 'o) machine \<Rightarrow>
     (wait_end \<times> ('w, 'o) machine) option" where
  "bit_loop G M uaddr timer c1 c2 v s =
     (case select_bit G timer c1 c2 s of
        None \<Rightarrow> None
      | Some (ev, s') \<Rightarrow>
          (case ev of
             BTimeout \<Rightarrow> Some (W_timeout, s')
           | BRecv None \<Rightarrow> Some (W_closed, s')
           | BRecv (Some raw) \<Rightarrow>
               if raw \<noteq> v then Some (W_woken, s') else bit_loop G M uaddr timer c1 c2 v s'
           | BSignal \<Rightarrow>
               (case MemReadPtr M uaddr 4 (world s') of (x, w) \<Rightarrow>
                 (case x of
                    Inl _ \<Rightarrow> Some (W_fault, s'\<lparr>world := w\<rparr>)
                  | Inr bs \<Rightarrow>
                      if uint32_of_bytes bs \<noteq> v then Some (W_woken, s'\<lparr>world := w\<rparr>)
                      else bit_loop G M uaddr timer c1 c2 v (s'\<lparr>world := w\<rparr>)))))"

fun wait_result :: "wait_end \<Rightarrow> ('w, 'o, int32) kprog" where
  "wait_result W_timeout = fail ETIMEDOUT (- 1)"
| "wait_result W_closed = fail EPERM (- 1)"
| "wait_result W_fault = fail EFAULT (- 1)"
| "wait_result W_woken = ret 0"

text \<open>The start of both waits: the value at the address, the timer.\<close>

definition wait_start ::
    "('w, 'o) GoRT \<Rightarrow> 'w Memory \<Rightarrow> emuptr \<Rightarrow> uint32 \<Rightarrow> emuptr \<Rightarrow> (nat option \<Rightarrow> ('w, 'o, int32) kprog) \<Rightarrow>
     ('w, 'o, int32) kprog" where
  "wait_start G M uaddr v utime k =
     on_err (MemReadPtr M uaddr 4) EFAULT (- 1) (\<lambda>bs.
     if uint32_of_bytes bs \<noteq> v then fail EAGAIN (- 1)
     else if utime \<noteq> emunullptr then
       on_err (Extract_timespec M utime) EFAULT (- 1) (\<lambda>ts.
       bnd (extern (time_After G (tv_sec ts * 1000000000 + tv_nsec ts))) (\<lambda>timer.
       k (Some timer)))
     else k None)"

definition futex_wait ::
    "('w, 'o) GoRT \<Rightarrow> 'w Memory \<Rightarrow> emuptr \<Rightarrow> uint32 \<Rightarrow> emuptr \<Rightarrow> ('w, 'o, int32) kprog" where
  "futex_wait G M uaddr v utime =
     wait_start G M uaddr v utime (\<lambda>timer.
     bnd (futex_op (addAwait uaddr)) (\<lambda>c.
     bnd (blocking (wait_loop G timer c v)) (\<lambda>e.
     bnd (wait_result e) (\<lambda>r.
     bnd (modify (m_futex_update (delAwait uaddr))) (\<lambda>_.
     ret r)))))"

definition futex_wait_bitset ::
    "('w, 'o) GoRT \<Rightarrow> 'w Memory \<Rightarrow> emuptr \<Rightarrow> uint32 \<Rightarrow> emuptr \<Rightarrow> uint32 \<Rightarrow> ('w, 'o, int32) kprog" where
  "futex_wait_bitset G M uaddr v utime val3 =
     wait_start G M uaddr v utime (\<lambda>timer.
     bnd (futex_op (addBitAwait uaddr val3)) (\<lambda>(c1, c2).
     bnd (blocking (bit_loop G M uaddr timer c1 c2 v)) (\<lambda>e.
     bnd (wait_result e) (\<lambda>r.
     bnd (modify (m_futex_update (delBitAwait uaddr val3))) (\<lambda>_.
     ret r)))))"

text \<open>
  \<open>for i := int32(0); i != count; i++\<close> around a send with a \<open>default\<close> case. A send on a closed
  channel panics. The result is the \<open>i\<close> at which the loop stops.
\<close>

function send_loop ::
    "(('w, 'o) machine \<Rightarrow> bool \<times> ('w, 'o) machine) \<Rightarrow> nat \<Rightarrow> int32 \<Rightarrow> int32 \<Rightarrow> ('w, 'o, int32) kprog" where
  "send_loop put c i n s =
     (if i = n then Return i s
      else if c \<in> closed (m_futex s) then Panic ''send on closed channel'' s
      else (case put s of (taken, s') \<Rightarrow> if taken then send_loop put c (i + 1) n s' else Return i s'))"
  by pat_completeness auto

lemma unat_pred_less: "i \<noteq> n \<Longrightarrow> unat (n - (i + 1)) < unat (n - i :: 'a :: len word)"
proof -
  assume "i \<noteq> n"
  then have "n - i \<noteq> 0" by simp
  then have "unat (n - i - 1) < unat (n - i)" by (simp add: unat_minus_one unat_gt_0)
  then show ?thesis by (simp add: diff_diff_eq)
qed

termination send_loop
  by (relation "measure (\<lambda>(f, c, i, n, s). unat (n - i))") (auto simp: unat_pred_less)

definition futex_wake ::
    "('w, 'o) GoRT \<Rightarrow> 'w Memory \<Rightarrow> emuptr \<Rightarrow> uint32 \<Rightarrow> ('w, 'o, int32) kprog" where
  "futex_wake G M uaddr v =
     bnd (gets (\<lambda>s. getAwait uaddr (m_futex s))) (\<lambda>await.
     case await of
       None \<Rightarrow> ret 0
     | Some c \<Rightarrow>
         on_err (MemReadPtr M uaddr 4) EFAULT (- 1) (\<lambda>bs.
         send_loop (try_send G c (uint32_of_bytes bs)) c 0 v))"

text \<open>The range over \<open>bitAwaits\<close>, with the map as it was when the range began.\<close>

fun bitset_loop ::
    "('w, 'o) GoRT \<Rightarrow> (uint32 \<Rightarrow> futexAwait option) \<Rightarrow> uint32 \<Rightarrow> int32 \<Rightarrow> uint32 list \<Rightarrow> int32 \<Rightarrow>
     ('w, 'o, int32) kprog" where
  "bitset_loop G m val3 n [] i = ret i"
| "bitset_loop G m val3 n (b # bs) i =
     (if b AND val3 = 0 then bitset_loop G m val3 n bs i
      else case m b of
        None \<Rightarrow> bitset_loop G m val3 n bs i
      | Some await \<Rightarrow>
          bnd (send_loop (try_signal G (ch await)) (ch await) i n) (\<lambda>i.
          if i = n then ret i else bitset_loop G m val3 n bs i))"

definition futex_wake_bitset ::
    "('w, 'o) GoRT \<Rightarrow> uint32 \<Rightarrow> uint32 \<Rightarrow> ('w, 'o, int32) kprog" where
  "futex_wake_bitset G v val3 =
     bnd (gets (\<lambda>s. case bitAwaits (m_futex s) of None \<Rightarrow> Map.empty | Some m \<Rightarrow> m)) (\<lambda>m.
     bitset_loop G m val3 v (range_order G m) 0)"

definition futex_futex ::
    "('w, 'o) GoRT \<Rightarrow> 'w Memory \<Rightarrow> emuptr \<Rightarrow> int32 \<Rightarrow> uint32 \<Rightarrow> emuptr \<Rightarrow> emuptr \<Rightarrow> uint32 \<Rightarrow>
     ('w, 'o, int32) kprog" where
  "futex_futex G M uaddr op v utime uaddr2 val3 =
     (let cmd = op AND FUTEX_CMD_MASK in
      if cmd = FUTEX_WAIT then futex_wait G M uaddr v utime
      else if cmd = FUTEX_WAKE then futex_wake G M uaddr v
      else if cmd = FUTEX_CMP_REQUEUE then panic ''futex: FUTEX_CMP_REQUEUE''
      else if cmd = FUTEX_WAIT_BITSET then futex_wait_bitset G M uaddr v utime val3
      else if cmd = FUTEX_WAKE_BITSET then futex_wake_bitset G v val3
      else fail ENOSYS (- 1))"

declare send_loop.simps [simp del]

section \<open>Contracts\<close>

text \<open>
  What the handler changes besides the tables is what the tasks that run during its waits change:
  \<open>rt_steps R G\<close> says that they stay within the relation \<open>R\<close>.
\<close>

definition rt_steps :: "(('w, 'o) machine \<Rightarrow> ('w, 'o) machine \<Rightarrow> bool) \<Rightarrow> ('w, 'o) GoRT \<Rightarrow> bool" where
  "rt_steps R G \<longleftrightarrow>
     (\<forall>timer c s ev s'. select_await G timer c s = Some (ev, s') \<longrightarrow> R s s') \<and>
     (\<forall>timer c1 c2 s ev s'. select_bit G timer c1 c2 s = Some (ev, s') \<longrightarrow> R s s') \<and>
     (\<forall>c v s. R s (snd (try_send G c v s))) \<and> (\<forall>c s. R s (snd (try_signal G c s)))"

locale run_relation =
  fixes R :: "('w, 'o) machine \<Rightarrow> ('w, 'o) machine \<Rightarrow> bool"
  assumes run_refl: "R s s"
    and run_trans: "R s t \<Longrightarrow> R t u \<Longrightarrow> R s u"
    and run_world: "R s (s\<lparr>world := w\<rparr>)"
begin

lemma wait_loop_run:
  assumes rt: "rt_steps R G" and ret: "wait_loop G timer c v s = Some (e, s')"
  shows "R s s'"
proof -
  have "G = G \<longrightarrow> R s (snd (e, s'))"
  proof (rule wait_loop.raw_induct [where P = "\<lambda>G' t c v s r. G' = G \<longrightarrow> R s (snd r)", OF _ ret], intro impI)
    fix loop G' t c v s and r :: "wait_end \<times> ('w, 'o) machine"
    assume IH: "\<And>G' t c v s r. loop G' t c v s = Some r \<Longrightarrow> G' = G \<longrightarrow> R s (snd r)" and G: "G' = G"
      and eq: "(case select_await G' t c s of None \<Rightarrow> None
        | Some (ev, s') \<Rightarrow>
          (case ev of Timeout \<Rightarrow> Some (W_timeout, s') | Recv None \<Rightarrow> Some (W_closed, s')
           | Recv (Some raw) \<Rightarrow> if raw \<noteq> v then Some (W_woken, s') else loop G' t c v s')) = Some r"
    then obtain ev s1 where s1: "select_await G t c s = Some (ev, s1)" by (auto split: option.splits)
    with rt have "R s s1" by (auto simp: rt_steps_def)
    moreover have "snd r = s1 \<or> loop G t c v s1 = Some r"
      using eq G s1 by (auto split: await_event.splits option.splits if_splits)
    ultimately show "R s (snd r)" using IH run_trans by metis
  qed
  then show ?thesis by simp
qed

lemma bit_loop_run:
  assumes rt: "rt_steps R G" and ret: "bit_loop G M uaddr timer c1 c2 v s = Some (e, s')"
  shows "R s s'"
proof -
  have "G = G \<longrightarrow> R s (snd (e, s'))"
  proof (rule bit_loop.raw_induct [where P = "\<lambda>G' M a t c1 c2 v s r. G' = G \<longrightarrow> R s (snd r)", OF _ ret], intro impI)
    fix loop G' a t c1 c2 v s and M :: "'w Memory" and r :: "wait_end \<times> ('w, 'o) machine"
    assume IH: "\<And>G' M a t c1 c2 v s r. loop G' M a t c1 c2 v s = Some r \<Longrightarrow> G' = G \<longrightarrow> R s (snd r)" and G: "G' = G"
      and eq: "(case select_bit G' t c1 c2 s of None \<Rightarrow> None
        | Some (ev, s') \<Rightarrow>
          (case ev of BTimeout \<Rightarrow> Some (W_timeout, s') | BRecv None \<Rightarrow> Some (W_closed, s')
           | BRecv (Some raw) \<Rightarrow> if raw \<noteq> v then Some (W_woken, s') else loop G' M a t c1 c2 v s'
           | BSignal \<Rightarrow> (case MemReadPtr M a 4 (world s') of (x, w) \<Rightarrow>
               (case x of Inl _ \<Rightarrow> Some (W_fault, s'\<lparr>world := w\<rparr>)
                | Inr bs \<Rightarrow> if uint32_of_bytes bs \<noteq> v then Some (W_woken, s'\<lparr>world := w\<rparr>)
                    else loop G' M a t c1 c2 v (s'\<lparr>world := w\<rparr>))))) = Some r"
    then obtain ev s1 where s1: "select_bit G t c1 c2 s = Some (ev, s1)" by (auto split: option.splits)
    with rt have "R s s1" by (auto simp: rt_steps_def)
    moreover have "snd r = s1 \<or> (\<exists>w. snd r = s1\<lparr>world := w\<rparr>) \<or> loop G M a t c1 c2 v s1 = Some r \<or>
        (\<exists>w. loop G M a t c1 c2 v (s1\<lparr>world := w\<rparr>) = Some r)"
      using eq G s1 by (auto split: bit_event.splits option.splits if_splits prod.splits sum.splits)
    ultimately consider "R s (snd r)" | s2 where "R s s2" "loop G M a t c1 c2 v s2 = Some r"
      using run_trans [OF _ run_world] by metis
    then show "R s (snd r)" using IH run_trans by cases blast+
  qed
  then show ?thesis by simp
qed

lemma send_loop_run:
  "(\<And>s. R s (snd (put s))) \<Longrightarrow> R s0 s \<Longrightarrow> wlp (send_loop put c i n) (\<lambda>_. R s0) (\<lambda>_. R s0) s"
proof (induction put c i n s rule: send_loop.induct)
  case (1 put c i n s)
  obtain taken s1 where p: "put s = (taken, s1)" by fastforce
  with 1(2) [of s] 1(3) have "R s0 s1" by (auto intro: run_trans)
  with 1 p show ?case
    unfolding wlp_def by (subst send_loop.simps) (auto split: prod.split)
qed

end

text \<open>
  Every effect relation of the handlers is such a relation, and so is keeping the error number.
\<close>

sublocale effect \<subseteq> run_relation R
  by unfold_locales (fact R_refl, fact R_trans, fact R_world)

definition same_errno :: "('w, 'o) machine \<Rightarrow> ('w, 'o) machine \<Rightarrow> bool" where
  "same_errno s s' \<longleftrightarrow> m_err s' = m_err s"

interpretation re: run_relation same_errno
  by unfold_locales (auto simp: same_errno_def)

lemma errno_keeps_steps: "errno_keeps m \<longleftrightarrow> steps same_errno m"
  by (simp add: errno_keeps_def steps_def same_errno_def [abs_def])

lemma steps_blocking:
  "(\<And>s a s'. f s = Some (a, s') \<Longrightarrow> R s s') \<Longrightarrow> steps R (blocking f)"
  by (auto simp: steps_def wlp_def blocking_def split: option.split)

lemma errno_keeps_waits:
  assumes "rt_steps same_errno G"
  shows "errno_keeps (blocking (wait_loop G timer c v))"
    and "errno_keeps (blocking (bit_loop G M uaddr timer c1 c2 v))"
  unfolding errno_keeps_steps
  using re.wait_loop_run [OF assms] re.bit_loop_run [OF assms] by (auto intro!: steps_blocking)

lemma errno_keeps_sends:
  assumes "rt_steps same_errno G"
  shows "errno_keeps (send_loop (try_send G c v) c' i n)"
    and "errno_keeps (send_loop (try_signal G c) c' i n)"
  unfolding errno_keeps_steps steps_def
  using assms by (auto simp: rt_steps_def intro!: re.send_loop_run re.run_refl)

lemma errno_keeps_futex_op [errno_rules]: "errno_keeps (futex_op f)"
  by (auto simp: errno_keeps_def wlp_def futex_op_def split: option.split)

lemma errno_keeps_bitset_loop:
  "rt_steps same_errno G \<Longrightarrow> errno_keeps (bitset_loop G m val3 n bs i)"
  by (induction bs arbitrary: i) (auto split: option.split intro!: errno_rules errno_keeps_sends)

lemma errno_spec_wait_start:
  "{EFAULT, EAGAIN} \<subseteq> E \<Longrightarrow> (\<And>timer. errno_spec E (- 1) (k timer)) \<Longrightarrow>
     errno_spec E (- 1) (wait_start G M uaddr v utime k)"
  by (auto simp: wait_start_def intro!: errno_rules)

lemma errno_spec_wait_end:
  assumes "{ETIMEDOUT, EPERM, EFAULT} \<subseteq> E" "\<And>s. m_err (h s) = m_err s"
  shows "errno_spec E (- 1) (bnd (wait_result e) (\<lambda>r. bnd (modify h) (\<lambda>_. ret r)))"
  using assms by (cases e) (auto simp: errno_spec_def wlp_def bnd_def)

text \<open>The error contract of the handler, if the tasks that run during its waits keep the error number.\<close>

lemma futex_errno:
  assumes "rt_steps same_errno G"
  shows "errno_spec {EFAULT, EAGAIN, ETIMEDOUT, EPERM, ENOSYS} (- 1)
    (futex_futex G M uaddr op v utime uaddr2 val3)"
proof -
  let ?E = "{EFAULT, EAGAIN, ETIMEDOUT, EPERM, ENOSYS}"
  have "errno_spec ?E (- 1) (futex_wait G M uaddr v utime)"
    "errno_spec ?E (- 1) (futex_wait_bitset G M uaddr v utime val3)"
    unfolding futex_wait_def futex_wait_bitset_def
    using errno_keeps_waits [OF assms]
    by (auto split: prod.split intro!: errno_spec_wait_start errno_spec_bnd errno_spec_wait_end errno_rules)
  moreover have "errno_spec ?E (- 1) (futex_wake G M uaddr v)" "errno_spec ?E (- 1) (futex_wake_bitset G v val3)"
    unfolding futex_wake_def futex_wake_bitset_def
    using errno_keeps_sends [OF assms] errno_keeps_bitset_loop [OF assms]
    by (auto split: option.split intro!: errno_rules errno_keeps_spec [of "send_loop put c i n" for put c i n]
        errno_keeps_spec [of "bitset_loop G m val3 n bs i" for m n bs i])
  ultimately show ?thesis
    by (auto simp: futex_futex_def Let_def intro!: errno_rules)
qed

text \<open>
  The effect contract: a relation that allows the tables to change, and that the other tasks keep
  during a wait, is kept by the handler.
\<close>

locale futex_effect = effect +
  assumes R_futex: "R s (m_futex_update f s)"
begin

lemma steps_futex_op: "steps R (futex_op f)"
  by (auto simp: steps_def wlp_def futex_op_def R_refl R_futex split: option.split)

lemma steps_waits:
  assumes "rt_steps R G"
  shows "steps R (blocking (wait_loop G timer c v))" "steps R (blocking (bit_loop G M uaddr timer c1 c2 v))"
  using wait_loop_run [OF assms] bit_loop_run [OF assms] by (auto intro!: steps_blocking)

lemma steps_sends:
  assumes "rt_steps R G"
  shows "steps R (send_loop (try_send G c v) c' i n)" "steps R (send_loop (try_signal G c) c' i n)"
  unfolding steps_def using assms by (auto simp: rt_steps_def intro!: send_loop_run R_refl)

lemma steps_bitset_loop: "rt_steps R G \<Longrightarrow> steps R (bitset_loop G m val3 n bs i)"
  by (induction bs arbitrary: i) (auto split: option.split intro!: steps_rules steps_sends)

lemma steps_wait_parts:
  "(\<And>timer. steps R (k timer)) \<Longrightarrow> steps R (wait_start G M uaddr v utime k)" "steps R (wait_result e)"
  by (auto simp: wait_start_def intro!: steps_rules) (cases e; auto intro!: steps_rules)

lemma steps_futex:
  assumes "rt_steps R G"
  shows "steps R (futex_futex G M uaddr op v utime uaddr2 val3)"
proof -
  have "steps R (futex_wait G M uaddr v utime)" "steps R (futex_wait_bitset G M uaddr v utime val3)"
    unfolding futex_wait_def futex_wait_bitset_def
    by (auto split: prod.split
        intro!: steps_wait_parts steps_rules steps_futex_op steps_modify R_futex steps_waits [OF assms])
  moreover have "steps R (futex_wake G M uaddr v)" "steps R (futex_wake_bitset G v val3)"
    unfolding futex_wake_def futex_wake_bitset_def
    by (auto split: option.split intro!: steps_rules steps_sends [OF assms] steps_bitset_loop [OF assms])
  ultimately show ?thesis
    by (auto simp: futex_futex_def Let_def intro!: steps_rules)
qed

end

interpretation fu: futex_effect only_futex
  by unfold_locales (simp add: only_futex_def)

section \<open>Waiting and waking\<close>

text \<open>A runtime on which every wait times out and no value is taken.\<close>

definition host_RT :: "(hostw, hobj) GoRT" where
  "host_RT = \<lparr>time_After = (\<lambda>d w. (0, w)), select_await = (\<lambda>t c s. Some (Timeout, s)),
     select_bit = (\<lambda>t c1 c2 s. Some (BTimeout, s)), try_send = (\<lambda>c v s. (False, s)),
     try_signal = (\<lambda>c s. (False, s)), range_order = (\<lambda>m. [])\<rparr>"

text \<open>
  A wait on an address that does not hold the expected value fails with \<open>EAGAIN\<close> at once and
  does not enter the tables.
\<close>

theorem futex_wait_mismatch:
  assumes "MemReadPtr M uaddr 4 (world s) = (Inr bs, w)" and "uint32_of_bytes bs \<noteq> v"
    and "op AND FUTEX_CMD_MASK \<in> {FUTEX_WAIT, FUTEX_WAIT_BITSET}"
  shows "\<exists>s'. futex_futex G M uaddr op v utime uaddr2 val3 s = Return (- 1) s' \<and>
    m_err s' = EAGAIN \<and> sys (kernel s') = sys (kernel s)"
  using assms
  by (auto simp: futex_futex_def futex_wait_def futex_wait_bitset_def wait_start_def Let_def call_evals
      FUTEX_WAIT_def FUTEX_WAKE_def FUTEX_CMP_REQUEUE_def FUTEX_WAIT_BITSET_def)

lemma send_loop_bound:
  "unat i \<le> unat n \<Longrightarrow>
     (case send_loop put c i n s of
        Return r s' \<Rightarrow> unat i \<le> unat r \<and> unat r \<le> unat n
      | Panic p s' \<Rightarrow> c \<in> closed (m_futex s')
      | Block \<Rightarrow> False)"
proof (induction put c i n s rule: send_loop.induct)
  case (1 put c i n s)
  obtain taken s1 where p: "put s = (taken, s1)" by fastforce
  have eq: "send_loop put c i n s =
      (if i = n then Return i s else if c \<in> closed (m_futex s) then Panic ''send on closed channel'' s
       else if taken then send_loop put c (i + 1) n s1 else Return i s1)"
    by (subst send_loop.simps) (simp add: p)
  show ?case
  proof (cases "i \<noteq> n \<and> c \<notin> closed (m_futex s) \<and> taken")
    case False
    with 1(2) show ?thesis unfolding eq by auto
  next
    case True
    have "unat i < unat n" using 1(2) True by (simp add: less_le word_unat_eq_iff)
    moreover have "unat n < 2 ^ LENGTH(32)" by (rule unsigned_less)
    ultimately have i: "unat (i + 1) = Suc (unat i)" "unat (i + 1) \<le> unat n" by (simp_all add: unat_plus_if')
    from 1(1) [OF _ _ p [symmetric] _ i(2)] True i(1) show ?thesis
      unfolding eq by (simp split: outcome.splits)
  qed
qed

text \<open>
  C25. A wake never blocks. It returns 0 when nobody waits at the address; otherwise it returns at
  most the requested count, read as an unsigned number, or fails with \<open>EFAULT\<close>. It panics only when
  the channel is closed, that is when the kernel was closed after the look-up.
\<close>

theorem futex_wake_bound:
  "case futex_wake G M uaddr v s of
     Return r s' \<Rightarrow>
       (getAwait uaddr (m_futex s) = None \<longrightarrow> r = 0 \<and> s' = s) \<and>
       (unat r \<le> unat v \<or> r = - 1 \<and> m_err s' = EFAULT)
   | Panic p s' \<Rightarrow> \<exists>c. getAwait uaddr (m_futex s) = Some c \<and> c \<in> closed (m_futex s')
   | Block \<Rightarrow> False"
proof (cases "getAwait uaddr (m_futex s)")
  case None
  then show ?thesis by (simp add: futex_wake_def)
next
  case (Some c)
  obtain x w where r: "MemReadPtr M uaddr 4 (world s) = (x, w)" by fastforce
  show ?thesis
  proof (cases x)
    case (Inl e)
    with Some r show ?thesis by (simp add: futex_wake_def on_err_eval)
  next
    case (Inr bs)
    with Some r have "futex_wake G M uaddr v s =
        send_loop (try_send G c (uint32_of_bytes bs)) c 0 v (s\<lparr>world := w\<rparr>)"
      by (simp add: futex_wake_def on_err_eval)
    with send_loop_bound [where i = 0 and n = v and put = "try_send G c (uint32_of_bytes bs)" and c = c
        and s = "s\<lparr>world := w\<rparr>"] Some
    show ?thesis by (auto split: outcome.splits)
  qed
qed

theorem futex_wake_bound_witness:
  "\<exists>s'. futex_wake host_RT host_Memory 64 3 (host_machine host_start) = Return 0 s'"
  using futex_wake_bound [where G = host_RT and M = host_Memory and uaddr = 64 and v = 3
      and s = "host_machine host_start"]
  by (auto simp: host_machine_def getAwait_def gomap_get_def split: outcome.splits)

text \<open>
  The tables count the waiters: entering with \<open>addAwait\<close> or with \<open>addBitAwait\<close> and leaving again
  keeps, for every address and every bit set, an entry exactly while somebody waits there, with
  their number as its count.
\<close>

theorem await_tables_count:
  assumes "awaits f \<noteq> None" and "bitAwaits f \<noteq> None"
    and "counts await_look f W" and "counts bit_look f B"
  shows "(\<exists>c f'. addAwait addr f = Some (c, f') \<and> awaits f' \<noteq> None \<and>
            counts await_look f' (W + {#addr#}) \<and> counts bit_look f' B \<and> getAwait addr f' = Some c) \<and>
    (\<exists>c1 c2 f'. addBitAwait addr b f = Some ((c1, c2), f') \<and> counts await_look f' (W + {#addr#}) \<and>
            counts bit_look f' (B + {#b#})) \<and>
    (addr \<in># W \<longrightarrow> counts await_look (delAwait addr f) (W - {#addr#}) \<and> counts bit_look (delAwait addr f) B) \<and>
    (addr \<in># W \<and> b \<in># B \<longrightarrow> counts await_look (delBitAwait addr b f) (W - {#addr#}) \<and>
            counts bit_look (delBitAwait addr b f) (B - {#b#}))"
proof (intro conjI impI)
  have a: "addAwait addr f = Some (c, f') \<Longrightarrow> bitAwaits f' = bitAwaits f" for c f'
    by (auto simp: addAwait_def)
  have b: "addBit b g = Some (c, g') \<Longrightarrow> awaits g' = awaits g" for c g g'
    by (auto simp: addBit_def)
  from aw.enter_counts [OF assms(1,3), of addr] obtain c1 f1 where
    f1: "addAwait addr f = Some (c1, f1)" "awaits f1 \<noteq> None" "counts await_look f1 (W + {#addr#})"
    "getAwait addr f1 = Some c1" by (auto simp: getAwait_def)
  have f1b: "counts bit_look f1 B" "bitAwaits f1 \<noteq> None"
    using a [OF f1(1)] assms(2,4) by (simp_all add: counts_def)
  with f1 show "\<exists>c f'. addAwait addr f = Some (c, f') \<and> awaits f' \<noteq> None \<and>
      counts await_look f' (W + {#addr#}) \<and> counts bit_look f' B \<and> getAwait addr f' = Some c" by blast
  from bw.enter_counts [OF f1b(2,1), of b] obtain c2 f2 where
    f2: "addBit b f1 = Some (c2, f2)" "counts bit_look f2 (B + {#b#})" by blast
  moreover have "counts await_look f2 (W + {#addr#})" using b [OF f2(1)] f1(3) by (simp add: counts_def)
  ultimately show "\<exists>c1 c2 f'. addBitAwait addr b f = Some ((c1, c2), f') \<and>
      counts await_look f' (W + {#addr#}) \<and> counts bit_look f' (B + {#b#})"
    using f1(1) by (auto simp: addBitAwait_def)
next
  assume "addr \<in># W"
  from aw.leave_counts [OF assms(1,3) this] show "counts await_look (delAwait addr f) (W - {#addr#})" by blast
  show "counts bit_look (delAwait addr f) B" using assms(4) by (simp add: counts_def delAwait_def)
next
  assume m: "addr \<in># W \<and> b \<in># B"
  with aw.leave_counts [OF assms(1,3)] show "counts await_look (delBitAwait addr b f) (W - {#addr#})"
    by (simp add: counts_def delBitAwait_def delBit_def)
  have "bitAwaits (delAwait addr f) \<noteq> None" "counts bit_look (delAwait addr f) B"
    using assms(2,4) by (simp_all add: counts_def delAwait_def)
  from bw.leave_counts [OF this] m show "counts bit_look (delBitAwait addr b f) (B - {#b#})"
    by (simp add: delBitAwait_def)
qed

end
