(* ===== verification/Futex_Steps.thy ===== *)
theory Futex_Steps
  imports Futex
begin

text \<open>
  The futex calls of several tasks, interleaved. A task is at one of the points of the handler where
  another task may act: between the check of the value and the registration, before and while it is
  blocked in the \<open>select\<close>, between the end of the wait and the deferred removal, between the look-up of a channel and the sends. The
  operations of the steps are those of \<open>Futex\<close>. A channel is unbuffered: a send is a step of the
  sender and of a task that is blocked at the channel. The range over \<open>bitAwaits\<close> holds the read lock, so
  no task registers, leaves or closes the kernel during it. Guest memory can be read, and any
  wait may time out: the steps allow more than a wait without a timer does, never less.
\<close>

section \<open>Steps\<close>

datatype pc =
    Idle int32
  | Checked emuptr uint32 "uint32 option"
  | Entered emuptr uint32 nat "(uint32 \<times> nat) option"
  | Waiting emuptr uint32 nat "(uint32 \<times> nat) option"
  | Reread emuptr uint32 nat "uint32 \<times> nat"
  | Leaving emuptr "uint32 option" int32
  | Got emuptr nat uint32
  | Sending emuptr nat uint32 uint32 uint32
  | Ranging "nat list" uint32 uint32
  | Panicked

record fsys =
  fx_mem :: "emuptr \<Rightarrow> uint32"
  fx_tab :: futex
  pcs :: "pc list"

fun is_ranging :: "pc \<Rightarrow> bool" where
  "is_ranging (Ranging cs i n) = True"
| "is_ranging _ = False"

definition unlocked :: "fsys \<Rightarrow> bool" where
  "unlocked s \<longleftrightarrow> list_all (\<lambda>p. \<not> is_ranging p) (pcs s)"

definition at :: "fsys \<Rightarrow> nat \<Rightarrow> pc \<Rightarrow> bool" where
  "at s t p \<longleftrightarrow> t < length (pcs s) \<and> pcs s ! t = p"

definition goto :: "nat \<Rightarrow> pc \<Rightarrow> fsys \<Rightarrow> fsys" where
  "goto t p s = s\<lparr>pcs := (pcs s)[t := p]\<rparr>"

fun waits_on :: "nat \<Rightarrow> pc \<Rightarrow> bool" where
  "waits_on c (Waiting a v c1 x) = (c = c1)"
| "waits_on c _ = False"

fun signals_on :: "nat \<Rightarrow> pc \<Rightarrow> bool" where
  "signals_on c (Waiting a v c1 x) = (\<exists>b. x = Some (b, c))"
| "signals_on c _ = False"

definition removed :: "emuptr \<Rightarrow> uint32 option \<Rightarrow> futex \<Rightarrow> futex" where
  "removed a x f = (case x of None \<Rightarrow> delAwait a f | Some b \<Rightarrow> delBitAwait a b f)"

inductive fx_step :: "fsys \<Rightarrow> fsys \<Rightarrow> bool" where
  store: "fx_step s (s\<lparr>fx_mem := (fx_mem s)(a := v)\<rparr>)"
| check: "at s t (Idle r) \<Longrightarrow> fx_mem s a = v \<Longrightarrow> fx_step s (goto t (Checked a v x) s)"
| mismatch: "at s t (Idle r) \<Longrightarrow> fx_mem s a \<noteq> v \<Longrightarrow> fx_step s (goto t (Idle (- 1)) s)"
| register: "at s t (Checked a v None) \<Longrightarrow> unlocked s \<Longrightarrow> addAwait a (fx_tab s) = Some (c, f) \<Longrightarrow>
    fx_step s (goto t (Entered a v c None) (s\<lparr>fx_tab := f\<rparr>))"
| register_bit: "at s t (Checked a v (Some b)) \<Longrightarrow> unlocked s \<Longrightarrow>
    addBitAwait a b (fx_tab s) = Some ((c1, c2), f) \<Longrightarrow>
    fx_step s (goto t (Entered a v c1 (Some (b, c2))) (s\<lparr>fx_tab := f\<rparr>))"
| block: "at s t (Entered a v c x) \<Longrightarrow> fx_step s (goto t (Waiting a v c x) s)"
| register_panic: "at s t (Checked a v x) \<Longrightarrow> unlocked s \<Longrightarrow> awaits (fx_tab s) = None \<Longrightarrow>
    fx_step s (goto t Panicked s)"
| expire: "at s t (Waiting a v c x) \<Longrightarrow> fx_step s (goto t (Leaving a (map_option fst x) (- 1)) s)"
| hangup: "at s t (Waiting a v c x) \<Longrightarrow> c \<in> closed (fx_tab s) \<Longrightarrow>
    fx_step s (goto t (Leaving a (map_option fst x) (- 1)) s)"
| hangup_bit: "at s t (Waiting a v c (Some (b, d))) \<Longrightarrow> d \<in> closed (fx_tab s) \<Longrightarrow>
    fx_step s (goto t (Reread a v c (b, d)) s)"
| leave: "at s t (Leaving a x r) \<Longrightarrow> unlocked s \<Longrightarrow>
    fx_step s (goto t (Idle r) (s\<lparr>fx_tab := removed a x (fx_tab s)\<rparr>))"
| no_waiter: "at s t (Idle r) \<Longrightarrow> getAwait a (fx_tab s) = None \<Longrightarrow> fx_step s (goto t (Idle 0) s)"
| found: "at s t (Idle r) \<Longrightarrow> getAwait a (fx_tab s) = Some c \<Longrightarrow> fx_step s (goto t (Got a c n) s)"
| load: "at s t (Got a c n) \<Longrightarrow> fx_step s (goto t (Sending a c (fx_mem s a) 0 n) s)"
| send: "at s t (Sending a c v i n) \<Longrightarrow> i \<noteq> n \<Longrightarrow> c \<notin> closed (fx_tab s) \<Longrightarrow> at s u (Waiting a' w c x) \<Longrightarrow>
    fx_step s (goto u (if v \<noteq> w then Leaving a' (map_option fst x) 0 else Entered a' w c x)
      (goto t (Sending a c v (i + 1) n) s))"
| send_default: "at s t (Sending a c v i n) \<Longrightarrow> i \<noteq> n \<Longrightarrow> c \<notin> closed (fx_tab s) \<Longrightarrow>
    \<not> list_ex (waits_on c) (pcs s) \<Longrightarrow> fx_step s (goto t (Idle i) s)"
| send_done: "at s t (Sending a c v n n) \<Longrightarrow> fx_step s (goto t (Idle n) s)"
| send_panic: "at s t (Sending a c v i n) \<Longrightarrow> i \<noteq> n \<Longrightarrow> c \<in> closed (fx_tab s) \<Longrightarrow>
    fx_step s (goto t Panicked s)"
| range_start: "at s t (Idle r) \<Longrightarrow> distinct cs \<Longrightarrow>
    set cs = {ch w |b w. bit_look (fx_tab s) b = Some w \<and> b AND m \<noteq> 0} \<Longrightarrow>
    fx_step s (goto t (Ranging cs 0 n) s)"
| signal: "at s t (Ranging (c # cs) i n) \<Longrightarrow> i \<noteq> n \<Longrightarrow> at s u (Waiting a w c1 (Some (b, c))) \<Longrightarrow>
    fx_step s (goto u (Reread a w c1 (b, c)) (goto t (Ranging (c # cs) (i + 1) n) s))"
| signal_default: "at s t (Ranging (c # cs) i n) \<Longrightarrow> i \<noteq> n \<Longrightarrow> \<not> list_ex (signals_on c) (pcs s) \<Longrightarrow>
    fx_step s (goto t (Ranging cs i n) s)"
| range_done: "at s t (Ranging cs i n) \<Longrightarrow> cs = [] \<or> i = n \<Longrightarrow> fx_step s (goto t (Idle i) s)"
| reread: "at s t (Reread a w c x) \<Longrightarrow>
    fx_step s (goto t (if fx_mem s a \<noteq> w then Leaving a (Some (fst x)) 0 else Entered a w c (Some x)) s)"
| shutdown: "unlocked s \<Longrightarrow> fx_step s (s\<lparr>fx_tab := futex_dtor (fx_tab s)\<rparr>)"

text \<open>Runs from a start state: idle tasks, empty tables.\<close>

definition fx_start :: "fsys \<Rightarrow> bool" where
  "fx_start s \<longleftrightarrow> (\<exists>n f. pcs s = replicate n (Idle 0) \<and> fx_tab s = futex_ctor f \<and> closed f = {})"

inductive fx_reach :: "fsys \<Rightarrow> fsys \<Rightarrow> bool" for s0 where
  fx_refl: "fx_reach s0 s0"
| fx_next: "fx_reach s0 s \<Longrightarrow> fx_step s s' \<Longrightarrow> fx_reach s0 s'"

section \<open>Who waits where\<close>

text \<open>The keys that a task counts for in the tables, and the channels it may wait at.\<close>

fun waits_at :: "pc \<Rightarrow> emuptr list" where
  "waits_at (Entered a v c x) = [a]"
| "waits_at (Waiting a v c x) = [a]"
| "waits_at (Reread a v c x) = [a]"
| "waits_at (Leaving a x r) = [a]"
| "waits_at _ = []"

fun waits_bit :: "pc \<Rightarrow> uint32 list" where
  "waits_bit (Entered a v c x) = (case x of None \<Rightarrow> [] | Some (b, c2) \<Rightarrow> [b])"
| "waits_bit (Waiting a v c x) = (case x of None \<Rightarrow> [] | Some (b, c2) \<Rightarrow> [b])"
| "waits_bit (Reread a v c x) = [fst x]"
| "waits_bit (Leaving a x r) = (case x of None \<Rightarrow> [] | Some b \<Rightarrow> [b])"
| "waits_bit _ = []"

fun chans_at :: "pc \<Rightarrow> (emuptr \<times> nat) list" where
  "chans_at (Entered a v c x) = [(a, c)]"
| "chans_at (Waiting a v c x) = [(a, c)]"
| "chans_at (Reread a v c x) = [(a, c)]"
| "chans_at _ = []"

fun chans_bit :: "pc \<Rightarrow> (uint32 \<times> nat) list" where
  "chans_bit (Entered a v c x) = (case x of None \<Rightarrow> [] | Some y \<Rightarrow> [y])"
| "chans_bit (Waiting a v c x) = (case x of None \<Rightarrow> [] | Some y \<Rightarrow> [y])"
| "chans_bit (Reread a v c x) = [x]"
| "chans_bit _ = []"

lemma chans_waits:
  "(a, c) \<in> set (chans_at p) \<Longrightarrow> a \<in> set (waits_at p)"
  "(b, c) \<in> set (chans_bit p) \<Longrightarrow> b \<in> set (waits_bit p)"
  by (cases p; auto split: option.splits)+

definition waiters :: "(pc \<Rightarrow> 'k list) \<Rightarrow> fsys \<Rightarrow> 'k multiset" where
  "waiters f s = mset (concat (map f (pcs s)))"

lemma mset_concat_update:
  assumes "t < length ps"
  shows "mset (concat (map f (ps[t := p]))) + mset (f (ps ! t)) = mset (concat (map f ps)) + mset (f p)"
  using assms by (induction ps arbitrary: t) (auto simp: nth_Cons split: nat.split)

lemma waiters_goto:
  assumes "at s t q"
  shows "waiters f (goto t p s) + mset (f q) = waiters f s + mset (f p)"
  using mset_concat_update [of t "pcs s" f p] assms by (simp add: waiters_def goto_def at_def)

lemma waiters_goto_same: "at s t q \<Longrightarrow> f p = f q \<Longrightarrow> waiters f (goto t p s) = waiters f s"
  using waiters_goto [of s t q f p] by simp

lemma in_waiters: "at s t p \<Longrightarrow> k \<in> set (f p) \<Longrightarrow> k \<in># waiters f s"
  by (force simp: waiters_def at_def in_set_conv_nth)

lemma goto_simps [simp]:
  "fx_tab (goto t p s) = fx_tab s" "fx_mem (goto t p s) = fx_mem s"
  "pcs (goto t p s) = (pcs s)[t := p]" "length (pcs (goto t p s)) = length (pcs s)"
  by (simp_all add: goto_def)

lemma waiters_simps [simp]:
  "waiters f (s\<lparr>fx_tab := g\<rparr>) = waiters f s" "waiters f (s\<lparr>fx_mem := m\<rparr>) = waiters f s"
  by (simp_all add: waiters_def)

lemma at_simps [simp]:
  "at (s\<lparr>fx_tab := g\<rparr>) t p = at s t p" "at (s\<lparr>fx_mem := m\<rparr>) t p = at s t p"
  by (simp_all add: at_def)

lemma at_goto: "at s t q \<Longrightarrow> at (goto t p s) u r \<longleftrightarrow> (if u = t then r = p else at s u r)"
  by (auto simp: at_def)

lemma at_goto_other: "at s t q \<Longrightarrow> at s u r \<Longrightarrow> q \<noteq> r \<Longrightarrow> at (goto t p s) u r"
  by (auto simp: at_def nth_list_update)


section \<open>The invariant\<close>

text \<open>
  While the kernel is open, the tables count the waiters and every waiter waits at the channels that
  the tables have for its address and its bit set. After it was closed, every channel that somebody
  waits at is closed.
\<close>

definition chan_at :: "('k \<Rightarrow> futexAwait option) \<Rightarrow> 'k \<Rightarrow> nat \<Rightarrow> bool" where
  "chan_at look k c \<longleftrightarrow> (\<exists>w. look k = Some w \<and> ch w = c)"

definition pc_chans :: "futex \<Rightarrow> pc \<Rightarrow> bool" where
  "pc_chans f p \<longleftrightarrow>
     (\<forall>(a, c) \<in> set (chans_at p). chan_at (await_look f) a c) \<and>
     (\<forall>(b, c) \<in> set (chans_bit p). chan_at (bit_look f) b c)"

definition pc_closed :: "futex \<Rightarrow> pc \<Rightarrow> bool" where
  "pc_closed f p \<longleftrightarrow> (\<forall>(a, c) \<in> set (chans_at p). c \<in> closed f)"

definition fx_inv :: "fsys \<Rightarrow> bool" where
  "fx_inv s \<longleftrightarrow>
     (awaits (fx_tab s) = None \<longleftrightarrow> bitAwaits (fx_tab s) = None) \<and>
     (if awaits (fx_tab s) \<noteq> None then
        counts await_look (fx_tab s) (waiters waits_at s) \<and>
        counts bit_look (fx_tab s) (waiters waits_bit s) \<and>
        list_all (pc_chans (fx_tab s)) (pcs s)
      else list_all (pc_closed (fx_tab s)) (pcs s))"

text \<open>A step of one task to a point with the same waits.\<close>

lemma list_all_update:
  "list_all P ps \<Longrightarrow> (\<And>q. P q \<Longrightarrow> Q q) \<Longrightarrow> Q p \<Longrightarrow> list_all Q (ps[t := p])"
  using set_update_subset_insert [of ps t p] by (auto simp: list_all_iff)

lemma at_list_all: "at s t p \<Longrightarrow> list_all P (pcs s) \<Longrightarrow> P p"
  by (auto simp: at_def list_all_iff)

lemma pc_chans_mono:
  "set (chans_at p) \<subseteq> set (chans_at q) \<Longrightarrow> set (chans_bit p) \<subseteq> set (chans_bit q) \<Longrightarrow>
     pc_chans f q \<Longrightarrow> pc_chans f p"
  by (auto simp: pc_chans_def)

lemma pc_closed_mono:
  "set (chans_at p) \<subseteq> set (chans_at q) \<Longrightarrow> pc_closed f q \<Longrightarrow> pc_closed f p"
  by (auto simp: pc_closed_def)

lemma fx_inv_goto:
  assumes "fx_inv s" "at s t q" "waits_at p = waits_at q" "waits_bit p = waits_bit q"
    and "set (chans_at p) \<subseteq> set (chans_at q)" "set (chans_bit p) \<subseteq> set (chans_bit q)"
  shows "fx_inv (goto t p s)"
proof -
  have "list_all (pc_chans f) (pcs (goto t p s))" if "list_all (pc_chans f) (pcs s)" for f
    using list_all_update [OF that, of "pc_chans f" p t] at_list_all [OF assms(2) that]
      pc_chans_mono [OF assms(5,6)] by simp
  moreover have "list_all (pc_closed f) (pcs (goto t p s))" if "list_all (pc_closed f) (pcs s)" for f
    using list_all_update [OF that, of "pc_closed f" p t] at_list_all [OF assms(2) that]
      pc_closed_mono [OF assms(5)] by simp
  ultimately show ?thesis
    using assms(1,3,4) by (auto simp: fx_inv_def waiters_goto_same [OF assms(2)])
qed

text \<open>Entering and leaving a table keeps the channels of the others.\<close>

lemma counts_Some: "counts look s W \<Longrightarrow> k \<in># W \<Longrightarrow> \<exists>a. look s k = Some a \<and> ref a = int (count W k)"
  by (force simp: counts_def split: option.splits dest: spec [of _ k])

context wait_table
begin

lemma enter_chans:
  assumes "live s" "enter k s = Some (c, s')"
  shows "chan_at (look s') k c" "chan_at (look s) j d \<Longrightarrow> chan_at (look s') j d"
  using assms enter_some [OF assms(1), of k] enter_none [OF assms(1), of k]
  by (cases "look s k"; auto simp: chan_at_def)+

lemma leave_chans:
  assumes "live s" "counts look s W" "1 < count W k \<or> j \<noteq> k" "chan_at (look s) j d"
  shows "chan_at (look (leave k s)) j d"
proof (cases "j = k")
  case True
  with assms(4) obtain a where a: "look s k = Some a" "ch a = d" by (auto simp: chan_at_def)
  from assms(2) a(1) have "ref a = int (count W k)" by (auto simp: counts_def dest: spec [of _ k])
  with assms(3) True a leave_look [OF assms(1), of k] show ?thesis by (auto simp: chan_at_def)
next
  case False
  with assms(4) leave_look [OF assms(1), of k] show ?thesis by (auto simp: chan_at_def)
qed

end

lemma addAwait_bits: "addAwait a f = Some (c, g) \<Longrightarrow> bitAwaits g = bitAwaits f \<and> closed g = closed f"
  by (auto simp: addAwait_def)

lemma addBit_awaits: "addBit b f = Some (c, g) \<Longrightarrow> awaits g = awaits f \<and> closed g = closed f"
  by (auto simp: addBit_def)

lemma dead_add: "awaits f = None \<Longrightarrow> addAwait a f = None"
  by (simp add: addAwait_def ref_add_def gomap_defs)

lemma fx_inv_open:
  "awaits (fx_tab s) \<noteq> None \<Longrightarrow> fx_inv s \<longleftrightarrow> bitAwaits (fx_tab s) \<noteq> None \<and>
     counts await_look (fx_tab s) (waiters waits_at s) \<and>
     counts bit_look (fx_tab s) (waiters waits_bit s) \<and> list_all (pc_chans (fx_tab s)) (pcs s)"
  by (auto simp: fx_inv_def)

lemma pc_chans_addAwait:
  assumes "awaits f \<noteq> None" "addAwait a f = Some (c, g)" "pc_chans f p"
  shows "pc_chans g p"
  using assms(3) aw.enter_chans(2) [OF assms(1,2)] addAwait_bits [OF assms(2)] by (auto simp: pc_chans_def)

lemma pc_chans_addBit:
  assumes "bitAwaits f \<noteq> None" "addBit b f = Some (c, g)" "pc_chans f p"
  shows "pc_chans g p"
  using assms(3) bw.enter_chans(2) [OF assms(1,2)] addBit_awaits [OF assms(2)] by (auto simp: pc_chans_def)

lemma fx_inv_register:
  assumes "fx_inv s" "at s t (Checked a v None)" "addAwait a (fx_tab s) = Some (c, f)"
  shows "fx_inv (goto t (Entered a v c None) (s\<lparr>fx_tab := f\<rparr>))"
proof -
  let ?p = "Entered a v c None"
  have live: "awaits (fx_tab s) \<noteq> None" using assms(3) dead_add by force
  from assms(1) have inv: "bitAwaits (fx_tab s) \<noteq> None"
    "counts await_look (fx_tab s) (waiters waits_at s)" "counts bit_look (fx_tab s) (waiters waits_bit s)"
    "list_all (pc_chans (fx_tab s)) (pcs s)" by (simp_all add: fx_inv_open [OF live])
  from aw.enter_counts [OF live inv(2), of a] assms(3) have
    f: "awaits f \<noteq> None" "counts await_look f (waiters waits_at s + {#a#})" by auto
  have "pc_chans f ?p" using aw.enter_chans(1) [OF live assms(3)] by (simp add: pc_chans_def)
  then have "list_all (pc_chans f) ((pcs s)[t := ?p])"
    using list_all_update [OF inv(4) pc_chans_addAwait [OF live assms(3)]] by simp
  moreover have "counts bit_look f (waiters waits_bit s)"
    using inv(3) addAwait_bits [OF assms(3)] by (simp add: counts_def)
  ultimately show ?thesis
    using f inv(1) addAwait_bits [OF assms(3)] waiters_goto [OF assms(2), of waits_at ?p]
      waiters_goto_same [OF assms(2), of waits_bit ?p]
    by (subst fx_inv_open) (auto simp: waiters_def goto_def)
qed

lemma fx_inv_register_bit:
  assumes "fx_inv s" "at s t (Checked a v (Some b))" "addBitAwait a b (fx_tab s) = Some ((c1, c2), f)"
  shows "fx_inv (goto t (Entered a v c1 (Some (b, c2))) (s\<lparr>fx_tab := f\<rparr>))"
proof -
  let ?p = "Entered a v c1 (Some (b, c2))"
  from assms(3) obtain g where g: "addAwait a (fx_tab s) = Some (c1, g)" "addBit b g = Some (c2, f)"
    by (auto simp: addBitAwait_def split: option.splits)
  have live: "awaits (fx_tab s) \<noteq> None" using g(1) dead_add by force
  from assms(1) have inv: "bitAwaits (fx_tab s) \<noteq> None"
    "counts await_look (fx_tab s) (waiters waits_at s)" "counts bit_look (fx_tab s) (waiters waits_bit s)"
    "list_all (pc_chans (fx_tab s)) (pcs s)" by (simp_all add: fx_inv_open [OF live])
  from aw.enter_counts [OF live inv(2), of a] g(1) have
    gl: "awaits g \<noteq> None" "counts await_look g (waiters waits_at s + {#a#})" by auto
  have gb: "bitAwaits g \<noteq> None" "counts bit_look g (waiters waits_bit s)"
    using inv(1,3) addAwait_bits [OF g(1)] by (simp_all add: counts_def)
  from bw.enter_counts [OF gb, of b] g(2) have
    f: "bitAwaits f \<noteq> None" "counts bit_look f (waiters waits_bit s + {#b#})" by auto
  have "pc_chans f ?p"
    using aw.enter_chans(1) [OF live g(1)] bw.enter_chans(1) [OF gb(1) g(2)] addBit_awaits [OF g(2)]
    by (simp add: pc_chans_def)
  then have "list_all (pc_chans f) ((pcs s)[t := ?p])"
    using list_all_update [OF inv(4), of "pc_chans f" ?p t] pc_chans_addAwait [OF live g(1)]
      pc_chans_addBit [OF gb(1) g(2)] by simp
  moreover have "counts await_look f (waiters waits_at s + {#a#})"
    using gl(2) addBit_awaits [OF g(2)] by (simp add: counts_def)
  ultimately show ?thesis
    using f gl(1) addBit_awaits [OF g(2)] waiters_goto [OF assms(2), of waits_at ?p]
      waiters_goto [OF assms(2), of waits_bit ?p]
    by (subst fx_inv_open) (auto simp: waiters_def goto_def)
qed

text \<open>A task that leaves: if another one waits at the same key, the count is above one.\<close>

lemma waiters_other:
  assumes "at s t q" "f q = [k]" "f p = []" "at s u r" "u \<noteq> t" "k \<in> set (f r)"
  shows "1 < count (waiters f s) k"
proof -
  have w: "waiters f s = waiters f (goto t p s) + {#k#}"
    using waiters_goto [OF assms(1), of f p] assms(2,3) by simp
  have "at (goto t p s) u r" using assms(4,5) at_goto [OF assms(1)] by simp
  then have "k \<in># waiters f (goto t p s)" using assms(6) by (rule in_waiters)
  then show ?thesis by (simp add: w)
qed

lemma add_mset_minus: "add_mset a M = N \<Longrightarrow> M = N - {#a#}"
  by auto

lemma waiters_leave:
  assumes "at s t (Leaving a x r)"
  shows "waiters waits_at (goto t (Idle r) s) = waiters waits_at s - {#a#}" "a \<in># waiters waits_at s"
  using waiters_goto [OF assms, of waits_at "Idle r"] in_waiters [OF assms, of a waits_at]
  by (simp_all add: add_mset_minus)

lemma waiters_leave_bit:
  assumes "at s t (Leaving a (Some b) r)"
  shows "waiters waits_bit (goto t (Idle r) s) = waiters waits_bit s - {#b#}" "b \<in># waiters waits_bit s"
  using waiters_goto [OF assms, of waits_bit "Idle r"] in_waiters [OF assms, of b waits_bit]
  by (simp_all add: add_mset_minus)

lemma delAwait_simps [simp]: "bitAwaits (delAwait a f) = bitAwaits f" "closed (delAwait a f) = closed f"
  by (simp_all add: delAwait_def)

lemma delBit_simps [simp]: "awaits (delBit b f) = awaits f" "closed (delBit b f) = closed f"
  by (simp_all add: delBit_def)

lemma removed_dead:
  assumes "awaits f = None" "bitAwaits f = None"
  shows "awaits (removed a x f) = None" "bitAwaits (removed a x f) = None" "closed (removed a x f) = closed f"
  using assms by (cases x; simp add: removed_def delBitAwait_def delBit_def delAwait_def ref_del_def gomap_defs)+

lemma pc_chans_removed:
  assumes inv: "awaits f \<noteq> None" "bitAwaits f \<noteq> None" "counts await_look f (waiters waits_at s)"
      "counts bit_look f (waiters waits_bit s)"
    and t: "at s t (Leaving a x r)" and u: "at s u p" "u \<noteq> t" "pc_chans f p"
  shows "pc_chans (removed a x f) p"
proof -
  have a: "chan_at (await_look (delAwait a f)) j d" if "chan_at (await_look f) j d" "j \<in> set (waits_at p)" for j d
    using aw.leave_chans [OF inv(1,3) _ that(1), of a] waiters_other [OF t _ _ u(1,2), of waits_at a "Idle r"] that(2)
    by auto
  have b: "chan_at (bit_look (delBit b g)) j d"
    if "chan_at (bit_look f) j d" "j \<in> set (waits_bit p)" "x = Some b" "bitAwaits g = bitAwaits f" for j d b g
  proof -
    have "bitAwaits g \<noteq> None" "counts bit_look g (waiters waits_bit s)" "chan_at (bit_look g) j d"
      using inv(2,4) that(1,4) by (simp_all add: counts_def)
    from bw.leave_chans [OF this(1,2) _ this(3), of b] show ?thesis
      using waiters_other [OF t _ _ u(1,2), of waits_bit b "Idle r"] that(2,3) by auto
  qed
  show ?thesis
  proof (cases x)
    case None
    then show ?thesis using u(3) a chans_waits(1) [of _ _ p] by (auto simp: pc_chans_def removed_def)
  next
    case (Some y)
    have "\<forall>(j, d) \<in> set (chans_at p). chan_at (await_look (delAwait a f)) j d"
      using u(3) a chans_waits(1) [of _ _ p] by (auto simp: pc_chans_def)
    moreover have "\<forall>(j, d) \<in> set (chans_bit p). chan_at (bit_look (delBit y (delAwait a f))) j d"
      using u(3) b [OF _ _ Some] chans_waits(2) [of _ _ p] by (auto simp: pc_chans_def)
    ultimately show ?thesis using Some by (simp add: pc_chans_def removed_def delBitAwait_def)
  qed
qed

lemma removed_open:
  assumes inv: "awaits f \<noteq> None" "bitAwaits f \<noteq> None" "counts await_look f (waiters waits_at s)"
      "counts bit_look f (waiters waits_bit s)"
    and t: "at s t (Leaving a x r)"
  shows "awaits (removed a x f) \<noteq> None" "bitAwaits (removed a x f) \<noteq> None"
    "counts await_look (removed a x f) (waiters waits_at (goto t (Idle r) s))"
    "counts bit_look (removed a x f) (waiters waits_bit (goto t (Idle r) s))"
proof -
  note l = aw.leave_counts [OF inv(1,3) waiters_leave(2) [OF t]]
  have b: "bitAwaits (delAwait a f) \<noteq> None" "counts bit_look (delAwait a f) (waiters waits_bit s)"
    using inv(2,4) by (simp_all add: counts_def)
  have "awaits (removed a x f) \<noteq> None \<and> bitAwaits (removed a x f) \<noteq> None \<and>
    counts await_look (removed a x f) (waiters waits_at (goto t (Idle r) s)) \<and>
    counts bit_look (removed a x f) (waiters waits_bit (goto t (Idle r) s))"
  proof (cases x)
    case None
    with l b waiters_leave(1) [OF t] waiters_goto_same [OF t, of waits_bit "Idle r"] show ?thesis
      by (simp add: removed_def)
  next
    case (Some y)
    note ty = t [unfolded Some]
    note m = bw.leave_counts [OF b waiters_leave_bit(2) [OF ty]]
    have "counts await_look (delBit y (delAwait a f)) (waiters waits_at s - {#a#})"
      using l by (simp add: counts_def)
    with Some l m waiters_leave(1) [OF t] waiters_leave_bit(1) [OF ty] show ?thesis
      by (simp add: removed_def delBitAwait_def)
  qed
  then show "awaits (removed a x f) \<noteq> None" "bitAwaits (removed a x f) \<noteq> None"
    "counts await_look (removed a x f) (waiters waits_at (goto t (Idle r) s))"
    "counts bit_look (removed a x f) (waiters waits_bit (goto t (Idle r) s))" by simp_all
qed

lemma list_all_goto:
  assumes "at s t q" "P p" "\<And>u r. at s u r \<Longrightarrow> u \<noteq> t \<Longrightarrow> P r"
  shows "list_all P (pcs (goto t p s))"
  using assms by (auto simp: list_all_length at_def nth_list_update)

lemma fx_inv_leave:
  assumes inv: "fx_inv s" and t: "at s t (Leaving a x r)"
  shows "fx_inv (goto t (Idle r) (s\<lparr>fx_tab := removed a x (fx_tab s)\<rparr>))"
proof -
  let ?f = "fx_tab s" and ?g = "removed a x (fx_tab s)"
  have w: "waiters h (goto t (Idle r) (s\<lparr>fx_tab := ?g\<rparr>)) = waiters h (goto t (Idle r) s)" for h :: "pc \<Rightarrow> 'k list"
    by (simp add: waiters_def)
  show ?thesis
  proof (cases "awaits ?f = None")
    case True
    with inv have d: "bitAwaits ?f = None" "list_all (pc_closed ?f) (pcs s)" by (auto simp: fx_inv_def)
    have "list_all (pc_closed ?g) ((pcs s)[t := Idle r])"
      using list_all_update [OF d(2), of "pc_closed ?g" "Idle r" t]
      by (simp add: pc_closed_def removed_dead(3) [OF True d(1)])
    with removed_dead [OF True d(1)] show ?thesis by (simp add: fx_inv_def)
  next
    case False
    with inv have o: "bitAwaits ?f \<noteq> None" "counts await_look ?f (waiters waits_at s)"
      "counts bit_look ?f (waiters waits_bit s)" "list_all (pc_chans ?f) (pcs s)"
      by (simp_all add: fx_inv_open)
    have "list_all (pc_chans ?g) (pcs (goto t (Idle r) s))"
      by (rule list_all_goto [OF t], simp add: pc_chans_def)
        (rule pc_chans_removed [OF False o(1-3) t], use at_list_all [OF _ o(4)] in auto)
    then show ?thesis using removed_open [OF False o(1-3) t] by (subst fx_inv_open) (simp_all add: w)
  qed
qed

text \<open>Closing the kernel closes the channels of the tables, so those of the waiters.\<close>

lemma fx_inv_shutdown:
  assumes "fx_inv s"
  shows "fx_inv (s\<lparr>fx_tab := futex_dtor (fx_tab s)\<rparr>)"
proof -
  let ?f = "fx_tab s"
  have "pc_closed (futex_dtor ?f) p" if "pc_closed ?f p" for p
    using that by (auto simp: pc_closed_def futex_dtor_def)
  moreover have "pc_closed (futex_dtor ?f) p" if "pc_chans ?f p" "awaits ?f \<noteq> None" for p
    using that by (force simp: pc_closed_def pc_chans_def futex_dtor_def gomap_chans_def chan_at_def
        gomap_defs ran_def image_iff split: option.splits)
  ultimately have "list_all (pc_closed (futex_dtor ?f)) (pcs s)"
    using assms by (auto simp: fx_inv_def list_all_iff split: if_splits)
  then show ?thesis by (simp add: fx_inv_def futex_dtor_def)
qed

text \<open>The steps that do not touch the tables move one or two tasks to points with the same waits.\<close>

lemma waits_map_fst: "waits_bit (Leaving a (map_option fst x) r) = waits_bit (Waiting a' v c x)"
  by (cases x) auto

lemma fx_step_inv: "fx_step s s' \<Longrightarrow> fx_inv s \<Longrightarrow> fx_inv s'"
proof (induction rule: fx_step.induct)
  case (store s a v)
  then show ?case by (auto simp: fx_inv_def)
next
  case (register s t a v c f)
  then show ?case by (auto intro: fx_inv_register)
next
  case (register_bit s t a v b c1 c2 f)
  then show ?case by (auto intro: fx_inv_register_bit)
next
  case (leave s t a x r)
  then show ?case by (auto intro: fx_inv_leave)
next
  case (shutdown s)
  then show ?case by (auto intro: fx_inv_shutdown)
next
  case (expire s t a v c x)
  then show ?case by (rule_tac fx_inv_goto) (auto simp: waits_map_fst split: option.splits)
next
  case (hangup s t a v c x)
  then show ?case by (rule_tac fx_inv_goto) (auto simp: waits_map_fst split: option.splits)
next
  case (send s t a c v i n u a' w x)
  let ?s = "goto t (Sending a c v (i + 1) n) s"
  have "fx_inv ?s" by (rule fx_inv_goto [OF send.prems send.hyps(1)]) auto
  moreover have "at ?s u (Waiting a' w c x)"
    using at_goto_other [OF send.hyps(1,4)] by simp
  ultimately show ?case by (rule fx_inv_goto) (auto simp: waits_map_fst split: option.splits)
next
  case (signal s t c cs i n u a w c1 b)
  let ?s = "goto t (Ranging (c # cs) (i + 1) n) s"
  have "fx_inv ?s" by (rule fx_inv_goto [OF signal.prems signal.hyps(1)]) auto
  moreover have "at ?s u (Waiting a w c1 (Some (b, c)))"
    using at_goto_other [OF signal.hyps(1,3)] by simp
  ultimately show ?case by (rule fx_inv_goto) auto
qed (auto elim!: fx_inv_goto)

lemma fx_start_inv: "fx_start s \<Longrightarrow> fx_inv s"
  by (auto simp: fx_start_def fx_inv_def futex_ctor_def gomap_make_def counts_def waiters_def
      gomap_get_def pc_chans_def list_all_iff)

lemma fx_reach_inv: "fx_reach s0 s \<Longrightarrow> fx_start s0 \<Longrightarrow> fx_inv s"
  by (induction rule: fx_reach.induct) (auto intro: fx_step_inv fx_start_inv)

section \<open>After the kernel was closed every wait ends\<close>



lemma fx_reach_trans: "fx_reach s t \<Longrightarrow> fx_reach t u \<Longrightarrow> fx_reach s u"
  by (rotate_tac, induction rule: fx_reach.induct) (auto intro: fx_reach.intros)

lemma fx_reach_step: "fx_step s t \<Longrightarrow> fx_reach s t"
  by (auto intro: fx_reach.intros)











section \<open>What runs have and do not have\<close>

text \<open>A start state, and a run to a state in which task 0 is blocked.\<close>

definition fx_two :: "emuptr \<Rightarrow> uint32 \<Rightarrow> fsys" where
  "fx_two a v = \<lparr>fx_mem = (\<lambda>_. 0)(a := v),
     fx_tab = futex_ctor \<lparr>awaits = None, bitAwaits = None, nchan = 0, closed = {}\<rparr>,
     pcs = [Idle 0, Idle 0]\<rparr>"

definition fx_one_entry :: "emuptr \<Rightarrow> futex" where
  "fx_one_entry a = \<lparr>awaits = Some [a \<mapsto> \<lparr>ch = 0, ref = 1\<rparr>], bitAwaits = gomap_make, nchan = 1, closed = {}\<rparr>"

lemma fx_two_start: "fx_start (fx_two a v)"
  by (auto simp: fx_start_def fx_two_def numeral_2_eq_2
      intro!: exI [of _ 2] exI [of _ "\<lparr>awaits = None, bitAwaits = None, nchan = 0, closed = {}\<rparr>"])

lemma fx_two_simps [simp]:
  "pcs (fx_two a v) = [Idle 0, Idle 0]" "fx_mem (fx_two a v) a = v" "awaits (fx_tab (fx_two a v)) = gomap_make"
  by (simp_all add: fx_two_def futex_ctor_def)

lemma fx_two_add: "addAwait a (fx_tab (fx_two a v)) = Some (0, fx_one_entry a)"
  by (simp add: fx_two_def fx_one_entry_def futex_ctor_def addAwait_def ref_add_def gomap_defs gomap_make_def)

lemma fx_two_checked: "fx_reach (fx_two a v) (goto 0 (Checked a v None) (fx_two a v))"
  by (rule fx_reach_step, rule fx_step.check [where r = 0]) (simp_all add: at_def)

lemma enter_and_block:
  assumes "at s t (Checked a v None)" "unlocked s" "addAwait a (fx_tab s) = Some (c, f)"
  shows "fx_reach s (goto t (Waiting a v c None) (s\<lparr>fx_tab := f\<rparr>))"
proof -
  let ?s = "goto t (Entered a v c None) (s\<lparr>fx_tab := f\<rparr>)"
  have "at ?s t (Entered a v c None)" using assms(1) by (simp add: at_def)
  from fx_step.block [OF this] have "fx_step ?s (goto t (Waiting a v c None) (s\<lparr>fx_tab := f\<rparr>))"
    by (simp add: goto_def)
  then show ?thesis using fx_next [OF fx_reach_step [OF fx_step.register [OF assms]]] by blast
qed

definition fx_blocked :: "emuptr \<Rightarrow> uint32 \<Rightarrow> fsys" where
  "fx_blocked a v = (fx_two a v)\<lparr>fx_tab := fx_one_entry a, pcs := [Waiting a v 0 None, Idle 0]\<rparr>"

lemma fx_blocked_reach: "fx_reach (fx_two a v) (fx_blocked a v)"
proof -
  have "fx_reach (goto 0 (Checked a v None) (fx_two a v)) (fx_blocked a v)"
    using enter_and_block [of "goto 0 (Checked a v None) (fx_two a v)" 0 a v 0 "fx_one_entry a"]
    by (simp add: at_def unlocked_def fx_two_add fx_blocked_def goto_def)
  with fx_two_checked show ?thesis by (rule fx_reach_trans)
qed

text \<open>
  C5. The reference counts are exact in every state of every run: while the kernel is open, an
  address (a bit set) has an entry in the tables if and only if some task waits there, and its count is
  the number of these tasks, however the calls of the tasks are interleaved.
\<close>

theorem futex_refcounts:
  assumes "fx_start s0" "fx_reach s0 s" "awaits (fx_tab s) \<noteq> None"
  shows "counts await_look (fx_tab s) (waiters waits_at s) \<and> counts bit_look (fx_tab s) (waiters waits_bit s)"
  using fx_reach_inv [OF assms(2,1)] assms(3) by (simp add: fx_inv_open)

theorem futex_refcounts_witness:
  "fx_start (fx_two 64 7) \<and> fx_reach (fx_two 64 7) (fx_blocked 64 7) \<and>
   awaits (fx_tab (fx_blocked 64 7)) \<noteq> None \<and>
   counts await_look (fx_tab (fx_blocked 64 7)) {#64#} \<and> counts bit_look (fx_tab (fx_blocked 64 7)) {#}"
  using futex_refcounts [OF fx_two_start fx_blocked_reach, of 64 7] fx_two_start [of 64 7] fx_blocked_reach [of 64 7]
  by (simp add: fx_blocked_def fx_one_entry_def waiters_def)

text \<open>
  C11. A wake finds its waiters: in every state of every run of an open kernel, the channel that
  \<open>getAwait\<close> gives for an address is the one that every task in a wait at this address listens on, and
  the entry of its bit set has its second channel. Entries are never replaced under a waiter.
\<close>

theorem futex_wake_finds:
  assumes "fx_start s0" "fx_reach s0 s" "awaits (fx_tab s) \<noteq> None" "at s t (Waiting a v c x)"
  shows "getAwait a (fx_tab s) = Some c \<and>
    (\<forall>b d. x = Some (b, d) \<longrightarrow> (\<exists>n. bit_look (fx_tab s) b = Some \<lparr>ch = d, ref = n\<rparr>))"
proof -
  from fx_reach_inv [OF assms(2,1)] assms(3) have "list_all (pc_chans (fx_tab s)) (pcs s)"
    by (simp add: fx_inv_open)
  from at_list_all [OF assms(4) this] have "pc_chans (fx_tab s) (Waiting a v c x)" .
  then show ?thesis by (auto simp: pc_chans_def chan_at_def getAwait_def) (metis futexAwait.surjective old.unit.exhaust)
qed

theorem futex_wake_finds_witness:
  "fx_start (fx_two 64 7) \<and> fx_reach (fx_two 64 7) (fx_blocked 64 7) \<and>
   at (fx_blocked 64 7) 0 (Waiting 64 7 0 None) \<and> getAwait 64 (fx_tab (fx_blocked 64 7)) = Some 0"
  using futex_wake_finds [OF fx_two_start fx_blocked_reach, of 64 7 0 64 7 0 None] fx_two_start [of 64 7]
    fx_blocked_reach [of 64 7]
  by (simp add: fx_blocked_def fx_one_entry_def at_def)







end
