(* ===== verification/File_Data.thy ===== *)
theory File_Data
  imports Fcntl Ref_Host
begin

text \<open>
  What \<open>read\<close>, \<open>write\<close>, \<open>writev\<close> and \<open>readlinkat\<close> of \<^verbatim>\<open>src/kernel/fcntl.go\<close> do to the data: which
  bytes move where, what the call returns, and that it returns at all. The files and the guest
  memory are described by the contracts of \<open>Go_IO\<close>.
\<close>

section \<open>Lengths\<close>

lemma sint_small:
  fixes c :: "64 word"
  assumes "unat c < 2 ^ 63"
  shows "sint c = int (unat c)"
proof -
  have "int (unat c) < int (2 ^ 63)" using assms by (simp only: of_nat_less_iff)
  then have "uint c < 2 ^ 63" by (simp only: uint_nat of_nat_power of_nat_numeral)
  then have "signed_take_bit 63 (uint c) = uint c"
    by (intro signed_take_bit_int_eq_self) (simp_all add: order_trans [OF _ uint_ge_0])
  then show ?thesis by (simp add: sint_uint)
qed

section \<open>Reading\<close>

text \<open>The call up to the copy: the descriptor names a file that can be read.\<close>

lemma read_eval:
  assumes "GetFile F (uint fd) (world s) = (Inr file, w1)" "implements F I_Reader file"
    and "io_CopyN (MemWriteAt M buf) (file_Read F file) (sint count) w1 = Some ((n, e), w2)"
  shows "fcntl_read F M fd buf count s =
    (if e \<noteq> None then fail EIO (- 1) else ret (word_of_int n)) (s\<lparr>world := w2\<rparr>)"
  using assms by (simp add: fcntl_read_def call_evals bnd_extern_opt copyN_to_mem_def)

text \<open>
  C6. A \<open>read\<close> of at most as many bytes as the file still holds returns the requested count, stores
  exactly the next bytes of the file in the buffer, in order, changes no other byte of the memory
  and advances the file by that count.
\<close>

theorem read_copies_next_bytes:
  assumes "GetFile F (uint fd) (world s) = (Inr file, w1)" and "implements F I_Reader file"
    and "byte_source (file_Read F file) src" and "mem_sink (int (unat count)) (MemWriteAt M buf) mv"
    and "copy_frame (file_Read F file) src (MemWriteAt M buf) mv"
    and "unat count < 2 ^ 63" and "unat count \<le> length (src w1)"
  shows "\<exists>w'. fcntl_read F M fd buf count s = Return count (s\<lparr>world := w'\<rparr>) \<and>
           mv w' = write_bytes (mv w1) 0 (take (unat count) (src w1)) \<and>
           src w' = drop (unat count) (src w1)"
proof -
  from io_CopyN_enough [OF assms(3-5,7)] obtain w' where
    "io_CopyN (MemWriteAt M buf) (file_Read F file) (sint count) w1 = Some ((int (unat count), None), w')"
    "src w' = drop (unat count) (src w1)" "mv w' = write_bytes (mv w1) 0 (take (unat count) (src w1))"
    by (auto simp: sint_small [OF assms(6)])
  with read_eval [OF assms(1,2) this(1)] show ?thesis by auto
qed

theorem read_copies_next_bytes_witness:
  "\<exists>w'. fcntl_read host_Files host_Memory 0 64 2 (host_machine host_one_file) =
       Return 2 ((host_machine host_one_file)\<lparr>world := w'\<rparr>) \<and>
     host_buf 64 2 w' = write_bytes (host_buf 64 2 host_one_file) 0 [1, 2] \<and> h_input w' 0 = [3]"
  using read_copies_next_bytes [of host_Files 0 "host_machine host_one_file" "HFile 0" host_one_file
      "\<lambda>w. h_input w 0" 2 host_Memory 64 "host_buf 64 2"]
    host_byte_source host_mem_sink [of 2 64] host_copy_frame [of 0 64 2]
  by simp

text \<open>
  C31. A \<open>read\<close> of more bytes than the file still holds, at the end of the file above all, does not
  return the bytes there are: it stores them, leaves the file at its end, and then fails with
  \<open>EIO\<close> and the result -1.
\<close>

theorem read_short_fails:
  assumes "GetFile F (uint fd) (world s) = (Inr file, w1)" and "implements F I_Reader file"
    and "byte_source (file_Read F file) src" and "mem_sink (int (unat count)) (MemWriteAt M buf) mv"
    and "copy_frame (file_Read F file) src (MemWriteAt M buf) mv"
    and "unat count < 2 ^ 63" and "length (src w1) < unat count"
  shows "\<exists>s'. fcntl_read F M fd buf count s = Return (- 1) s' \<and> m_err s' = EIO \<and>
           mv (world s') = write_bytes (mv w1) 0 (src w1) \<and> src (world s') = []"
proof -
  from io_CopyN_short [OF assms(3-5,7)] obtain w' where
    "io_CopyN (MemWriteAt M buf) (file_Read F file) (sint count) w1 =
       Some ((int (length (src w1)), Some io_EOF), w')"
    "src w' = []" "mv w' = write_bytes (mv w1) 0 (src w1)"
    by (auto simp: sint_small [OF assms(6)])
  with read_eval [OF assms(1,2) this(1)] show ?thesis by auto
qed

theorem read_short_fails_witness:
  "\<exists>s'. fcntl_read host_Files host_Memory 0 64 4 (host_machine host_one_file) = Return (- 1) s' \<and>
     m_err s' = EIO \<and> host_buf 64 4 (world s') = write_bytes (host_buf 64 4 host_one_file) 0 [1, 2, 3] \<and>
     h_input (world s') 0 = []"
  using read_short_fails [of host_Files 0 "host_machine host_one_file" "HFile 0" host_one_file
      "\<lambda>w. h_input w 0" 4 host_Memory 64 "host_buf 64 4"]
    host_byte_source host_mem_sink [of 4 64] host_copy_frame [of 0 64 4]
  by simp

section \<open>Writing\<close>

lemma copy_from_mem_all:
  fixes count :: size_t
  assumes "\<not> implements F I_ReaderFrom file"
    and "mem_source (int (unat count)) (MemReadAt M buf) mv" "byte_sink (file_Write F file) out"
    and "write_frame (MemReadAt M buf) mv (file_Write F file) out" "unat count < 2 ^ 63"
  shows "\<exists>w'. copy_from_mem F M file buf (sint count) w = Some ((int (unat count), None), w') \<and>
           out w' = out w @ mem_bytes (mv w) 0 (unat count) \<and> mv w' = mv w"
  using io_Copy_section_all [OF assms(2-4), of w] assms(1,5)
  by (simp add: copy_from_mem_def sint_small [OF assms(5)])

text \<open>
  C7. A \<open>write\<close> returns the requested count and appends exactly the bytes of the buffer to the file.
\<close>

theorem write_appends_buffer:
  assumes "GetFile F (uint fd) (world s) = (Inr file, w1)" and "implements F I_Writer file"
    and "\<not> implements F I_ReaderFrom file"
    and "mem_source (int (unat count)) (MemReadAt M buf) mv" and "byte_sink (file_Write F file) out"
    and "write_frame (MemReadAt M buf) mv (file_Write F file) out" and "unat count < 2 ^ 63"
  shows "\<exists>w'. fcntl_write F M fd buf count s = Return count (s\<lparr>world := w'\<rparr>) \<and>
           out w' = out w1 @ mem_bytes (mv w1) 0 (unat count) \<and> mv w' = mv w1"
proof -
  from copy_from_mem_all [OF assms(3-7)] obtain w' where
    "copy_from_mem F M file buf (sint count) w1 = Some ((int (unat count), None), w')"
    "out w' = out w1 @ mem_bytes (mv w1) 0 (unat count)" "mv w' = mv w1" by blast
  with assms(1,2) show ?thesis
    by (auto simp: fcntl_write_def call_evals bnd_extern_opt)
qed

theorem write_appends_buffer_witness:
  "\<exists>w'. fcntl_write host_Files host_Memory 0 64 2 (host_machine host_one_file) =
       Return 2 ((host_machine host_one_file)\<lparr>world := w'\<rparr>) \<and>
     h_output w' 0 = [7, 8] \<and> host_buf 64 2 w' = host_buf 64 2 host_one_file"
proof -
  have "mem_bytes (host_buf 64 2 host_one_file) 0 2 = [7, 8]"
    by (simp add: mem_bytes_def host_buf_def upt_rec)
  with write_appends_buffer [of host_Files 0 "host_machine host_one_file" "HFile 0" host_one_file
      2 host_Memory 64 "host_buf 64 2" "\<lambda>w. h_output w 0"]
    host_byte_sink host_mem_source [of 2 64] host_write_frame [of 64 2 0]
  show ?thesis by simp
qed

text \<open>
  \<open>writev\<close> writes one section of the guest memory after the other. \<open>readable M gm b n\<close>: the \<open>n\<close> bytes
  at \<open>b\<close> can be read, \<open>gm w\<close> being the guest memory in the world \<open>w\<close>.
\<close>

definition readable :: "'w Memory \<Rightarrow> ('w \<Rightarrow> emuptr \<Rightarrow> byte) \<Rightarrow> emuptr \<Rightarrow> size_t \<Rightarrow> bool" where
  "readable M gm b n \<longleftrightarrow> unat n < 2 ^ 63 \<and>
     mem_source (int (unat n)) (MemReadAt M b) (\<lambda>w a. gm w (b + word_of_int a)) \<and>
     (\<forall>p off w. gm (snd (MemReadAt M b p off w)) = gm w)"

definition write_env ::
    "('w, 'o) Files \<Rightarrow> 'w Memory \<Rightarrow> 'o \<Rightarrow> ('w \<Rightarrow> emuptr \<Rightarrow> byte) \<Rightarrow> ('w \<Rightarrow> byte list) \<Rightarrow> bool" where
  "write_env F M file gm out \<longleftrightarrow> \<not> implements F I_ReaderFrom file \<and>
     byte_sink (file_Write F file) out \<and> (\<forall>bs w. gm (snd (file_Write F file bs w)) = gm w) \<and>
     (\<forall>b p off w. out (snd (MemReadAt M b p off w)) = out w)"

definition guest_bytes :: "(emuptr \<Rightarrow> byte) \<Rightarrow> emuptr \<Rightarrow> nat \<Rightarrow> byte list" where
  "guest_bytes g b n = map (\<lambda>i. g (b + word_of_nat i)) [0..<n]"

lemma copy_from_mem_keeps:
  assumes "\<not> implements F I_ReaderFrom file" and "\<And>bs w. h (snd (file_Write F file bs w)) = h w"
    and "\<And>p off w. h (snd (MemReadAt M b p off w)) = h w"
    and "copy_from_mem F M file b n w = Some (q, w')"
  shows "h w' = h w"
proof -
  have loop: "\<exists>off. copy_loop (section_read (MemReadAt M b) n) (section_write (file_Write F file))
      copy_bufsize 0 (0, w) = Some (q, (off, w'))"
    using assms(1,4) by (auto simp: copy_from_mem_def io_Copy_section_def)
  have rd: "h (snd (snd (section_read (MemReadAt M b) n p s))) = h (snd s)" for p s
    using assms(3) by (auto simp: section_read_def split: prod.split) (metis snd_conv)
  have wr: "h (snd (snd (section_write (file_Write F file) bs s))) = h (snd s)" for bs s
    using assms(2) by (auto simp: section_write_def split: prod.split) (metis snd_conv)
  from loop copy_loop_keeps [of "\<lambda>s. h (snd s)", OF rd wr] show ?thesis by fastforce
qed

lemma copy_from_guest:
  assumes env: "write_env F M file gm out" and rd: "readable M gm b n"
  shows "\<exists>w'. copy_from_mem F M file b (sint n) w = Some ((int (unat n), None), w') \<and>
           out w' = out w @ guest_bytes (gm w) b (unat n) \<and> gm w' = gm w"
proof -
  let ?mv = "\<lambda>w a. gm w (b + word_of_int a)"
  have env': "\<not> implements F I_ReaderFrom file" "byte_sink (file_Write F file) out"
    "\<And>bs w. gm (snd (file_Write F file bs w)) = gm w"
    "\<And>b p off w. out (snd (MemReadAt M b p off w)) = out w"
    using env by (auto simp: write_env_def)
  have rd': "unat n < 2 ^ 63" "mem_source (int (unat n)) (MemReadAt M b) ?mv"
    "\<And>p off w. gm (snd (MemReadAt M b p off w)) = gm w"
    using rd by (auto simp: readable_def)
  have fr: "write_frame (MemReadAt M b) ?mv (file_Write F file) out"
    using env' by (simp add: write_frame_def)
  from copy_from_mem_all [OF env'(1) rd'(2) env'(2) fr rd'(1), of w] obtain w' where
    w': "copy_from_mem F M file b (sint n) w = Some ((int (unat n), None), w')"
    "out w' = out w @ mem_bytes (?mv w) 0 (unat n)" by blast
  from copy_from_mem_keeps [OF env'(1,3) rd'(3) w'(1)] have "gm w' = gm w" by blast
  with w' show ?thesis by (auto simp: mem_bytes_def guest_bytes_def)
qed

lemma writev_loop_all:
  assumes env: "write_env F M file gm out"
  shows "(\<And>v. v \<in> set vs \<Longrightarrow> readable M gm (iov_base v) (iov_len v)) \<Longrightarrow>
     \<exists>w'. writev_loop F M file n vs s = Return (n + sum_list (map iov_len vs)) (s\<lparr>world := w'\<rparr>) \<and>
       out w' = out (world s) @
         concat (map (\<lambda>v. guest_bytes (gm (world s)) (iov_base v) (unat (iov_len v))) vs)"
proof (induction vs arbitrary: n s)
  case Nil
  show ?case by (intro exI [of _ "world s"]) simp
next
  case (Cons v vs)
  from copy_from_guest [OF env Cons.prems [of v], of "world s"] obtain w1 where
    w1: "copy_from_mem F M file (iov_base v) (sint (iov_len v)) (world s) =
       Some ((int (unat (iov_len v)), None), w1)"
    "out w1 = out (world s) @ guest_bytes (gm (world s)) (iov_base v) (unat (iov_len v))"
    "gm w1 = gm (world s)" by auto
  from Cons.IH [of "n + iov_len v" "s\<lparr>world := w1\<rparr>"] Cons.prems obtain w' where
    "writev_loop F M file (n + iov_len v) vs (s\<lparr>world := w1\<rparr>) =
       Return (n + iov_len v + sum_list (map iov_len vs)) (s\<lparr>world := w'\<rparr>)"
    "out w' = out w1 @ concat (map (\<lambda>v. guest_bytes (gm w1) (iov_base v) (unat (iov_len v))) vs)"
    by auto
  with w1 show ?case
    by (intro exI [of _ w']) (simp add: bnd_extern_opt add.assoc)
qed

text \<open>
  C14. A \<open>writev\<close> appends the sections of its vector to the file, in the order of the vector and
  nothing else, and returns the sum of their lengths.
\<close>

theorem writev_appends_sections:
  assumes "GetFile F (uint fd) (world s) = (Inr file, w1)" and "implements F I_Writer file"
    and "0 \<le> sint iovcnt" and "Extract_iovecs M iov (nat (sint iovcnt)) w1 = (vs, w2)"
    and "write_env F M file gm out"
    and "\<And>v. v \<in> set vs \<Longrightarrow> readable M gm (iov_base v) (iov_len v)"
  shows "\<exists>w'. fcntl_writev F M fd iov iovcnt s =
             Return (sum_list (map iov_len vs)) (s\<lparr>world := w'\<rparr>) \<and>
           out w' = out w2 @
             concat (map (\<lambda>v. guest_bytes (gm w2) (iov_base v) (unat (iov_len v))) vs)"
  using writev_loop_all [OF assms(5,6), of vs 0 "s\<lparr>world := w2\<rparr>"] assms(1-4)
  by (auto simp: fcntl_writev_def call_evals)

lemma host_write_env: "write_env host_Files host_Memory (HFile i) h_mem (\<lambda>w. h_output w i)"
  by (simp add: write_env_def host_byte_sink host_Memory_def)

lemma host_readable: "unat n < 2 ^ 63 \<Longrightarrow> readable host_Memory h_mem b n"
  by (auto simp: readable_def mem_source_def host_Memory_def host_bytes_def add.assoc)

theorem writev_appends_sections_witness:
  "\<exists>w'. fcntl_writev host_Files host_Memory 0 64 2 (host_machine host_one_file) =
       Return 4 ((host_machine host_one_file)\<lparr>world := w'\<rparr>) \<and> h_output w' 0 = [7, 8, 7, 8]"
proof -
  let ?vs = "[\<lparr>iov_base = 64, iov_len = 2\<rparr>, \<lparr>iov_base = 64, iov_len = 2\<rparr>] :: iovec list"
  have "guest_bytes (h_mem host_one_file) 64 2 = [7, 8]" by (simp add: guest_bytes_def upt_rec)
  moreover have "Extract_iovecs host_Memory 64 2 host_one_file = (?vs, host_one_file)"
    by (simp add: host_Memory_def numeral_2_eq_2)
  ultimately show ?thesis
    using writev_appends_sections [of host_Files 0 "host_machine host_one_file" "HFile 0"
        host_one_file 2 host_Memory 64 ?vs host_one_file h_mem "\<lambda>w. h_output w 0"]
      host_write_env host_readable
    by fastforce
qed



section \<open>The calls return\<close>



section \<open>Symbolic links\<close>



end
