(* ===== verification/Stat.thy ===== *)
theory Stat
  imports Fcntl Ref_Host "HOL-Library.Signed_Division"
begin

text \<open>
  The stat calls of \<^verbatim>\<open>src/kernel/fcntl.go\<close>: \<open>fstatat3264\<close> and \<open>fstat3264\<close> for 32-bit guests,
  \<open>fstatat64\<close> and \<open>fstat64\<close> for 64-bit guests. All four translate an \<open>fs.FileInfo\<close> of Go into the
  struct of the guest and store it.
\<close>

unbundle bit_operations_syntax

section \<open>Modes\<close>

definition S_IFIFO :: mode_t where
  "S_IFIFO = 0x1000"

definition S_IFCHR :: mode_t where
  "S_IFCHR = 0x2000"

definition S_IFDIR :: mode_t where
  "S_IFDIR = 0x4000"

definition S_IFBLK :: mode_t where
  "S_IFBLK = 0x6000"

definition S_IFREG :: mode_t where
  "S_IFREG = 0x8000"

definition S_IFLNK :: mode_t where
  "S_IFLNK = 0xA000"

definition S_IFSOCK :: mode_t where
  "S_IFSOCK = 0xC000"

text \<open>The bits of Go's \<open>fs.FileMode\<close>, and its \<open>Perm\<close> and \<open>Type\<close>.\<close>

definition fs_ModeDir :: uint32 where
  "fs_ModeDir = push_bit 31 1"

definition fs_ModeSymlink :: uint32 where
  "fs_ModeSymlink = push_bit 27 1"

definition fs_ModeDevice :: uint32 where
  "fs_ModeDevice = push_bit 26 1"

definition fs_ModeNamedPipe :: uint32 where
  "fs_ModeNamedPipe = push_bit 25 1"

definition fs_ModeSocket :: uint32 where
  "fs_ModeSocket = push_bit 24 1"

definition fs_ModeCharDevice :: uint32 where
  "fs_ModeCharDevice = push_bit 21 1"

definition fs_ModeIrregular :: uint32 where
  "fs_ModeIrregular = push_bit 19 1"

definition fs_ModeType :: uint32 where
  "fs_ModeType = fs_ModeDir OR fs_ModeSymlink OR fs_ModeNamedPipe OR fs_ModeSocket OR fs_ModeDevice OR
     fs_ModeCharDevice OR fs_ModeIrregular"

lemmas fs_mode_defs =
  fs_ModeDir_def fs_ModeSymlink_def fs_ModeDevice_def fs_ModeNamedPipe_def fs_ModeSocket_def
  fs_ModeCharDevice_def fs_ModeIrregular_def fs_ModeType_def

lemmas S_IF_defs =
  S_IFIFO_def S_IFCHR_def S_IFDIR_def S_IFBLK_def S_IFREG_def S_IFLNK_def S_IFSOCK_def

definition FileMode_Perm :: "uint32 \<Rightarrow> uint32" where
  "FileMode_Perm m = m AND 0x1FF"

definition FileMode_Type :: "uint32 \<Rightarrow> uint32" where
  "FileMode_Type m = m AND fs_ModeType"

text \<open>The two statements on \<open>stat.st_mode\<close>, which are the same in all four calls.\<close>

definition stat_mode :: "uint32 \<Rightarrow> mode_t" where
  "stat_mode mode =
     (let m = FileMode_Perm mode; t = FileMode_Type mode in
      if t = fs_ModeCharDevice then m OR S_IFCHR
      else if t = fs_ModeDevice then m OR S_IFBLK
      else if t = fs_ModeDir then m OR S_IFDIR
      else if t = fs_ModeNamedPipe then m OR S_IFIFO
      else if t = fs_ModeSymlink then m OR S_IFLNK
      else if t = fs_ModeSocket then m OR S_IFSOCK
      else m OR S_IFREG)"

text \<open>\<open>nano / 1e9\<close> and \<open>nano % 1e9\<close>: Go's signed division truncates toward zero.\<close>

definition stat_time :: "int64 \<Rightarrow> timespec" where
  "stat_time nano =
     \<lparr>tv_sec = word_of_int (sint nano sdiv 1000000000),
      tv_nsec = word_of_int (sint nano smod 1000000000)\<rparr>"

definition stat3264_of :: "FileInfo \<Rightarrow> stat3264" where
  "stat3264_of info =
     (let ts = stat_time (fi_nano info) in
      stat3264_zero\<lparr>st_mode_3264 := stat_mode (fi_mode info), st_size_3264 := fi_size info,
        st_atim_3264 := ts, st_mtim_3264 := ts, st_ctim_3264 := ts\<rparr>)"

definition stat64_of :: "FileInfo \<Rightarrow> stat64" where
  "stat64_of info =
     (let ts = stat_time (fi_nano info) in
      stat64_zero\<lparr>st_mode := stat_mode (fi_mode info), st_size := fi_size info,
        st_atim := ts, st_mtim := ts, st_ctim := ts\<rparr>)"

section \<open>The calls\<close>

text \<open>\<open>fs.Stat\<close>: the file system's own \<open>Stat\<close> when it has one, else open, stat and close.\<close>

definition fs_Stat :: "('w, 'o) Files \<Rightarrow> 'o \<Rightarrow> string \<Rightarrow> ('w, FileInfo) ioe" where
  "fs_Stat F dir path w =
     (if implements F I_fs_StatFS dir then fs_StatFS_Stat F dir path w
      else (case fs_Open F dir path w of
              (Inl e, w1) \<Rightarrow> (Inl e, w1)
            | (Inr file, w1) \<Rightarrow>
                (case file_Stat F file w1 of (r, w2) \<Rightarrow> (r, snd (file_Close F file w2)))))"

definition fcntl_fstatat3264 ::
    "('w, 'o) Files \<Rightarrow> 'w Memory \<Rightarrow> int32 \<Rightarrow> emuptr \<Rightarrow> emuptr \<Rightarrow> int32 \<Rightarrow> ('w, 'o, int32) kprog" where
  "fcntl_fstatat3264 F M dfd filename statbuf flag =
     on_err (MemReadString M filename) ENOENT (- 1) (\<lambda>path.
     at_dir F I_fs_FS dfd (- 1) (\<lambda>dir.
     on_err (fs_Stat F dir path) ENOENT (- 1) (\<lambda>info.
     bnd (extern_ignore (MemWrite M statbuf (MV_stat3264 (stat3264_of info)))) (\<lambda>_.
     ret 0))))"

definition fcntl_fstatat64 ::
    "('w, 'o) Files \<Rightarrow> 'w Memory \<Rightarrow> int32 \<Rightarrow> emuptr \<Rightarrow> emuptr \<Rightarrow> int32 \<Rightarrow> ('w, 'o, int32) kprog" where
  "fcntl_fstatat64 F M dfd filename statbuf flag =
     on_err (MemReadString M filename) ENOENT (- 1) (\<lambda>path.
     at_dir F I_fs_FS dfd (- 1) (\<lambda>dir.
     on_err (fs_Stat F dir path) ENOENT (- 1) (\<lambda>info.
     bnd (extern_ignore (MemWrite M statbuf (MV_stat64 (stat64_of info)))) (\<lambda>_.
     ret 0))))"

definition fcntl_fstat3264 ::
    "('w, 'o) Files \<Rightarrow> 'w Memory \<Rightarrow> uint32 \<Rightarrow> emuptr \<Rightarrow> ('w, 'o, int32) kprog" where
  "fcntl_fstat3264 F M fd statbuf =
     on_err (GetFile F (uint fd)) EBADF (- 1) (\<lambda>file.
     on_err (file_Stat F file) ENOENT (- 1) (\<lambda>info.
     bnd (extern_ignore (MemWrite M statbuf (MV_stat3264 (stat3264_of info)))) (\<lambda>_.
     ret 0)))"

definition fcntl_fstat64 ::
    "('w, 'o) Files \<Rightarrow> 'w Memory \<Rightarrow> uint32 \<Rightarrow> emuptr \<Rightarrow> ('w, 'o, int32) kprog" where
  "fcntl_fstat64 F M fd statbuf =
     on_err (GetFile F (uint fd)) EBADF (- 1) (\<lambda>file.
     on_err (file_Stat F file) ENOENT (- 1) (\<lambda>info.
     bnd (extern_ignore (MemWrite M statbuf (MV_stat64 (stat64_of info)))) (\<lambda>_.
     ret 0)))"

section \<open>Contracts\<close>

lemma stat_errno:
  "errno_spec {ENOENT, EBADF, ENOTDIR} (- 1) (fcntl_fstatat3264 F M dfd filename statbuf flag)"
  "errno_spec {ENOENT, EBADF, ENOTDIR} (- 1) (fcntl_fstatat64 F M dfd filename statbuf flag)"
  "errno_spec {ENOENT, EBADF} (- 1) (fcntl_fstat3264 F M fd statbuf)"
  "errno_spec {ENOENT, EBADF} (- 1) (fcntl_fstat64 F M fd statbuf)"
  by (auto simp: fcntl_fstatat3264_def fcntl_fstatat64_def fcntl_fstat3264_def fcntl_fstat64_def
      intro!: errno_rules)

lemma stat_steps:
  "steps only_world (fcntl_fstatat3264 F M dfd filename statbuf flag)"
  "steps only_world (fcntl_fstatat64 F M dfd filename statbuf flag)"
  "steps only_world (fcntl_fstat3264 F M fd statbuf)"
  "steps only_world (fcntl_fstat64 F M fd statbuf)"
  by (auto simp: fcntl_fstatat3264_def fcntl_fstatat64_def fcntl_fstat3264_def fcntl_fstat64_def
      intro!: ew.steps_rules steps_at_dir_world)

lemma stat_returns:
  "returns (fcntl_fstatat3264 F M dfd filename statbuf flag)"
  "returns (fcntl_fstatat64 F M dfd filename statbuf flag)"
  "returns (fcntl_fstat3264 F M fd statbuf)"
  "returns (fcntl_fstat64 F M fd statbuf)"
  by (auto simp: fcntl_fstatat3264_def fcntl_fstatat64_def fcntl_fstat3264_def fcntl_fstat64_def
      at_dir_def intro!: returns_rules)

section \<open>Modes and times\<close>

lemma mode_bits:
  fixes m S :: "32 word"
  assumes "S AND 0x1FF = 0" "S AND 0xF000 = S"
  shows "((m AND 0x1FF) OR S) AND 0x1FF = m AND 0x1FF" "((m AND 0x1FF) OR S) AND 0xF000 = S"
  using assms by (simp_all add: bit.conj_disj_distrib2 and.assoc)

lemma stat_mode_eq:
  "stat_mode mode = FileMode_Perm mode OR
     (let t = FileMode_Type mode in
      if t = fs_ModeCharDevice then S_IFCHR else if t = fs_ModeDevice then S_IFBLK
      else if t = fs_ModeDir then S_IFDIR else if t = fs_ModeNamedPipe then S_IFIFO
      else if t = fs_ModeSymlink then S_IFLNK else if t = fs_ModeSocket then S_IFSOCK else S_IFREG)"
  by (simp add: stat_mode_def Let_def)

text \<open>
  C23. The mode of the guest's struct has the permission bits of the file, and its file type is the
  one of the file: directory, symbolic link, pipe, socket, block device, and regular file for a
  file without type bits. A character device, which carries both device bits in Go
  (\<open>ModeDevice | ModeCharDevice\<close>) and so meets no case of the switch, is called a regular file, too.
\<close>

theorem stat_mode_types:
  "stat_mode mode AND 0x1FF = mode AND 0x1FF \<and>
   stat_mode mode AND 0xF000 \<in> {S_IFIFO, S_IFCHR, S_IFDIR, S_IFBLK, S_IFREG, S_IFLNK, S_IFSOCK} \<and>
   (FileMode_Type mode = fs_ModeDir \<longrightarrow> stat_mode mode AND 0xF000 = S_IFDIR) \<and>
   (FileMode_Type mode = fs_ModeSymlink \<longrightarrow> stat_mode mode AND 0xF000 = S_IFLNK) \<and>
   (FileMode_Type mode = fs_ModeNamedPipe \<longrightarrow> stat_mode mode AND 0xF000 = S_IFIFO) \<and>
   (FileMode_Type mode = fs_ModeSocket \<longrightarrow> stat_mode mode AND 0xF000 = S_IFSOCK) \<and>
   (FileMode_Type mode = fs_ModeDevice \<longrightarrow> stat_mode mode AND 0xF000 = S_IFBLK) \<and>
   (FileMode_Type mode = 0 \<longrightarrow> stat_mode mode AND 0xF000 = S_IFREG) \<and>
   (FileMode_Type mode = fs_ModeDevice OR fs_ModeCharDevice \<longrightarrow> stat_mode mode AND 0xF000 = S_IFREG)"
  unfolding stat_mode_eq FileMode_Perm_def Let_def
  by (simp add: mode_bits S_IF_defs fs_mode_defs)

theorem stat_mode_types_witness:
  "stat_mode (fs_ModeDir OR 0x1ED) AND 0xF000 = S_IFDIR \<and> stat_mode 0x1A4 AND 0x1FF = 0x1A4"
  using stat_mode_types [of "fs_ModeDir OR 0x1ED"] stat_mode_types [of "0x1A4"]
  by (simp add: FileMode_Type_def fs_mode_defs)

lemma sdiv_smod_pos:
  fixes n :: int
  assumes "0 \<le> n" "0 < d"
  shows "n sdiv d = n div d" "n smod d = n mod d" "(- n) sdiv d = - (n div d)" "(- n) smod d = - (n mod d)"
  using assms by (auto simp: signed_divide_int_def signed_modulo_int_def sgn_if)

lemma sdiv_smod_split:
  fixes n :: int
  assumes "0 < d"
  shows "n sdiv d * d + n smod d = n" and "\<bar>n smod d\<bar> < d" and "0 \<le> n \<longrightarrow> 0 \<le> n smod d"
    and "\<bar>n sdiv d\<bar> \<le> \<bar>n\<bar>"
proof -
  define q r where "q = \<bar>n\<bar> div d" and "r = \<bar>n\<bar> mod d"
  have qr: "q * d + r = \<bar>n\<bar>" "0 \<le> r" "r < d" "0 \<le> q"
    using assms unfolding q_def r_def by (simp_all add: pos_imp_zdiv_nonneg_iff)
  moreover have "q * 1 \<le> q * d" using assms \<open>0 \<le> q\<close> by (intro mult_left_mono) simp_all
  ultimately have q: "q \<le> \<bar>n\<bar>" by linarith
  have n: "n sdiv d = (if 0 \<le> n then q else - q) \<and> n smod d = (if 0 \<le> n then r else - r)"
    using sdiv_smod_pos [of n d] sdiv_smod_pos [of "- n" d] assms by (simp add: q_def r_def)
  show "n sdiv d * d + n smod d = n" using n qr(1) by (cases "0 \<le> n") simp_all
  show "\<bar>n smod d\<bar> < d" "0 \<le> n \<longrightarrow> 0 \<le> n smod d" "\<bar>n sdiv d\<bar> \<le> \<bar>n\<bar>"
    using n qr(2-4) q by (simp_all split: if_splits)
qed

text \<open>
  C22. The seconds and nanoseconds of the guest's struct add up to the modification time, and the
  nanoseconds stay below a second; for a time before 1970 they are negative, because the division
  truncates.
\<close>

theorem stat_time_split:
  "sint (tv_sec (stat_time nano)) * 1000000000 + sint (tv_nsec (stat_time nano)) = sint nano \<and>
   \<bar>sint (tv_nsec (stat_time nano))\<bar> < 1000000000 \<and>
   (0 \<le> sint nano \<longrightarrow> 0 \<le> sint (tv_nsec (stat_time nano)))"
proof -
  let ?n = "sint nano"
  have g: "(0 :: int) < 1000000000" by simp
  note s = sdiv_smod_split [OF g, of ?n] and b = sint_bounds64 [of nano]
  have "(1000000000 :: int) \<le> 2 ^ 63" by simp
  then
  have "- (2 ^ 63) \<le> ?n sdiv 1000000000" "?n sdiv 1000000000 < 2 ^ 63"
    "- (2 ^ 63) \<le> ?n smod 1000000000" "?n smod 1000000000 < 2 ^ 63"
    using s(2,4) b s(1) by linarith+
  then have "sint (tv_sec (stat_time nano)) = ?n sdiv 1000000000"
    "sint (tv_nsec (stat_time nano)) = ?n smod 1000000000"
    by (simp_all only: stat_time_def sint_of_int64 timespec.simps)
  with s show ?thesis by simp
qed

theorem stat_time_split_witness:
  "0 \<le> sint (1500000000 :: int64) \<and> 0 \<le> sint (tv_nsec (stat_time 1500000000))"
  using stat_time_split [of 1500000000] by simp

section \<open>What the calls store\<close>






end
