(* ===== verification/Signal.thy ===== *)
theory Signal
  imports Contracts Ref_Host
begin

text \<open>
  The signal calls of \<^verbatim>\<open>src/kernel/signal.go\<close>: the table of actions, the mask and the operations
  on signal sets. The methods of \<open>sigset_t\<close> are functions from the old set to the new one.
\<close>

unbundle bit_operations_syntax

section \<open>Signal sets\<close>

definition sigemptyset :: "sigset_t \<Rightarrow> sigset_t" where
  "sigemptyset ss = 0"

definition sigfillset :: "sigset_t \<Rightarrow> sigset_t" where
  "sigfillset ss = NOT 0"

text \<open>\<open>1 << uint(sig-1)\<close>: the difference wraps in 32 bits, and a shift by 64 or more gives 0.\<close>

definition sigbit :: "int32 \<Rightarrow> sigset_t" where
  "sigbit sig =
     (let n = (scast (sig - 1) :: uint64) in if n < 64 then push_bit (unat n) 1 else 0)"

definition sigaddset :: "sigset_t \<Rightarrow> int32 \<Rightarrow> sigset_t" where
  "sigaddset ss sig = ss OR sigbit sig"

definition sigdelset :: "sigset_t \<Rightarrow> int32 \<Rightarrow> sigset_t" where
  "sigdelset ss sig = ss AND NOT (sigbit sig)"

section \<open>The calls\<close>

definition signal_ctor :: "('w, 'o, unit) kprog" where
  "signal_ctor = modify (m_signal_update (sigtable_update (\<lambda>_. gomap_make)))"

definition signal_dtor :: "('w, 'o, unit) kprog" where
  "signal_dtor = modify (m_signal_update (sigtable_update (\<lambda>_. None)))"

definition sigtable_put :: "int32 \<Rightarrow> sigaction \<Rightarrow> ('w, 'o, unit) kprog" where
  "sigtable_put sig action s =
     (case gomap_put (sigtable (m_signal s)) sig action of
        None \<Rightarrow> Panic nil_map_panic s
      | Some m \<Rightarrow> Return () (m_signal_update (sigtable_update (\<lambda>_. m)) s))"

definition signal_rt_sigaction ::
    "'w Memory \<Rightarrow> int32 \<Rightarrow> emuptr \<Rightarrow> emuptr \<Rightarrow> size_t \<Rightarrow> ('w, 'o, int32) kprog" where
  "signal_rt_sigaction M sig act oldact sz =
     on_err (Extract_sigaction M act) EFAULT (- 1) (\<lambda>action.
     bnd (gets (\<lambda>s. gomap_get (sigtable (m_signal s)) sig)) (\<lambda>old.
     bnd (sigtable_put sig action) (\<lambda>_.
     if oldact = emunullptr \<or> old = None then ret 0
     else bnd (extern_ignore (MemWrite M oldact (MV_sigaction (the old)))) (\<lambda>_. ret 0))))"

definition SIG_BLOCK :: int32 where
  "SIG_BLOCK = 1"

definition SIG_UNBLOCK :: int32 where
  "SIG_UNBLOCK = 2"

definition SIG_SETMASK :: int32 where
  "SIG_SETMASK = 3"

definition sigset_put :: "(sigset_t \<Rightarrow> sigset_t) \<Rightarrow> ('w, 'o, unit) kprog" where
  "sigset_put f = modify (m_signal_update (sigset_update f))"

definition sigprocmask_tail ::
    "'w Memory \<Rightarrow> int32 \<Rightarrow> emuptr \<Rightarrow> ('w, 'o, int32) kprog" where
  "sigprocmask_tail M how setp =
     on_err (Extract_sigset M setp) EFAULT (- 1) (\<lambda>v.
     if how = SIG_BLOCK then bnd (sigset_put (\<lambda>m. m OR v)) (\<lambda>_. ret 0)
     else if how = SIG_UNBLOCK then bnd (sigset_put (\<lambda>m. m AND NOT v)) (\<lambda>_. ret 0)
     else if how = SIG_SETMASK then bnd (sigset_put (\<lambda>_. v)) (\<lambda>_. ret 0)
     else fail EINVAL (- 1))"

definition signal_rt_sigprocmask ::
    "'w Memory \<Rightarrow> int32 \<Rightarrow> emuptr \<Rightarrow> emuptr \<Rightarrow> size_t \<Rightarrow> ('w, 'o, int32) kprog" where
  "signal_rt_sigprocmask M how setp oldset sz =
     (if oldset \<noteq> emunullptr then
        bnd (gets (\<lambda>s. sigset (m_signal s))) (\<lambda>m.
        on_err (MemWrite M oldset (MV_sigset m)) EFAULT (- 1) (\<lambda>_.
        sigprocmask_tail M how setp))
      else sigprocmask_tail M how setp)"

definition signal_rt_tgsigqueueinfo ::
    "'w Memory \<Rightarrow> int32 \<Rightarrow> int32 \<Rightarrow> int32 \<Rightarrow> emuptr \<Rightarrow> ('w, 'o, int32) kprog" where
  "signal_rt_tgsigqueueinfo M tgid tid sig info =
     on_err (Extract_siginfo M info) EFAULT (- 1) (\<lambda>si.
     panic ''rt_tgsigqueueinfo'')"

section \<open>Contracts\<close>

lemma bnd_sigtable_put:
  "sigtable (m_signal s) = Some m \<Longrightarrow>
     bnd (sigtable_put sig a) k s =
       k () (m_signal_update (sigtable_update (\<lambda>_. Some (m(sig := Some a)))) s)"
  by (simp add: bnd_def sigtable_put_def)

lemma wlp_sigtable_put [wlp_simps]:
  "wlp (sigtable_put sig a) Q R s =
     (case gomap_put (sigtable (m_signal s)) sig a of
        None \<Rightarrow> R nil_map_panic s | Some m \<Rightarrow> Q () (m_signal_update (sigtable_update (\<lambda>_. m)) s))"
  by (simp add: wlp_def sigtable_put_def split: option.split)

lemma errno_keeps_signal [errno_rules]:
  "errno_keeps (sigtable_put sig a)" "errno_keeps (sigset_put f)"
  by (auto simp: errno_keeps_def sigset_put_def wlp_simps split: option.split)

lemma steps_signal_puts: "steps only_signal (sigtable_put sig a)" "steps only_signal (sigset_put f)"
  by (auto simp: steps_def sigset_put_def wlp_simps only_signal_def split: option.split)

lemma signal_errno:
  "errno_spec {EFAULT} (- 1) (signal_rt_sigaction M sig act oldact sz)"
  "errno_spec {EFAULT, EINVAL} (- 1) (signal_rt_sigprocmask M how setp oldset sz)"
  "errno_spec {EFAULT} (- 1) (signal_rt_tgsigqueueinfo M tgid tid sig info)"
  by (auto simp: signal_rt_sigaction_def signal_rt_sigprocmask_def sigprocmask_tail_def
      signal_rt_tgsigqueueinfo_def intro!: errno_rules)

lemma signal_steps:
  "steps only_signal (signal_rt_sigaction M sig act oldact sz)"
  "steps only_signal (signal_rt_sigprocmask M how setp oldset sz)"
  "steps only_signal (signal_rt_tgsigqueueinfo M tgid tid sig info)"
  by (auto simp: signal_rt_sigaction_def signal_rt_sigprocmask_def sigprocmask_tail_def
      signal_rt_tgsigqueueinfo_def intro!: es.steps_rules steps_signal_puts)

section \<open>The mask as a set of signals\<close>

text \<open>The signals 1 to 64 of a set.\<close>

definition sig_members :: "sigset_t \<Rightarrow> nat set" where
  "sig_members ss = {n. 1 \<le> n \<and> n \<le> 64 \<and> bit ss (n - 1)}"

lemma sint32_pred:
  fixes x :: "32 word"
  shows "sint (x - 1) = (if sint x = - (2 ^ 31) then 2 ^ 31 - 1 else sint x - 1)"
proof (cases "sint x = - (2 ^ 31)")
  case True
  have "x = word_of_int (sint x)" by simp
  also have "\<dots> = word_of_int (- (2 ^ 31))" by (simp only: True)
  finally show ?thesis using True by simp
next
  case False
  have "x - 1 = word_of_int (sint x - 1)" by simp
  moreover have "sint (word_of_int (sint x - 1) :: 32 word) = sint x - 1"
    using False sint_bounds32 [of x] by (intro sint_of_int32) linarith+
  ultimately show ?thesis using False by metis
qed

lemma sigbit_eq:
  "sigbit sig = (if 1 \<le> sint sig \<and> sint sig \<le> 64 then push_bit (nat (sint sig - 1)) 1 else 0)"
proof -
  define k where "k = sint (sig - 1)"
  define n :: "64 word" where "n = scast (sig - 1)"
  have k: "k = (if sint sig = - (2 ^ 31) then 2 ^ 31 - 1 else sint sig - 1)"
    unfolding k_def by (rule sint32_pred)
  have "n = word_of_int k" unfolding n_def k_def by (rule scast_eq)
  moreover have "- (2 ^ 63) \<le> k" "k < 2 ^ 63"
    unfolding k_def using sint_bounds32 [of "sig - 1"] by simp_all
  ultimately have u: "uint n = (if 0 \<le> k then k else k + 2 ^ 64)" using uint_of_int64 by blast
  have "n < 64 \<longleftrightarrow> uint n < 64" by (simp add: word_less_def)
  also have "\<dots> \<longleftrightarrow> 1 \<le> sint sig \<and> sint sig \<le> 64"
    using u k sint_bounds32 [of sig] by (cases "sint sig = - (2 ^ 31)"; cases "0 \<le> k") auto
  finally have "n < 64 \<longleftrightarrow> 1 \<le> sint sig \<and> sint sig \<le> 64" .
  moreover have "unat n = nat (sint sig - 1)" if "1 \<le> sint sig"
    using u k that by (simp add: unat_eq_nat_uint)
  ultimately show ?thesis by (simp add: sigbit_def Let_def n_def)
qed

lemma sigbit_members:
  assumes "1 \<le> n" "n \<le> 64"
  shows "sigbit (word_of_nat n) = push_bit (n - 1) 1"
proof -
  have "sint (word_of_int (int n) :: 32 word) = int n"
    using assms by (intro sint_of_int32) simp_all
  with assms show ?thesis by (simp add: sigbit_eq nat_diff_distrib')
qed

lemma sigadd_sigdel_members:
  assumes "1 \<le> n" "n \<le> 64"
  shows "sig_members (sigaddset ss (word_of_nat n)) = insert n (sig_members ss)"
    and "sig_members (sigdelset ss (word_of_nat n)) = sig_members ss - {n}"
  using assms
  by (auto simp: sig_members_def sigaddset_def sigdelset_def sigbit_members bit_simps)

text \<open>
  The operations on signal sets are those of sets of signals: the empty and the full set, adding
  and removing one signal from 1 to 64, and a signal number outside of that range changes nothing.
\<close>

theorem sigset_operations:
  "sig_members (sigemptyset ss) = {} \<and> sig_members (sigfillset ss) = {1..64} \<and>
   (\<forall>n. 1 \<le> n \<and> n \<le> 64 \<longrightarrow>
      sig_members (sigaddset ss (word_of_nat n)) = insert n (sig_members ss) \<and>
      sig_members (sigdelset ss (word_of_nat n)) = sig_members ss - {n}) \<and>
   (\<forall>sig. sint sig < 1 \<or> 64 < sint sig \<longrightarrow> sigaddset ss sig = ss \<and> sigdelset ss sig = ss)"
proof -
  have "sig_members (sigemptyset ss) = {}" "sig_members (sigfillset ss) = {1..64}"
    by (auto simp: sig_members_def sigemptyset_def sigfillset_def)
  moreover have "sigaddset ss sig = ss \<and> sigdelset ss sig = ss" if "sint sig < 1 \<or> 64 < sint sig" for sig
    using that by (auto simp: sigaddset_def sigdelset_def sigbit_eq)
  ultimately show ?thesis using sigadd_sigdel_members by blast
qed

section \<open>What the calls do\<close>

text \<open>
  C20. \<open>rt_sigprocmask\<close> with a readable set stores the old mask first when asked to, and then blocks
  the signals of the set, unblocks them, or makes them the mask; for any other \<open>how\<close> it fails with
  \<open>EINVAL\<close> and leaves the mask. The numbers of the three operations are 1, 2 and 3.
\<close>

theorem sigprocmask_mask:
  assumes "oldset = emunullptr \<and> w1 = world s \<or>
      oldset \<noteq> emunullptr \<and> MemWrite M oldset (MV_sigset (sigset (m_signal s))) (world s) = (Inr n, w1)"
    and "Extract_sigset M setp w1 = (Inr v, w2)"
  shows "\<exists>r s'. signal_rt_sigprocmask M how setp oldset sz s = Return r s' \<and>
      sigtable (m_signal s') = sigtable (m_signal s) \<and> world s' = w2 \<and>
      (let old = sig_members (sigset (m_signal s)); new = sig_members (sigset (m_signal s')) in
       if how = 1 then r = 0 \<and> new = old \<union> sig_members v
       else if how = 2 then r = 0 \<and> new = old - sig_members v
       else if how = 3 then r = 0 \<and> new = sig_members v
       else r = - 1 \<and> m_err s' = EINVAL \<and> new = old)"
proof -
  have "signal_rt_sigprocmask M how setp oldset sz s = sigprocmask_tail M how setp (s\<lparr>world := w1\<rparr>)"
    using assms(1) by (auto simp: signal_rt_sigprocmask_def call_evals)
  moreover have "sig_members (a OR v) = sig_members a \<union> sig_members v"
    "sig_members (a AND NOT v) = sig_members a - sig_members v" for a
    by (auto simp: sig_members_def bit_simps)
  ultimately show ?thesis
    using assms(2)
    by (auto simp: sigprocmask_tail_def call_evals sigset_put_def SIG_BLOCK_def SIG_UNBLOCK_def
        SIG_SETMASK_def Let_def)
qed

theorem sigprocmask_mask_witness:
  "\<exists>r s'. signal_rt_sigprocmask host_Memory 3 64 0 8
       (host_machine (host_start\<lparr>h_structs := [(64, MV_sigset 6)]\<rparr>)) = Return r s' \<and>
     r = 0 \<and> sig_members (sigset (m_signal s')) = sig_members 6"
  using sigprocmask_mask [of 0 "host_start\<lparr>h_structs := [(64, MV_sigset 6)]\<rparr>"
      "host_machine (host_start\<lparr>h_structs := [(64, MV_sigset 6)]\<rparr>)" host_Memory _ 64 6
      "host_start\<lparr>h_structs := [(64, MV_sigset 6)]\<rparr>" 3 8]
  by (auto simp: host_struct_def emunullptr_def Let_def)

text \<open>
  C19. The action of a signal is the last one that \<open>rt_sigaction\<close> installed for it: after a
  successful call the table has it and every other entry is as before, and the next call for the
  same signal stores it where the guest asks for the old one.
\<close>

theorem sigaction_roundtrip:
  assumes "sigtable (m_signal s) = Some m" and "Extract_sigaction M act (world s) = (Inr a, w1)"
    and "Extract_sigaction M act' w1 = (Inr b, w2)" and "oldact \<noteq> emunullptr"
    and "MemWrite M oldact (MV_sigaction a) w2 = (x, w3)"
  shows "\<exists>s1 s2. signal_rt_sigaction M sig act emunullptr sz s = Return 0 s1 \<and>
      sigtable (m_signal s1) = Some (m(sig := Some a)) \<and>
      signal_rt_sigaction M sig act' oldact sz s1 = Return 0 s2 \<and>
      sigtable (m_signal s2) = Some (m(sig := Some b)) \<and> world s2 = w3"
  using assms
  by (simp add: signal_rt_sigaction_def call_evals bnd_sigtable_put gomap_get_def)

text \<open>Two actions in memory.\<close>

definition host_actions :: hostw where
  "host_actions = host_start\<lparr>h_structs :=
     [(64, MV_sigaction \<lparr>sa_handler = 1, sa_flags = 0, sa_mask = 0, sa_restorer = 0\<rparr>),
      (72, MV_sigaction \<lparr>sa_handler = 2, sa_flags = 0, sa_mask = 0, sa_restorer = 0\<rparr>)]\<rparr>"

theorem sigaction_roundtrip_witness:
  "\<exists>s1 s2. signal_rt_sigaction host_Memory 9 64 emunullptr 8 (host_machine host_actions) = Return 0 s1 \<and>
     signal_rt_sigaction host_Memory 9 72 128 8 s1 = Return 0 s2 \<and>
     map_of (h_structs (world s2)) 128 =
       Some (MV_sigaction \<lparr>sa_handler = 1, sa_flags = 0, sa_mask = 0, sa_restorer = 0\<rparr>)"
  using sigaction_roundtrip [of "host_machine host_actions" Map.empty host_Memory 64
      "\<lparr>sa_handler = 1, sa_flags = 0, sa_mask = 0, sa_restorer = 0\<rparr>" host_actions 72
      "\<lparr>sa_handler = 2, sa_flags = 0, sa_mask = 0, sa_restorer = 0\<rparr>" host_actions 128]
  by (fastforce simp: host_struct_def emunullptr_def host_actions_def)

end
