(* ===== verification/Mman.thy ===== *)
theory Mman
  imports File_Data
begin

text \<open>
  The memory calls of \<^verbatim>\<open>src/kernel/mman.go\<close>. A protection is the 64-bit value that the call passes
  on. A mapping of a file is a copy: the region is allocated, then filled from the file.
\<close>

section \<open>The calls\<close>

definition PAGE_SIZE :: uint64 where
  "PAGE_SIZE = 4096"

definition MAP_FAILED :: emuptr where
  "MAP_FAILED = - 1"

definition MAP_FIXED :: int32 where
  "MAP_FIXED = 0x10"

definition MAP_ANONYMOUS :: int32 where
  "MAP_ANONYMOUS = 0x20"

definition io_SeekStart :: gint where
  "io_SeekStart = 0"

definition mman_munmap :: "'w Memory \<Rightarrow> emuptr \<Rightarrow> size_t \<Rightarrow> ('w, 'o, int32) kprog" where
  "mman_munmap M addr len =
     on_err (MapFree M addr len) EINVAL (- 1) (\<lambda>_. ret 0)"

text \<open>
  To the offset: with \<open>Seek\<close> when the file has it, else by reading \<open>offset\<close> bytes into a slice made
  for them, which panics for a negative offset. The result is the error.
\<close>

definition mmap_skip :: "('w, 'o) Files \<Rightarrow> 'o \<Rightarrow> off_t \<Rightarrow> ('w, 'o, go_error option) kprog" where
  "mmap_skip F file offset =
     (if implements F I_Seeker file then
        bnd (extern (file_Seek F file offset io_SeekStart)) (\<lambda>x.
        ret (case x of Inl e \<Rightarrow> Some e | Inr _ \<Rightarrow> None))
      else if sint offset < 0 then panic ''makeslice: len out of range''
      else bnd (extern_opt (io_ReadFull (file_Read F file) (nat (sint offset)))) (\<lambda>(bs, e). ret e))"

definition mmap_file ::
    "('w, 'o) Files \<Rightarrow> int32 \<Rightarrow> int32 \<Rightarrow> off_t \<Rightarrow> ('o option \<Rightarrow> ('w, 'o, emuptr) kprog) \<Rightarrow>
     ('w, 'o, emuptr) kprog" where
  "mmap_file F flgs fd offset k =
     (if flgs AND MAP_ANONYMOUS = 0 \<and> 0 \<le> sint fd then
        on_err (GetFile F (sint fd)) EBADF MAP_FAILED (\<lambda>file.
        if \<not> implements F I_ReadFile file then fail ENODEV MAP_FAILED
        else if offset \<noteq> 0 then
          bnd (mmap_skip F file offset) (\<lambda>e.
          if e \<noteq> None then fail ENODEV MAP_FAILED else k (Some file))
        else k (Some file))
      else k None)"

definition mmap_region ::
    "'w Memory \<Rightarrow> emuptr \<Rightarrow> size_t \<Rightarrow> uint64 \<Rightarrow> int32 \<Rightarrow> (emuptr \<Rightarrow> ('w, 'o, emuptr) kprog) \<Rightarrow>
     ('w, 'o, emuptr) kprog" where
  "mmap_region M addr len prot flgs k =
     (if flgs AND MAP_FIXED \<noteq> 0 then
        bnd (extern_ignore (MemUnmap M addr len)) (\<lambda>_.
        on_err (MemMap M addr len prot) EINVAL MAP_FAILED k)
      else on_err (MapAlloc M len prot) EINVAL MAP_FAILED k)"

definition mman_mmap ::
    "('w, 'o) Files \<Rightarrow> 'w Memory \<Rightarrow> emuptr \<Rightarrow> size_t \<Rightarrow> uint64 \<Rightarrow> int32 \<Rightarrow> int32 \<Rightarrow> off_t \<Rightarrow>
     ('w, 'o, emuptr) kprog" where
  "mman_mmap F M addr len prot flgs fd offset =
     mmap_file F flgs fd offset (\<lambda>f.
     mmap_region M addr len prot flgs (\<lambda>addr.
     case f of
       None \<Rightarrow> ret addr
     | Some file \<Rightarrow>
         bnd (extern_opt (copyN_to_mem M addr (file_Read F file) (sint len))) (\<lambda>(n, e).
         if e \<noteq> None then
           bnd (extern_ignore (MapFree M addr len)) (\<lambda>_.
           fail ENODEV MAP_FAILED)
         else ret addr)))"

definition mman_mmap2 ::
    "('w, 'o) Files \<Rightarrow> 'w Memory \<Rightarrow> emuptr \<Rightarrow> size_t \<Rightarrow> uint64 \<Rightarrow> int32 \<Rightarrow> int32 \<Rightarrow> size_t \<Rightarrow>
     ('w, 'o, emuptr) kprog" where
  "mman_mmap2 F M addr len prot flgs fd count =
     mman_mmap F M addr len prot flgs fd (count * PAGE_SIZE)"

definition mman_mprotect :: "'w Memory \<Rightarrow> emuptr \<Rightarrow> size_t \<Rightarrow> uint64 \<Rightarrow> ('w, 'o, int32) kprog" where
  "mman_mprotect M start len prot =
     on_err (MemProtect M start len prot) EINVAL (- 1) (\<lambda>_. ret 0)"

section \<open>Contracts\<close>

lemma errno_keeps_mmap_skip [errno_rules]: "errno_keeps (mmap_skip F file offset)"
  by (auto simp: mmap_skip_def split: prod.split intro!: errno_rules)

lemma mman_errno:
  "errno_spec {EINVAL} (- 1) (mman_munmap M addr len)"
  "errno_spec {EBADF, ENODEV, EINVAL} MAP_FAILED (mman_mmap F M addr len prot flgs fd offset)"
  "errno_spec {EBADF, ENODEV, EINVAL} MAP_FAILED (mman_mmap2 F M addr len prot flgs fd count)"
  "errno_spec {EINVAL} (- 1) (mman_mprotect M start len prot)"
  by (auto simp: mman_munmap_def mman_mmap2_def mman_mmap_def mmap_file_def mmap_region_def
      mman_mprotect_def split: prod.split option.split intro!: errno_rules)

lemma steps_mmap_skip: "steps only_world (mmap_skip F file offset)"
  by (auto simp: mmap_skip_def split: prod.split intro!: ew.steps_rules)

lemma mman_steps:
  "steps only_world (mman_munmap M addr len)"
  "steps only_world (mman_mmap F M addr len prot flgs fd offset)"
  "steps only_world (mman_mmap2 F M addr len prot flgs fd count)"
  "steps only_world (mman_mprotect M start len prot)"
  by (auto simp: mman_munmap_def mman_mmap2_def mman_mmap_def mmap_file_def mmap_region_def
      mman_mprotect_def split: prod.split option.split intro!: ew.steps_rules steps_mmap_skip)

section \<open>Mapping a file\<close>












end
