(* ===== verification/Sched.thy ===== *)
theory Sched
  imports Fcntl Ref_Host
begin

text \<open>
  \<open>clone\<close> and \<open>execve\<close> of \<^verbatim>\<open>src/kernel/sched.go\<close>. The goroutine that \<open>clone\<close> starts for a child
  that does not block its parent is the operation \<open>sched_reap\<close>; the ones that have not run yet are
  the \<open>reapers\<close> of the state.
\<close>

section \<open>The calls\<close>

definition CLONE_VFORK :: int32 where
  "CLONE_VFORK = 0x4000"

definition CLONE_SETTLS :: int32 where
  "CLONE_SETTLS = 0x80000"

text \<open>The four bytes of an \<open>int32\<close> in the memory of a little-endian host.\<close>

definition int32_bytes :: "int32 \<Rightarrow> byte list" where
  "int32_bytes v = [ucast v, ucast (drop_bit 8 v), ucast (drop_bit 16 v), ucast (drop_bit 24 v)]"

definition clone_abort :: "('w, 'o) Tasks \<Rightarrow> 'o \<Rightarrow> ('w, 'o, int32) kprog" where
  "clone_abort T task =
     bnd (extern_ignore (task_Close T task)) (\<lambda>_.
     fail EAGAIN (- 1))"

definition clone_stack ::
    "('w, 'o) Tasks \<Rightarrow> 'o \<Rightarrow> emuptr \<Rightarrow> ('w, 'o, int32) kprog \<Rightarrow> ('w, 'o, int32) kprog" where
  "clone_stack T task child_stack k =
     (if child_stack = emunullptr then
        bnd (extern_ignore (task_RetWrite_nil T task)) (\<lambda>_. k)
      else
        bnd (extern_ignore (task_RegWrite T task REG_SP child_stack)) (\<lambda>_.
        bnd (extern (Extract_call T child_stack)) (\<lambda>(fn, arg).
        bnd (extern (CallTaskOf T task fn)) (\<lambda>x.
        case x of
          Inl _ \<Rightarrow> clone_abort T task
        | Inr _ \<Rightarrow> bnd (extern_ignore (task_ArgWrite T task arg)) (\<lambda>_. k)))))"

definition clone_tls :: "('w, 'o) Tasks \<Rightarrow> 'o \<Rightarrow> int32 \<Rightarrow> emuptr \<Rightarrow> ('w, 'o, unit) kprog" where
  "clone_tls T task flgs tls =
     (if flgs AND CLONE_SETTLS \<noteq> 0 then
        (case Arch T of
           ARCH_ARM \<Rightarrow> extern_ignore (task_RegWrite T task ARM_REG_C13_C0_3 tls)
         | ARCH_ARM64 \<Rightarrow> extern_ignore (task_RegWrite T task ARM64_REG_TPIDR_EL0 tls)
         | ARCH_X86 \<Rightarrow> extern_ignore (task_RegWrite T task X86_REG_GS tls)
         | ARCH_X86_64 \<Rightarrow> extern_ignore (task_RegWrite T task X86_REG_FS tls)
         | ARCH_OTHER \<Rightarrow> ret ())
      else ret ())"

text \<open>\<open>s.tasks.Store(pid, task)\<close> and the start of the goroutine.\<close>

definition tasks_store :: "int32 \<Rightarrow> 'o \<Rightarrow> ('w, 'o, unit) kprog" where
  "tasks_store pid task =
     modify (kernel_update (sys_update (sys_sched_update
       (tasks_update (\<lambda>m. m(pid := Some task)) \<circ> reapers_update (\<lambda>rs. (pid, task) # rs)))))"

definition clone_run ::
    "('w, 'o) Tasks \<Rightarrow> 'w Memory \<Rightarrow> 'o \<Rightarrow> int32 \<Rightarrow> emuptr \<Rightarrow> ('w, 'o, int32) kprog" where
  "clone_run T M task flgs child_tid =
     bnd (extern (task_Run T task)) (\<lambda>x.
     case x of
       Inl _ \<Rightarrow> clone_abort T task
     | Inr _ \<Rightarrow>
         bnd (extern (task_ID T task)) (\<lambda>i.
         let pid = ucast i in
         bnd (if child_tid \<noteq> emunullptr then extern_ignore (MemWritePtr M child_tid (int32_bytes pid))
              else ret ()) (\<lambda>_.
         if flgs AND CLONE_VFORK \<noteq> 0 then
           bnd (extern_opt (task_Done T task)) (\<lambda>_.
           bnd (extern_ignore (task_Close T task)) (\<lambda>_.
           ret pid))
         else
           bnd (tasks_store pid task) (\<lambda>_.
           ret pid))))"

definition sched_clone ::
    "('w, 'o) Tasks \<Rightarrow> 'w Memory \<Rightarrow> int32 \<Rightarrow> emuptr \<Rightarrow> emuptr \<Rightarrow> emuptr \<Rightarrow> emuptr \<Rightarrow> ('w, 'o, int32) kprog" where
  "sched_clone T M flgs child_stack parent_tid tls child_tid =
     on_err (TaskFork T) EAGAIN (- 1) (\<lambda>task.
     clone_stack T task child_stack (
     bnd (clone_tls T task flgs tls) (\<lambda>_.
     clone_run T M task flgs child_tid)))"

text \<open>The goroutine: it waits for its task, takes it out of the map and closes it.\<close>

definition sched_reap :: "('w, 'o) Tasks \<Rightarrow> int32 \<Rightarrow> 'o \<Rightarrow> ('w, 'o, unit) kprog" where
  "sched_reap T pid task =
     bnd (extern_opt (task_Done T task)) (\<lambda>_.
     bnd (modify (kernel_update (sys_update (sys_sched_update
       (tasks_update (\<lambda>m. m(pid := None)) \<circ> reapers_update (remove1 (pid, task))))))) (\<lambda>_.
     extern_ignore (task_Close T task)))"

definition sched_execve :: "emuptr \<Rightarrow> emuptr \<Rightarrow> emuptr \<Rightarrow> ('w, 'o, int32) kprog" where
  "sched_execve filename argv envp = fail ENOSYS (- 1)"

section \<open>Contracts\<close>

lemma errno_keeps_clone_tls [errno_rules]: "errno_keeps (clone_tls T task flgs tls)"
  by (auto simp: clone_tls_def split: arch.split intro!: errno_rules)

lemma errno_keeps_tasks_store [errno_rules]: "errno_keeps (tasks_store pid task)"
  by (auto simp: tasks_store_def intro!: errno_rules)

lemma clone_abort_errno [errno_rules]: "errno_spec {EAGAIN} (- 1) (clone_abort T task)"
  by (auto simp: clone_abort_def intro!: errno_rules)

lemma clone_run_errno [errno_rules]: "errno_spec {EAGAIN} (- 1) (clone_run T M task flgs child_tid)"
  by (auto simp: clone_run_def Let_def split: sum.split intro!: errno_rules)

lemma clone_stack_errno [errno_rules]:
  "errno_spec {EAGAIN} (- 1) k \<Longrightarrow> errno_spec {EAGAIN} (- 1) (clone_stack T task child_stack k)"
  by (auto simp: clone_stack_def split: sum.split prod.split intro!: errno_rules)

lemma sched_errno:
  "errno_spec {EAGAIN} (- 1) (sched_clone T M flgs child_stack parent_tid tls child_tid)"
  "errno_spec {ENOSYS} (- 1) (sched_execve filename argv envp)"
  by (auto simp: sched_clone_def sched_execve_def intro!: errno_rules)

lemma steps_tasks_store: "steps only_sched (tasks_store pid task)"
  by (auto simp: tasks_store_def only_sched_def intro!: ed.steps_modify)

lemma steps_clone_parts:
  "steps only_sched (clone_abort T task)" "steps only_sched (clone_tls T task flgs tls)"
  "steps only_sched (clone_run T M task flgs child_tid)"
  by (auto simp: clone_abort_def clone_tls_def clone_run_def Let_def split: arch.split sum.split
      intro!: ed.steps_rules steps_tasks_store)

lemma sched_steps:
  "steps only_sched (sched_clone T M flgs child_stack parent_tid tls child_tid)"
  "steps only_sched (sched_execve filename argv envp)"
  by (auto simp: sched_clone_def clone_stack_def sched_execve_def split: sum.split prod.split
      intro!: ed.steps_rules steps_clone_parts)

section \<open>Registered tasks\<close>

abbreviation m_reapers :: "('w, 'o) machine \<Rightarrow> (int32 \<times> 'o) list" where
  "m_reapers s \<equiv> reapers (sys_sched (sys (kernel s)))"

definition sched_inv :: "('w, 'o) machine \<Rightarrow> bool" where
  "sched_inv s \<longleftrightarrow> (\<forall>pid t. m_tasks s pid = Some t \<longrightarrow> (pid, t) \<in> set (m_reapers s))"

definition keeps_sched_inv :: "('w, 'o) machine \<Rightarrow> ('w, 'o) machine \<Rightarrow> bool" where
  "keeps_sched_inv s s' \<longleftrightarrow> (sched_inv s \<longrightarrow> sched_inv s')"

interpretation ei: effect keeps_sched_inv
  by unfold_locales (auto simp: keeps_sched_inv_def sched_inv_def)

lemma keeps_tasks_store: "steps keeps_sched_inv (tasks_store pid task)"
  unfolding tasks_store_def
  by (rule ei.steps_modify) (auto simp: keeps_sched_inv_def sched_inv_def)

lemma keeps_clone_parts:
  "steps keeps_sched_inv (clone_abort T task)" "steps keeps_sched_inv (clone_tls T task flgs tls)"
  "steps keeps_sched_inv (clone_run T M task flgs child_tid)"
  by (auto simp: clone_abort_def clone_tls_def clone_run_def Let_def split: arch.split sum.split
      intro!: ei.steps_rules keeps_tasks_store)

lemma keeps_clone: "steps keeps_sched_inv (sched_clone T M flgs child_stack parent_tid tls child_tid)"
  by (auto simp: sched_clone_def clone_stack_def split: sum.split prod.split
      intro!: ei.steps_rules keeps_clone_parts)

lemma in_set_remove1_other: "x \<in> set xs \<Longrightarrow> x \<noteq> y \<Longrightarrow> x \<in> set (remove1 y xs)"
  by (induction xs) auto

lemma keeps_reap: "steps keeps_sched_inv (sched_reap T pid task)"
  unfolding sched_reap_def
  by (intro ei.steps_rules ei.steps_modify)
    (auto simp: keeps_sched_inv_def sched_inv_def intro!: in_set_remove1_other)

text \<open>The states that calls of \<open>clone\<close> and runs of the goroutines lead to, in any order.\<close>

inductive sched_reach ::
    "('w, 'o) Tasks \<Rightarrow> 'w Memory \<Rightarrow> ('w, 'o) machine \<Rightarrow> ('w, 'o) machine \<Rightarrow> bool"
  for T M s0 where
  reach_start: "sched_reach T M s0 s0"
| reach_clone: "sched_reach T M s0 s \<Longrightarrow>
    sched_clone T M flgs child_stack parent_tid tls child_tid s = Return r s' \<Longrightarrow> sched_reach T M s0 s'"
| reach_reap: "sched_reach T M s0 s \<Longrightarrow> (pid, task) \<in> set (m_reapers s) \<Longrightarrow>
    sched_reap T pid task s = Return u s' \<Longrightarrow> sched_reach T M s0 s'"

lemma steps_Return: "steps R m \<Longrightarrow> m s = Return a s' \<Longrightarrow> R s s'"
  by (auto simp: steps_def wlp_def dest: spec [of _ s])

text \<open>
  From a state without children, whatever calls of \<open>clone\<close> and goroutines follow in whatever
  order, every registered task has a goroutine that will remove it; when no goroutine is left, no
  task is registered.
\<close>

theorem sched_registered_reaped:
  assumes "sched_reach T M s0 s" and "m_tasks s0 = Map.empty"
  shows "(\<forall>pid t. m_tasks s pid = Some t \<longrightarrow> (pid, t) \<in> set (m_reapers s)) \<and>
    (m_reapers s = [] \<longrightarrow> m_tasks s = Map.empty)"
proof -
  have "sched_inv s"
    using assms(1)
  proof (induction rule: sched_reach.induct)
    case reach_start
    show ?case using assms(2) by (simp add: sched_inv_def)
  next
    case (reach_clone s flgs child_stack parent_tid tls child_tid r s')
    have "keeps_sched_inv s s'" by (rule steps_Return [OF keeps_clone reach_clone.hyps(2)])
    with reach_clone.IH show ?case by (simp add: keeps_sched_inv_def)
  next
    case (reach_reap s pid task u s')
    have "keeps_sched_inv s s'" by (rule steps_Return [OF keeps_reap reach_reap.hyps(3)])
    with reach_reap.IH show ?case by (simp add: keeps_sched_inv_def)
  qed
  then show ?thesis by (auto simp: sched_inv_def fun_eq_iff)
qed

lemma host_clone:
  "\<exists>s'. sched_clone host_Tasks host_Memory 0 0 0 0 0 (host_machine host_start) = Return 2 s' \<and>
     m_tasks s' = [2 \<mapsto> HTask 2] \<and> m_reapers s' = [(2, HTask 2)]"
  by (simp add: sched_clone_def clone_stack_def clone_tls_def clone_run_def tasks_store_def call_evals
      emunullptr_def host_start_def host_machine_def)

text \<open>
  What a call leaves of a forked task: either it was closed last and the registered tasks are as
  before, or it is registered under the number the call returns, with its goroutine.
\<close>

definition clone_settled ::
    "('w, 'o) Tasks \<Rightarrow> 'o \<Rightarrow> ('w, 'o) machine \<Rightarrow> int32 \<Rightarrow> ('w, 'o) machine \<Rightarrow> bool" where
  "clone_settled T task s r s' \<longleftrightarrow>
     (\<exists>w. world s' = snd (task_Close T task w)) \<and> m_tasks s' = m_tasks s \<and> m_reapers s' = m_reapers s \<or>
     (\<exists>w. r = ucast (fst (task_ID T task w))) \<and> m_tasks s' = (m_tasks s)(r := Some task) \<and>
       m_reapers s' = (r, task) # m_reapers s"

lemma clone_abort_settled:
  "m_tasks t = m_tasks s \<Longrightarrow> m_reapers t = m_reapers s \<Longrightarrow>
     wlp (clone_abort T task) (clone_settled T task s) (\<lambda>_ _. True) t"
  by (auto simp: clone_abort_def wlp_simps clone_settled_def)

lemma clone_run_settled:
  assumes "m_tasks t = m_tasks s" "m_reapers t = m_reapers s"
  shows "wlp (clone_run T M task flgs child_tid) (clone_settled T task s) (\<lambda>_ _. True) t"
proof -
  have "\<exists>w. ucast i = (ucast (fst (task_ID T task w)) :: int32)" if "task_ID T task w1 = (i, w2)" for i w1 w2
    using that by (metis fst_conv)
  then show ?thesis
    using assms
    by (auto simp: clone_run_def Let_def wlp_simps tasks_store_def clone_settled_def
        split: prod.split sum.split option.split intro!: clone_abort_settled)
qed

lemma clone_stack_settled:
  assumes "\<And>t. m_tasks t = m_tasks s \<Longrightarrow> m_reapers t = m_reapers s \<Longrightarrow>
      wlp k (clone_settled T task s) (\<lambda>_ _. True) t"
    and "m_tasks t = m_tasks s" "m_reapers t = m_reapers s"
  shows "wlp (clone_stack T task child_stack k) (clone_settled T task s) (\<lambda>_ _. True) t"
  using assms(2,3)
  by (auto simp: clone_stack_def wlp_simps split: prod.split sum.split
      intro!: assms(1) clone_abort_settled)

text \<open>
  C13. No forked task is lost: after a fork that succeeded, a \<open>clone\<close> that returns has either closed
  the task and left the registered tasks as they were, or registered it under the number it
  returns.
\<close>

theorem clone_task_settled:
  assumes "TaskFork T (world s) = (Inr task, w1)"
    and "sched_clone T M flgs child_stack parent_tid tls child_tid s = Return r s'"
  shows "clone_settled T task s r s'"
proof -
  have tls: "wlp (clone_tls T task flgs tls) (\<lambda>_ t. m_tasks t = m_tasks s \<and> m_reapers t = m_reapers s) (\<lambda>_ _. True) t"
    if "m_tasks t = m_tasks s" "m_reapers t = m_reapers s" for t
    using that by (auto simp: clone_tls_def wlp_simps split: arch.split)
  have "wlp (bnd (clone_tls T task flgs tls) (\<lambda>_. clone_run T M task flgs child_tid))
      (clone_settled T task s) (\<lambda>_ _. True) t"
    if "m_tasks t = m_tasks s" "m_reapers t = m_reapers s" for t
    unfolding wlp_bnd by (rule wlp_mono [OF tls [OF that]]) (auto intro: clone_run_settled)
  from clone_stack_settled [OF this, of "s\<lparr>world := w1\<rparr>" child_stack]
  have "wlp (sched_clone T M flgs child_stack parent_tid tls child_tid) (clone_settled T task s) (\<lambda>_ _. True) s"
    using assms(1) by (simp add: sched_clone_def wlp_on_err)
  with assms(2) show ?thesis by (simp add: wlp_def)
qed

theorem clone_task_settled_witness:
  "\<exists>s'. sched_clone host_Tasks host_Memory 0 0 0 0 0 (host_machine host_start) = Return 2 s' \<and>
     clone_settled host_Tasks (HTask 2) (host_machine host_start) 2 s'"
proof -
  from host_clone obtain s' where
    s': "sched_clone host_Tasks host_Memory 0 0 0 0 0 (host_machine host_start) = Return 2 s'" by blast
  with clone_task_settled [OF _ s', of "HTask 2"] show ?thesis by (simp add: host_start_def)
qed

end
