(* ===== verification/Small_Calls.thy ===== *)
theory Small_Calls
  imports File_Data Stat
begin

text \<open>
  The calls that have a file of their own and little state: \<open>ioctl\<close>, \<open>socket\<close>, \<open>prctl\<close> and the process
  numbers, the limits, the clocks, \<open>sysinfo\<close> and \<open>getrandom\<close> (\<^verbatim>\<open>ioctl.go\<close>, \<^verbatim>\<open>socket.go\<close>,
  \<^verbatim>\<open>prctl.go\<close>, \<^verbatim>\<open>resource.go\<close>, \<^verbatim>\<open>time.go\<close>, \<^verbatim>\<open>sysinfo.go\<close>, \<^verbatim>\<open>random.go\<close> under
  \<^verbatim>\<open>src/kernel/\<close>).
\<close>

section \<open>Devices and sockets\<close>

definition sys_ioctl :: "('w, 'o) Files \<Rightarrow> uint32 \<Rightarrow> uint32 \<Rightarrow> emuptr \<Rightarrow> ('w, 'o, int32) kprog" where
  "sys_ioctl F fd cmd arg =
     on_err (GetFile F (uint fd)) EBADF (- 1) (\<lambda>file.
     if implements F I_ControlFile file then
       on_err (file_Control F file (ucast cmd) arg) EINVAL (- 1) (\<lambda>_. ret 0)
     else fail ENOTTY (- 1))"

definition AF_UNSPEC :: int32 where
  "AF_UNSPEC = 0"

definition AF_LOCAL :: int32 where
  "AF_LOCAL = 1"

definition AF_INET :: int32 where
  "AF_INET = 2"

definition AF_INET6 :: int32 where
  "AF_INET6 = 10"

definition SOCK_STREAM :: int32 where
  "SOCK_STREAM = 1"

definition SOCK_DGRAM :: int32 where
  "SOCK_DGRAM = 2"

text \<open>The switch: the network of a domain and a type, \<open>None\<close> for the empty string.\<close>

definition socket_network :: "int32 \<Rightarrow> int32 \<Rightarrow> network option" where
  "socket_network domain typ =
     (if domain = AF_LOCAL then
        (if typ = SOCK_STREAM then Some Net_Unix
         else if typ = SOCK_DGRAM then Some Net_UnixGram else None)
      else if domain = AF_INET \<or> domain = AF_INET6 then
        (if typ = SOCK_STREAM then Some Net_TCP
         else if typ = SOCK_DGRAM then Some Net_UDP else None)
      else None)"

definition network_socket ::
    "('w, 'o) Files \<Rightarrow> ('w, 'o) Host \<Rightarrow> int32 \<Rightarrow> int32 \<Rightarrow> int32 \<Rightarrow> ('w, 'o, int32) kprog" where
  "network_socket F H domain typ protocol =
     (let typ = typ AND 0x7FFFF in
      if domain = AF_UNSPEC then panic ''socket: AF_UNSPEC unsupported operation''
      else case socket_network domain typ of
        None \<Rightarrow> fail EAFNOSUPPORT (- 1)
      | Some net \<Rightarrow>
          on_err (NewSocket H net) EACCES (- 1) (\<lambda>sock.
          bnd (extern (CreateFileDescriptor F sock)) (\<lambda>fd.
          ret (word_of_int fd))))"

section \<open>Processes and limits\<close>

definition PR_SET_VMA :: int32 where
  "PR_SET_VMA = 0x53564d41"

definition prctl_prctl ::
    "int32 \<Rightarrow> ulong_t \<Rightarrow> ulong_t \<Rightarrow> ulong_t \<Rightarrow> ulong_t \<Rightarrow> ('w, 'o, int32) kprog" where
  "prctl_prctl opt arg1 arg2 arg3 arg4 =
     (if opt = PR_SET_VMA then ret 0 else fail EINVAL (- 1))"

definition prctl_getpid :: "('w, 'o) Host \<Rightarrow> ('w, 'o, pid_t) kprog" where
  "prctl_getpid H = bnd (extern (os_Getpid H)) (\<lambda>p. ret (ucast p))"

definition prctl_gettid :: "('w, 'o) Tasks \<Rightarrow> ('w, 'o, pid_t) kprog" where
  "prctl_gettid T = bnd (extern (TaskID T)) (\<lambda>p. ret (ucast p))"

definition RLIMIT_STACK :: int32 where
  "RLIMIT_STACK = 3"

definition resource_getrlimit ::
    "('w, 'o) Tasks \<Rightarrow> 'w Memory \<Rightarrow> int32 \<Rightarrow> emuptr \<Rightarrow> ('w, 'o, int32) kprog" where
  "resource_getrlimit T M resource rlim =
     (if resource = RLIMIT_STACK then
        bnd (extern (StackSize T)) (\<lambda>cur.
        bnd (extern (StackSize T)) (\<lambda>lim.
        bnd (extern_ignore (MemWrite M rlim (MV_rlimit \<lparr>rlim_cur = cur, rlim_max = lim\<rparr>))) (\<lambda>_.
        ret 0)))
      else ret 0)"

definition resource_setrlimit :: "int32 \<Rightarrow> emuptr \<Rightarrow> ('w, 'o, int32) kprog" where
  "resource_setrlimit resource rlim = ret 0"

section \<open>Clocks\<close>

definition sys_clock_gettime ::
    "('w, 'o) Host \<Rightarrow> 'w Memory \<Rightarrow> clockid_t \<Rightarrow> emuptr \<Rightarrow> ('w, 'o, int32) kprog" where
  "sys_clock_gettime H M clock ts =
     bnd (extern (C_clock_gettime H clock)) (\<lambda>(r, sec, nsec).
     bnd (if r = 0 then extern_ignore (MemWrite M ts (MV_timespec \<lparr>tv_sec = sec, tv_nsec = nsec\<rparr>))
          else ret ()) (\<lambda>_.
     ret r))"

definition sys_gettimeofday ::
    "('w, 'o) Host \<Rightarrow> 'w Memory \<Rightarrow> emuptr \<Rightarrow> emuptr \<Rightarrow> ('w, 'o, int32) kprog" where
  "sys_gettimeofday H M tv tz =
     bnd (extern (time_Now H)) (\<lambda>now.
     bnd (extern_ignore (MemWrite M tv (MV_timeval
       \<lparr>tv_sec_us = time_Unix now, tv_usec = word_of_int (sint (time_Nanosecond now) sdiv 1000)\<rparr>))) (\<lambda>_.
     bnd (extern_ignore (MemWrite M tz (MV_timezone
       \<lparr>tz_minuteswest = word_of_int (sint (time_ZoneOffset now) sdiv 60), tz_dsttime = 0\<rparr>))) (\<lambda>_.
     ret 0)))"

section \<open>System information and random bytes\<close>

definition sys_sysinfo :: "('w, 'o) Host \<Rightarrow> 'w Memory \<Rightarrow> emuptr \<Rightarrow> ('w, 'o, int32) kprog" where
  "sys_sysinfo H M info =
     on_err (host_Uptime H) EINVAL (- 1) (\<lambda>up.
     on_err (mem_VirtualMemory H) EINVAL (- 1) (\<lambda>vm.
     on_err (mem_SwapMemory H) EINVAL (- 1) (\<lambda>sm.
     on_err (process_Pids H) EINVAL (- 1) (\<lambda>pids.
     on_err (MemWrite M info (MV_sysinfo
       \<lparr>uptime = up, loads = (0, 0, 0), totalram = vm_Total vm, freeram = vm_Free vm,
        sharedram = vm_Shared vm, bufferram = vm_Buffers vm, totalswap = sm_Total sm,
        freeswap = sm_Free sm, procs = word_of_nat (length pids),
        sysinfo_f = replicate 22 0\<rparr>)) EINVAL (- 1) (\<lambda>_.
     ret 0)))))"

definition GRND_RANDOM :: uint32 where
  "GRND_RANDOM = 1"

text \<open>\<open>rand.Read(b)\<close> is \<open>io.ReadFull(rand.Reader, b)\<close>.\<close>

definition rand_Read ::
    "('w, 'o) Host \<Rightarrow> nat \<Rightarrow> 'w \<Rightarrow> ((byte list \<times> go_error option) \<times> 'w) option" where
  "rand_Read H n = io_ReadFull (rand_Reader H) n"

definition sys_getrandom ::
    "('w, 'o) Host \<Rightarrow> 'w Memory \<Rightarrow> emuptr \<Rightarrow> size_t \<Rightarrow> uint32 \<Rightarrow> ('w, 'o, ssize_t) kprog" where
  "sys_getrandom H M buf count flgs =
     (if flgs AND GRND_RANDOM \<noteq> 0 then
        bnd (extern_opt (copyN_to_mem M buf (rand_Reader H) (sint count))) (\<lambda>(n, e).
        if e \<noteq> None then fail EAGAIN (- 1) else ret (word_of_int n))
      else
        bnd (extern_opt (rand_Read H (unat (min count 256)))) (\<lambda>(bs, e).
        if e \<noteq> None then fail EAGAIN (- 1)
        else bnd (extern_ignore (MemWrite M buf (MV_bytes bs))) (\<lambda>_.
          ret (word_of_nat (length bs)))))"

section \<open>Contracts\<close>

lemmas small_call_defs =
  sys_ioctl_def network_socket_def prctl_prctl_def prctl_getpid_def prctl_gettid_def
  resource_getrlimit_def resource_setrlimit_def sys_clock_gettime_def sys_gettimeofday_def
  sys_sysinfo_def sys_getrandom_def

lemma small_calls_errno:
  "errno_spec {EBADF, EINVAL, ENOTTY} (- 1) (sys_ioctl F fd cmd arg)"
  "errno_spec {EAFNOSUPPORT, EACCES} (- 1) (network_socket F H domain typ protocol)"
  "errno_spec {EINVAL} (- 1) (prctl_prctl opt arg1 arg2 arg3 arg4)"
  "errno_spec {} (- 1) (prctl_getpid H)"
  "errno_spec {} (- 1) (prctl_gettid T)"
  "errno_spec {} (- 1) (resource_getrlimit T M resource rlim)"
  "errno_spec {} (- 1) (resource_setrlimit resource rlim)"
  "errno_spec {} (- 1) (sys_clock_gettime H M clock ts)"
  "errno_spec {} (- 1) (sys_gettimeofday H M tv tz)"
  "errno_spec {EINVAL} (- 1) (sys_sysinfo H M info)"
  "errno_spec {EAGAIN} (- 1) (sys_getrandom H M buf count flgs)"
  by (auto simp: small_call_defs Let_def split: prod.split option.split intro!: errno_rules)

lemma small_calls_steps:
  "steps only_world (sys_ioctl F fd cmd arg)"
  "steps only_world (network_socket F H domain typ protocol)"
  "steps only_world (prctl_prctl opt arg1 arg2 arg3 arg4)"
  "steps only_world (prctl_getpid H)"
  "steps only_world (prctl_gettid T)"
  "steps only_world (resource_getrlimit T M resource rlim)"
  "steps only_world (resource_setrlimit resource rlim)"
  "steps only_world (sys_clock_gettime H M clock ts)"
  "steps only_world (sys_gettimeofday H M tv tz)"
  "steps only_world (sys_sysinfo H M info)"
  "steps only_world (sys_getrandom H M buf count flgs)"
  by (auto simp: small_call_defs Let_def split: prod.split option.split intro!: ew.steps_rules)

section \<open>What the calls do\<close>



text \<open>
  \<open>getrandom\<close> returns for every buffer, count and flags when each read of the random source gives
  bytes or an error.
\<close>

theorem getrandom_returns:
  assumes "progress (rand_Reader H)"
  shows "returns (sys_getrandom H M buf count flgs)"
proof -
  have "\<exists>q. copyN_to_mem M buf (rand_Reader H) (sint count) w = Some q"
    "\<exists>q. rand_Read H n w = Some q" for n w
    using io_CopyN_ends [OF assms] io_ReadFull_ends [OF assms] by (auto simp: copyN_to_mem_def rand_Read_def)
  then show ?thesis
    unfolding sys_getrandom_def by (auto split: prod.split intro!: returns_rules)
qed

text \<open>
  C37. A socket's close-on-exec flag (bit 19 of the type) makes no difference, but its non-blocking
  flag (bit 11) is not masked: every such socket is refused with \<open>EAFNOSUPPORT\<close>.
\<close>

theorem socket_type_flags:
  "network_socket F H domain (typ OR 0x80000) protocol s = network_socket F H domain typ protocol s \<and>
   (typ AND 0x800 \<noteq> 0 \<and> domain \<noteq> AF_UNSPEC \<longrightarrow>
      network_socket F H domain typ protocol s = fail EAFNOSUPPORT (- 1) s)"
proof -
  have "(typ OR 0x80000) AND 0x7FFFF = typ AND 0x7FFFF" by (simp add: bit.conj_disj_distrib2)
  moreover have "socket_network domain (typ AND 0x7FFFF) = None" if "typ AND 0x800 \<noteq> 0"
  proof -
    have "(typ AND 0x7FFFF) AND 0x800 = typ AND 0x800" by (simp add: and.assoc)
    with that have "typ AND 0x7FFFF \<noteq> SOCK_STREAM" "typ AND 0x7FFFF \<noteq> SOCK_DGRAM"
      by (auto simp: SOCK_STREAM_def SOCK_DGRAM_def)
    then show ?thesis by (simp add: socket_network_def)
  qed
  ultimately show ?thesis by (simp add: network_socket_def Let_def)
qed

theorem socket_type_flags_witness:
  "network_socket host_Files host_Host AF_INET 0x801 0 (host_machine host_start) =
     fail EAFNOSUPPORT (- 1) (host_machine host_start)"
  using socket_type_flags [of host_Files host_Host AF_INET "0x801" 0 "host_machine host_start"]
  by (simp add: AF_INET_def AF_UNSPEC_def)



end
