(* ===== verification/Dispatch.thy ===== *)
theory Dispatch
  imports Linux_Consts File_Data Stat Signal Mman Sched Small_Calls Futex
begin

text \<open>
  The table of system calls of \<^verbatim>\<open>src/kernel/syscall.go\<close>: the life of the \<open>Syscall\<close> struct, one
  definition per \<open>Emulate\<close> method with the conversions of its arguments and of its result, and \<open>Get\<close>.
  A method gets the interfaces its handler calls as one record. An index beyond the arguments panics,
  as it does in Go.
\<close>

record ('w, 'o) env =
  e_files :: "('w, 'o) Files"
  e_memory :: "'w Memory"
  e_tasks :: "('w, 'o) Tasks"
  e_host :: "('w, 'o) Host"
  e_rt :: "('w, 'o) GoRT"

type_synonym ('w, 'o) call = "('w, 'o) env \<Rightarrow> uint64 list \<Rightarrow> ('w, 'o, uint64) kprog"

section \<open>The struct\<close>

definition new_Syscall :: "'o Syscall" where
  "new_Syscall = \<lparr>sys_fcntl = \<lparr>flags = None\<rparr>,
     sys_futex = \<lparr>awaits = None, bitAwaits = None, nchan = 0, closed = {}\<rparr>,
     sys_signal = \<lparr>sigset = 0, sigtable = None\<rparr>, sys_sched = \<lparr>tasks = (\<lambda>_. None), reapers = []\<rparr>\<rparr>"

definition Syscall_ctor :: "('w, 'o, unit) kprog" where
  "Syscall_ctor =
     bnd fcntl_ctor (\<lambda>_.
     bnd (modify (m_futex_update futex_ctor)) (\<lambda>_.
     signal_ctor))"

definition NewSyscall :: "('w, 'o, unit) kprog" where
  "NewSyscall = bnd (modify (kernel_update (sys_update (\<lambda>_. new_Syscall)))) (\<lambda>_. Syscall_ctor)"

definition Syscall_Close :: "('w, 'o, go_error option) kprog" where
  "Syscall_Close =
     bnd signal_dtor (\<lambda>_.
     bnd (modify (m_futex_update futex_dtor)) (\<lambda>_.
     bnd fcntl_dtor (\<lambda>_.
     ret None)))"

section \<open>The methods\<close>

text \<open>
  \<open>indexed args n m\<close>: the expression uses \<open>args[0]\<close> to \<open>args[n-1]\<close> and then runs \<open>m\<close>. \<open>as_int32\<close> and
  \<open>as_int64\<close> are \<open>return uint64(r)\<close> for a result of 32 and of 64 bits.
\<close>

definition indexed :: "uint64 list \<Rightarrow> nat \<Rightarrow> ('w, 'o, 'a) kprog \<Rightarrow> ('w, 'o, 'a) kprog" where
  "indexed args n m = (if n \<le> length args then m else panic ''index out of range'')"

definition as_int32 :: "('w, 'o, int32) kprog \<Rightarrow> ('w, 'o, uint64) kprog" where
  "as_int32 m = bnd m (\<lambda>r. ret (scast r))"

definition as_int64 :: "('w, 'o, int64) kprog \<Rightarrow> ('w, 'o, uint64) kprog" where
  "as_int64 m = bnd m (\<lambda>r. ret r)"

definition Reject :: "('w, 'o) call" where
  "Reject E args = fail ENOSYS (- 1)"

definition Ignore :: "('w, 'o) call" where
  "Ignore E args = ret 0"

definition Emulate_dup3 :: "('w, 'o) call" where
  "Emulate_dup3 E args = indexed args 3 (as_int32
     (fcntl_dup3 (e_files E) (ucast (args ! 0)) (ucast (args ! 1)) (ucast (args ! 2))))"

definition Emulate_fcntl :: "('w, 'o) call" where
  "Emulate_fcntl E args = indexed args 3 (as_int32
     (fcntl_fcntl (e_files E) (ucast (args ! 0)) (ucast (args ! 1)) (args ! 2)))"

definition Emulate_ioctl :: "('w, 'o) call" where
  "Emulate_ioctl E args = indexed args 3 (as_int32
     (sys_ioctl (e_files E) (ucast (args ! 0)) (ucast (args ! 1)) (args ! 2)))"

definition Emulate_faccessat :: "('w, 'o) call" where
  "Emulate_faccessat E args = indexed args 3 (as_int32
     (fcntl_faccessat (e_files E) (e_memory E) (ucast (args ! 0)) (args ! 1) (ucast (args ! 2))))"

definition Emulate_open :: "('w, 'o) call" where
  "Emulate_open E args = indexed args 3 (as_int32
     (fcntl_open (e_files E) (e_memory E) (args ! 0) (ucast (args ! 1)) (ucast (args ! 2))))"

definition Emulate_openat :: "('w, 'o) call" where
  "Emulate_openat E args = indexed args 4 (as_int32
     (fcntl_openat (e_files E) (e_memory E) (ucast (args ! 0)) (args ! 1) (ucast (args ! 2)) (ucast (args ! 3))))"

definition Emulate_close :: "('w, 'o) call" where
  "Emulate_close E args = indexed args 1 (as_int32 (fcntl_close (e_files E) (ucast (args ! 0))))"

definition Emulate_pipe2 :: "('w, 'o) call" where
  "Emulate_pipe2 E args = indexed args 2 (as_int32
     (fcntl_pipe2 (e_files E) (e_memory E) (args ! 0) (ucast (args ! 1))))"

definition Emulate_lseek :: "('w, 'o) call" where
  "Emulate_lseek E args = indexed args 3 (as_int64
     (fcntl_lseek (e_files E) (ucast (args ! 0)) (args ! 1) (ucast (args ! 2))))"

definition Emulate_read :: "('w, 'o) call" where
  "Emulate_read E args = indexed args 3 (as_int64
     (fcntl_read (e_files E) (e_memory E) (ucast (args ! 0)) (args ! 1) (args ! 2)))"

definition Emulate_write :: "('w, 'o) call" where
  "Emulate_write E args = indexed args 3 (as_int64
     (fcntl_write (e_files E) (e_memory E) (ucast (args ! 0)) (args ! 1) (args ! 2)))"

definition Emulate_writev :: "('w, 'o) call" where
  "Emulate_writev E args = indexed args 3 (as_int64
     (fcntl_writev (e_files E) (e_memory E) (ucast (args ! 0)) (args ! 1) (ucast (args ! 2))))"

definition Emulate_readlinkat :: "('w, 'o) call" where
  "Emulate_readlinkat E args = indexed args 4 (as_int64
     (fcntl_readlinkat (e_files E) (e_memory E) (ucast (args ! 0)) (args ! 1) (args ! 2) (args ! 3)))"

definition Emulate_fstatat64 :: "('w, 'o) call" where
  "Emulate_fstatat64 E args =
     (case Arch (e_tasks E) of
        ARCH_ARM \<Rightarrow> indexed args 4 (as_int32
          (fcntl_fstatat3264 (e_files E) (e_memory E) (ucast (args ! 0)) (args ! 1) (args ! 2) (ucast (args ! 3))))
      | ARCH_X86 \<Rightarrow> indexed args 4 (as_int32
          (fcntl_fstatat3264 (e_files E) (e_memory E) (ucast (args ! 0)) (args ! 1) (args ! 2) (ucast (args ! 3))))
      | ARCH_ARM64 \<Rightarrow> indexed args 4 (as_int32
          (fcntl_fstatat64 (e_files E) (e_memory E) (ucast (args ! 0)) (args ! 1) (args ! 2) (ucast (args ! 3))))
      | ARCH_X86_64 \<Rightarrow> indexed args 4 (as_int32
          (fcntl_fstatat64 (e_files E) (e_memory E) (ucast (args ! 0)) (args ! 1) (args ! 2) (ucast (args ! 3))))
      | ARCH_OTHER \<Rightarrow> as_int32 (fail ENOSYS (- 1)))"

definition Emulate_fstat64 :: "('w, 'o) call" where
  "Emulate_fstat64 E args =
     (case Arch (e_tasks E) of
        ARCH_ARM \<Rightarrow> indexed args 2 (as_int32 (fcntl_fstat3264 (e_files E) (e_memory E) (ucast (args ! 0)) (args ! 1)))
      | ARCH_X86 \<Rightarrow> indexed args 2 (as_int32 (fcntl_fstat3264 (e_files E) (e_memory E) (ucast (args ! 0)) (args ! 1)))
      | ARCH_ARM64 \<Rightarrow> indexed args 2 (as_int32 (fcntl_fstat64 (e_files E) (e_memory E) (ucast (args ! 0)) (args ! 1)))
      | ARCH_X86_64 \<Rightarrow> indexed args 2 (as_int32 (fcntl_fstat64 (e_files E) (e_memory E) (ucast (args ! 0)) (args ! 1)))
      | ARCH_OTHER \<Rightarrow> as_int32 (fail ENOSYS (- 1)))"

definition Emulate_exit :: "('w, 'o) call" where
  "Emulate_exit E args = panic ''syscall exit''"

definition Emulate_futex :: "('w, 'o) call" where
  "Emulate_futex E args = indexed args 6 (as_int32
     (futex_futex (e_rt E) (e_memory E) (args ! 0) (ucast (args ! 1)) (ucast (args ! 2)) (args ! 3) (args ! 4)
       (ucast (args ! 5))))"

definition Emulate_clock_gettime :: "('w, 'o) call" where
  "Emulate_clock_gettime E args = indexed args 2 (as_int32
     (sys_clock_gettime (e_host E) (e_memory E) (ucast (args ! 0)) (args ! 1)))"

definition Emulate_rt_sigaction :: "('w, 'o) call" where
  "Emulate_rt_sigaction E args = indexed args 4 (as_int32
     (signal_rt_sigaction (e_memory E) (ucast (args ! 0)) (args ! 1) (args ! 2) (args ! 3)))"

definition Emulate_rt_sigprocmask :: "('w, 'o) call" where
  "Emulate_rt_sigprocmask E args = indexed args 4 (as_int32
     (signal_rt_sigprocmask (e_memory E) (ucast (args ! 0)) (args ! 1) (args ! 2) (args ! 3)))"

definition Emulate_getrlimit :: "('w, 'o) call" where
  "Emulate_getrlimit E args = indexed args 2 (as_int32
     (resource_getrlimit (e_tasks E) (e_memory E) (ucast (args ! 0)) (args ! 1)))"

definition Emulate_setrlimit :: "('w, 'o) call" where
  "Emulate_setrlimit E args = indexed args 2 (as_int32 (resource_setrlimit (ucast (args ! 0)) (args ! 1)))"

definition Emulate_prctl :: "('w, 'o) call" where
  "Emulate_prctl E args = indexed args 5 (as_int32
     (prctl_prctl (ucast (args ! 0)) (args ! 1) (args ! 2) (args ! 3) (args ! 4)))"

definition Emulate_gettimeofday :: "('w, 'o) call" where
  "Emulate_gettimeofday E args = indexed args 2 (as_int32
     (sys_gettimeofday (e_host E) (e_memory E) (args ! 0) (args ! 1)))"

definition Emulate_getpid :: "('w, 'o) call" where
  "Emulate_getpid E args = as_int32 (prctl_getpid (e_host E))"

definition Emulate_gettid :: "('w, 'o) call" where
  "Emulate_gettid E args = as_int32 (prctl_gettid (e_tasks E))"

definition Emulate_sysinfo :: "('w, 'o) call" where
  "Emulate_sysinfo E args = indexed args 1 (as_int32 (sys_sysinfo (e_host E) (e_memory E) (args ! 0)))"

definition Emulate_socket :: "('w, 'o) call" where
  "Emulate_socket E args = indexed args 3 (as_int32
     (network_socket (e_files E) (e_host E) (ucast (args ! 0)) (ucast (args ! 1)) (ucast (args ! 2))))"

definition Emulate_munmap :: "('w, 'o) call" where
  "Emulate_munmap E args = indexed args 2 (as_int32 (mman_munmap (e_memory E) (args ! 0) (args ! 1)))"

definition Emulate_clone :: "('w, 'o) call" where
  "Emulate_clone E args = indexed args 5 (as_int32
     (sched_clone (e_tasks E) (e_memory E) (ucast (args ! 0)) (args ! 1) (args ! 2) (args ! 3) (args ! 4)))"

definition Emulate_execve :: "('w, 'o) call" where
  "Emulate_execve E args = indexed args 3 (as_int32 (sched_execve (args ! 0) (args ! 1) (args ! 2)))"

definition Emulate_mmap :: "('w, 'o) call" where
  "Emulate_mmap E args = indexed args 6
     (mman_mmap (e_files E) (e_memory E) (args ! 0) (args ! 1) (args ! 2) (ucast (args ! 3)) (ucast (args ! 4)) (args ! 5))"

definition Emulate_mmap2 :: "('w, 'o) call" where
  "Emulate_mmap2 E args = indexed args 6
     (mman_mmap2 (e_files E) (e_memory E) (args ! 0) (args ! 1) (args ! 2) (ucast (args ! 3)) (ucast (args ! 4)) (args ! 5))"

definition Emulate_mprotect :: "('w, 'o) call" where
  "Emulate_mprotect E args = indexed args 3 (as_int32 (mman_mprotect (e_memory E) (args ! 0) (args ! 1) (args ! 2)))"

definition Emulate_rt_tgsigqueueinfo :: "('w, 'o) call" where
  "Emulate_rt_tgsigqueueinfo E args = indexed args 4 (as_int32
     (signal_rt_tgsigqueueinfo (e_memory E) (ucast (args ! 0)) (ucast (args ! 1)) (ucast (args ! 2)) (args ! 3)))"

definition Emulate_getrandom :: "('w, 'o) call" where
  "Emulate_getrandom E args = indexed args 3 (as_int64
     (sys_getrandom (e_host E) (e_memory E) (args ! 0) (args ! 1) (ucast (args ! 2))))"

section \<open>The table\<close>

text \<open>The cases of the \<open>switch\<close>, in the order of the source.\<close>

definition Get_cases :: "(NR \<times> ('w, 'o) call) list" where
  "Get_cases =
     [(NR_reject, Reject), (NR_ignore, Ignore), (NR_dup3, Emulate_dup3), (NR_fcntl, Emulate_fcntl),
      (NR_ioctl, Emulate_ioctl), (NR_faccessat, Emulate_faccessat), (NR_open, Emulate_open),
      (NR_openat, Emulate_openat), (NR_close, Emulate_close), (NR_pipe2, Emulate_pipe2),
      (NR_lseek, Emulate_lseek), (NR_read, Emulate_read), (NR_write, Emulate_write),
      (NR_writev, Emulate_writev), (NR_readlinkat, Emulate_readlinkat), (NR_fstatat64, Emulate_fstatat64),
      (NR_fstat64, Emulate_fstat64), (NR_exit, Emulate_exit), (NR_exit_group, Emulate_exit),
      (NR_futex, Emulate_futex), (NR_clock_gettime, Emulate_clock_gettime), (NR_sigaltstack, Ignore),
      (NR_rt_sigaction, Emulate_rt_sigaction), (NR_rt_sigprocmask, Emulate_rt_sigprocmask),
      (NR_getrlimit, Emulate_getrlimit), (NR_setrlimit, Emulate_setrlimit), (NR_prctl, Emulate_prctl),
      (NR_gettimeofday, Emulate_gettimeofday), (NR_getpid, Emulate_getpid), (NR_getuid, Ignore),
      (NR_geteuid, Ignore), (NR_gettid, Emulate_gettid), (NR_sysinfo, Emulate_sysinfo),
      (NR_socket, Emulate_socket), (NR_munmap, Emulate_munmap), (NR_clone, Emulate_clone),
      (NR_execve, Emulate_execve), (NR_mmap, Emulate_mmap), (NR_mmap2, Emulate_mmap2),
      (NR_mprotect, Emulate_mprotect), (NR_madvise, Reject),
      (NR_rt_tgsigqueueinfo, Emulate_rt_tgsigqueueinfo), (NR_getrandom, Emulate_getrandom)]"

definition Get :: "NR \<Rightarrow> ('w, 'o) call option" where
  "Get nr = map_of Get_cases nr"

lemmas Emulate_defs =
  Reject_def Ignore_def Emulate_dup3_def Emulate_fcntl_def Emulate_ioctl_def Emulate_faccessat_def
  Emulate_open_def Emulate_openat_def Emulate_close_def Emulate_pipe2_def Emulate_lseek_def
  Emulate_read_def Emulate_write_def Emulate_writev_def Emulate_readlinkat_def Emulate_exit_def Emulate_clock_gettime_def Emulate_rt_sigaction_def
  Emulate_rt_sigprocmask_def Emulate_getrlimit_def Emulate_setrlimit_def Emulate_prctl_def
  Emulate_gettimeofday_def Emulate_getpid_def Emulate_gettid_def Emulate_sysinfo_def Emulate_socket_def
  Emulate_munmap_def Emulate_clone_def Emulate_execve_def Emulate_mmap_def Emulate_mmap2_def
  Emulate_mprotect_def Emulate_rt_tgsigqueueinfo_def Emulate_getrandom_def

section \<open>The error contract of every call\<close>

text \<open>The codes that each call may set, call by call in the order of the table.\<close>

definition call_errnos :: "(NR \<times> Errno set) list" where
  "call_errnos =
     [(NR_reject, {ENOSYS}), (NR_ignore, {}), (NR_dup3, {EBADF}), (NR_fcntl, {EBADF}),
      (NR_ioctl, {EBADF, EINVAL, ENOTTY}), (NR_faccessat, {ENOENT, EBADF, ENOTDIR}), (NR_open, {ENOENT, EEXIST}),
      (NR_openat, {ENOENT, EBADF, ENOTDIR, EEXIST}), (NR_close, {EBADF}), (NR_pipe2, {EMFILE}),
      (NR_lseek, {EBADF, EINVAL}), (NR_read, {EBADF, EINTR, EIO}), (NR_write, {EBADF, EINTR, EIO}),
      (NR_writev, {EBADF, EINTR, EIO}), (NR_readlinkat, {ENOENT, EBADF, ENOTDIR, EINVAL}),
      (NR_fstatat64, {ENOENT, EBADF, ENOTDIR, ENOSYS}), (NR_fstat64, {ENOENT, EBADF, ENOSYS}), (NR_exit, {}),
      (NR_exit_group, {}), (NR_futex, {EFAULT, EAGAIN, ETIMEDOUT, EPERM, ENOSYS}), (NR_clock_gettime, {}),
      (NR_sigaltstack, {}), (NR_rt_sigaction, {EFAULT}), (NR_rt_sigprocmask, {EFAULT, EINVAL}), (NR_getrlimit, {}),
      (NR_setrlimit, {}), (NR_prctl, {EINVAL}), (NR_gettimeofday, {}), (NR_getpid, {}), (NR_getuid, {}),
      (NR_geteuid, {}), (NR_gettid, {}), (NR_sysinfo, {EINVAL}), (NR_socket, {EAFNOSUPPORT, EACCES}),
      (NR_munmap, {EINVAL}), (NR_clone, {EAGAIN}), (NR_execve, {ENOSYS}), (NR_mmap, {EBADF, ENODEV, EINVAL}),
      (NR_mmap2, {EBADF, ENODEV, EINVAL}), (NR_mprotect, {EINVAL}), (NR_madvise, {ENOSYS}),
      (NR_rt_tgsigqueueinfo, {EFAULT}), (NR_getrandom, {EAGAIN})]"

definition errnos_of :: "NR \<Rightarrow> Errno set" where
  "errnos_of nr = (case map_of call_errnos nr of None \<Rightarrow> {} | Some S \<Rightarrow> S)"

lemma errno_spec_indexed: "errno_spec S r m \<Longrightarrow> errno_spec S r (indexed args n m)"
  by (auto simp: indexed_def intro: errno_rules)

lemma errno_spec_int32: "errno_spec S (- 1) m \<Longrightarrow> errno_spec S (- 1) (as_int32 m)"
  using errno_spec_convert [of S "- 1" m scast] by (simp add: as_int32_def)

lemma errno_spec_int64: "errno_spec S r m \<Longrightarrow> errno_spec S r (as_int64 m)"
  by (simp add: as_int64_def)

lemma errno_spec_mmap:
  "errno_spec {EBADF, ENODEV, EINVAL} (- 1) (mman_mmap F M addr len prot flgs fd offset)"
  "errno_spec {EBADF, ENODEV, EINVAL} (- 1) (mman_mmap2 F M addr len prot flgs fd pages)"
  using mman_errno(2) [of F M addr len prot flgs fd offset] mman_errno(3) [of F M addr len prot flgs fd pages]
  by (simp_all add: MAP_FAILED_def)

lemma stat_errno_arch:
  "errno_spec {ENOENT, EBADF, ENOTDIR, ENOSYS} (- 1) (Emulate_fstatat64 E args)"
  "errno_spec {ENOENT, EBADF, ENOSYS} (- 1) (Emulate_fstat64 E args)"
  unfolding Emulate_fstatat64_def Emulate_fstat64_def
  by (auto split: arch.split intro!: errno_spec_indexed errno_spec_int32 errno_spec_fail
      stat_errno [THEN errno_spec_mono])

lemmas call_errno_rules =
  errno_spec_indexed errno_spec_int32 errno_spec_int64 errno_spec_ret errno_spec_panic errno_spec_fail
  errno_spec_mmap fcntl_errno signal_errno mman_errno(1,4) sched_errno small_calls_errno

lemma Get_errnos:
  assumes "rt_steps same_errno (e_rt E)"
  shows "list_all2 (\<lambda>(nr, f) (nr', S). nr = nr' \<and> (\<forall>args. errno_spec S (- 1) (f E args))) Get_cases call_errnos"
  unfolding Get_cases_def call_errnos_def
  using assms by (auto simp: Emulate_defs Emulate_futex_def intro!: call_errno_rules stat_errno_arch futex_errno)

lemma map_of_list_all2:
  "list_all2 (\<lambda>(k, v) (k', w). k = k' \<and> P v w) xs ys \<Longrightarrow> map_of xs k = Some v \<Longrightarrow>
     \<exists>w. map_of ys k = Some w \<and> P v w"
  by (induction xs ys rule: list_all2_induct) (auto split: if_splits)

lemma Get_errno:
  assumes "rt_steps same_errno (e_rt E)" "Get nr = Some f"
  shows "errno_spec (errnos_of nr) (- 1) (f E args)"
  using map_of_list_all2 [OF Get_errnos [OF assms(1)] assms(2) [unfolded Get_def]]
  by (auto simp: errnos_of_def)

section \<open>The effect contract of every call\<close>

text \<open>What a call may change of the kernel's own state; \<open>futex\<close>, during which other tasks run, apart.\<close>

definition effect_of :: "NR \<Rightarrow> ('w, 'o) machine \<Rightarrow> ('w, 'o) machine \<Rightarrow> bool" where
  "effect_of nr =
     (if nr \<in> {NR_dup3, NR_fcntl, NR_open, NR_openat, NR_close, NR_pipe2} then only_fcntl
      else if nr \<in> {NR_rt_sigaction, NR_rt_sigprocmask} then only_signal
      else if nr = NR_clone then only_sched
      else only_world)"

lemma steps_indexed:
  "effect R \<Longrightarrow> steps R m \<Longrightarrow> steps R (indexed args n m)"
  by (auto simp: indexed_def intro: effect.steps_panic)

lemma steps_int32: "effect R \<Longrightarrow> steps R m \<Longrightarrow> steps R (as_int32 m)"
  by (auto simp: as_int32_def intro: effect.steps_bnd effect.steps_ret)

lemma steps_int64: "effect R \<Longrightarrow> steps R m \<Longrightarrow> steps R (as_int64 m)"
  by (auto simp: as_int64_def intro: effect.steps_bnd effect.steps_ret)

lemma steps_signal_weaken:
  "steps only_world (signal_rt_tgsigqueueinfo M tgid tid sig info)" "steps only_world (sched_execve filename argv envp)"
  by (auto simp: signal_rt_tgsigqueueinfo_def sched_execve_def intro!: ew.steps_rules)

lemma stat_steps_arch: "steps only_world (Emulate_fstatat64 E args)" "steps only_world (Emulate_fstat64 E args)"
  unfolding Emulate_fstatat64_def Emulate_fstat64_def
  by (auto split: arch.split
      intro!: steps_indexed steps_int32 stat_steps ew.steps_fail ew.effect_axioms)

lemmas call_steps_rules =
  steps_indexed steps_int32 steps_int64 ew.effect_axioms ef.effect_axioms es.effect_axioms ed.effect_axioms
  ew.steps_ret ew.steps_panic ew.steps_fail fcntl_steps fcntl_steps_world signal_steps(1,2)
  steps_signal_weaken mman_steps sched_steps(1) small_calls_steps stat_steps_arch

lemma Get_steps:
  "list_all (\<lambda>(nr, f). nr \<noteq> NR_futex \<longrightarrow> (\<forall>E args. steps (effect_of nr) (f E args))) Get_cases"
  unfolding Get_cases_def
  by (simp add: effect_of_def NR_defs) (auto simp: Emulate_defs intro!: call_steps_rules)

lemma Get_effect:
  assumes "Get nr = Some f" "nr \<noteq> NR_futex"
  shows "steps (effect_of nr) (f E args)"
  using Get_steps map_of_SomeD [OF assms(1) [unfolded Get_def]] assms(2) by (fastforce simp: list_all_iff)

end
