(* ===== verification/Open_Kernel.thy ===== *)
theory Open_Kernel
  imports Dispatch
begin

text \<open>
  The maps of the kernel. \<open>ctor\<close> makes them, the handlers write to them, and a write to a map that was
  not made panics. \<open>made\<close> says that all four are there; every system call keeps it and none panics
  on a nil map from it.
\<close>

section \<open>The contract\<close>

definition made :: "('w, 'o) machine \<Rightarrow> bool" where
  "made s \<longleftrightarrow> m_flags s \<noteq> None \<and> awaits (m_futex s) \<noteq> None \<and> bitAwaits (m_futex s) \<noteq> None \<and>
     sigtable (m_signal s) \<noteq> None"

definition keeps_made :: "('w, 'o) machine \<Rightarrow> ('w, 'o) machine \<Rightarrow> bool" where
  "keeps_made s s' \<longleftrightarrow> (made s \<longrightarrow> made s')"

definition no_nil :: "('w, 'o, 'a) kprog \<Rightarrow> bool" where
  "no_nil m \<longleftrightarrow> (\<forall>s. made s \<longrightarrow> wlp m (\<lambda>_ s'. made s') (\<lambda>p s'. made s' \<and> p \<noteq> nil_map_panic) s)"

interpretation em: run_relation keeps_made
  by unfold_locales (auto simp: keeps_made_def made_def)

named_theorems no_nil_rules \<open>rules for calls in an open kernel\<close>

lemma made_simps [simp]:
  "made (s\<lparr>world := w\<rparr>) = made s" "made (s\<lparr>kernel := (kernel s)\<lparr>err := e\<rparr>\<rparr>) = made s"
  by (auto simp: made_def)

lemma no_nil_basic [no_nil_rules]:
  "no_nil (ret a)" "no_nil (gets g)" "no_nil (extern f)" "no_nil (extern_ignore f)" "no_nil (extern_opt h)"
  "no_nil (fail e r)"
  by (auto simp: no_nil_def wlp_simps split: prod.split option.split)

lemma no_nil_panic [no_nil_rules]: "p \<noteq> nil_map_panic \<Longrightarrow> no_nil (panic p)"
  by (simp add: no_nil_def wlp_simps)

lemma no_nil_modify [no_nil_rules]: "(\<And>s. made s \<Longrightarrow> made (f s)) \<Longrightarrow> no_nil (modify f)"
  by (simp add: no_nil_def wlp_simps)

lemma no_nil_bnd [no_nil_rules]: "no_nil m \<Longrightarrow> (\<And>a. no_nil (k a)) \<Longrightarrow> no_nil (bnd m k)"
  unfolding no_nil_def wlp_bnd by (blast intro: wlp_mono)

lemma no_nil_on_err [no_nil_rules]: "(\<And>a. no_nil (k a)) \<Longrightarrow> no_nil (on_err f e r k)"
  unfolding on_err_def by (auto intro!: no_nil_rules split: sum.split)

lemma no_nil_wrappers [no_nil_rules]:
  "no_nil m \<Longrightarrow> no_nil (indexed args n m)" "no_nil m' \<Longrightarrow> no_nil (as_int32 m')" "no_nil m'' \<Longrightarrow> no_nil (as_int64 m'')"
  by (auto simp: indexed_def as_int32_def as_int64_def nil_map_panic_def intro!: no_nil_rules)

section \<open>The components\<close>

lemma no_nil_flags [no_nil_rules]:
  "no_nil (flags_get fd)" "no_nil (flags_put fd v)" "no_nil (flags_delete fd)"
  by (auto simp: no_nil_def wlp_simps made_def gomap_delete_def gomap_put_def split: option.split)

lemma no_nil_signal_puts [no_nil_rules]: "no_nil (sigtable_put sig act)" "no_nil (sigset_put f)"
  by (auto simp: no_nil_def wlp_simps made_def gomap_put_def sigset_put_def split: option.split)

lemma no_nil_files [no_nil_rules]:
  "(\<And>d. no_nil (k d)) \<Longrightarrow> no_nil (at_dir F I dfd r k)" "no_nil (open_result F flgs x)"
  "no_nil (readlink_tail F M dir name buf bufsiz)"
  by (auto simp: at_dir_def open_result_def readlink_tail_def nil_map_panic_def Let_def split: sum.split
      intro!: no_nil_rules)

lemma no_nil_writev_loop [no_nil_rules]: "no_nil (writev_loop F M file n vs)"
  by (induction vs arbitrary: n) (auto split: prod.split intro!: no_nil_rules)

lemma no_nil_fcntl [no_nil_rules]:
  "no_nil (fcntl_dup3 F oldfd newfd flgs)" "no_nil (fcntl_fcntl F fd cmd arg)"
  "no_nil (fcntl_faccessat F M dfd filename mode)" "no_nil (fcntl_open F M filename flgs mode)"
  "no_nil (fcntl_openat F M dfd filename flgs mode)" "no_nil (fcntl_close F fd)"
  "no_nil (fcntl_pipe2 F M fildes flgs)" "no_nil (fcntl_lseek F fd offset whence)"
  "no_nil (fcntl_read F M fd buf sz)" "no_nil (fcntl_write F M fd buf sz)"
  "no_nil (fcntl_writev F M fd iov iovcnt)" "no_nil (fcntl_readlinkat F M dfd filename buf bufsiz)"
  by (auto simp: fcntl_dup3_def fcntl_fcntl_def fcntl_switch_def fcntl_faccessat_def fcntl_open_def
      fcntl_openat_def fcntl_close_def fcntl_pipe2_def fcntl_lseek_def fcntl_read_def fcntl_write_def
      fcntl_writev_def fcntl_readlinkat_def nil_map_panic_def split: prod.split intro!: no_nil_rules)

lemma no_nil_stat [no_nil_rules]:
  "no_nil (fcntl_fstatat3264 F M dfd filename statbuf flag)" "no_nil (fcntl_fstatat64 F M dfd filename statbuf flag)"
  "no_nil (fcntl_fstat3264 F M fd statbuf)" "no_nil (fcntl_fstat64 F M fd statbuf)"
  by (auto simp: fcntl_fstatat3264_def fcntl_fstatat64_def fcntl_fstat3264_def fcntl_fstat64_def
      intro!: no_nil_rules)

lemma no_nil_signal [no_nil_rules]:
  "no_nil (signal_rt_sigaction M sig act oldact sz)" "no_nil (signal_rt_sigprocmask M how setp oldset sz)"
  "no_nil (signal_rt_tgsigqueueinfo M tgid tid sig info)"
  by (auto simp: signal_rt_sigaction_def signal_rt_sigprocmask_def sigprocmask_tail_def
      signal_rt_tgsigqueueinfo_def nil_map_panic_def intro!: no_nil_rules)

lemma no_nil_mman [no_nil_rules]:
  "no_nil (mman_munmap M addr len)" "no_nil (mman_mmap F M addr len prot flgs fd offset)"
  "no_nil (mman_mmap2 F M addr len prot flgs fd pages)" "no_nil (mman_mprotect M start len prot)"
  by (auto simp: mman_munmap_def mman_mmap2_def mman_mmap_def mmap_file_def mmap_region_def mmap_skip_def
      mman_mprotect_def nil_map_panic_def split: prod.split option.split intro!: no_nil_rules)

lemma no_nil_clone_parts [no_nil_rules]:
  "no_nil (clone_abort T task)" "no_nil (clone_tls T task flgs tls)" "no_nil (tasks_store pid task)"
  "no_nil (clone_run T M task flgs child_tid)"
  by (auto simp: clone_abort_def clone_tls_def clone_run_def tasks_store_def made_def Let_def
      split: arch.split sum.split intro!: no_nil_rules)

lemma no_nil_sched [no_nil_rules]:
  "no_nil (sched_clone T M flgs child_stack parent_tid tls child_tid)" "no_nil (sched_execve filename argv envp)"
  by (auto simp: sched_clone_def clone_stack_def sched_execve_def split: sum.split prod.split
      intro!: no_nil_rules)

lemma no_nil_small [no_nil_rules]:
  "no_nil (sys_ioctl F fd cmd arg)" "no_nil (network_socket F H domain typ protocol)"
  "no_nil (prctl_prctl opt arg1 arg2 arg3 arg4)" "no_nil (prctl_getpid H)" "no_nil (prctl_gettid T)"
  "no_nil (resource_getrlimit T M resource rlim)" "no_nil (resource_setrlimit resource rlim)"
  "no_nil (sys_clock_gettime H M clock ts)" "no_nil (sys_gettimeofday H M tv tz)" "no_nil (sys_sysinfo H M info)"
  "no_nil (sys_getrandom H M buf sz rflags)"
  by (auto simp: small_call_defs nil_map_panic_def Let_def split: prod.split option.split intro!: no_nil_rules)

section \<open>The futex call\<close>

lemma no_nil_of_steps:
  assumes "steps keeps_made m" "\<And>s. made s \<Longrightarrow> wlp m (\<lambda>_ _. True) (\<lambda>p _. p \<noteq> nil_map_panic) s"
  shows "no_nil m"
  unfolding no_nil_def
proof (intro allI impI)
  fix s
  assume s: "made (s :: ('a, 'b) machine)"
  from assms(1) have "wlp m (\<lambda>_. keeps_made s) (\<lambda>_. keeps_made s) s" by (simp add: steps_def)
  with assms(2) [OF s] s show "wlp m (\<lambda>_. made) (\<lambda>p s'. made s' \<and> p \<noteq> nil_map_panic) s"
    by (auto simp: wlp_def keeps_made_def split: outcome.splits)
qed

lemma no_nil_blocking:
  "(\<And>s a s'. f s = Some (a, s') \<Longrightarrow> keeps_made s s') \<Longrightarrow> no_nil (blocking f)"
  by (rule no_nil_of_steps, erule steps_blocking) (auto simp: wlp_def blocking_def split: option.split)

lemma send_loop_panic:
  "wlp (send_loop put c i n) (\<lambda>_ _. True) (\<lambda>p _. p \<noteq> nil_map_panic) s"
proof (induction put c i n s rule: send_loop.induct)
  case (1 put c i n s)
  then show ?case
    unfolding wlp_def by (subst send_loop.simps) (auto simp: nil_map_panic_def split: prod.split)
qed

lemma no_nil_sends:
  assumes "rt_steps keeps_made G"
  shows "no_nil (send_loop (try_send G c v) c' i n)" "no_nil (send_loop (try_signal G c) c' i n)"
  using assms
  by (auto simp: rt_steps_def steps_def
      intro!: no_nil_of_steps send_loop_panic em.send_loop_run em.run_refl)

lemma no_nil_bitset_loop: "rt_steps keeps_made G \<Longrightarrow> no_nil (bitset_loop G m val3 n bs i)"
  by (induction bs arbitrary: i) (auto split: option.split intro!: no_nil_rules no_nil_sends)

lemma no_nil_futex_op:
  "no_nil (futex_op (addAwait uaddr))" "no_nil (futex_op (addBitAwait uaddr b))"
  by (auto simp: no_nil_def wlp_def futex_op_def made_def addBitAwait_def addAwait_def addBit_def ref_add_def
      gomap_defs split: option.split)

lemma made_delAwait: "made s \<Longrightarrow> made (m_futex_update (delAwait a) s)"
  "made s \<Longrightarrow> made (m_futex_update (delBitAwait a b) s)"
  by (auto simp: made_def delBitAwait_def delAwait_def delBit_def ref_del_def gomap_defs split: option.split)

lemma no_nil_wait_parts:
  "(\<And>timer. no_nil (k timer)) \<Longrightarrow> no_nil (wait_start G M uaddr v utime k)" "no_nil (wait_result e)"
  by (auto simp: wait_start_def intro!: no_nil_rules) (cases e; auto intro!: no_nil_rules)

lemma no_nil_futex:
  assumes "rt_steps keeps_made G"
  shows "no_nil (futex_futex G M uaddr op v utime uaddr2 val3)"
proof -
  have "no_nil (futex_wait G M uaddr v utime)" "no_nil (futex_wait_bitset G M uaddr v utime val3)"
    unfolding futex_wait_def futex_wait_bitset_def
    using em.wait_loop_run [OF assms] em.bit_loop_run [OF assms]
    by (auto split: prod.split intro!: no_nil_wait_parts no_nil_rules no_nil_futex_op no_nil_blocking made_delAwait)
  moreover have "no_nil (futex_wake G M uaddr v)" "no_nil (futex_wake_bitset G v val3)"
    unfolding futex_wake_def futex_wake_bitset_def
    by (auto split: option.split intro!: no_nil_rules no_nil_sends [OF assms] no_nil_bitset_loop [OF assms])
  ultimately show ?thesis
    by (auto simp: futex_futex_def nil_map_panic_def Let_def intro!: no_nil_rules)
qed

section \<open>Every call\<close>

lemma no_nil_stat_arch: "no_nil (Emulate_fstatat64 E args)" "no_nil (Emulate_fstat64 E args)"
  unfolding Emulate_fstatat64_def Emulate_fstat64_def by (auto split: arch.split intro!: no_nil_rules)

lemma Get_no_nil:
  assumes "rt_steps keeps_made (e_rt E)" "Get nr = Some f"
  shows "no_nil (f E args)"
proof -
  have "list_all (\<lambda>(nr, f). no_nil (f E args)) Get_cases"
    unfolding Get_cases_def
    using assms(1) by (auto simp: Emulate_defs Emulate_futex_def nil_map_panic_def
        intro!: no_nil_rules no_nil_stat_arch no_nil_futex)
  with map_of_SomeD [OF assms(2) [unfolded Get_def]] show ?thesis by (auto simp: list_all_iff)
qed

end
