(* ===== verification/Interrupt.thy ===== *)
theory Interrupt
  imports Open_Kernel
begin

text \<open>
  The kernel of \<^verbatim>\<open>src/kernel/kernel.go\<close>: its creation and its end, and the interrupt callbacks that
  take a system call from the registers to its handler and the result back.

  The callbacks reach the kernel through the debugger that embeds it (\<^verbatim>\<open>src/debugger.go\<close>,
  \<^verbatim>\<open>src/kernel.go\<close>). \<open>Syscall\<close>, \<open>Errno\<close> and \<open>SetErrno\<close> are those of the embedded kernel. The numbering of
  the guest is the debugger's own matter, so \<open>NR\<close> is an argument; \<open>Kernel_NR\<close> is the one of the kernel.
\<close>

section \<open>Creation and end\<close>

definition new_Kernel :: "'o Kernel" where
  "new_Kernel = \<lparr>sys = new_Syscall, err = 0, intrHook = None\<rparr>"

text \<open>\<open>Inl\<close> is the error result; the kernel under construction is then dropped.\<close>

definition NewKernel :: "('w, 'o) env \<Rightarrow> ('w, 'o, go_error + unit) kprog" where
  "NewKernel E =
     bnd (modify (kernel_update (\<lambda>_. new_Kernel))) (\<lambda>_.
     case (case Arch (e_tasks E) of ARCH_ARM \<Rightarrow> Some CB_armIntr | ARCH_ARM64 \<Rightarrow> Some CB_arm64Intr | _ \<Rightarrow> None) of
       None \<Rightarrow> ret (Inl errors_ErrUnsupported)
     | Some handleIntr \<Rightarrow>
         bnd (extern (AddHook_intr (e_tasks E) handleIntr)) (\<lambda>x.
         case x of
           Inl e \<Rightarrow> ret (Inl e)
         | Inr hook \<Rightarrow>
             bnd Syscall_ctor (\<lambda>_.
             bnd (modify (kernel_update (intrHook_update (\<lambda>_. Some hook)))) (\<lambda>_.
             ret (Inr ())))))"

definition Kernel_Close :: "('w, 'o) env \<Rightarrow> ('w, 'o, go_error option) kprog" where
  "Kernel_Close E =
     bnd (gets (\<lambda>s. intrHook (kernel s))) (\<lambda>h.
     case h of
       None \<Rightarrow> panic ''nil pointer dereference''
     | Some hook \<Rightarrow> bnd (extern_ignore (hook_Close (e_tasks E) hook)) (\<lambda>_. Syscall_Close))"

definition Kernel_NR :: "uint64 \<Rightarrow> NR" where
  "Kernel_NR no = sint no"

section \<open>Interrupts\<close>

datatype HookResult = HookResult_Next | HookResult_Done

text \<open>The body that both callbacks have, with the registers as arguments.\<close>

definition handle_intr ::
    "reg \<Rightarrow> reg list \<Rightarrow> reg \<Rightarrow> (uint64 \<Rightarrow> NR) \<Rightarrow> ('w, 'o) env \<Rightarrow> uint64 \<Rightarrow> ('w, 'o, HookResult) kprog" where
  "handle_intr nr_reg arg_regs ret_reg NRmap E intno =
     (if intno \<noteq> ARM_INTR_EXCP_SWI (e_tasks E) then ret HookResult_Next
      else
        bnd (extern (RegRead (e_tasks E) nr_reg)) (\<lambda>x.
        case x of
          Inl _ \<Rightarrow> ret HookResult_Next
        | Inr nr \<Rightarrow>
            bnd (extern (RegReadBatch (e_tasks E) arg_regs)) (\<lambda>y.
            case y of
              Inl _ \<Rightarrow> ret HookResult_Next
            | Inr args \<Rightarrow>
                (case Get (NRmap nr) of
                   None \<Rightarrow> ret HookResult_Next
                 | Some call \<Rightarrow>
                     bnd (context_SetErrno 0) (\<lambda>_.
                     bnd (call E args) (\<lambda>r.
                     bnd (extern_ignore (RegWrite (e_tasks E) ret_reg r)) (\<lambda>_.
                     ret HookResult_Done)))))))"

definition armIntr :: "(uint64 \<Rightarrow> NR) \<Rightarrow> ('w, 'o) env \<Rightarrow> uint64 \<Rightarrow> ('w, 'o, HookResult) kprog" where
  "armIntr = handle_intr ARM_REG_R7
     [ARM_REG_R0, ARM_REG_R1, ARM_REG_R2, ARM_REG_R3, ARM_REG_R4, ARM_REG_R5] ARM_REG_R0"

definition arm64Intr :: "(uint64 \<Rightarrow> NR) \<Rightarrow> ('w, 'o) env \<Rightarrow> uint64 \<Rightarrow> ('w, 'o, HookResult) kprog" where
  "arm64Intr = handle_intr ARM64_REG_X8
     [ARM64_REG_X0, ARM64_REG_X1, ARM64_REG_X2, ARM64_REG_X3, ARM64_REG_X4, ARM64_REG_X5] ARM64_REG_X0"

text \<open>The callback that \<open>NewKernel\<close> hooks.\<close>

definition run_cb :: "intr_cb \<Rightarrow> (uint64 \<Rightarrow> NR) \<Rightarrow> ('w, 'o) env \<Rightarrow> uint64 \<Rightarrow> ('w, 'o, HookResult) kprog" where
  "run_cb cb = (case cb of CB_armIntr \<Rightarrow> armIntr | CB_arm64Intr \<Rightarrow> arm64Intr)"

section \<open>The contracts of an interrupt\<close>

text \<open>The registers of a callback: the number, the arguments, the result.\<close>

definition cb_nr :: "intr_cb \<Rightarrow> reg" where
  "cb_nr cb = (case cb of CB_armIntr \<Rightarrow> ARM_REG_R7 | CB_arm64Intr \<Rightarrow> ARM64_REG_X8)"

definition cb_args :: "intr_cb \<Rightarrow> reg list" where
  "cb_args cb =
     (case cb of
        CB_armIntr \<Rightarrow> [ARM_REG_R0, ARM_REG_R1, ARM_REG_R2, ARM_REG_R3, ARM_REG_R4, ARM_REG_R5]
      | CB_arm64Intr \<Rightarrow> [ARM64_REG_X0, ARM64_REG_X1, ARM64_REG_X2, ARM64_REG_X3, ARM64_REG_X4, ARM64_REG_X5])"

definition cb_ret :: "intr_cb \<Rightarrow> reg" where
  "cb_ret cb = (case cb of CB_armIntr \<Rightarrow> ARM_REG_R0 | CB_arm64Intr \<Rightarrow> ARM64_REG_X0)"

lemma run_cb_eq: "run_cb cb NRmap E intno = handle_intr (cb_nr cb) (cb_args cb) (cb_ret cb) NRmap E intno"
  by (cases cb) (simp_all add: run_cb_def armIntr_def arm64Intr_def cb_nr_def cb_args_def cb_ret_def)

lemma made_SetErrno: "made s \<Longrightarrow> made (s\<lparr>kernel := Kernel_SetErrno e (kernel s)\<rparr>)"
  by (simp add: made_def Kernel_SetErrno_def)

lemma no_nil_SetErrno: "no_nil (context_SetErrno e)"
  unfolding context_SetErrno_def by (intro no_nil_modify made_SetErrno)

lemma run_cb_no_nil:
  assumes "rt_steps keeps_made (e_rt E)"
  shows "no_nil (run_cb cb NRmap E intno)"
  unfolding run_cb_eq handle_intr_def
  by (auto split: sum.split option.split intro!: no_nil_rules no_nil_SetErrno Get_no_nil [OF assms])

context effect
begin

lemma steps_SetErrno: "steps R (context_SetErrno e)"
  unfolding context_SetErrno_def Kernel_SetErrno_def by (intro steps_modify R_errno)

lemma steps_handle_intr:
  assumes "\<And>nr f args. Get nr = Some f \<Longrightarrow> steps R (f E args)"
  shows "steps R (handle_intr nr_reg arg_regs ret_reg NRmap E intno)"
  unfolding handle_intr_def
  by (auto split: sum.split option.split intro!: steps_rules steps_SetErrno assms)

end

interpretation fi: futex_effect keeps_sched_inv
  by unfold_locales (simp add: keeps_sched_inv_def sched_inv_def)

lemma effect_of_sched_inv: "nr \<noteq> NR_clone \<Longrightarrow> effect_of nr s s' \<Longrightarrow> keeps_sched_inv s s'"
  by (auto simp: effect_of_def keeps_sched_inv_def sched_inv_def only_fcntl_def only_signal_def only_world_def
      split: if_splits)

lemma Get_sched_inv:
  assumes "rt_steps keeps_sched_inv (e_rt E)" "Get nr = Some f"
  shows "steps keeps_sched_inv (f E args)"
proof (cases "nr = NR_futex \<or> nr = NR_clone")
  case True
  then have "f = Emulate_futex \<or> f = Emulate_clone"
    using assms(2) by (auto simp: Get_def Get_cases_def NR_defs)
  then show ?thesis
    by (auto simp: Emulate_futex_def Emulate_clone_def
        intro!: steps_indexed steps_int32 ei.effect_axioms fi.steps_futex assms(1) keeps_clone)
next
  case False
  show ?thesis
    by (rule steps_weaken [OF Get_effect [OF assms(2)]]) (use False effect_of_sched_inv in auto)
qed

lemma run_cb_sched_inv:
  "rt_steps keeps_sched_inv (e_rt E) \<Longrightarrow> steps keeps_sched_inv (run_cb cb NRmap E intno)"
  unfolding run_cb_eq by (intro ei.steps_handle_intr Get_sched_inv)

section \<open>Every run of the kernel\<close>

text \<open>
  What happens to a kernel that was made: interrupts in any order, the guest and the library changing
  the world in between, and the goroutines of \<open>clone\<close>.
\<close>

inductive kernel_run ::
    "(uint64 \<Rightarrow> NR) \<Rightarrow> ('w, 'o) env \<Rightarrow> ('w, 'o) machine \<Rightarrow> ('w, 'o) machine \<Rightarrow> bool"
  for NRmap E s0 where
  run_start: "kernel_run NRmap E s0 s0"
| run_interrupt: "kernel_run NRmap E s0 s \<Longrightarrow> run_cb cb NRmap E intno s = Return h s' \<Longrightarrow> kernel_run NRmap E s0 s'"
| run_guest: "kernel_run NRmap E s0 s \<Longrightarrow> kernel_run NRmap E s0 (s\<lparr>world := w\<rparr>)"
| run_reap: "kernel_run NRmap E s0 s \<Longrightarrow> (pid, task) \<in> set (m_reapers s) \<Longrightarrow>
    sched_reap (e_tasks E) pid task s = Return u s' \<Longrightarrow> kernel_run NRmap E s0 s'"

lemma no_nil_reap: "no_nil (sched_reap T pid task)"
  by (auto simp: sched_reap_def made_def intro!: no_nil_rules)

lemma no_nil_Return: "no_nil m \<Longrightarrow> made s \<Longrightarrow> m s = Return a s' \<Longrightarrow> made s'"
  by (auto simp: no_nil_def wlp_def dest: spec [of _ s])

lemma kernel_run_inv:
  assumes "rt_steps keeps_made (e_rt E)" "rt_steps keeps_sched_inv (e_rt E)"
    and "kernel_run NRmap E s0 s" "made s0" "sched_inv s0"
  shows "made s \<and> sched_inv s"
  using assms(3)
proof (induction rule: kernel_run.induct)
  case run_start
  then show ?case using assms(4,5) by simp
next
  case (run_interrupt s cb intno h s')
  then show ?case
    using no_nil_Return [OF run_cb_no_nil [OF assms(1)]] steps_Return [OF run_cb_sched_inv [OF assms(2)]]
    by (auto simp: keeps_sched_inv_def)
next
  case (run_guest s w)
  then show ?case by (simp add: sched_inv_def)
next
  case (run_reap s pid task u s')
  have "made s'" "keeps_sched_inv s s'"
    using no_nil_Return [OF no_nil_reap _ run_reap.hyps(3)] steps_Return [OF keeps_reap run_reap.hyps(3)]
      run_reap.IH by simp_all
  with run_reap.IH show ?case by (simp add: keeps_sched_inv_def)
qed

lemma NewKernel_made:
  assumes "NewKernel E s0 = Return (Inr ()) s"
  shows "made s \<and> sched_inv s"
  using assms
  by (auto simp: NewKernel_def Syscall_ctor_def fcntl_ctor_def signal_ctor_def futex_ctor_def new_Kernel_def
      new_Syscall_def made_def sched_inv_def gomap_make_def call_evals bnd_assoc
      split: arch.splits sum.splits prod.splits option.splits)

section \<open>One interrupt\<close>

text \<open>A callback that is done has read the registers, run the call with a cleared error number and stored the result.\<close>

lemma run_cb_Done:
  "run_cb cb NRmap E intno s = Return HookResult_Done s' \<longleftrightarrow>
     intno = ARM_INTR_EXCP_SWI (e_tasks E) \<and>
     (\<exists>no w1 args w2 f r s2. RegRead (e_tasks E) (cb_nr cb) (world s) = (Inr no, w1) \<and>
        RegReadBatch (e_tasks E) (cb_args cb) w1 = (Inr args, w2) \<and> Get (NRmap no) = Some f \<and>
        f E args (s\<lparr>world := w2, kernel := (kernel s)\<lparr>err := 0\<rparr>\<rparr>) = Return r s2 \<and>
        s' = s2\<lparr>world := snd (RegWrite (e_tasks E) (cb_ret cb) r (world s2))\<rparr>)"
proof -
  have "bnd m (\<lambda>r. bnd (extern_ignore (g r)) (\<lambda>_. ret HookResult_Done)) t = Return HookResult_Done s' \<longleftrightarrow>
      (\<exists>r s2. m t = Return r s2 \<and> s' = s2\<lparr>world := snd (g r (world s2))\<rparr>)"
    for m :: "('a, 'b, uint64) kprog" and g :: "uint64 \<Rightarrow> ('a, go_error + unit) io" and t
    by (cases "m t") (auto simp: bnd_def [of m] bnd_extern_ignore)
  then show ?thesis
    unfolding run_cb_eq handle_intr_def
    by (auto simp: bnd_extern bnd_context_SetErrno split: prod.splits sum.splits option.splits)
qed

lemma run_cb_Next:
  assumes "run_cb cb NRmap E intno s = Return HookResult_Next s'"
  shows "kernel s' = kernel s"
proof -
  have "bnd m (\<lambda>r. bnd (extern_ignore (g r)) (\<lambda>_. ret HookResult_Done)) t \<noteq> Return HookResult_Next s'"
    for m :: "('a, 'b, uint64) kprog" and g :: "uint64 \<Rightarrow> ('a, go_error + unit) io" and t
    by (cases "m t") (auto simp: bnd_def [of m] bnd_extern_ignore)
  with assms show ?thesis
    unfolding run_cb_eq handle_intr_def
    by (auto simp: bnd_extern bnd_context_SetErrno split: prod.splits sum.splits option.splits if_splits)
qed

lemma errno_spec_Return:
  "errno_spec S r m \<Longrightarrow> m s = Return a s' \<Longrightarrow> m_err s' = m_err s \<or> m_err s' \<in> S \<and> a = r"
  by (auto simp: errno_spec_def wlp_def dest: spec [of _ s])

section \<open>An environment for examples\<close>

definition host_env :: "(hostw, hobj) env" where
  "host_env = \<lparr>e_files = host_Files, e_memory = host_Memory, e_tasks = host_Tasks, e_host = host_Host, e_rt = host_RT\<rparr>"

lemma host_env_simps [simp]:
  "e_files host_env = host_Files" "e_memory host_env = host_Memory" "e_tasks host_env = host_Tasks"
  "e_host host_env = host_Host" "e_rt host_env = host_RT"
  by (simp_all add: host_env_def)

lemma host_rt_steps: "(\<And>s. R s s) \<Longrightarrow> rt_steps R host_RT"
  by (simp add: rt_steps_def host_RT_def)

text \<open>A guest that asks for the system call with the number in X8 and the argument in X0.\<close>

definition host_svc :: "uint64 \<Rightarrow> uint64 \<Rightarrow> (hostw, hobj) machine" where
  "host_svc no x0 = host_machine (host_start\<lparr>h_regs := [(ARM64_REG_X8, no), (ARM64_REG_X0, x0)]\<rparr>)"

section \<open>The end of the kernel\<close>

lemma gomap_chansI: "gomap_get m k = Some a \<Longrightarrow> ch a \<in> gomap_chans m"
  by (auto simp: gomap_chans_def gomap_get_def ran_def split: option.splits)

text \<open>
  C27. \<open>Close\<close> removes the hook, drops the four maps and closes every channel of the futex tables, so
  that with \<open>futex_close_ends_waits\<close> no task stays in a wait; tasks and error number stay.
\<close>

theorem Close_releases:
  assumes "intrHook (kernel s) = Some hook"
  shows "\<exists>s'. Kernel_Close E s = Return None s' \<and> world s' = snd (hook_Close (e_tasks E) hook (world s)) \<and>
    m_flags s' = None \<and> sigtable (m_signal s') = None \<and> awaits (m_futex s') = None \<and> bitAwaits (m_futex s') = None \<and>
    (\<forall>k a. await_look (m_futex s) k = Some a \<longrightarrow> ch a \<in> closed (m_futex s')) \<and>
    (\<forall>k a. bit_look (m_futex s) k = Some a \<longrightarrow> ch a \<in> closed (m_futex s')) \<and>
    m_tasks s' = m_tasks s \<and> m_err s' = m_err s"
  using assms
  by (auto simp: Kernel_Close_def Syscall_Close_def signal_dtor_def fcntl_dtor_def futex_dtor_def bnd_extern_ignore
      gomap_chansI)

theorem Close_releases_witness:
  "\<exists>s'. Kernel_Close host_env ((host_svc 0 0)\<lparr>kernel := (kernel (host_svc 0 0))\<lparr>intrHook := Some HHook\<rparr>\<rparr>) = Return None s' \<and>
     m_flags s' = None \<and> awaits (m_futex s') = None"
  using Close_releases [of "(host_svc 0 0)\<lparr>kernel := (kernel (host_svc 0 0))\<lparr>intrHook := Some HHook\<rparr>\<rparr>" HHook host_env]
  by (simp, elim exE conjE) (intro exI conjI, assumption+)

end
