(* ===== verification/Va_List.thy ===== *)
theory Va_List
  imports Ref_Host
begin

text \<open>
  The variadic arguments of \<^verbatim>\<open>src/gcc\<close>: the three representations of a \<open>va_list\<close>, plain
  (\<^verbatim>\<open>std.go\<close>), of arm64 (\<^verbatim>\<open>arm64/va.go\<close>) and of x86-64 (\<^verbatim>\<open>x86_64/va.go\<close>), each a stream that the library's
  \<open>encoding.Decode\<close> reads an argument from.

  \<open>Decode\<close> is the library's. What it does with a stream for an argument of a given type is a tree of
  requests, an argument of \<open>Extract\<close>; the tree says which request comes next for every answer. Doubles
  and floats are their bit patterns. The stream at a pointer that \<open>ReadStream\<close> makes is the pointer with
  its block size. The size of a plain list is that of a pointer, 4 wherever the code makes one.
\<close>

section \<open>The library\<close>

datatype 'v decode =
    D_Done 'v
  | D_Fail go_error
  | D_Read nat "go_error + byte list \<Rightarrow> 'v decode"
  | D_Skip gint "'v decode"
  | D_Float "go_error + uint32 \<Rightarrow> 'v decode"
  | D_Double "go_error + uint64 \<Rightarrow> 'v decode"
  | D_String "go_error + string \<Rightarrow> 'v decode"
  | D_Stream "go_error + uint64 \<times> gint \<Rightarrow> 'v decode"
  | D_BlockSize "gint \<Rightarrow> 'v decode"
  | D_Offset "uint64 \<Rightarrow> 'v decode"

record std_list =
  std_ptr :: uint64
  std_size :: gint

record arm64_list =
  a_stack :: uint64
  a_gr_top :: uint64
  a_vr_top :: uint64
  a_gr_offs :: int32
  a_vr_offs :: int32

record x86_64_list =
  x_gp_offset :: uint32
  x_fp_offset :: uint32
  x_overflow_arg_area :: uint64
  x_reg_save_area :: uint64

text \<open>
  The emulator's memory, \<open>MemExtract\<close> at the two list types, \<open>debugger.Align\<close> at the types it is used
  at, and the library's error values.
\<close>

record 'w va_env =
  v_Arch :: arch
  v_MemReadPtr :: "uint64 \<Rightarrow> nat \<Rightarrow> ('w, byte list) ioe"
  v_Extract_arm64 :: "uint64 \<Rightarrow> ('w, arm64_list) ioe"
  v_Extract_x86_64 :: "uint64 \<Rightarrow> ('w, x86_64_list) ioe"
  v_Align_uint64 :: "uint64 \<Rightarrow> uint64 \<Rightarrow> uint64"
  v_Align_uint32 :: "uint32 \<Rightarrow> uint32 \<Rightarrow> uint32"
  v_Align_int32 :: "int32 \<Rightarrow> int32 \<Rightarrow> int32"
  v_ErrArgumentInvalid :: go_error
  v_ErrArchUnsupported :: go_error

text \<open>The methods of a stream on a list of type \<open>'l\<close>, and a run of \<open>Decode\<close> over them.\<close>

type_synonym ('l, 'w, 'a) va_op = "'l \<Rightarrow> 'w \<Rightarrow> (go_error + 'a) \<times> 'l \<times> 'w"

record ('l, 'w) stream_ops =
  s_Read :: "nat \<Rightarrow> ('l, 'w, byte list) va_op"
  s_Skip :: "gint \<Rightarrow> 'l \<Rightarrow> 'l"
  s_ReadFloat :: "('l, 'w, uint32) va_op"
  s_ReadDouble :: "('l, 'w, uint64) va_op"
  s_ReadString :: "('l, 'w, string) va_op"
  s_ReadStream :: "('l, 'w, uint64 \<times> gint) va_op"
  s_BlockSize :: "'l \<Rightarrow> gint"
  s_Offset :: "'l \<Rightarrow> uint64"

primrec run_decode :: "('l, 'w) stream_ops \<Rightarrow> 'v decode \<Rightarrow> ('l, 'w, 'v) va_op" where
  "run_decode S (D_Done v) va w = (Inr v, va, w)"
| "run_decode S (D_Fail e) va w = (Inl e, va, w)"
| "run_decode S (D_Read n k) va w = (case s_Read S n va w of (x, va', w') \<Rightarrow> run_decode S (k x) va' w')"
| "run_decode S (D_Skip n k) va w = run_decode S k (s_Skip S n va) w"
| "run_decode S (D_Float k) va w = (case s_ReadFloat S va w of (x, va', w') \<Rightarrow> run_decode S (k x) va' w')"
| "run_decode S (D_Double k) va w = (case s_ReadDouble S va w of (x, va', w') \<Rightarrow> run_decode S (k x) va' w')"
| "run_decode S (D_String k) va w = (case s_ReadString S va w of (x, va', w') \<Rightarrow> run_decode S (k x) va' w')"
| "run_decode S (D_Stream k) va w = (case s_ReadStream S va w of (x, va', w') \<Rightarrow> run_decode S (k x) va' w')"
| "run_decode S (D_BlockSize k) va w = run_decode S (k (s_BlockSize S va)) va w"
| "run_decode S (D_Offset k) va w = run_decode S (k (s_Offset S va)) va w"

text \<open>The loop of the three \<open>Extract\<close> methods: the values so far, and the error that ended it.\<close>

fun va_Extract ::
    "('v decode \<Rightarrow> ('l, 'w, 'v) va_op) \<Rightarrow> ('l \<Rightarrow> 'l) \<Rightarrow> 'v decode list \<Rightarrow> 'l \<Rightarrow> 'w \<Rightarrow>
     ('v list \<times> go_error option) \<times> 'l \<times> 'w" where
  "va_Extract dec align [] va w = (([], None), va, w)"
| "va_Extract dec align (d # ds) va w =
     (case dec d va w of (x, va', w') \<Rightarrow>
       (case x of
          Inl e \<Rightarrow> (([], Some e), va', w')
        | Inr v \<Rightarrow>
            (case va_Extract dec align ds (align va') w' of ((vs, e), va'', w'') \<Rightarrow> ((v # vs, e), va'', w''))))"

section \<open>Numbers in memory\<close>

text \<open>A \<open>uint64\<close> whose first bytes are read, little-endian, the others zero.\<close>

definition uint64_of_bytes :: "byte list \<Rightarrow> uint64" where
  "uint64_of_bytes bs = foldr (\<lambda>b n. ucast b + 256 * n) bs 0"

text \<open>
  The Go conversion \<open>float32(d)\<close> on bit patterns: round to nearest, ties to even. \<open>rne x k\<close> is \<open>x\<close>
  divided by \<open>2 ^ k\<close>, rounded so.
\<close>

definition rne :: "nat \<Rightarrow> nat \<Rightarrow> nat" where
  "rne x k = (let q = x div 2 ^ k; r = x mod 2 ^ k in
     if 2 ^ k < 2 * r \<or> 2 ^ k = 2 * r \<and> odd q then q + 1 else q)"

definition float32_mag :: "nat \<Rightarrow> nat \<Rightarrow> nat" where
  "float32_mag e m =
     (if e = 2047 then (if m = 0 then 255 * 2 ^ 23 else 255 * 2 ^ 23 + 2 ^ 22 + m div 2 ^ 29 mod 2 ^ 22)
      else if 1151 \<le> e then 255 * 2 ^ 23
      else if 897 \<le> e then (e - 897) * 2 ^ 23 + rne (2 ^ 52 + m) 29
      else if e = 0 then 0
      else rne (2 ^ 52 + m) (29 + (897 - e)))"

definition float32 :: "uint64 \<Rightarrow> uint32" where
  "float32 d =
     (let n = unat d
      in of_nat (n div 2 ^ 63 * 2 ^ 31 + float32_mag (n div 2 ^ 52 mod 2 ^ 11) (n mod 2 ^ 52)))"

definition va_narrow :: "('l, 'w, uint64) va_op \<Rightarrow> ('l, 'w, uint32) va_op" where
  "va_narrow f va w = (case f va w of (x, r) \<Rightarrow> (map_sum id float32 x, r))"

definition va_unsupported :: "('l, 'w, 'a) va_op" where
  "va_unsupported va w = (Inl errors_ErrUnsupported, va, w)"

text \<open>A list of arguments is read only: what the \<open>Write\<close> methods are asked to write.\<close>

datatype va_write = Wr_bytes "byte list" | Wr_float uint32 | Wr_double uint64 | Wr_string string | Wr_stream gint

section \<open>The plain list\<close>

definition NewStdVaList :: "'w va_env \<Rightarrow> uint64 \<Rightarrow> uint64 \<Rightarrow> go_error + std_list" where
  "NewStdVaList E ptr sz =
     (if ptr = 0 \<or> sz = 0 then Inl (v_ErrArgumentInvalid E) else Inr \<lparr>std_ptr = ptr, std_size = sz\<rparr>)"

definition std_Skip :: "gint \<Rightarrow> std_list \<Rightarrow> std_list" where
  "std_Skip n va = va\<lparr>std_ptr := std_ptr va + n\<rparr>"

definition std_Read :: "'w va_env \<Rightarrow> nat \<Rightarrow> (std_list, 'w, byte list) va_op" where
  "std_Read E n va w =
     (case v_MemReadPtr E (std_ptr va) n w of (x, w') \<Rightarrow> (x, va\<lparr>std_ptr := std_ptr va + of_nat n\<rparr>, w'))"

definition std_ReadDouble :: "'w va_env \<Rightarrow> (std_list, 'w, uint64) va_op" where
  "std_ReadDouble E va w = (case std_Read E 8 va w of (x, r) \<Rightarrow> (map_sum id uint64_of_bytes x, r))"

definition std_ReadFloat :: "'w va_env \<Rightarrow> (std_list, 'w, uint32) va_op" where
  "std_ReadFloat E = va_narrow (std_ReadDouble E)"

definition std_ReadString :: "(std_list, 'w, string) va_op" where
  "std_ReadString = va_unsupported"

definition std_ReadStream :: "'w va_env \<Rightarrow> (std_list, 'w, uint64 \<times> gint) va_op" where
  "std_ReadStream E va w =
     (case std_Read E (unat (std_size va)) va w of (x, r) \<Rightarrow> (map_sum id (\<lambda>bs. (uint64_of_bytes bs, std_size va)) x, r))"

definition std_Write :: "va_write \<Rightarrow> (std_list, 'w, nat) va_op" where
  "std_Write req = va_unsupported"

definition std_ops :: "'w va_env \<Rightarrow> (std_list, 'w) stream_ops" where
  "std_ops E = \<lparr>s_Read = std_Read E, s_Skip = std_Skip, s_ReadFloat = std_ReadFloat E,
     s_ReadDouble = std_ReadDouble E, s_ReadString = std_ReadString, s_ReadStream = std_ReadStream E,
     s_BlockSize = std_size, s_Offset = (\<lambda>_. 0)\<rparr>"

definition std_align :: "'w va_env \<Rightarrow> std_list \<Rightarrow> std_list" where
  "std_align E va = va\<lparr>std_ptr := v_Align_uint64 E (std_ptr va) 4\<rparr>"

definition std_Extract ::
    "'w va_env \<Rightarrow> 'v decode list \<Rightarrow> std_list \<Rightarrow> 'w \<Rightarrow> ('v list \<times> go_error option) \<times> std_list \<times> 'w" where
  "std_Extract E = va_Extract (run_decode (std_ops E)) (std_align E)"

section \<open>The list of arm64\<close>

definition arm64_NewVaList :: "'w va_env \<Rightarrow> uint64 \<Rightarrow> ('w, arm64_list) ioe" where
  "arm64_NewVaList E ptr = v_Extract_arm64 E ptr"

definition arm64_Skip :: "gint \<Rightarrow> arm64_list \<Rightarrow> arm64_list" where
  "arm64_Skip n va =
     (if sint (a_gr_offs va) < 0 then va\<lparr>a_gr_offs := a_gr_offs va + ucast n\<rparr>
      else va\<lparr>a_stack := a_stack va + n\<rparr>)"

definition arm64_Read :: "'w va_env \<Rightarrow> nat \<Rightarrow> (arm64_list, 'w, byte list) va_op" where
  "arm64_Read E n va w =
     (if 0 \<le> sint (a_gr_offs va) then
        (case v_MemReadPtr E (a_stack va) n w of (x, w') \<Rightarrow> (x, va\<lparr>a_stack := a_stack va + of_nat n\<rparr>, w'))
      else if int n + sint (a_gr_offs va) \<le> 0 then
        (case v_MemReadPtr E (a_gr_top va + scast (a_gr_offs va)) n w of (x, w') \<Rightarrow>
          (x, va\<lparr>a_gr_offs := a_gr_offs va + of_nat n\<rparr>, w'))
      else
        (let x = nat (int n + sint (a_gr_offs va)); i = n - x
         in case v_MemReadPtr E (a_gr_top va + scast (a_gr_offs va)) i w of (y, w') \<Rightarrow>
              (case y of
                 Inl e \<Rightarrow> (Inl e, va, w')
               | Inr b \<Rightarrow>
                   (case v_MemReadPtr E (a_stack va) x w' of (z, w'') \<Rightarrow>
                     (map_sum id (\<lambda>c. b @ c) z,
                      va\<lparr>a_gr_offs := 0, a_stack := a_stack va + of_nat x\<rparr>, w'')))))"

definition arm64_ReadDouble :: "'w va_env \<Rightarrow> (arm64_list, 'w, uint64) va_op" where
  "arm64_ReadDouble E va w =
     (if 0 \<le> sint (a_vr_offs va) then
        (case v_MemReadPtr E (a_stack va) 8 w of (x, w') \<Rightarrow>
          (map_sum id uint64_of_bytes x, va\<lparr>a_stack := a_stack va + 8\<rparr>, w'))
      else
        (case v_MemReadPtr E (a_vr_top va + scast (a_vr_offs va)) 8 w of (x, w') \<Rightarrow>
          (map_sum id uint64_of_bytes x, va\<lparr>a_vr_offs := a_vr_offs va + 16\<rparr>, w')))"

definition arm64_ReadFloat :: "'w va_env \<Rightarrow> (arm64_list, 'w, uint32) va_op" where
  "arm64_ReadFloat E = va_narrow (arm64_ReadDouble E)"

definition arm64_ReadString :: "(arm64_list, 'w, string) va_op" where
  "arm64_ReadString = va_unsupported"

definition arm64_ReadStream :: "'w va_env \<Rightarrow> (arm64_list, 'w, uint64 \<times> gint) va_op" where
  "arm64_ReadStream E va w =
     (case arm64_Read E 8 va w of (x, r) \<Rightarrow> (map_sum id (\<lambda>bs. (uint64_of_bytes bs, 8)) x, r))"

definition arm64_Write :: "va_write \<Rightarrow> (arm64_list, 'w, nat) va_op" where
  "arm64_Write req = va_unsupported"

definition arm64_ops :: "'w va_env \<Rightarrow> (arm64_list, 'w) stream_ops" where
  "arm64_ops E = \<lparr>s_Read = arm64_Read E, s_Skip = arm64_Skip, s_ReadFloat = arm64_ReadFloat E,
     s_ReadDouble = arm64_ReadDouble E, s_ReadString = arm64_ReadString, s_ReadStream = arm64_ReadStream E,
     s_BlockSize = (\<lambda>_. 8), s_Offset = (\<lambda>_. 0)\<rparr>"

definition arm64_align :: "'w va_env \<Rightarrow> arm64_list \<Rightarrow> arm64_list" where
  "arm64_align E va = va\<lparr>a_stack := v_Align_uint64 E (a_stack va) 8, a_gr_offs := v_Align_int32 E (a_gr_offs va) 8\<rparr>"

definition arm64_Extract ::
    "'w va_env \<Rightarrow> 'v decode list \<Rightarrow> arm64_list \<Rightarrow> 'w \<Rightarrow> ('v list \<times> go_error option) \<times> arm64_list \<times> 'w" where
  "arm64_Extract E = va_Extract (run_decode (arm64_ops E)) (arm64_align E)"

section \<open>The list of x86-64\<close>

definition GENERAL_OFFSET_MAX :: uint32 where
  "GENERAL_OFFSET_MAX = 6 * 8"

definition XMM_OFFSET_MAX :: uint32 where
  "XMM_OFFSET_MAX = GENERAL_OFFSET_MAX + 8 * 16"

definition x86_64_NewVaList :: "'w va_env \<Rightarrow> uint64 \<Rightarrow> ('w, x86_64_list) ioe" where
  "x86_64_NewVaList E ptr = v_Extract_x86_64 E ptr"

definition x86_64_Skip :: "gint \<Rightarrow> x86_64_list \<Rightarrow> x86_64_list" where
  "x86_64_Skip n va =
     (if x_gp_offset va < GENERAL_OFFSET_MAX then va\<lparr>x_gp_offset := x_gp_offset va + ucast n\<rparr>
      else va\<lparr>x_overflow_arg_area := x_overflow_arg_area va + n\<rparr>)"

definition x86_64_Read :: "'w va_env \<Rightarrow> nat \<Rightarrow> (x86_64_list, 'w, byte list) va_op" where
  "x86_64_Read E n va w =
     (if GENERAL_OFFSET_MAX \<le> x_gp_offset va then
        (case v_MemReadPtr E (x_overflow_arg_area va) n w of (x, w') \<Rightarrow>
          (x, va\<lparr>x_overflow_arg_area := x_overflow_arg_area va + of_nat n\<rparr>, w'))
      else if n + unat (x_gp_offset va) \<le> unat GENERAL_OFFSET_MAX then
        (case v_MemReadPtr E (x_reg_save_area va + ucast (x_gp_offset va)) n w of (x, w') \<Rightarrow>
          (x, va\<lparr>x_gp_offset := x_gp_offset va + of_nat n\<rparr>, w'))
      else
        (let i = unat (GENERAL_OFFSET_MAX - x_gp_offset va); x = n - i
         in case v_MemReadPtr E (x_reg_save_area va + ucast (x_gp_offset va)) i w of (y, w') \<Rightarrow>
              (case y of
                 Inl e \<Rightarrow> (Inl e, va, w')
               | Inr b \<Rightarrow>
                   (case v_MemReadPtr E (x_overflow_arg_area va) x w' of (z, w'') \<Rightarrow>
                     (map_sum id (\<lambda>c. b @ c) z,
                      va\<lparr>x_gp_offset := GENERAL_OFFSET_MAX,
                         x_overflow_arg_area := x_overflow_arg_area va + of_nat x\<rparr>, w'')))))"

definition x86_64_ReadDouble :: "'w va_env \<Rightarrow> (x86_64_list, 'w, uint64) va_op" where
  "x86_64_ReadDouble E va w =
     (if XMM_OFFSET_MAX \<le> x_fp_offset va then
        (case v_MemReadPtr E (x_overflow_arg_area va) 8 w of (x, w') \<Rightarrow>
          (map_sum id uint64_of_bytes x, va\<lparr>x_overflow_arg_area := x_overflow_arg_area va + 8\<rparr>, w'))
      else
        (case v_MemReadPtr E (x_reg_save_area va + ucast (x_fp_offset va)) 8 w of (x, w') \<Rightarrow>
          (map_sum id uint64_of_bytes x, va\<lparr>x_fp_offset := x_fp_offset va + 16\<rparr>, w')))"

definition x86_64_ReadFloat :: "'w va_env \<Rightarrow> (x86_64_list, 'w, uint32) va_op" where
  "x86_64_ReadFloat E = va_narrow (x86_64_ReadDouble E)"

definition x86_64_ReadString :: "(x86_64_list, 'w, string) va_op" where
  "x86_64_ReadString = va_unsupported"

definition x86_64_ReadStream :: "'w va_env \<Rightarrow> (x86_64_list, 'w, uint64 \<times> gint) va_op" where
  "x86_64_ReadStream E va w =
     (case x86_64_Read E 8 va w of (x, r) \<Rightarrow> (map_sum id (\<lambda>bs. (uint64_of_bytes bs, 8)) x, r))"

definition x86_64_Write :: "va_write \<Rightarrow> (x86_64_list, 'w, nat) va_op" where
  "x86_64_Write req = va_unsupported"

definition x86_64_ops :: "'w va_env \<Rightarrow> (x86_64_list, 'w) stream_ops" where
  "x86_64_ops E = \<lparr>s_Read = x86_64_Read E, s_Skip = x86_64_Skip, s_ReadFloat = x86_64_ReadFloat E,
     s_ReadDouble = x86_64_ReadDouble E, s_ReadString = x86_64_ReadString, s_ReadStream = x86_64_ReadStream E,
     s_BlockSize = (\<lambda>_. 8), s_Offset = (\<lambda>_. 0)\<rparr>"

definition x86_64_align :: "'w va_env \<Rightarrow> x86_64_list \<Rightarrow> x86_64_list" where
  "x86_64_align E va = va\<lparr>x_gp_offset := v_Align_uint32 E (x_gp_offset va) 8,
     x_overflow_arg_area := v_Align_uint64 E (x_overflow_arg_area va) 8\<rparr>"

definition x86_64_Extract ::
    "'w va_env \<Rightarrow> 'v decode list \<Rightarrow> x86_64_list \<Rightarrow> 'w \<Rightarrow> ('v list \<times> go_error option) \<times> x86_64_list \<times> 'w" where
  "x86_64_Extract E = va_Extract (run_decode (x86_64_ops E)) (x86_64_align E)"

section \<open>The list of an architecture\<close>

datatype va_args = Std_args std_list | Arm64_args arm64_list | X86_64_args x86_64_list

text \<open>\<^verbatim>\<open>arm/va.go\<close> and \<^verbatim>\<open>x86/va.go\<close> have the same body.\<close>

definition arm_NewVaList :: "'w va_env \<Rightarrow> uint64 \<Rightarrow> go_error + std_list" where
  "arm_NewVaList E ptr = NewStdVaList E ptr 4"

definition x86_NewVaList :: "'w va_env \<Rightarrow> uint64 \<Rightarrow> go_error + std_list" where
  "x86_NewVaList E ptr = NewStdVaList E ptr 4"

definition NewVaList :: "'w va_env \<Rightarrow> uint64 \<Rightarrow> ('w, va_args) ioe" where
  "NewVaList E ptr w =
     (case v_Arch E of
        ARCH_ARM \<Rightarrow> (map_sum id Std_args (NewStdVaList E ptr 4), w)
      | ARCH_X86 \<Rightarrow> (map_sum id Std_args (NewStdVaList E ptr 4), w)
      | ARCH_ARM64 \<Rightarrow> apfst (map_sum id Arm64_args) (arm64_NewVaList E ptr w)
      | ARCH_X86_64 \<Rightarrow> apfst (map_sum id X86_64_args) (x86_64_NewVaList E ptr w)
      | ARCH_OTHER \<Rightarrow> (Inl (v_ErrArchUnsupported E), w))"

end
