(* ===== verification/Va_Abi.thy ===== *)
theory Va_Abi
  imports Va_List
begin

text \<open>
  What the variadic argument lists promise. As byte streams, the three lists give the consecutive
  bytes of an argument area whichever way the reads are cut (locale \<open>arg_stream\<close>). As lists of
  arguments, those of arm64 and x86-64 hand out the slots of the procedure call standard: general
  arguments from the saved general registers, doubles from the saved vector registers, both from the
  stack when theirs are used up (locale \<open>abi_list\<close>).
\<close>

section \<open>Lists as byte streams\<close>

definition mem_reads :: "'w va_env \<Rightarrow> (uint64 \<Rightarrow> byte) \<Rightarrow> 'w \<Rightarrow> bool" where
  "mem_reads E m w \<longleftrightarrow> (\<forall>p n. v_MemReadPtr E p n w = (Inr (map (\<lambda>i. m (p + of_nat i)) [0..<n]), w))"

text \<open>A sequence of reads of the given sizes.\<close>

fun read_each :: "(nat \<Rightarrow> ('l, 'w, byte list) va_op) \<Rightarrow> nat list \<Rightarrow> ('l, 'w, byte list list) va_op" where
  "read_each rd [] va w = (Inr [], va, w)"
| "read_each rd (n # ns) va w =
     (case rd n va w of (x, va', w') \<Rightarrow>
       (case x of
          Inl e \<Rightarrow> (Inl e, va', w')
        | Inr b \<Rightarrow> (case read_each rd ns va' w' of (y, r) \<Rightarrow> (map_sum id (\<lambda>bs. b # bs) y, r))))"

locale arg_stream =
  fixes rd :: "nat \<Rightarrow> ('l, 'w, byte list) va_op"
    and addr :: "'l \<Rightarrow> nat \<Rightarrow> uint64"
    and adv :: "nat \<Rightarrow> 'l \<Rightarrow> 'l"
    and reads :: "(uint64 \<Rightarrow> byte) \<Rightarrow> 'w \<Rightarrow> bool"
  assumes rd_adv: "reads m w \<Longrightarrow> rd n va w = (Inr (map (\<lambda>k. m (addr va k)) [0..<n]), adv n va, w)"
    and addr_adv: "addr (adv n va) k = addr va (n + k)"
begin

lemma rd_each:
  "reads m w \<Longrightarrow> \<exists>bss va'. read_each rd ns va w = (Inr bss, va', w) \<and> map length bss = ns \<and>
     concat bss = map (\<lambda>k. m (addr va k)) [0..<sum_list ns] \<and> (\<forall>k. addr va' k = addr va (sum_list ns + k))"
proof (induction ns arbitrary: va)
  case Nil
  then show ?case by simp
next
  case (Cons n ns)
  from Cons.IH [OF Cons.prems, of "adv n va"] obtain bss va' where
    h: "read_each rd ns (adv n va) w = (Inr bss, va', w)" "map length bss = ns"
      "concat bss = map (\<lambda>k. m (addr va (n + k))) [0..<sum_list ns]" "\<forall>k. addr va' k = addr va (n + (sum_list ns + k))"
    by (auto simp: addr_adv)
  have "map (\<lambda>k. m (addr va k)) [0..<n] @ map (\<lambda>k. m (addr va (n + k))) [0..<sum_list ns] =
      map (\<lambda>k. m (addr va k)) [0..<n + sum_list ns]"
    by (rule nth_equalityI) (auto simp: nth_append)
  with h rd_adv [OF Cons.prems, of n va] show ?case by (simp add: add.assoc)
qed

end

text \<open>The plain list.\<close>

definition std_addr :: "std_list \<Rightarrow> nat \<Rightarrow> uint64" where
  "std_addr va k = std_ptr va + of_nat k"

definition std_adv :: "nat \<Rightarrow> std_list \<Rightarrow> std_list" where
  "std_adv n va = va\<lparr>std_ptr := std_ptr va + of_nat n\<rparr>"

interpretation std_stream: arg_stream "std_Read E" std_addr std_adv "mem_reads E" for E
  by unfold_locales (simp_all add: std_Read_def std_addr_def std_adv_def mem_reads_def add.assoc)

text \<open>The saved general registers of arm64, then its stack.\<close>

definition arm64_addr :: "arm64_list \<Rightarrow> nat \<Rightarrow> uint64" where
  "arm64_addr va k =
     (if 0 \<le> sint (a_gr_offs va) then a_stack va + of_nat k
      else if int k + sint (a_gr_offs va) < 0 then a_gr_top va + scast (a_gr_offs va) + of_nat k
      else a_stack va + of_int (int k + sint (a_gr_offs va)))"

definition arm64_adv :: "nat \<Rightarrow> arm64_list \<Rightarrow> arm64_list" where
  "arm64_adv n va =
     (if 0 \<le> sint (a_gr_offs va) then va\<lparr>a_stack := a_stack va + of_nat n\<rparr>
      else if int n + sint (a_gr_offs va) \<le> 0 then va\<lparr>a_gr_offs := a_gr_offs va + of_nat n\<rparr>
      else va\<lparr>a_gr_offs := 0, a_stack := a_stack va + of_int (int n + sint (a_gr_offs va))\<rparr>)"

lemma sint_add_neg:
  fixes x :: int32
  assumes "sint x < 0" "int n + sint x \<le> 0"
  shows "sint (x + of_nat n) = sint x + int n"
proof -
  have "x + of_nat n = of_int (sint x + int n)" by simp
  then show ?thesis using assms sint_bounds32 [of x] sint_of_int32 [of "sint x + int n"] by simp
qed

lemma scast_add_neg:
  fixes x :: int32
  assumes "sint x < 0" "int n + sint x \<le> 0"
  shows "(scast (x + of_nat n) :: uint64) = scast x + of_nat n"
proof -
  have "(scast (x + of_nat n) :: uint64) = of_int (sint (x + of_nat n))" by simp
  also have "\<dots> = of_int (sint x) + of_int (int n)" unfolding sint_add_neg [OF assms] by simp
  finally show ?thesis by simp
qed

lemma arm64_addr_adv: "arm64_addr (arm64_adv n va) k = arm64_addr va (n + k)"
proof (cases "0 \<le> sint (a_gr_offs va)")
  case True
  then show ?thesis by (simp add: arm64_addr_def arm64_adv_def add.assoc)
next
  case False
  then have neg: "sint (a_gr_offs va) < 0" by simp
  show ?thesis
  proof (cases "int n + sint (a_gr_offs va) \<le> 0")
    case True
    note s = sint_add_neg [OF neg True] scast_add_neg [OF neg True]
    have z: "(scast (a_gr_offs va) :: uint64) = - of_nat n" if "int n + sint (a_gr_offs va) = 0"
    proof -
      have "(scast (a_gr_offs va) :: uint64) = of_int (sint (a_gr_offs va))" by simp
      also have "sint (a_gr_offs va) = - int n" using that by simp
      finally show ?thesis by simp
    qed
    consider "int n + sint (a_gr_offs va) = 0" | "int n + sint (a_gr_offs va) < 0" using True by linarith
    then show ?thesis
    proof cases
      case 1
      with neg show ?thesis by (simp add: arm64_addr_def arm64_adv_def s z)
    next
      case 2
      with neg show ?thesis by (simp add: arm64_addr_def arm64_adv_def s add.assoc add.left_commute)
    qed
  next
    case False
    with neg show ?thesis by (auto simp: arm64_addr_def arm64_adv_def ac_simps)
  qed
qed

lemma arm64_Read_adv:
  assumes "mem_reads E m w"
  shows "arm64_Read E n va w = (Inr (map (\<lambda>k. m (arm64_addr va k)) [0..<n]), arm64_adv n va, w)"
proof (cases "0 \<le> sint (a_gr_offs va) \<or> int n + sint (a_gr_offs va) \<le> 0")
  case True
  then show ?thesis
    using assms by (auto simp: arm64_Read_def arm64_adv_def mem_reads_def arm64_addr_def)
next
  case False
  define j where "j = nat (- sint (a_gr_offs va))"
  have j: "sint (a_gr_offs va) = - int j" "j < n" "0 < j" using False by (auto simp: j_def)
  have "map (\<lambda>i. m (a_gr_top va + scast (a_gr_offs va) + of_nat i)) [0..<j] @
      map (\<lambda>i. m (a_stack va + of_nat i)) [0..<n - j] = map (\<lambda>k. m (arm64_addr va k)) [0..<n]"
    using j by (intro nth_equalityI) (auto simp: nth_append arm64_addr_def of_nat_diff)
  moreover have "n - nat (int n - int j) = j" "nat (int n - int j) = n - j" using j(2) by auto
  ultimately show ?thesis
    using j assms by (simp add: arm64_Read_def arm64_adv_def mem_reads_def Let_def of_nat_diff)
qed

interpretation arm64_stream: arg_stream "arm64_Read E" arm64_addr arm64_adv "mem_reads E" for E
  by unfold_locales (rule arm64_Read_adv, assumption, rule arm64_addr_adv)

text \<open>The saved general registers of x86-64, then its overflow area.\<close>

lemma GENERAL_OFFSET_MAX_unat: "unat GENERAL_OFFSET_MAX = 48"
  by (simp add: GENERAL_OFFSET_MAX_def)

lemma general_offset_le: "GENERAL_OFFSET_MAX \<le> x \<longleftrightarrow> 48 \<le> unat x"
  by (simp add: word_le_nat_alt GENERAL_OFFSET_MAX_unat)

definition x86_64_addr :: "x86_64_list \<Rightarrow> nat \<Rightarrow> uint64" where
  "x86_64_addr va k =
     (if 48 \<le> unat (x_gp_offset va) then x_overflow_arg_area va + of_nat k
      else if unat (x_gp_offset va) + k < 48 then x_reg_save_area va + of_nat (unat (x_gp_offset va) + k)
      else x_overflow_arg_area va + of_nat (unat (x_gp_offset va) + k - 48))"

definition x86_64_adv :: "nat \<Rightarrow> x86_64_list \<Rightarrow> x86_64_list" where
  "x86_64_adv n va =
     (if 48 \<le> unat (x_gp_offset va) then va\<lparr>x_overflow_arg_area := x_overflow_arg_area va + of_nat n\<rparr>
      else if n + unat (x_gp_offset va) \<le> 48 then va\<lparr>x_gp_offset := x_gp_offset va + of_nat n\<rparr>
      else va\<lparr>x_gp_offset := GENERAL_OFFSET_MAX,
        x_overflow_arg_area := x_overflow_arg_area va + of_nat (n - (48 - unat (x_gp_offset va)))\<rparr>)"

lemma unat_add_small: "n + unat x \<le> 48 \<Longrightarrow> unat (x + of_nat n :: uint32) = unat x + n"
  by (simp add: unat_plus_if' unsigned_of_nat take_bit_nat_eq_self)

lemma x86_64_addr_adv: "x86_64_addr (x86_64_adv n va) k = x86_64_addr va (n + k)"
proof -
  consider "48 \<le> unat (x_gp_offset va)" | "unat (x_gp_offset va) < 48" "n + unat (x_gp_offset va) \<le> 48"
    | "unat (x_gp_offset va) < 48" "48 < n + unat (x_gp_offset va)" by linarith
  then show ?thesis
  proof cases
    case 1
    then show ?thesis by (simp add: x86_64_addr_def x86_64_adv_def add.assoc)
  next
    case 2
    show ?thesis
    proof (cases "unat (x_gp_offset va) + n = 48")
      case True
      have "x86_64_addr va (n + k) = x_overflow_arg_area va + of_nat (unat (x_gp_offset va) + (n + k) - 48)"
        using 2 True by (simp add: x86_64_addr_def)
      also have "unat (x_gp_offset va) + (n + k) - 48 = k" using True by simp
      finally show ?thesis using 2 True by (simp add: x86_64_addr_def x86_64_adv_def unat_add_small)
    next
      case False
      with 2 show ?thesis by (simp add: x86_64_addr_def x86_64_adv_def unat_add_small add.assoc)
    qed
  next
    case 3
    then have "unat (x_gp_offset va) + (n + k) - 48 = (n - (48 - unat (x_gp_offset va))) + k" by simp
    with 3 show ?thesis
      by (simp add: x86_64_addr_def x86_64_adv_def GENERAL_OFFSET_MAX_unat add.assoc)
  qed
qed

lemma x86_64_Read_adv:
  assumes "mem_reads E m w"
  shows "x86_64_Read E n va w = (Inr (map (\<lambda>k. m (x86_64_addr va k)) [0..<n]), x86_64_adv n va, w)"
proof -
  let ?g = "unat (x_gp_offset va)"
  have u: "(ucast (x_gp_offset va) :: uint64) = of_nat ?g" by simp
  consider "48 \<le> ?g" | "?g < 48" "n + ?g \<le> 48" | "?g < 48" "48 < n + ?g" by linarith
  then show ?thesis
  proof cases
    case 1
    then show ?thesis
      using assms by (simp add: x86_64_Read_def general_offset_le x86_64_adv_def mem_reads_def x86_64_addr_def)
  next
    case 2
    then show ?thesis
      using assms
      by (simp add: x86_64_Read_def general_offset_le x86_64_adv_def mem_reads_def x86_64_addr_def GENERAL_OFFSET_MAX_unat
          add.assoc)
  next
    case 3
    have i: "unat (GENERAL_OFFSET_MAX - x_gp_offset va) = 48 - ?g"
      using 3(1) by (simp add: unat_sub word_le_nat_alt GENERAL_OFFSET_MAX_unat)
    have "map (\<lambda>i. m (x_reg_save_area va + ucast (x_gp_offset va) + of_nat i)) [0..<48 - ?g] @
        map (\<lambda>i. m (x_overflow_arg_area va + of_nat i)) [0..<n - (48 - ?g)] = map (\<lambda>k. m (x86_64_addr va k)) [0..<n]"
      using 3 by (intro nth_equalityI) (auto simp: nth_append x86_64_addr_def ac_simps)
    with 3 i assms show ?thesis
      by (simp add: x86_64_Read_def general_offset_le x86_64_adv_def mem_reads_def GENERAL_OFFSET_MAX_unat Let_def)
  qed
qed

interpretation x86_64_stream: arg_stream "x86_64_Read E" x86_64_addr x86_64_adv "mem_reads E" for E
  by unfold_locales (rule x86_64_Read_adv, assumption, rule x86_64_addr_adv)

section \<open>The slots of the procedure call standard\<close>

text \<open>
  What is left of the argument area: the slots of saved general registers, 8 bytes each, and of saved
  vector registers, 16 bytes each, with the addresses of the next ones, and the next stack slot. An
  argument is a general one of 1 to 8 bytes or a double.
\<close>

record abi_view =
  gslots :: nat
  g_at :: uint64
  fslots :: nat
  f_at :: uint64
  stk :: uint64

datatype abi_class = Gen nat | Dbl

fun class_ok :: "abi_class \<Rightarrow> bool" where
  "class_ok (Gen s) \<longleftrightarrow> 1 \<le> s \<and> s \<le> 8"
| "class_ok Dbl \<longleftrightarrow> True"

fun abi_next :: "abi_class \<Rightarrow> abi_view \<Rightarrow> uint64 \<times> abi_view" where
  "abi_next (Gen s) v =
     (if gslots v = 0 then (stk v, v\<lparr>stk := stk v + 8\<rparr>)
      else (g_at v, v\<lparr>gslots := gslots v - 1, g_at := g_at v + 8\<rparr>))"
| "abi_next Dbl v =
     (if fslots v = 0 then (stk v, v\<lparr>stk := stk v + 8\<rparr>)
      else (f_at v, v\<lparr>fslots := fslots v - 1, f_at := f_at v + 16\<rparr>))"

fun abi_slots :: "abi_class list \<Rightarrow> abi_view \<Rightarrow> uint64 list" where
  "abi_slots [] v = []"
| "abi_slots (c # cs) v = (case abi_next c v of (a, v') \<Rightarrow> a # abi_slots cs v')"

text \<open>The requests of \<open>Decode\<close> for an integer or pointer of \<open>s\<close> bytes and for a double, and the value in a slot.\<close>

fun class_decode :: "abi_class \<Rightarrow> uint64 decode" where
  "class_decode (Gen s) = D_Read s (\<lambda>x. case x of Inl e \<Rightarrow> D_Fail e | Inr bs \<Rightarrow> D_Done (uint64_of_bytes bs))"
| "class_decode Dbl = D_Double (\<lambda>x. case x of Inl e \<Rightarrow> D_Fail e | Inr d \<Rightarrow> D_Done d)"

definition mem_bytes_at :: "(uint64 \<Rightarrow> byte) \<Rightarrow> uint64 \<Rightarrow> nat \<Rightarrow> byte list" where
  "mem_bytes_at m a n = map (\<lambda>i. m (a + of_nat i)) [0..<n]"

fun slot_value :: "(uint64 \<Rightarrow> byte) \<Rightarrow> abi_class \<Rightarrow> uint64 \<Rightarrow> uint64" where
  "slot_value m (Gen s) a = uint64_of_bytes (mem_bytes_at m a s)"
| "slot_value m Dbl a = uint64_of_bytes (mem_bytes_at m a 8)"

locale abi_list =
  fixes dec :: "uint64 decode \<Rightarrow> ('l, 'w, uint64) va_op"
    and align :: "'l \<Rightarrow> 'l"
    and view :: "'l \<Rightarrow> abi_view"
    and wf :: "'l \<Rightarrow> bool"
    and env :: "(uint64 \<Rightarrow> byte) \<Rightarrow> 'w \<Rightarrow> bool"
  assumes dec_next: "env m w \<Longrightarrow> wf va \<Longrightarrow> class_ok c \<Longrightarrow>
      \<exists>va'. dec (class_decode c) va w = (Inr (slot_value m c (fst (abi_next c (view va)))), va', w) \<and>
        wf (align va') \<and> view (align va') = snd (abi_next c (view va))"
begin

lemma extract_slots:
  "env m w \<Longrightarrow> wf va \<Longrightarrow> list_all class_ok cs \<Longrightarrow>
     \<exists>va'. va_Extract dec align (map class_decode cs) va w =
       ((map2 (slot_value m) cs (abi_slots cs (view va)), None), va', w) \<and> wf va'"
proof (induction cs arbitrary: va)
  case Nil
  then show ?case by simp
next
  case (Cons c cs)
  then obtain va' where
    h: "dec (class_decode c) va w = (Inr (slot_value m c (fst (abi_next c (view va)))), va', w)"
      "wf (align va')" "view (align va') = snd (abi_next c (view va))"
    using dec_next [of m w va c] by auto
  from Cons.IH [OF Cons.prems(1) h(2)] Cons.prems(3) h(3) obtain va'' where
    "va_Extract dec align (map class_decode cs) (align va') w =
       ((map2 (slot_value m) cs (abi_slots cs (snd (abi_next c (view va)))), None), va'', w)" "wf va''"
    by auto
  with h(1) show ?case by (simp add: case_prod_unfold)
qed

end

text \<open>\<open>debugger.Align\<close> rounds up to the next multiple.\<close>

definition up8 :: "int \<Rightarrow> int" where
  "up8 x = (x + 7) div 8 * 8"

definition align_up :: "'w va_env \<Rightarrow> bool" where
  "align_up E \<longleftrightarrow>
     (\<forall>x. v_Align_uint64 E x 8 = of_int (up8 (uint x))) \<and>
     (\<forall>x. v_Align_uint32 E x 8 = of_int (up8 (uint x))) \<and>
     (\<forall>x. v_Align_int32 E x 8 = of_int (up8 (sint x)))"

lemma up8:
  assumes "8 dvd x"
  shows "up8 x = x" "1 \<le> s \<Longrightarrow> s \<le> 8 \<Longrightarrow> up8 (x + s) = x + 8"
proof -
  from assms obtain k where x: "x = 8 * k" by blast
  have "(8 * k + 7) div 8 = k" by linarith
  then show "up8 x = x" by (simp add: x up8_def)
  have "(8 * k + s + 7) div 8 = k + 1" if "1 \<le> s" "s \<le> 8" using that by linarith
  then show "1 \<le> s \<Longrightarrow> s \<le> 8 \<Longrightarrow> up8 (x + s) = x + 8" by (simp add: x up8_def)
qed

lemma align64_same: "align_up E \<Longrightarrow> 8 dvd uint x \<Longrightarrow> v_Align_uint64 E x 8 = x"
  by (simp add: align_up_def up8)

lemma align64_next:
  assumes "align_up E" "8 dvd uint x" "1 \<le> s" "s \<le> 8"
  shows "v_Align_uint64 E (x + of_nat s) 8 = x + 8"
proof (cases "uint x + int s < 2 ^ 64")
  case True
  then have "uint (x + of_nat s) = uint x + int s"
    using assms(4) by (simp add: uint_plus_if' unsigned_of_nat take_bit_nat_eq_self)
  then show ?thesis using assms by (simp add: align_up_def up8)
next
  case False
  then have u: "uint (x + of_nat s) = (uint x - 2 ^ 64) + int s"
    using assms(4) by (simp add: uint_plus_if' unsigned_of_nat take_bit_nat_eq_self)
  have "8 dvd uint x - 2 ^ 64" using assms(2) by (intro dvd_diff) simp_all
  from up8(2) [OF this, of "int s"] assms(1,3,4)
  have "v_Align_uint64 E (x + of_nat s) 8 = of_int (uint x - 2 ^ 64 + 8)" by (simp add: align_up_def u)
  also have "\<dots> = x + 8" by simp
  finally show ?thesis .
qed

lemma align32_same: "align_up E \<Longrightarrow> 8 dvd sint x \<Longrightarrow> v_Align_int32 E x 8 = x"
  by (simp add: align_up_def up8)

lemma neg_dvd_le: "(x :: int) < 0 \<Longrightarrow> 0 < k \<Longrightarrow> k dvd x \<Longrightarrow> x \<le> - k"
  using zdvd_imp_le [of k "- x"] by simp

lemma align32_next:
  assumes "align_up E" "8 dvd sint x" "sint x < 0" "1 \<le> s" "s \<le> 8"
  shows "v_Align_int32 E (x + of_nat s) 8 = x + 8"
proof -
  have "int s + sint x \<le> 0" using neg_dvd_le [OF assms(3) _ assms(2)] assms(5) by simp
  note u = sint_add_neg [OF assms(3) this]
  show ?thesis using assms by (simp add: align_up_def u up8)
qed

section \<open>The list of arm64\<close>

definition arm64_wf :: "arm64_list \<Rightarrow> bool" where
  "arm64_wf va \<longleftrightarrow> sint (a_gr_offs va) \<le> 0 \<and> 8 dvd sint (a_gr_offs va) \<and>
     sint (a_vr_offs va) \<le> 0 \<and> 16 dvd sint (a_vr_offs va) \<and> 8 dvd uint (a_stack va)"

definition arm64_view :: "arm64_list \<Rightarrow> abi_view" where
  "arm64_view va = \<lparr>gslots = nat (- sint (a_gr_offs va)) div 8, g_at = a_gr_top va + scast (a_gr_offs va),
     fslots = nat (- sint (a_vr_offs va)) div 16, f_at = a_vr_top va + scast (a_vr_offs va), stk = a_stack va\<rparr>"

lemma dvd_uint_add_8: "8 dvd uint (x :: uint64) \<Longrightarrow> 8 dvd uint (x + 8)"
  by (simp add: uint_plus_if')

lemma neg_slots:
  fixes x :: int
  assumes "x < 0" "0 < k" "k dvd x"
  shows "nat (- (x + k)) div nat k = nat (- x) div nat k - 1" "nat (- x) div nat k \<noteq> 0" "x + k \<le> 0" "k dvd x + k"
proof -
  from assms(3) obtain j where j: "x = - (k * j)" by (metis dvd_def minus_mult_right minus_minus)
  then have "0 < j" using assms(1,2) by (simp add: zero_less_mult_iff)
  have "- x = k * j" "- (x + k) = k * (j - 1)" using j by (simp_all add: algebra_simps)
  then have "nat (- x) div nat k = nat j" "nat (- (x + k)) div nat k = nat (j - 1)"
    using assms(2) \<open>0 < j\<close> by (simp_all add: nat_mult_distrib)
  then show "nat (- (x + k)) div nat k = nat (- x) div nat k - 1" "nat (- x) div nat k \<noteq> 0"
    using \<open>0 < j\<close> by simp_all
  show "x + k \<le> 0" using neg_dvd_le [OF assms] by simp
  show "k dvd x + k" using assms(3) by simp
qed

lemma sint_0_iff: "sint x = 0 \<longleftrightarrow> (x :: int32) = 0"
  by (metis signed_0 signed_word_eqI)

lemma arm64_dec_next:
  assumes E: "mem_reads E m w \<and> align_up E" and wf: "arm64_wf va" and c: "class_ok c"
  shows "\<exists>va'. run_decode (arm64_ops E) (class_decode c) va w =
      (Inr (slot_value m c (fst (abi_next c (arm64_view va)))), va', w) \<and>
    arm64_wf (arm64_align E va') \<and> arm64_view (arm64_align E va') = snd (abi_next c (arm64_view va))"
proof -
  from E have r: "mem_reads E m w" and al: "align_up E" by simp_all
  from wf have w: "sint (a_gr_offs va) \<le> 0" "8 dvd sint (a_gr_offs va)" "sint (a_vr_offs va) \<le> 0"
    "16 dvd sint (a_vr_offs va)" "8 dvd uint (a_stack va)" by (simp_all add: arm64_wf_def)
  note same = align64_same [OF al w(5)] align32_same [OF al w(2)]
  show ?thesis
  proof (cases c)
    case (Gen s)
    then have s: "1 \<le> s" "s \<le> 8" using c by simp_all
    show ?thesis
    proof (cases "a_gr_offs va = 0")
      case True
      have "arm64_align E (va\<lparr>a_stack := a_stack va + of_nat s\<rparr>) = va\<lparr>a_stack := a_stack va + 8\<rparr>"
        using align64_next [OF al w(5) s] same by (simp add: arm64_align_def)
      then show ?thesis
        using True Gen r w dvd_uint_add_8 [OF w(5)]
        by (simp add: arm64_ops_def arm64_Read_def mem_reads_def mem_bytes_at_def arm64_view_def arm64_wf_def)
    next
      case False
      then have neg: "sint (a_gr_offs va) < 0" using w(1) by (simp add: order.order_iff_strict sint_0_iff)
      note ns = neg_slots [OF neg _ w(2), simplified]
      have le: "int s + sint (a_gr_offs va) \<le> 0" using ns(3) s(2) by simp
      have a: "arm64_align E (va\<lparr>a_gr_offs := a_gr_offs va + of_nat s\<rparr>) = va\<lparr>a_gr_offs := a_gr_offs va + 8\<rparr>"
        using align32_next [OF al w(2) neg s] same by (simp add: arm64_align_def)
      have e: "sint (a_gr_offs va + 8) = sint (a_gr_offs va) + 8" "(scast (a_gr_offs va + 8) :: uint64) = scast (a_gr_offs va) + 8"
        using sint_add_neg [OF neg, of 8] scast_add_neg [OF neg, of 8] ns(3) by simp_all
      show ?thesis
        using Gen r w neg le ns a
        by (simp add: arm64_ops_def arm64_Read_def mem_reads_def mem_bytes_at_def arm64_view_def arm64_wf_def e add.assoc)
    qed
  next
    case Dbl
    show ?thesis
    proof (cases "a_vr_offs va = 0")
      case True
      have "arm64_align E (va\<lparr>a_stack := a_stack va + 8\<rparr>) = va\<lparr>a_stack := a_stack va + 8\<rparr>"
        using align64_same [OF al dvd_uint_add_8 [OF w(5)]] same by (simp add: arm64_align_def)
      then show ?thesis
        using True Dbl r w dvd_uint_add_8 [OF w(5)]
        by (simp add: arm64_ops_def arm64_ReadDouble_def mem_reads_def mem_bytes_at_def arm64_view_def arm64_wf_def)
    next
      case False
      then have neg: "sint (a_vr_offs va) < 0" using w(3) by (simp add: order.order_iff_strict sint_0_iff)
      note ns = neg_slots [OF neg _ w(4), simplified]
      have a: "arm64_align E (va\<lparr>a_vr_offs := a_vr_offs va + 16\<rparr>) = va\<lparr>a_vr_offs := a_vr_offs va + 16\<rparr>"
        using same by (simp add: arm64_align_def)
      have e: "sint (a_vr_offs va + 16) = sint (a_vr_offs va) + 16" "(scast (a_vr_offs va + 16) :: uint64) = scast (a_vr_offs va) + 16"
        using sint_add_neg [OF neg, of 16] scast_add_neg [OF neg, of 16] ns(3) by simp_all
      show ?thesis
        using Dbl r w neg ns a
        by (simp add: arm64_ops_def arm64_ReadDouble_def mem_reads_def mem_bytes_at_def arm64_view_def arm64_wf_def e add.assoc)
    qed
  qed
qed

interpretation arm64_abi: abi_list "run_decode (arm64_ops E)" "arm64_align E" arm64_view arm64_wf
    "\<lambda>m w. mem_reads E m w \<and> align_up E" for E
  by unfold_locales (rule arm64_dec_next)

section \<open>The list of x86-64\<close>

definition x86_64_wf :: "x86_64_list \<Rightarrow> bool" where
  "x86_64_wf va \<longleftrightarrow> unat (x_gp_offset va) \<le> 48 \<and> 8 dvd unat (x_gp_offset va) \<and>
     unat (x_fp_offset va) \<le> 176 \<and> 16 dvd unat (x_fp_offset va) \<and> 8 dvd uint (x_overflow_arg_area va)"

definition x86_64_view :: "x86_64_list \<Rightarrow> abi_view" where
  "x86_64_view va = \<lparr>gslots = (48 - unat (x_gp_offset va)) div 8, g_at = x_reg_save_area va + ucast (x_gp_offset va),
     fslots = (176 - unat (x_fp_offset va)) div 16, f_at = x_reg_save_area va + ucast (x_fp_offset va),
     stk = x_overflow_arg_area va\<rparr>"

lemma xmm_offset_le: "XMM_OFFSET_MAX \<le> x \<longleftrightarrow> 176 \<le> unat x"
  by (simp add: word_le_nat_alt XMM_OFFSET_MAX_def GENERAL_OFFSET_MAX_def)

lemma align32u:
  assumes "align_up E" "8 dvd unat x"
  shows "v_Align_uint32 E x 8 = x" "unat x < 48 \<Longrightarrow> 1 \<le> s \<Longrightarrow> s \<le> 8 \<Longrightarrow> v_Align_uint32 E (x + of_nat s) 8 = x + 8"
proof -
  have u: "uint x = int (unat x)" by simp
  have d: "8 dvd uint x" unfolding u using assms(2) by (metis int_dvd_int_iff of_nat_numeral)
  then show "v_Align_uint32 E x 8 = x" using assms(1) by (simp add: align_up_def up8)
  assume s: "unat x < 48" "1 \<le> s" "s \<le> 8"
  then have "uint x + int s < 4294967296" unfolding u by linarith
  then have "uint (x + of_nat s) = uint x + int s"
    using s(3) by (simp add: uint_plus_if' unsigned_of_nat take_bit_nat_eq_self)
  then show "v_Align_uint32 E (x + of_nat s) 8 = x + 8" using assms(1) d s by (simp add: align_up_def up8)
qed

lemma slots_left:
  fixes x :: nat
  assumes "x < k" "d dvd x" "d dvd k" "0 < d"
  shows "(k - (x + d)) div d = (k - x) div d - 1" "(k - x) div d \<noteq> 0" "x + d \<le> k" "d dvd x + d"
proof -
  from assms obtain i j where ij: "x = d * i" "k = d * j" by (auto simp: dvd_def)
  then have "i < j" using assms(1,4) by simp
  then have "d * Suc i \<le> d * j" by (intro mult_le_mono2) simp
  then show "x + d \<le> k" "d dvd x + d" using ij by simp_all
  have "k - (x + d) = d * (j - Suc i)" "k - x = d * (j - i)" using ij by (simp_all add: diff_mult_distrib2)
  then show "(k - (x + d)) div d = (k - x) div d - 1" "(k - x) div d \<noteq> 0" using assms(4) \<open>i < j\<close> by simp_all
qed

lemma offset_add:
  fixes x :: uint32
  assumes "unat x + n \<le> 176"
  shows "unat (x + of_nat n) = unat x + n" "(ucast (x + of_nat n) :: uint64) = ucast x + of_nat n"
proof -
  show a: "unat (x + of_nat n) = unat x + n"
    using assms by (simp add: unat_plus_if' unsigned_of_nat take_bit_nat_eq_self)
  have "(ucast (x + of_nat n) :: uint64) = of_nat (unat (x + of_nat n))" by simp
  also have "\<dots> = of_nat (unat x) + of_nat n" unfolding a by simp
  finally show "(ucast (x + of_nat n) :: uint64) = ucast x + of_nat n" by simp
qed

lemma x86_64_dec_next:
  assumes E: "mem_reads E m w \<and> align_up E" and wf: "x86_64_wf va" and c: "class_ok c"
  shows "\<exists>va'. run_decode (x86_64_ops E) (class_decode c) va w =
      (Inr (slot_value m c (fst (abi_next c (x86_64_view va)))), va', w) \<and>
    x86_64_wf (x86_64_align E va') \<and> x86_64_view (x86_64_align E va') = snd (abi_next c (x86_64_view va))"
proof -
  from E have r: "mem_reads E m w" and al: "align_up E" by simp_all
  from wf have w: "unat (x_gp_offset va) \<le> 48" "8 dvd unat (x_gp_offset va)" "unat (x_fp_offset va) \<le> 176"
    "16 dvd unat (x_fp_offset va)" "8 dvd uint (x_overflow_arg_area va)" by (simp_all add: x86_64_wf_def)
  note same = align64_same [OF al w(5)] align32u(1) [OF al w(2)]
  show ?thesis
  proof (cases c)
    case (Gen s)
    then have s: "1 \<le> s" "s \<le> 8" using c by simp_all
    show ?thesis
    proof (cases "unat (x_gp_offset va) < 48")
      case False
      have "x86_64_align E (va\<lparr>x_overflow_arg_area := x_overflow_arg_area va + of_nat s\<rparr>) =
          va\<lparr>x_overflow_arg_area := x_overflow_arg_area va + 8\<rparr>"
        using align64_next [OF al w(5) s] same by (simp add: x86_64_align_def)
      then show ?thesis
        using False Gen r w dvd_uint_add_8 [OF w(5)]
        by (simp add: x86_64_ops_def x86_64_Read_def general_offset_le mem_reads_def mem_bytes_at_def x86_64_view_def x86_64_wf_def)
    next
      case True
      note ns = slots_left [OF True w(2), simplified]
      have a: "x86_64_align E (va\<lparr>x_gp_offset := x_gp_offset va + of_nat s\<rparr>) = va\<lparr>x_gp_offset := x_gp_offset va + 8\<rparr>"
        using align32u(2) [OF al w(2) True s] same by (simp add: x86_64_align_def)
      have e: "unat (x_gp_offset va + 8) = unat (x_gp_offset va) + 8" "(ucast (x_gp_offset va + 8) :: uint64) = ucast (x_gp_offset va) + 8"
        using offset_add [of "x_gp_offset va" 8] ns(3) by simp_all
      show ?thesis
        using Gen r w True ns a s
        by (simp add: x86_64_ops_def x86_64_Read_def general_offset_le GENERAL_OFFSET_MAX_unat mem_reads_def mem_bytes_at_def
            x86_64_view_def x86_64_wf_def e add.assoc)
    qed
  next
    case Dbl
    show ?thesis
    proof (cases "unat (x_fp_offset va) < 176")
      case False
      have "x86_64_align E (va\<lparr>x_overflow_arg_area := x_overflow_arg_area va + 8\<rparr>) =
          va\<lparr>x_overflow_arg_area := x_overflow_arg_area va + 8\<rparr>"
        using align64_same [OF al dvd_uint_add_8 [OF w(5)]] same by (simp add: x86_64_align_def)
      then show ?thesis
        using False Dbl r w dvd_uint_add_8 [OF w(5)]
        by (simp add: x86_64_ops_def x86_64_ReadDouble_def xmm_offset_le mem_reads_def mem_bytes_at_def x86_64_view_def x86_64_wf_def)
    next
      case True
      note ns = slots_left [OF True w(4), simplified]
      have a: "x86_64_align E (va\<lparr>x_fp_offset := x_fp_offset va + 16\<rparr>) = va\<lparr>x_fp_offset := x_fp_offset va + 16\<rparr>"
        using same by (simp add: x86_64_align_def)
      have e: "unat (x_fp_offset va + 16) = unat (x_fp_offset va) + 16" "(ucast (x_fp_offset va + 16) :: uint64) = ucast (x_fp_offset va) + 16"
        using offset_add [of "x_fp_offset va" 16] ns(3) by simp_all
      show ?thesis
        using Dbl r w True ns a
        by (simp add: x86_64_ops_def x86_64_ReadDouble_def xmm_offset_le mem_reads_def mem_bytes_at_def
            x86_64_view_def x86_64_wf_def e add.assoc)
    qed
  qed
qed

interpretation x86_64_abi: abi_list "run_decode (x86_64_ops E)" "x86_64_align E" x86_64_view x86_64_wf
    "\<lambda>m w. mem_reads E m w \<and> align_up E" for E
  by unfold_locales (rule x86_64_dec_next)

section \<open>Properties\<close>

text \<open>An environment whose world is the memory itself.\<close>

definition va_host :: "arch \<Rightarrow> (uint64 \<Rightarrow> byte) va_env" where
  "va_host a = \<lparr>v_Arch = a, v_MemReadPtr = (\<lambda>p n m. (Inr (map (\<lambda>i. m (p + of_nat i)) [0..<n]), m)),
     v_Extract_arm64 = (\<lambda>p m. (Inl host_failure, m)), v_Extract_x86_64 = (\<lambda>p m. (Inl host_failure, m)),
     v_Align_uint64 = (\<lambda>x k. of_int ((uint x + (uint k - 1)) div uint k * uint k)),
     v_Align_uint32 = (\<lambda>x k. of_int ((uint x + (uint k - 1)) div uint k * uint k)),
     v_Align_int32 = (\<lambda>x k. of_int ((sint x + (uint k - 1)) div uint k * uint k)),
     v_ErrArgumentInvalid = host_failure, v_ErrArchUnsupported = host_failure\<rparr>"

lemma va_host_env: "mem_reads (va_host a) m m" "align_up (va_host a)"
  by (simp_all add: mem_reads_def align_up_def va_host_def up8_def)

text \<open>
  C4. The arguments of an arm64 variadic call: \<open>Extract\<close> of any sequence of general arguments of 1 to 8
  bytes and doubles, from a list in the form the compiler makes it, gives without an error the values in
  the slots that the procedure call standard assigns, general registers, vector registers and stack
  each in order, and leaves the list in that form. The hypotheses are that memory is readable and that
  \<open>Align\<close> rounds up.
\<close>

theorem arm64_extract_abi:
  assumes "mem_reads E m w" "align_up E" "arm64_wf va" "list_all class_ok cs"
  shows "\<exists>va'. arm64_Extract E (map class_decode cs) va w =
    ((map2 (slot_value m) cs (abi_slots cs (arm64_view va)), None), va', w) \<and> arm64_wf va'"
  unfolding arm64_Extract_def using arm64_abi.extract_slots [of E m w va cs] assms by blast

definition arm64_example :: arm64_list where
  "arm64_example = \<lparr>a_stack = 0x3000, a_gr_top = 0x1040, a_vr_top = 0x2080, a_gr_offs = - 8, a_vr_offs = - 16\<rparr>"

theorem arm64_extract_abi_witness:
  "\<exists>va'. arm64_Extract (va_host ARCH_ARM64) (map class_decode [Gen 4, Dbl, Gen 8, Dbl]) arm64_example (\<lambda>a. ucast a) =
     ((map2 (slot_value (\<lambda>a. ucast a)) [Gen 4, Dbl, Gen 8, Dbl] [0x1038, 0x2070, 0x3000, 0x3008], None), va', \<lambda>a. ucast a)"
proof -
  have "arm64_wf arm64_example" by (simp add: arm64_wf_def arm64_example_def)
  from arm64_extract_abi [OF va_host_env this, of "[Gen 4, Dbl, Gen 8, Dbl]"] show ?thesis
    by (simp add: arm64_view_def arm64_example_def) blast
qed

text \<open>
  C12. The same for x86-64: six general registers, eight vector registers, the overflow area.
\<close>

theorem x86_64_extract_abi:
  assumes "mem_reads E m w" "align_up E" "x86_64_wf va" "list_all class_ok cs"
  shows "\<exists>va'. x86_64_Extract E (map class_decode cs) va w =
    ((map2 (slot_value m) cs (abi_slots cs (x86_64_view va)), None), va', w) \<and> x86_64_wf va'"
  unfolding x86_64_Extract_def using x86_64_abi.extract_slots [of E m w va cs] assms by blast

definition x86_64_example :: x86_64_list where
  "x86_64_example = \<lparr>x_gp_offset = 40, x_fp_offset = 160, x_overflow_arg_area = 0x3000, x_reg_save_area = 0x1000\<rparr>"

theorem x86_64_extract_abi_witness:
  "\<exists>va'. x86_64_Extract (va_host ARCH_X86_64) (map class_decode [Gen 4, Dbl, Gen 8, Dbl]) x86_64_example (\<lambda>a. ucast a) =
     ((map2 (slot_value (\<lambda>a. ucast a)) [Gen 4, Dbl, Gen 8, Dbl] [0x1028, 0x10A0, 0x3000, 0x3008], None), va', \<lambda>a. ucast a)"
proof -
  have "x86_64_wf x86_64_example" by (simp add: x86_64_wf_def x86_64_example_def)
  from x86_64_extract_abi [OF va_host_env this, of "[Gen 4, Dbl, Gen 8, Dbl]"] show ?thesis
    by (simp add: x86_64_view_def x86_64_example_def) blast
qed

text \<open>
  C18. The bytes of the argument area do not depend on how they are read: on each of the three lists,
  any sequence of reads gives blocks of the asked sizes whose concatenation is what one read of the sum
  gives, register area and stack joined without a gap.
\<close>

theorem reads_consecutive:
  assumes "mem_reads E m w"
  shows "(\<exists>bss va'. read_each (std_Read E) ns sl w = (Inr bss, va', w) \<and> map length bss = ns \<and>
        fst (std_Read E (sum_list ns) sl w) = Inr (concat bss)) \<and>
    (\<exists>bss va'. read_each (arm64_Read E) ns al w = (Inr bss, va', w) \<and> map length bss = ns \<and>
        fst (arm64_Read E (sum_list ns) al w) = Inr (concat bss)) \<and>
    (\<exists>bss va'. read_each (x86_64_Read E) ns xl w = (Inr bss, va', w) \<and> map length bss = ns \<and>
        fst (x86_64_Read E (sum_list ns) xl w) = Inr (concat bss))"
  using std_stream.rd_each [OF assms, of ns sl] arm64_stream.rd_each [OF assms, of ns al]
    x86_64_stream.rd_each [OF assms, of ns xl] std_stream.rd_adv [OF assms] arm64_stream.rd_adv [OF assms]
    x86_64_stream.rd_adv [OF assms]
  by fastforce

theorem reads_consecutive_witness:
  "fst (arm64_Read (va_host ARCH_ARM64) 12 arm64_example (\<lambda>a. ucast a)) =
     Inr [0x38, 0x39, 0x3A, 0x3B, 0x3C, 0x3D, 0x3E, 0x3F, 0, 1, 2, 3] \<and>
   (\<exists>bss va'. read_each (arm64_Read (va_host ARCH_ARM64)) [5, 7] arm64_example (\<lambda>a. ucast a) = (Inr bss, va', \<lambda>a. ucast a) \<and>
     concat bss = [0x38, 0x39, 0x3A, 0x3B, 0x3C, 0x3D, 0x3E, 0x3F, 0, 1, 2, 3])"
proof -
  have "fst (arm64_Read (va_host ARCH_ARM64) 12 arm64_example (\<lambda>a. ucast a)) =
      Inr [0x38, 0x39, 0x3A, 0x3B, 0x3C, 0x3D, 0x3E, 0x3F, 0, 1, 2, 3]"
    by (simp add: arm64_Read_def arm64_example_def va_host_def Let_def upt_rec)
  moreover obtain bss va' where
    "read_each (arm64_Read (va_host ARCH_ARM64)) [5, 7] arm64_example (\<lambda>a. ucast a) = (Inr bss, va', \<lambda>a. ucast a)"
    "fst (arm64_Read (va_host ARCH_ARM64) (sum_list [5, 7]) arm64_example (\<lambda>a. ucast a)) = Inr (concat bss)"
    using reads_consecutive [OF va_host_env(1) [of ARCH_ARM64], where ns = "[5, 7]" and al = arm64_example] by blast
  ultimately show ?thesis by (simp del: read_each.simps)
qed

text \<open>
  C33. A double after one 4-byte argument on ARM is read from the word right behind it, whatever its
  address: when the list starts at a multiple of 8, that is not a multiple of 8, where the ARM
  procedure call standard puts doubles. The hypothesis is that \<open>Align\<close> keeps multiples of 4.
\<close>

theorem arm_double_unaligned:
  assumes "mem_reads E m w" "\<And>x. 4 dvd uint x \<Longrightarrow> v_Align_uint64 E x 4 = x"
    and "arm_NewVaList E p = Inr va" "8 dvd uint p" "uint p < 2 ^ 63"
  shows "fst (std_Extract E (map class_decode [Gen 4, Dbl]) va w) =
      ([slot_value m (Gen 4) p, slot_value m Dbl (p + 4)], None) \<and> \<not> 8 dvd uint (p + 4)"
proof -
  have va: "va = \<lparr>std_ptr = p, std_size = 4\<rparr>" using assms(3) by (simp add: arm_NewVaList_def NewStdVaList_def split: if_splits)
  have u: "uint (p + 4) = uint p + 4" using assms(5) by (simp add: uint_plus_if')
  have "4 dvd uint p" using assms(4) by (rule dvd_trans [rotated]) simp
  then have d: "4 dvd uint (p + 4)" unfolding u by simp
  have "\<not> 8 dvd uint (p + 4)" unfolding u using assms(4) by presburger
  then show ?thesis
    using assms(1,2) d
    by (simp add: va std_Extract_def std_ops_def std_Read_def std_ReadDouble_def std_align_def mem_reads_def mem_bytes_at_def)
qed

theorem arm_double_unaligned_witness:
  "fst (std_Extract (va_host ARCH_ARM) (map class_decode [Gen 4, Dbl]) \<lparr>std_ptr = 0x1000, std_size = 4\<rparr> (\<lambda>a. ucast a)) =
     ([slot_value (\<lambda>a. ucast a) (Gen 4) 0x1000, slot_value (\<lambda>a. ucast a) Dbl 0x1004], None)"
proof -
  have a: "v_Align_uint64 (va_host ARCH_ARM) x 4 = x" if "4 dvd uint x" for x
  proof -
    from that obtain k where k: "uint x = 4 * k" by blast
    have "(4 * k + 3) div 4 = k" by linarith
    then have "(uint x + 3) div 4 * 4 = uint x" by (simp add: k)
    then show ?thesis by (simp add: va_host_def del: of_int_mult)
  qed
  have "arm_NewVaList (va_host ARCH_ARM) 0x1000 = Inr \<lparr>std_ptr = 0x1000, std_size = 4\<rparr>"
    by (simp add: arm_NewVaList_def NewStdVaList_def)
  from arm_double_unaligned [OF va_host_env(1) a this] show ?thesis by simp
qed



section \<open>Floats\<close>



end
