(* ===== verification/Spec2Isabelle.thy ===== *)
theory Spec2Isabelle
  imports Linux_Tables Fd_Table Futex_Steps Interrupt Va_Abi
begin

text \<open>
  A verification of \<^verbatim>\<open>microdbg-linux\<close>, the Linux kernel for programs that run in the debugger
  \<^verbatim>\<open>github.com/wnxd/microdbg\<close> (sources under \<^verbatim>\<open>src/\<close>, in Go).

  \<^bold>\<open>The program.\<close> A guest asks for a system call with a software interrupt. The kernel
  (\<^verbatim>\<open>kernel/kernel.go\<close>) has a callback hooked there: it reads number and arguments from the registers, takes
  the method of the number from the table of system calls (\<^verbatim>\<open>kernel/syscall.go\<close>), clears the error number, runs
  the method and stores its result in a register. A method converts the arguments and calls a handler
  of one of the components: files (\<^verbatim>\<open>kernel/fcntl.go\<close>), futexes (\<^verbatim>\<open>kernel/futex.go\<close>), signals
  (\<^verbatim>\<open>kernel/signal.go\<close>), mappings (\<^verbatim>\<open>kernel/mman.go\<close>), tasks (\<^verbatim>\<open>kernel/sched.go\<close>) and the small calls
  (\<^verbatim>\<open>kernel/socket.go\<close>, \<^verbatim>\<open>ioctl.go\<close>, \<^verbatim>\<open>prctl.go\<close>, \<^verbatim>\<open>resource.go\<close>, \<^verbatim>\<open>time.go\<close>, \<^verbatim>\<open>sysinfo.go\<close>, \<^verbatim>\<open>random.go\<close>). A
  handler works on guest memory, descriptors, files and tasks through the interfaces of the debugger
  library, keeps a few tables of its own, and reports failure through the error number and its result.
  Beside the kernel, \<^verbatim>\<open>gcc/\<close> reads the arguments of variadic C functions for the architectures.

  \<^bold>\<open>The model.\<close> Handlers are programs over a machine: a record with the kernel's struct and a \<open>world\<close> of
  arbitrary type that stands for everything the library and the host own. A program returns, panics or
  never returns. The library's operations are fields of interface records that every definition takes as
  arguments; nothing is assumed of them except in the hypotheses of the theorems. Numbers keep their
  width, conversions are written out, Go maps can be nil, and a write to a nil map panics.

  \<^item> \<open>Prelude\<close>: integers, Go errors, programs with their weakest preconditions, Go maps.
  \<^item> \<open>Linux_Consts\<close>, \<open>Linux_Tables\<close>: the tables of \<^verbatim>\<open>errno.go\<close> and \<^verbatim>\<open>syscall.go\<close> line by line, with the \<open>iota\<close>
    rule of Go; every entry has the number of its position.
  \<^item> \<open>Guest_Types\<close>: the structs of the guest, from \<^verbatim>\<open>stddef.go\<close> and the component files.
  \<^item> \<open>Machine\<close>: the kernel's state, the interface records, the error number (\<^verbatim>\<open>context.go\<close>).
  \<^item> \<open>Contracts\<close>: the error contract and the effect contract of a handler, and when a handler returns;
    the locale \<open>effect\<close> has the rules and is interpreted for the relation of each component.
  \<^item> \<open>Go_IO\<close>: \<open>io.CopyN\<close>, \<open>io.Copy\<close> from a section and \<open>io.ReadFull\<close> of the Go library, loops that may not
    end, with what they transfer and when they end.
  \<^item> \<open>Fcntl\<close>: the file handlers. \<open>Fd_Table\<close>: the descriptor calls refine an abstract table of
    descriptors with flags. \<open>File_Data\<close>: read, write, writev and readlinkat move exactly the bytes asked
    for, and return.
  \<^item> \<open>Stat\<close>: the four stat calls, modes, times, and the agreement of the two layouts.
  \<^item> \<open>Signal\<close>: signal sets, actions and the mask. \<open>Mman\<close>: mappings, and what a mapped file's region holds.
    \<open>Sched\<close>: clone, its goroutine, and what becomes of every task. \<open>Small_Calls\<close>: the rest.
  \<^item> \<open>Futex\<close>: the two tables of reference-counted channels (locale \<open>wait_table\<close>) and the handler, in which
    the choices of the Go runtime are arguments. \<open>Futex_Steps\<close>: the calls of several tasks interleaved, as
    a transition system with the lock; the counts are exact in every reachable state, a wake finds its
    waiters, closing ends every wait, and two runs that lose a wake-up.
  \<^item> \<open>Dispatch\<close>: the methods and the table, with the error codes and the effect of every call.
    \<open>Open_Kernel\<close>: no call of a kernel that was made panics on a nil map. \<open>Interrupt\<close>: creation, end and the
    callbacks.
  \<^item> \<open>Va_List\<close>: the three lists of variadic arguments. \<open>Va_Abi\<close>: as byte streams (locale \<open>arg_stream\<close>) and
    against the procedure call standards of arm64 and x86-64 (locale \<open>abi_list\<close>).
  \<^item> \<open>Ref_Host\<close>: a concrete library and host, on which the theorems with hypotheses are exercised.
  \<^item> This theory: the properties of the whole kernel.

  \<^bold>\<open>Loops.\<close> The copy loops and the waits are partial functions whose value is \<open>None\<close> when they do not end;
  that reads and writes return is a theorem with the progress of the reader as hypothesis. The send loop
  of a wake, whose counter is a 32-bit number that may start beyond its bound, ends by the distance of the
  two modulo \<open>2 ^ 32\<close>. There is no fuel.

  \<^bold>\<open>Not modelled.\<close> The mutexes of flags and signals: a handler outside \<open>Futex_Steps\<close> is one step, the waits of
  a futex apart, during which the machine may change as the runtime argument says. Memory that several
  tasks write during a copy. The type assertion that makes the debugger of a callback a \<open>linux.Debugger\<close>:
  its \<open>Syscall\<close> and \<open>SetErrno\<close> are taken to be those of the kernel, its \<open>NR\<close> is an argument. The function
  behind \<^verbatim>\<open>internal/stream.go\<close>, the decoder of \<^verbatim>\<open>encoding\<close> and the bodies of all library and host operations,
  which are not in the repository.
\<close>

section \<open>Properties of the whole kernel\<close>

text \<open>
  C1. A kernel that \<open>NewKernel\<close> made stays well formed in every run: whatever interrupts of whichever
  callback, changes by guest and library, and goroutines of \<open>clone\<close> follow in whatever order, its four
  maps are made, every registered task has a goroutine that removes it, and no interrupt panics with a
  write to a nil map. The hypotheses on the runtime say that the tasks that run during a futex wait keep
  these two invariants, too.
\<close>

theorem kernel_runs_safe:
  assumes "NewKernel E s0 = Return (Inr ()) s1" "kernel_run NRmap E s1 s"
    and "rt_steps keeps_made (e_rt E)" "rt_steps keeps_sched_inv (e_rt E)"
  shows "made s \<and> sched_inv s \<and> (\<forall>cb intno p s'. run_cb cb NRmap E intno s = Panic p s' \<longrightarrow> p \<noteq> nil_map_panic)"
proof -
  have "made s \<and> sched_inv s"
    using kernel_run_inv [OF assms(3,4,2)] NewKernel_made [OF assms(1)] by blast
  moreover have "p \<noteq> nil_map_panic" if "run_cb cb NRmap E intno s = Panic p s'" for cb intno p s'
    using that run_cb_no_nil [OF assms(3), of cb NRmap intno] calculation
    by (auto simp: no_nil_def wlp_def dest: spec [of _ s])
  ultimately show ?thesis by blast
qed

definition host_kernel :: "(hostw, hobj) machine" where
  "host_kernel = \<lparr>kernel = \<lparr>sys = \<lparr>sys_fcntl = \<lparr>flags = Some (\<lambda>_. None)\<rparr>,
       sys_futex = \<lparr>awaits = Some (\<lambda>_. None), bitAwaits = Some (\<lambda>_. None), nchan = 0, closed = {}\<rparr>,
       sys_signal = \<lparr>sigset = 0, sigtable = Some (\<lambda>_. None)\<rparr>,
       sys_sched = \<lparr>tasks = (\<lambda>_. None), reapers = []\<rparr>\<rparr>, err = 0, intrHook = Some HHook\<rparr>,
     world = host_start\<rparr>"

lemma host_NewKernel: "NewKernel host_env (host_svc 0 0) = Return (Inr ()) (host_kernel\<lparr>world := world (host_svc 0 0)\<rparr>)"
  by (simp add: NewKernel_def Syscall_ctor_def fcntl_ctor_def signal_ctor_def futex_ctor_def new_Kernel_def
      new_Syscall_def gomap_make_def bnd_extern bnd_assoc host_kernel_def host_svc_def host_machine_def)

theorem kernel_runs_safe_witness:
  "kernel_run Kernel_NR host_env (host_kernel\<lparr>world := world (host_svc 0 0)\<rparr>) (host_kernel\<lparr>world := host_start\<rparr>) \<and>
   made (host_kernel\<lparr>world := host_start\<rparr>) \<and> sched_inv (host_kernel\<lparr>world := host_start\<rparr>)"
proof -
  have r: "kernel_run Kernel_NR host_env (host_kernel\<lparr>world := world (host_svc 0 0)\<rparr>) (host_kernel\<lparr>world := host_start\<rparr>)"
    using run_guest [OF run_start, of Kernel_NR host_env "host_kernel\<lparr>world := world (host_svc 0 0)\<rparr>" host_start] by simp
  with kernel_runs_safe [OF host_NewKernel r] show ?thesis
    by (simp add: host_rt_steps keeps_made_def keeps_sched_inv_def)
qed






text \<open>
  An interrupt that is not the kernel's is passed on untouched: when a callback returns \<open>Next\<close>,
  whether because of the interrupt's number, a register that cannot be read or a call that the table
  does not have, the kernel's state, its error number included, is as before.
\<close>

theorem interrupt_passed_on:
  assumes "run_cb cb NRmap E intno s = Return HookResult_Next s'"
  shows "kernel s' = kernel s"
  using assms by (rule run_cb_Next)

end
